(* ===== verification/Prelude.thy ===== *)
theory Prelude
  imports Main "HOL-Library.Finite_Map" "HOL-Library.Sublist"
begin

text \<open>
  What every component of the provider shares: Go's error values and the three ways a Go
  function ends, calls into the outside world as functions on an opaque world, the state a
  controller method works on, and the functions of Go's \<^verbatim>\<open>strings\<close> package the sources use.

  A Go function that returns \<open>(x, err)\<close> and mutates memory is a function from a state to
  an \<open>outcome\<close> and a state. \<open>Panic\<close> is a run-time panic (a nil dereference, a write to a
  nil map, a slice out of range, a failed type assertion): the state keeps what the code did
  up to that point, as the process memory and the outside world do.
\<close>

section \<open>Errors and outcomes\<close>

text \<open>
  An error handed back by a library call (the MinIO clients, the Kubernetes client) is
  opaque: the sources read its text (\<^verbatim>\<open>err.Error()\<close>) and, through
  \<^verbatim>\<open>minio.ToErrorResponse\<close>, its code and HTTP status.
\<close>

record api_error =
  err_text :: string
  err_code :: string
  err_status :: int

text \<open>
  \<open>ErrNew\<close> is \<^verbatim>\<open>errors.New\<close> or \<^verbatim>\<open>fmt.Errorf\<close> without arguments, \<open>ErrFmt\<close> is
  \<^verbatim>\<open>fmt.Errorf\<close> with its format and arguments, \<open>ErrWrap\<close> is \<^verbatim>\<open>errors.Wrap\<close> or a
  \<^verbatim>\<open>fmt.Errorf\<close> with \<^verbatim>\<open>%w\<close>: the text (and the arguments of the format), then the
  wrapped error. \<open>ErrInvalid\<close> is \<^verbatim>\<open>field.Invalid\<close> of the admission webhooks: the path
  of the field, its value, and as detail either a text or another error's text.
\<close>

datatype field_value = VNil | VStr string | VList "string list option"

datatype go_error =
    ErrApi api_error
  | ErrNew string
  | ErrFmt string "string list"
  | ErrWrap string "string list" go_error
  | ErrInvalid "string list" field_value detail
and detail = Detail string | DetailErr go_error

datatype 'a outcome = Ok 'a | Err go_error | Panic string

named_theorems go_defs \<open>unfoldings of the Go control-flow combinators\<close>
named_theorems ctl_defs \<open>unfoldings of the controllers' operations\<close>
named_theorems prim_defs \<open>unfoldings of the steps that have frame rules of their own\<close>

section \<open>Sequencing\<close>

type_synonym ('s, 'a) go = "'s \<Rightarrow> 'a outcome \<times> 's"

definition ret :: "'a \<Rightarrow> ('s, 'a) go" where [go_defs]:
  "ret x s = (Ok x, s)"

definition fail :: "go_error \<Rightarrow> ('s, 'a) go" where [go_defs]:
  "fail e s = (Err e, s)"

definition go_panic :: "string \<Rightarrow> ('s, 'a) go" where [go_defs]:
  "go_panic p s = (Panic p, s)"

text \<open>\<open>if_err m h k\<close> is \<^verbatim>\<open>x, err := m; if err != nil { h(err) } else { k(x) }\<close>.\<close>

definition if_err :: "('s, 'a) go \<Rightarrow> (go_error \<Rightarrow> ('s, 'b) go) \<Rightarrow> ('a \<Rightarrow> ('s, 'b) go) \<Rightarrow> ('s, 'b) go" where [go_defs]:
  "if_err m h k s =
     (case m s of
        (Ok x, s') \<Rightarrow> k x s'
      | (Err e, s') \<Rightarrow> h e s'
      | (Panic p, s') \<Rightarrow> (Panic p, s'))"

text \<open>\<open>check m k\<close> is \<^verbatim>\<open>x, err := m; if err != nil { return err }; k(x)\<close>.\<close>

definition check :: "('s, 'a) go \<Rightarrow> ('a \<Rightarrow> ('s, 'b) go) \<Rightarrow> ('s, 'b) go" where [go_defs]:
  "check m k = if_err m fail k"

text \<open>\<open>seq m n\<close> runs \<open>m\<close>, which returns no error, and then \<open>n\<close>.\<close>

definition seq :: "('s, unit) go \<Rightarrow> ('s, 'b) go \<Rightarrow> ('s, 'b) go" where [go_defs]:
  "seq m n = check m (\<lambda>_. n)"

text \<open>A pointer that is dereferenced: nil panics.\<close>

definition deref :: "'a option \<Rightarrow> ('s, 'a) go" where [go_defs]:
  "deref p = (case p of None \<Rightarrow> go_panic ''nil pointer dereference'' | Some x \<Rightarrow> ret x)"

text \<open>A call into a library: it may change the world, and returns a value or an error.\<close>

type_synonym ('w, 'a) api = "'w \<Rightarrow> (api_error + 'a) \<times> 'w"

definition api_call :: "('w, 'a) api \<Rightarrow> ('w, 'a) go" where [go_defs]:
  "api_call f w =
     (case f w of
        (Inl e, w') \<Rightarrow> (Err (ErrApi e), w')
      | (Inr x, w') \<Rightarrow> (Ok x, w'))"

text \<open>
  Errors of library calls are told apart in the sources by their text, code or status. An
  error that is not a library's has none of them.
\<close>

fun api_error_of :: "go_error \<Rightarrow> api_error option" where
  "api_error_of (ErrApi e) = Some e"
| "api_error_of _ = None"

definition error_code :: "go_error \<Rightarrow> string" where
  "error_code e = (case api_error_of e of None \<Rightarrow> [] | Some a \<Rightarrow> err_code a)"

definition error_status :: "go_error \<Rightarrow> int" where
  "error_status e = (case api_error_of e of None \<Rightarrow> 0 | Some a \<Rightarrow> err_status a)"

definition error_text :: "go_error \<Rightarrow> string" where
  "error_text e = (case api_error_of e of None \<Rightarrow> [] | Some a \<Rightarrow> err_text a)"

lemma error_parts [simp]:
  "error_code (ErrApi a) = err_code a" "error_status (ErrApi a) = err_status a" "error_text (ErrApi a) = err_text a"
  by (simp_all add: error_code_def error_status_def error_text_def)

section \<open>Loops over a slice that stop at the first error\<close>

fun for_each :: "('a \<Rightarrow> ('s, unit) go) \<Rightarrow> 'a list \<Rightarrow> ('s, unit) go" where
  "for_each f [] = ret ()"
| "for_each f (x # xs) = seq (f x) (for_each f xs)"

section \<open>Lemmas of the combinators\<close>

lemma if_err_ret [simp]: "if_err (ret x) h k = k x"
  by (simp add: go_defs fun_eq_iff)

lemma if_err_fail [simp]: "if_err (fail e) h k = h e"
  by (simp add: go_defs fun_eq_iff)

lemma check_ret [simp]: "check (ret x) k = k x"
  by (simp add: check_def)

lemma check_fail [simp]: "check (fail e) k = fail e"
  by (simp add: check_def)

lemma seq_ret [simp]: "seq (ret ()) n = n"
  by (simp add: seq_def)

lemma check_assoc: "check (check m k) l = check m (\<lambda>x. check (k x) l)"
  by (auto simp: go_defs fun_eq_iff split: prod.splits outcome.splits)

lemma check_Ok_iff:
  "check m k s = (Ok y, t) \<longleftrightarrow> (\<exists>x u. m s = (Ok x, u) \<and> k x u = (Ok y, t))"
  by (auto simp: go_defs split: prod.splits outcome.splits)

lemma if_err_Ok_iff:
  "if_err m h k s = (Ok y, t) \<longleftrightarrow>
     (\<exists>x u. m s = (Ok x, u) \<and> k x u = (Ok y, t)) \<or> (\<exists>e u. m s = (Err e, u) \<and> h e u = (Ok y, t))"
  by (auto simp: if_err_def split: prod.splits outcome.splits)

lemma seq_Ok_iff: "seq m n s = (Ok y, t) \<longleftrightarrow> (\<exists>u. m s = (Ok (), u) \<and> n u = (Ok y, t))"
  by (auto simp: seq_def check_Ok_iff)

lemma ret_Ok_iff [simp]: "ret x s = (Ok y, t) \<longleftrightarrow> y = x \<and> t = s"
  by (auto simp: ret_def)

lemma fail_not_Ok [simp]: "fail e s \<noteq> (Ok y, t)"
  by (simp add: fail_def)

lemma go_panic_not_Ok [simp]: "go_panic e s \<noteq> (Ok y, t)"
  by (simp add: go_panic_def)

lemma deref_Ok_iff: "deref p s = (Ok x, t) \<longleftrightarrow> p = Some x \<and> t = s"
  by (auto simp: deref_def split: option.splits)

lemmas Ok_iffs = check_Ok_iff if_err_Ok_iff seq_Ok_iff deref_Ok_iff

text \<open>Where a sequence ended: in its second part, or early in its first.\<close>

lemma check_cases:
  assumes "check m k s = (r, t)"
  obtains (on) x u where "m s = (Ok x, u)" "k x u = (r, t)"
    | (early) r' where "m s = (r', t)" "\<And>x. r' \<noteq> Ok x" "\<And>y. r \<noteq> Ok y"
  using assms by (auto simp: go_defs split: prod.splits outcome.splits)

lemma seq_cases:
  assumes "seq m n s = (r, t)"
  obtains (on) u where "m s = (Ok (), u)" "n u = (r, t)"
    | (early) r' where "m s = (r', t)" "\<And>x. r' \<noteq> Ok x" "\<And>y. r \<noteq> Ok y"
  using assms unfolding seq_def by (elim check_cases) auto

lemma fst_Ok_iff: "fst p = Ok x \<longleftrightarrow> (\<exists>t. p = (Ok x, t))"
  by (cases p) auto

text \<open>A loop that succeeds ran its body on every element, in order.\<close>

lemma for_each_append:
  "for_each f (xs @ ys) = seq (for_each f xs) (for_each f ys)"
  by (induction xs) (simp_all add: seq_def check_assoc)

lemma for_each_Ok_invariant:
  assumes "for_each f xs s = (Ok (), t)" and "P s"
    and "\<And>x s t. x \<in> set xs \<Longrightarrow> P s \<Longrightarrow> f x s = (Ok (), t) \<Longrightarrow> P t"
  shows "P t"
  using assms
proof (induction xs arbitrary: s)
  case Nil
  then show ?case by simp
next
  case (Cons x xs)
  then obtain u where u: "f x s = (Ok (), u)" and v: "for_each f xs u = (Ok (), t)"
    by (auto simp: seq_Ok_iff)
  from Cons.prems u have "P u" by (metis list.set_intros(1))
  with v Cons.prems(3) show ?case by (intro Cons.IH [of u]) auto
qed

section \<open>The strings package\<close>

text \<open>\<^verbatim>\<open>strings.Contains(s, sub)\<close>\<close>

fun str_contains :: "string \<Rightarrow> string \<Rightarrow> bool" where
  "str_contains [] sub = (sub = [])"
| "str_contains (c # cs) sub = (take (length sub) (c # cs) = sub \<or> str_contains cs sub)"

lemma str_contains_sublist: "str_contains s sub = sublist sub s"
proof (induction s)
  case Nil
  then show ?case by simp
next
  case (Cons c cs)
  have "prefix sub (c # cs) = (take (length sub) (c # cs) = sub)"
    by (metis append_take_drop_id prefixI prefixE append_eq_conv_conj)
  with Cons.IH show ?case by (simp add: sublist_Cons_right)
qed

text \<open>\<^verbatim>\<open>strings.Split(s, sep)\<close> for a separator of one character.\<close>

fun str_split :: "char \<Rightarrow> string \<Rightarrow> string list" where
  "str_split sep [] = [[]]"
| "str_split sep (c # cs) =
     (if c = sep then [] # str_split sep cs
      else (case str_split sep cs of
              [] \<Rightarrow> [[c]]
            | p # ps \<Rightarrow> (c # p) # ps))"

text \<open>The converse, \<^verbatim>\<open>strings.Join\<close>: only specifications use it.\<close>

fun str_join :: "char \<Rightarrow> string list \<Rightarrow> string" where
  "str_join sep [] = []"
| "str_join sep [x] = x"
| "str_join sep (x # y # ys) = x @ sep # str_join sep (y # ys)"

lemma str_split_not_Nil [simp]: "str_split sep s \<noteq> []"
  by (cases s) (auto split: list.splits)

lemma str_split_no_sep: "x \<in> set (str_split sep s) \<Longrightarrow> sep \<notin> set x"
  by (induction s arbitrary: x) (auto split: if_splits list.splits)

lemma str_join_split: "str_join sep (str_split sep s) = s"
proof (induction s)
  case Nil
  then show ?case by simp
next
  case (Cons c cs)
  obtain p ps where p: "str_split sep cs = p # ps"
    by (cases "str_split sep cs") auto
  with Cons.IH show ?case by (cases ps) auto
qed

lemma str_split_append:
  "sep \<notin> set x \<Longrightarrow> str_split sep (x @ sep # s) = x # str_split sep s"
  by (induction x) (auto split: list.splits)

lemma str_split_single: "sep \<notin> set x \<Longrightarrow> str_split sep x = [x]"
  by (induction x) auto

lemma str_split_join:
  "xs \<noteq> [] \<Longrightarrow> \<forall>x \<in> set xs. sep \<notin> set x \<Longrightarrow> str_split sep (str_join sep xs) = xs"
proof (induction xs rule: str_join.induct)
  case (3 sep x y ys)
  then show ?case by (simp add: str_split_append)
qed (auto simp: str_split_single)

text \<open>\<^verbatim>\<open>strings.TrimSpace\<close> on ASCII, and \<^verbatim>\<open>strings.EqualFold\<close>/\<^verbatim>\<open>strings.ToLower\<close> on ASCII letters.\<close>

definition is_space :: "char \<Rightarrow> bool" where
  "is_space c \<longleftrightarrow> c \<in> {CHR '' '', CHR 0x09, CHR 0x0A, CHR 0x0B, CHR 0x0C, CHR 0x0D}"

definition trim_space :: "string \<Rightarrow> string" where
  "trim_space s = rev (dropWhile is_space (rev (dropWhile is_space s)))"

definition ascii_lower :: "char \<Rightarrow> char" where
  "ascii_lower c = (if 65 \<le> (of_char c :: nat) \<and> (of_char c :: nat) \<le> 90 then char_of ((of_char c :: nat) + 32) else c)"

definition to_lower :: "string \<Rightarrow> string" where
  "to_lower s = map ascii_lower s"

definition equal_fold :: "string \<Rightarrow> string \<Rightarrow> bool" where
  "equal_fold a b \<longleftrightarrow> to_lower a = to_lower b"

lemma dropWhile_hd: "xs \<noteq> [] \<Longrightarrow> \<not> P (hd xs) \<Longrightarrow> dropWhile P xs = xs"
  by (cases xs) auto

lemma trim_space_id: "s \<noteq> [] \<Longrightarrow> \<not> is_space (hd s) \<Longrightarrow> \<not> is_space (last s) \<Longrightarrow> trim_space s = s"
  by (simp add: trim_space_def dropWhile_hd hd_rev)

lemma equal_fold_refl [simp]: "equal_fold a a"
  by (simp add: equal_fold_def)

lemma equal_fold_sym: "equal_fold a b \<longleftrightarrow> equal_fold b a"
  by (auto simp: equal_fold_def)

text \<open>Reading a Go map: a missing key is the zero value, the empty string.\<close>

definition map_get :: "('k \<rightharpoonup> string) \<Rightarrow> 'k \<Rightarrow> string" where
  "map_get m k = (case m k of None \<Rightarrow> [] | Some v \<Rightarrow> v)"

text \<open>A Go slice, nil or not, as the list one ranges over.\<close>

definition slice :: "'a list option \<Rightarrow> 'a list" where
  "slice xs = (case xs of None \<Rightarrow> [] | Some l \<Rightarrow> l)"

lemma slice_simps [simp]: "slice None = []" "slice (Some l) = l"
  by (simp_all add: slice_def)

lemma map_get_simps [simp]:
  "m k = None \<Longrightarrow> map_get m k = []"
  "m k = Some v \<Longrightarrow> map_get m k = v"
  by (simp_all add: map_get_def)

end
