(* ===== verification/Resources.thy ===== *)
theory Resources
  imports Prelude
begin

text \<open>
  The API types of the provider (\<^verbatim>\<open>apis/minio/v1beta1\<close>, \<^verbatim>\<open>apis/provider/v1\<close>,
  \<^verbatim>\<open>apis/common\<close>): the five managed resources with their parameters and status, the
  provider configuration, and the accessors the controllers use. A Go pointer or slice that
  the code compares with nil is an \<open>option\<close>, \<open>None\<close> standing for nil; the API server
  distinguishes an absent list from an empty one. Times are instants (nanoseconds), because
  the code only compares them with \<^verbatim>\<open>Time.Equal\<close>.

  \<^verbatim>\<open>SetConditions\<close> is library code: the model keeps the conditions a controller sets as a
  list in the order of the calls, the latest one last.
\<close>

section \<open>Metadata and conditions\<close>

text \<open>The API group of the managed resources.\<close>

definition Group :: string where "Group = ''minio.m.crossplane.io''"

type_synonym instant = int

record object_meta =
  Name :: string
  Namespace :: string
  Annotations :: "(string \<rightharpoonup> string) option"
  DeletionTimestamp :: "instant option"

definition get_annotation :: "object_meta \<Rightarrow> string \<Rightarrow> string option" where
  "get_annotation m k = (case Annotations m of None \<Rightarrow> None | Some a \<Rightarrow> a k)"

text \<open>The part of the specification every managed resource embeds.\<close>

record managed_spec =
  ManagementPolicies :: "string list option"
  ProviderConfigReference :: "string option"
  WriteConnectionSecretToReference :: "string option"

text \<open>
  \<^verbatim>\<open>Updating()\<close> and \<^verbatim>\<open>Disabled()\<close> are the provider's own conditions; the others are
  constructors of the Crossplane library, named after their functions.
\<close>

record ready_condition =
  cond_Type :: string
  cond_Status :: bool
  cond_Reason :: string
  cond_Message :: string

datatype condition =
    Own ready_condition
  | XpAvailable
  | XpCreating
  | XpDeleting
  | XpReconcileError go_error

definition Updating :: condition where
  "Updating = Own \<lparr>cond_Type = ''Ready'', cond_Status = False, cond_Reason = ''Updating'',
     cond_Message = ''The service is being updated''\<rparr>"

definition Disabled :: condition where
  "Disabled = Own \<lparr>cond_Type = ''Ready'', cond_Status = False, cond_Reason = ''Disabled'',
     cond_Message = ''The service is disabled''\<rparr>"

lemma own_conditions_distinct [simp]:
  "Updating \<noteq> Disabled" "Disabled \<noteq> Updating" "Updating \<noteq> XpAvailable" "XpAvailable \<noteq> Updating"
  "Disabled \<noteq> XpAvailable" "XpAvailable \<noteq> Disabled"
  by (simp_all add: Updating_def Disabled_def)

section \<open>Bucket\<close>

text \<open>\<^verbatim>\<open>BucketDeletionPolicy\<close> is a Go string type: any value may be stored.\<close>

definition DeleteIfEmpty :: string where "DeleteIfEmpty = ''DeleteIfEmpty''"

definition DeleteAll :: string where "DeleteAll = ''DeleteAll''"

record bucket_params =
  bp_BucketName :: string
  bp_Region :: string
  bp_BucketDeletionPolicy :: string
  bp_Policy :: "string option"
  bp_Tags :: "(string, string) fmap option"

record bucket_status =
  bs_Conditions :: "condition list"
  bs_Endpoint :: string
  bs_EndpointURL :: string
  bs_BucketName :: string

record bucket =
  b_meta :: object_meta
  b_spec :: managed_spec
  b_params :: bucket_params
  b_status :: bucket_status

definition GetBucketName :: "bucket \<Rightarrow> string" where
  "GetBucketName b = (if bp_BucketName (b_params b) = [] then Name (b_meta b) else bp_BucketName (b_params b))"

section \<open>User\<close>

record user_params =
  up_UserName :: string
  up_Policies :: "string list option"

record user_status =
  us_Conditions :: "condition list"
  us_UserName :: string
  us_Status :: string
  us_Policies :: string

record user =
  u_meta :: object_meta
  u_spec :: managed_spec
  u_params :: user_params
  u_status :: user_status

definition GetUserName :: "user \<Rightarrow> string" where
  "GetUserName u = (if up_UserName (u_params u) = [] then Name (u_meta u) else up_UserName (u_params u))"

section \<open>Policy\<close>

record policy_params =
  pp_AllowBucket :: string
  pp_RawPolicy :: string

record policy_status =
  ps_Conditions :: "condition list"
  ps_Policy :: string

record policy =
  p_meta :: object_meta
  p_spec :: managed_spec
  p_params :: policy_params
  p_status :: policy_status

section \<open>ServiceAccount\<close>

record secret_reference =
  sr_Name :: string
  sr_Namespace :: string

record service_account_params =
  sp_TargetUser :: string
  sp_AccessKey :: string
  sp_SecretKey :: string
  sp_Name :: string
  sp_Description :: string
  sp_Policy :: string
  sp_Expiration :: "instant option"
  sp_WriteConnectionSecretsToRef :: "secret_reference option"

record service_account_status =
  ss_Conditions :: "condition list"
  ss_AccessKey :: string
  ss_AccountStatus :: string
  ss_ParentUser :: string
  ss_ImpliedPolicy :: bool
  ss_Policy :: string
  ss_Expiration :: "instant option"

record service_account =
  s_meta :: object_meta
  s_spec :: managed_spec
  s_params :: service_account_params
  s_status :: service_account_status

definition GetAccessKey :: "service_account \<Rightarrow> string" where
  "GetAccessKey s = (if sp_AccessKey (s_params s) = [] then Name (s_meta s) else sp_AccessKey (s_params s))"

section \<open>NotificationConfiguration\<close>

record webhook_configuration =
  wh_ID :: string
  wh_Endpoint :: string
  wh_AuthToken :: "string option"
  wh_UserAgent :: "string option"

record target_configuration =
  tc_ID :: string
  tc_Arn :: string

record filter_rule =
  fr_Name :: string
  fr_Value :: string

text \<open>\<^verbatim>\<open>NotificationFilter\<close> has one pointer field, \<^verbatim>\<open>Key\<close>; a \<^verbatim>\<open>KeyFilter\<close> is its rules.\<close>

record notification_filter =
  nf_Key :: "filter_rule list option"

record notification_params =
  np_BucketName :: string
  np_WebhookConfiguration :: "webhook_configuration option"
  np_QueueConfiguration :: "target_configuration option"
  np_TopicConfiguration :: "target_configuration option"
  np_Events :: "string list"
  np_Filter :: "notification_filter option"

record notification_status =
  ns_Conditions :: "condition list"
  ns_ConfigurationID :: string
  ns_BucketName :: string
  ns_LastUpdated :: "instant option"

record notification_configuration =
  n_meta :: object_meta
  n_spec :: managed_spec
  n_params :: notification_params
  n_status :: notification_status

section \<open>Any managed resource\<close>

text \<open>
  A controller method receives a \<^verbatim>\<open>resource.Managed\<close>, an interface: one of the five kinds
  or another type, which implements \<^verbatim>\<open>resource.ModernManaged\<close> or not. The type assertions
  \<^verbatim>\<open>mg.(*v1beta1.Bucket)\<close> are case distinctions on it.
\<close>

datatype managed =
    MBucket bucket
  | MUser user
  | MPolicy policy
  | MServiceAccount service_account
  | MNotification notification_configuration
  | MOther bool

fun is_modern :: "managed \<Rightarrow> bool" where
  "is_modern (MOther m) = m"
| "is_modern _ = True"

section \<open>ProviderConfig\<close>

record key_selector =
  ks_Name :: string
  ks_Key :: string

record TLSConfig =
  CAData :: string
  CASecretRef :: "key_selector option"
  CAConfigMapRef :: "key_selector option"
  ClientCertData :: string
  ClientCertSecretRef :: "key_selector option"
  ClientKeyData :: string
  ClientKeySecretRef :: "key_selector option"
  InsecureSkipVerify :: bool

record secret_key_reference =
  skr_Name :: string
  skr_Namespace :: string
  skr_Key :: string

text \<open>\<^verbatim>\<open>Source\<close> is a Go string type; \<^verbatim>\<open>SecretRef\<close> comes from the embedded common selectors.\<close>

record provider_credentials =
  cred_Source :: string
  cred_APISecretRef :: secret_reference
  cred_SecretRef :: "secret_key_reference option"

record provider_config =
  pc_Credentials :: provider_credentials
  pc_MinioURL :: string
  pc_TLS :: "TLSConfig option"

text \<open>The library status of a provider configuration: its conditions and how many resources use it.\<close>

record provider_config_status =
  pcs_Conditions :: "condition list"
  pcs_Users :: int

text \<open>A Secret or ConfigMap is its data; a missing key reads as the empty string.\<close>

type_synonym secret = "string \<rightharpoonup> string"

end
