(* ===== verification/Interfaces.thy ===== *)
theory Interfaces
  imports Resources
begin

text \<open>
  The interfaces the components meet at. The libraries the provider calls (the MinIO clients
  \<^verbatim>\<open>minio-go\<close> and \<^verbatim>\<open>madmin-go\<close>, the Kubernetes client, the notification, tag and password
  helpers) are records of functions on an opaque world \<open>'w\<close>: parameters of every definition
  that uses them, with nothing assumed about them here.

  The provider's own interfaces are \<^verbatim>\<open>managed.ExternalClient\<close>, which every controller
  package implements, and \<^verbatim>\<open>admission.Validator\<close>, which every webhook implements. The
  contracts their callers rely on are the locales at the end; each controller theory
  interprets them on its own operations.
\<close>

section \<open>The state a controller method works on\<close>

record event =
  ev_Reason :: string
  ev_Message :: string

text \<open>
  \<open>world\<close> is everything outside the process, \<open>cr\<close> the managed resource the method was
  handed (a pointer: the method mutates it), \<open>events\<close> what was given to the event recorder
  (all of type Normal), \<open>logs\<close> the lines logged at the default verbosity.
\<close>

record 'w cstate =
  world :: 'w
  cr :: managed
  events :: "event list"
  logs :: "string list"

type_synonym ('w, 'a) ctl = "('w cstate, 'a) go"

definition on_world :: "('w, 'a) go \<Rightarrow> ('w, 'a) ctl" where [go_defs]:
  "on_world m s = (case m (world s) of (r, w) \<Rightarrow> (r, s\<lparr>world := w\<rparr>))"

definition call :: "('w, 'a) api \<Rightarrow> ('w, 'a) ctl" where [go_defs]:
  "call f = on_world (api_call f)"

definition emit :: "string \<Rightarrow> string \<Rightarrow> ('w, unit) ctl" where [go_defs]:
  "emit reason msg s = (Ok (), s\<lparr>events := events s @ [\<lparr>ev_Reason = reason, ev_Message = msg\<rparr>]\<rparr>)"

definition log_line :: "string \<Rightarrow> ('w, unit) ctl" where [go_defs]:
  "log_line l s = (Ok (), s\<lparr>logs := logs s @ [l]\<rparr>)"

definition put_cr :: "managed \<Rightarrow> ('w, unit) ctl" where [go_defs]:
  "put_cr m s = (Ok (), s\<lparr>cr := m\<rparr>)"

lemma call_Ok_iff:
  "call f s = (Ok x, t) \<longleftrightarrow> (\<exists>w. f (world s) = (Inr x, w) \<and> t = s\<lparr>world := w\<rparr>)"
  by (auto simp: go_defs split: prod.splits sum.splits)

lemma call_Err_iff:
  "call f s = (Err e, t) \<longleftrightarrow> (\<exists>a w. f (world s) = (Inl a, w) \<and> e = ErrApi a \<and> t = s\<lparr>world := w\<rparr>)"
  by (auto simp: go_defs split: prod.splits sum.splits)

lemma effects_Ok_iff [simp]:
  "emit r m s = (Ok u, t) \<longleftrightarrow> t = s\<lparr>events := events s @ [\<lparr>ev_Reason = r, ev_Message = m\<rparr>]\<rparr>"
  "log_line l s = (Ok u, t) \<longleftrightarrow> t = s\<lparr>logs := logs s @ [l]\<rparr>"
  "put_cr m' s = (Ok u, t) \<longleftrightarrow> t = s\<lparr>cr := m'\<rparr>"
  by (auto simp: go_defs)

lemma effects_never_Err [simp]:
  "emit r m s \<noteq> (Err e, t)" "log_line l s \<noteq> (Err e, t)" "put_cr m' s \<noteq> (Err e, t)"
  by (simp_all add: go_defs)

text \<open>Nothing but the log differs.\<close>

definition only_logged :: "'w cstate \<Rightarrow> 'w cstate \<Rightarrow> bool" where
  "only_logged s t \<longleftrightarrow> world t = world s \<and> cr t = cr s \<and> events t = events s"

lemma only_logged_refl [simp]: "only_logged s s"
  by (simp add: only_logged_def)

lemma only_logged_trans: "only_logged s t \<Longrightarrow> only_logged t u \<Longrightarrow> only_logged s u"
  by (simp add: only_logged_def)

section \<open>The library clients\<close>

record object_info =
  oi_Key :: string
  oi_Err :: "api_error option"

record remove_error =
  re_ObjectName :: string
  re_Err :: api_error

text \<open>\<^verbatim>\<open>notification.Arn\<close> as the call that builds it, \<^verbatim>\<open>Filter.S3Key.FilterRules\<close> nil or not.\<close>

datatype arn = NewArn string string string string string

record notif_config =
  cfg_ID :: string
  cfg_Arn :: arn
  cfg_Events :: "string list"
  cfg_Filter :: "filter_rule list option option"

record lambda_config =
  lc_Config :: notif_config
  lc_Lambda :: string

text \<open>The queue and topic parts of a bucket's notification are carried along unread (\<open>'n\<close>).\<close>

record 'n bucket_notification =
  LambdaConfigs :: "lambda_config list"
  OtherConfigs :: 'n

record 'n notif_lib =
  ArnString :: "arn \<Rightarrow> string"
  NewConfig :: "arn \<Rightarrow> notif_config"
  NoConfigs :: 'n

record ('w, 't, 'n) s3_client =
  MakeBucket :: "string \<Rightarrow> string \<Rightarrow> ('w, unit) api"
  BucketExists :: "string \<Rightarrow> ('w, bool) api"
  RemoveBucket :: "string \<Rightarrow> ('w, unit) api"
  GetBucketPolicy :: "string \<Rightarrow> ('w, string) api"
  SetBucketPolicy :: "string \<Rightarrow> string \<Rightarrow> ('w, unit) api"
  GetBucketTagging :: "string \<Rightarrow> ('w, 't option) api"
  SetBucketTagging :: "string \<Rightarrow> 't \<Rightarrow> ('w, unit) api"
  RemoveBucketTagging :: "string \<Rightarrow> ('w, unit) api"
  NewTags :: "(string, string) fmap \<Rightarrow> bool \<Rightarrow> api_error + 't"
  TagsToMap :: "'t \<Rightarrow> (string, string) fmap"
  ListObjects :: "string \<Rightarrow> 'w \<Rightarrow> object_info list \<times> 'w"
  RemoveObjects :: "string \<Rightarrow> object_info list \<Rightarrow> bool \<Rightarrow> 'w \<Rightarrow> remove_error list \<times> 'w"
  GetObjectLockConfig :: "string \<Rightarrow> ('w, string option) api"
  GetBucketNotification :: "string \<Rightarrow> ('w, 'n bucket_notification) api"
  SetBucketNotification :: "string \<Rightarrow> 'n bucket_notification \<Rightarrow> ('w, unit) api"

record user_info =
  ui_PolicyName :: string
  ui_Status :: string

record add_sa_req =
  req_AccessKey :: string
  req_SecretKey :: string
  req_TargetUser :: string
  req_Name :: string
  req_Description :: string
  req_Policy :: "string option"
  req_Expiration :: "instant option"

record update_sa_req =
  upd_NewPolicy :: "string option"
  upd_NewName :: string
  upd_NewDescription :: string
  upd_NewExpiration :: "instant option"
  upd_NewSecretKey :: string

record sa_credentials =
  sac_AccessKey :: string
  sac_SecretKey :: string

record sa_info =
  si_ParentUser :: string
  si_AccountStatus :: string
  si_ImpliedPolicy :: bool
  si_Policy :: string
  si_Expiration :: "instant option"

record 'w admin_client =
  ListCannedPolicies :: "('w, string \<rightharpoonup> string) api"
  AddCannedPolicy :: "string \<Rightarrow> string \<Rightarrow> ('w, unit) api"
  RemoveCannedPolicy :: "string \<Rightarrow> ('w, unit) api"
  ListUsers :: "('w, string \<rightharpoonup> user_info) api"
  GetUserInfo :: "string \<Rightarrow> ('w, user_info) api"
  AddUser :: "string \<Rightarrow> string \<Rightarrow> ('w, unit) api"
  SetUser :: "string \<Rightarrow> string \<Rightarrow> string \<Rightarrow> ('w, unit) api"
  RemoveUser :: "string \<Rightarrow> ('w, unit) api"
  AttachPolicy :: "string list \<Rightarrow> string \<Rightarrow> ('w, unit) api"
  DetachPolicy :: "string list \<Rightarrow> string \<Rightarrow> ('w, unit) api"
  AddServiceAccount :: "add_sa_req \<Rightarrow> ('w, sa_credentials) api"
  InfoServiceAccount :: "string \<Rightarrow> ('w, sa_info) api"
  UpdateServiceAccount :: "string \<Rightarrow> update_sa_req \<Rightarrow> ('w, unit) api"
  DeleteServiceAccount :: "string \<Rightarrow> ('w, unit) api"

text \<open>The account status the admin API uses for an enabled account.\<close>

definition AccountEnabled :: string where "AccountEnabled = ''enabled''"

record 'w kube_client =
  KubeGetSecret :: "string \<Rightarrow> string \<Rightarrow> ('w, secret) api"
  KubeGetConfigMap :: "string \<Rightarrow> string \<Rightarrow> ('w, secret) api"
  KubeGetProviderConfig :: "string \<Rightarrow> ('w, provider_config) api"

text \<open>\<^verbatim>\<open>password.Generate(length, digits, symbols, noUpper, allowRepeat)\<close>\<close>

type_synonym 'w password_gen = "nat \<Rightarrow> nat \<Rightarrow> nat \<Rightarrow> bool \<Rightarrow> bool \<Rightarrow> ('w, string) api"

text \<open>
  How a law about a library call is stated, over a \<open>view\<close> of the world: a call that only reads
  leaves the view alone and returns what \<open>P\<close> says; a writing call that succeeds has the
  effect \<open>Q\<close>.
\<close>

definition reads :: "('w \<Rightarrow> 'v) \<Rightarrow> ('w, 'a) api \<Rightarrow> ('v \<Rightarrow> api_error + 'a \<Rightarrow> bool) \<Rightarrow> bool" where
  "reads view f P \<longleftrightarrow> (\<forall>w. view (snd (f w)) = view w \<and> P (view w) (fst (f w)))"

definition effects :: "('w \<Rightarrow> 'v) \<Rightarrow> ('w, 'a) api \<Rightarrow> ('v \<Rightarrow> 'a \<Rightarrow> 'v \<Rightarrow> bool) \<Rightarrow> bool" where
  "effects view f Q \<longleftrightarrow> (\<forall>w. case f w of (Inl _, w') \<Rightarrow> True | (Inr x, w') \<Rightarrow> Q (view w) x (view w'))"

text \<open>A call the view does not notice.\<close>

definition unnoticed :: "('w \<Rightarrow> 'v) \<Rightarrow> ('w, 'a) api \<Rightarrow> bool" where
  "unnoticed view f \<longleftrightarrow> (\<forall>w. view (snd (f w)) = view w)"

lemma unnoticedD: "unnoticed view f \<Longrightarrow> f w = (r, w') \<Longrightarrow> view w' = view w"
  by (auto simp: unnoticed_def dest: spec [of _ w])

lemma readsD:
  "reads view f P \<Longrightarrow> f w = (r, w') \<Longrightarrow> view w' = view w \<and> P (view w) r"
  by (auto simp: reads_def dest: spec [of _ w])

lemma effectsD: "effects view f Q \<Longrightarrow> f w = (Inr x, w') \<Longrightarrow> Q (view w) x (view w')"
  by (auto simp: effects_def dest: spec [of _ w])

section \<open>managed.ExternalClient\<close>

record observation =
  ResourceExists :: bool
  ResourceUpToDate :: bool

definition NoObservation :: observation where
  "NoObservation = \<lparr>ResourceExists = False, ResourceUpToDate = False\<rparr>"

text \<open>\<^verbatim>\<open>ExternalCreation\<close> holds the connection details, nil or a map.\<close>

type_synonym creation = "(string \<rightharpoonup> string) option"

record 'w external_client =
  Observe :: "('w, observation) ctl"
  Create :: "('w, creation) ctl"
  Update :: "('w, unit) ctl"
  Delete :: "('w, unit) ctl"
  Disconnect :: "('w, unit) ctl"

text \<open>What a controller may not touch: identity, deletion mark, specification, parameters.\<close>

definition same_identity :: "object_meta \<Rightarrow> object_meta \<Rightarrow> bool" where
  "same_identity m n \<longleftrightarrow> Name m = Name n \<and> Namespace m = Namespace n \<and> DeletionTimestamp m = DeletionTimestamp n"

fun same_desired :: "managed \<Rightarrow> managed \<Rightarrow> bool" where
  "same_desired (MBucket a) (MBucket b) \<longleftrightarrow>
     same_identity (b_meta a) (b_meta b) \<and> b_spec a = b_spec b \<and> b_params a = b_params b"
| "same_desired (MUser a) (MUser b) \<longleftrightarrow>
     same_identity (u_meta a) (u_meta b) \<and> u_spec a = u_spec b \<and> u_params a = u_params b"
| "same_desired (MPolicy a) (MPolicy b) \<longleftrightarrow>
     same_identity (p_meta a) (p_meta b) \<and> p_spec a = p_spec b \<and> p_params a = p_params b"
| "same_desired (MServiceAccount a) (MServiceAccount b) \<longleftrightarrow>
     same_identity (s_meta a) (s_meta b) \<and> s_spec a = s_spec b \<and> s_params a = s_params b"
| "same_desired (MNotification a) (MNotification b) \<longleftrightarrow>
     same_identity (n_meta a) (n_meta b) \<and> n_spec a = n_spec b \<and> n_params a = n_params b"
| "same_desired (MOther a) (MOther b) \<longleftrightarrow> a = b"
| "same_desired _ _ \<longleftrightarrow> False"

lemma same_identity_refl [simp]: "same_identity m m"
  by (simp add: same_identity_def)

lemma same_identity_trans: "same_identity a b \<Longrightarrow> same_identity b c \<Longrightarrow> same_identity a c"
  by (simp add: same_identity_def)

lemma same_identity_annotations [simp]:
  "same_identity m (m\<lparr>Annotations := a\<rparr>)" "same_identity (m\<lparr>Annotations := a\<rparr>) m"
  by (simp_all add: same_identity_def)

lemma same_desired_refl [simp]: "same_desired m m"
  by (cases m) auto

lemma same_desired_trans: "same_desired a b \<Longrightarrow> same_desired b c \<Longrightarrow> same_desired a c"
  by (cases a; cases b; cases c) (auto intro: same_identity_trans)

text \<open>Any sequence of calls on one resource, in whatever order the caller makes them.\<close>

datatype operation = OpObserve | OpCreate | OpUpdate | OpDelete | OpDisconnect

fun perform :: "'w external_client \<Rightarrow> operation \<Rightarrow> 'w cstate \<Rightarrow> 'w cstate" where
  "perform ec OpObserve s = snd (Observe ec s)"
| "perform ec OpCreate s = snd (Create ec s)"
| "perform ec OpUpdate s = snd (Update ec s)"
| "perform ec OpDelete s = snd (Delete ec s)"
| "perform ec OpDisconnect s = snd (Disconnect ec s)"

definition perform_all :: "'w external_client \<Rightarrow> operation list \<Rightarrow> 'w cstate \<Rightarrow> 'w cstate" where
  "perform_all ec ops s = fold (perform ec) ops s"

lemma perform_all_simps [simp]:
  "perform_all ec [] s = s"
  "perform_all ec (x # xs) s = perform_all ec xs (perform ec x s)"
  by (simp_all add: perform_all_def)

text \<open>
  One reconcile as the interface prescribes it: observe, and then create what is absent,
  update what is out of date, delete what is to go, or leave alone what is current.
\<close>

datatype verdict = ObserveFailed | Created | CreateFailed | Updated | UpdateFailed | Deleted | DeleteFailed | Current

inductive reconcile :: "'w external_client \<Rightarrow> bool \<Rightarrow> 'w cstate \<Rightarrow> verdict \<Rightarrow> 'w cstate \<Rightarrow> bool" where
  observe_failed: "Observe ec s = (r, t) \<Longrightarrow> \<not> (\<exists>x. r = Ok x) \<Longrightarrow> reconcile ec d s ObserveFailed t"
| created: "Observe ec s = (Ok x, t) \<Longrightarrow> \<not> ResourceExists x \<Longrightarrow> Create ec t = (Ok c, u) \<Longrightarrow>
    reconcile ec False s Created u"
| create_failed: "Observe ec s = (Ok x, t) \<Longrightarrow> \<not> ResourceExists x \<Longrightarrow> Create ec t = (r, u) \<Longrightarrow>
    \<not> (\<exists>c. r = Ok c) \<Longrightarrow> reconcile ec False s CreateFailed u"
| gone: "Observe ec s = (Ok x, t) \<Longrightarrow> \<not> ResourceExists x \<Longrightarrow> reconcile ec True s Current t"
| deleted: "Observe ec s = (Ok x, t) \<Longrightarrow> ResourceExists x \<Longrightarrow> Delete ec t = (Ok (), u) \<Longrightarrow>
    reconcile ec True s Deleted u"
| delete_failed: "Observe ec s = (Ok x, t) \<Longrightarrow> ResourceExists x \<Longrightarrow> Delete ec t = (r, u) \<Longrightarrow>
    r \<noteq> Ok () \<Longrightarrow> reconcile ec True s DeleteFailed u"
| updated: "Observe ec s = (Ok x, t) \<Longrightarrow> ResourceExists x \<Longrightarrow> \<not> ResourceUpToDate x \<Longrightarrow>
    Update ec t = (Ok (), u) \<Longrightarrow> reconcile ec False s Updated u"
| update_failed: "Observe ec s = (Ok x, t) \<Longrightarrow> ResourceExists x \<Longrightarrow> \<not> ResourceUpToDate x \<Longrightarrow>
    Update ec t = (r, u) \<Longrightarrow> r \<noteq> Ok () \<Longrightarrow> reconcile ec False s UpdateFailed u"
| current: "Observe ec s = (Ok x, t) \<Longrightarrow> ResourceExists x \<Longrightarrow> ResourceUpToDate x \<Longrightarrow>
    reconcile ec False s Current t"

inductive_cases reconcileE: "reconcile ec d s v t"

text \<open>Any sequence of reconciles of one resource, none of them interfered with.\<close>

inductive reconciles :: "'w external_client \<Rightarrow> 'w cstate \<Rightarrow> verdict list \<Rightarrow> 'w cstate \<Rightarrow> bool" for ec :: "'w external_client" where
  reconciled_none: "reconciles ec s [] s"
| reconciled_more: "reconciles ec s vs t \<Longrightarrow> reconcile ec d t v u \<Longrightarrow> reconciles ec s (vs @ [v]) u"

lemma reconciles_invariant:
  assumes "reconciles ec s vs t" and "I s"
    and "\<And>d s v t. I s \<Longrightarrow> reconcile ec d s v t \<Longrightarrow> I t \<and> v \<in> V"
  shows "I t \<and> set vs \<subseteq> V"
  using assms by (induction rule: reconciles.induct) fastforce+

text \<open>A sequence of reconciles none of which created the external resource.\<close>

inductive run_without_create :: "'w external_client \<Rightarrow> 'w cstate \<Rightarrow> verdict list \<Rightarrow> 'w cstate \<Rightarrow> bool" for ec :: "'w external_client" where
  none_yet: "run_without_create ec s [] s"
| one_more: "run_without_create ec s vs t \<Longrightarrow> reconcile ec d t v u \<Longrightarrow> v \<noteq> Created \<Longrightarrow>
    run_without_create ec s (vs @ [v]) u"

section \<open>admission.Validator\<close>

record ('w, 'r) validator =
  ValidateCreate :: "'r \<Rightarrow> ('w, unit) go"
  ValidateUpdate :: "'r \<Rightarrow> 'r \<Rightarrow> ('w, unit) go"
  ValidateDelete :: "'r \<Rightarrow> ('w, unit) go"

definition has_provider_config :: "managed_spec \<Rightarrow> bool" where
  "has_provider_config sp = (case ProviderConfigReference sp of None \<Rightarrow> False | Some n \<Rightarrow> n \<noteq> [])"

text \<open>
  The objects the API server stores: created past \<^verbatim>\<open>ValidateCreate\<close>, then replaced past
  \<^verbatim>\<open>ValidateUpdate\<close>, each in whatever world the webhook ran in.
\<close>

inductive evolves :: "('w, 'r) validator \<Rightarrow> 'r \<Rightarrow> 'r \<Rightarrow> bool" for v :: "('w, 'r) validator" where
  same: "evolves v a a"
| replaced: "evolves v a b \<Longrightarrow> ValidateUpdate v b c w = (Ok (), w') \<Longrightarrow> evolves v a c"

inductive stored :: "('w, 'r) validator \<Rightarrow> 'r \<Rightarrow> bool" for v :: "('w, 'r) validator" where
  admitted: "ValidateCreate v a w = (Ok (), w') \<Longrightarrow> evolves v a b \<Longrightarrow> stored v b"

end
