(* ===== verification/Frames.thy ===== *)
theory Frames
  imports Interfaces
begin

text \<open>
  Rules for what a controller method leaves alone: \<open>keeps I m\<close> says that \<open>m\<close>, however it
  ends, leads from states with \<open>I\<close> to states with \<open>I\<close>. One rule per combinator, collected in
  \<open>keeps_intros\<close>, takes a method apart along its own syntax, so that a frame property of a
  whole handler is one application of the collection.
\<close>

definition keeps :: "('w cstate \<Rightarrow> bool) \<Rightarrow> ('w, 'a) ctl \<Rightarrow> bool" where
  "keeps I m \<longleftrightarrow> (\<forall>s. I s \<longrightarrow> I (snd (m s)))"

named_theorems keeps_intros \<open>introduction rules for keeps\<close>

lemma keepsI: "(\<And>s. I s \<Longrightarrow> I (snd (m s))) \<Longrightarrow> keeps I m"
  by (simp add: keeps_def)

lemma keepsD: "keeps I m \<Longrightarrow> I s \<Longrightarrow> I (snd (m s))"
  by (simp add: keeps_def)

lemma keeps_result: "m s = (r, t) \<Longrightarrow> keeps I m \<Longrightarrow> I s \<Longrightarrow> I t"
  using keepsD [of I m s] by simp

lemma keeps_ret [keeps_intros]: "keeps I (ret x)"
  by (simp add: keeps_def go_defs)

lemma keeps_fail [keeps_intros]: "keeps I (fail e)"
  by (simp add: keeps_def go_defs)

lemma keeps_panic [keeps_intros]: "keeps I (go_panic p)"
  by (simp add: keeps_def go_defs)

lemma keeps_deref [keeps_intros]: "keeps I (deref p)"
  by (simp add: keeps_def go_defs split: option.split)

lemma keeps_if_err [keeps_intros]:
  "keeps I m \<Longrightarrow> (\<And>e. keeps I (h e)) \<Longrightarrow> (\<And>x. keeps I (k x)) \<Longrightarrow> keeps I (if_err m h k)"
  by (fastforce simp: keeps_def if_err_def split: prod.splits outcome.splits)

lemma keeps_check [keeps_intros]: "keeps I m \<Longrightarrow> (\<And>x. keeps I (k x)) \<Longrightarrow> keeps I (check m k)"
  by (simp add: check_def keeps_if_err keeps_fail)

lemma keeps_seq [keeps_intros]: "keeps I m \<Longrightarrow> keeps I n \<Longrightarrow> keeps I (seq m n)"
  by (simp add: seq_def keeps_check)

lemma keeps_on_world [keeps_intros]:
  "(\<And>s w. I s \<Longrightarrow> I (s\<lparr>world := w\<rparr>)) \<Longrightarrow> keeps I (on_world m)"
  by (simp add: keeps_def go_defs split: prod.split)

lemma keeps_call [keeps_intros]:
  "(\<And>s w. I s \<Longrightarrow> I (s\<lparr>world := w\<rparr>)) \<Longrightarrow> keeps I (call f)"
  by (simp add: call_def keeps_on_world)

lemma keeps_emit [keeps_intros]:
  "(\<And>s es. I s \<Longrightarrow> I (s\<lparr>events := es\<rparr>)) \<Longrightarrow> keeps I (emit r t)"
  by (simp add: keeps_def go_defs)

lemma keeps_log_line [keeps_intros]:
  "(\<And>s l. I s \<Longrightarrow> I (s\<lparr>logs := l\<rparr>)) \<Longrightarrow> keeps I (log_line t)"
  by (simp add: keeps_def go_defs)

lemma keeps_put_cr [keeps_intros]:
  "(\<And>s. I s \<Longrightarrow> I (s\<lparr>cr := m\<rparr>)) \<Longrightarrow> keeps I (put_cr m)"
  by (simp add: keeps_def go_defs)

lemma keeps_If [keeps_intros]:
  "(b \<Longrightarrow> keeps I m) \<Longrightarrow> (\<not> b \<Longrightarrow> keeps I n) \<Longrightarrow> keeps I (if b then m else n)"
  by simp

lemma keeps_option [keeps_intros]:
  "(x = None \<Longrightarrow> keeps I m) \<Longrightarrow> (\<And>y. x = Some y \<Longrightarrow> keeps I (f y)) \<Longrightarrow>
   keeps I (case x of None \<Rightarrow> m | Some y \<Rightarrow> f y)"
  by (cases x) auto

lemma keeps_list [keeps_intros]:
  "(x = [] \<Longrightarrow> keeps I m) \<Longrightarrow> (\<And>y ys. x = y # ys \<Longrightarrow> keeps I (f y ys)) \<Longrightarrow>
   keeps I (case x of [] \<Rightarrow> m | y # ys \<Rightarrow> f y ys)"
  by (cases x) auto

lemma keeps_sum [keeps_intros]:
  "(\<And>y. x = Inl y \<Longrightarrow> keeps I (f y)) \<Longrightarrow> (\<And>y. x = Inr y \<Longrightarrow> keeps I (g y)) \<Longrightarrow>
   keeps I (case x of Inl y \<Rightarrow> f y | Inr y \<Rightarrow> g y)"
  by (cases x) auto

lemma keeps_prod [keeps_intros]:
  "(\<And>y z. x = (y, z) \<Longrightarrow> keeps I (f y z)) \<Longrightarrow> keeps I (case x of (y, z) \<Rightarrow> f y z)"
  by (cases x) auto

lemma keeps_Let [keeps_intros]: "(\<And>y. y = x \<Longrightarrow> keeps I (f y)) \<Longrightarrow> keeps I (let y = x in f y)"
  by simp

lemma keeps_for_each [keeps_intros]:
  "(\<And>x. x \<in> set xs \<Longrightarrow> keeps I (f x)) \<Longrightarrow> keeps I (for_each f xs)"
  by (induction xs) (auto intro: keeps_intros)

text \<open>The two frames every controller needs: the desired state, and the events.\<close>

definition desires :: "managed \<Rightarrow> 'w cstate \<Rightarrow> bool" where
  "desires m s \<longleftrightarrow> same_desired m (cr s)"

definition has_events :: "event list \<Rightarrow> 'w cstate \<Rightarrow> bool" where
  "has_events es s \<longleftrightarrow> events s = es"

lemma desires_updates [simp]:
  "desires m (s\<lparr>world := w\<rparr>) = desires m s" "desires m (s\<lparr>events := es\<rparr>) = desires m s"
  "desires m (s\<lparr>logs := l\<rparr>) = desires m s" "desires m (s\<lparr>cr := n\<rparr>) = same_desired m n"
  by (simp_all add: desires_def)

lemma has_events_updates [simp]:
  "has_events es (s\<lparr>world := w\<rparr>) = has_events es s" "has_events es (s\<lparr>cr := n\<rparr>) = has_events es s"
  "has_events es (s\<lparr>logs := l\<rparr>) = has_events es s"
  by (simp_all add: has_events_def)

lemma keeps_desires: "(\<And>m. keeps (desires m) f) \<Longrightarrow> same_desired (cr s) (cr (snd (f s)))"
  using keepsD [of "desires (cr s)" f s] by (simp add: desires_def)

lemma keeps_has_events: "(\<And>es. keeps (has_events es) f) \<Longrightarrow> events (snd (f s)) = events s"
  using keepsD [of "has_events (events s)" f s] by (simp add: has_events_def)

section \<open>What a method that does not succeed leaves alone\<close>

definition failing_keeps :: "('w cstate \<Rightarrow> bool) \<Rightarrow> ('w, 'a) ctl \<Rightarrow> bool" where
  "failing_keeps I m \<longleftrightarrow> (\<forall>s r t. I s \<longrightarrow> m s = (r, t) \<longrightarrow> (\<forall>x. r \<noteq> Ok x) \<longrightarrow> I t)"

definition succeeds :: "('w, 'a) ctl \<Rightarrow> bool" where
  "succeeds m \<longleftrightarrow> (\<forall>s. \<exists>x t. m s = (Ok x, t))"

lemma failing_keepsD:
  "failing_keeps I m \<Longrightarrow> m s = (r, t) \<Longrightarrow> (\<And>x. r \<noteq> Ok x) \<Longrightarrow> I s \<Longrightarrow> I t"
  by (auto simp: failing_keeps_def)

lemma failing_keeps_keeps: "keeps I m \<Longrightarrow> failing_keeps I m"
  by (fastforce simp: failing_keeps_def keeps_def)

lemma failing_keeps_succeeds: "succeeds m \<Longrightarrow> failing_keeps I m"
  by (auto simp: failing_keeps_def succeeds_def) (metis prod.inject)

lemma failing_keeps_check:
  "keeps I m \<Longrightarrow> (\<And>x. failing_keeps I (k x)) \<Longrightarrow> failing_keeps I (check m k)"
  by (fastforce simp: failing_keeps_def keeps_def check_def if_err_def fail_def
      split: prod.splits outcome.splits)

lemma failing_keeps_option:
  "(x = None \<Longrightarrow> failing_keeps I m) \<Longrightarrow> (\<And>y. x = Some y \<Longrightarrow> failing_keeps I (f y)) \<Longrightarrow>
   failing_keeps I (case x of None \<Rightarrow> m | Some y \<Rightarrow> f y)"
  by (cases x) auto

lemma failing_keeps_If:
  "(b \<Longrightarrow> failing_keeps I m) \<Longrightarrow> (\<not> b \<Longrightarrow> failing_keeps I n) \<Longrightarrow> failing_keeps I (if b then m else n)"
  by simp

lemma failing_keeps_seq: "keeps I m \<Longrightarrow> failing_keeps I n \<Longrightarrow> failing_keeps I (seq m n)"
  by (simp add: seq_def failing_keeps_check)

lemma succeeds_intros:
  "succeeds (ret x)" "succeeds (emit r m)" "succeeds (log_line l)" "succeeds (put_cr c)"
  by (simp_all add: succeeds_def go_defs)

lemma succeeds_seq: "succeeds m \<Longrightarrow> succeeds n \<Longrightarrow> succeeds (seq m n)"
  by (simp add: succeeds_def seq_Ok_iff) blast

section \<open>What a method that succeeds returns\<close>

definition returns :: "('a \<Rightarrow> bool) \<Rightarrow> ('s, 'a) go \<Rightarrow> bool" where
  "returns P m \<longleftrightarrow> (\<forall>s x t. m s = (Ok x, t) \<longrightarrow> P x)"

named_theorems returns_intros \<open>introduction rules for returns\<close>

lemma returnsD: "returns P m \<Longrightarrow> fst (m s) = Ok x \<Longrightarrow> P x"
  by (cases "m s") (auto simp: returns_def)

lemma returns_ends [returns_intros]: "P x \<Longrightarrow> returns P (ret x)" "returns P (fail e)" "returns P (go_panic p)"
  by (simp_all add: returns_def)

lemma returns_if_err [returns_intros]:
  "(\<And>e. returns P (h e)) \<Longrightarrow> (\<And>x. returns P (k x)) \<Longrightarrow> returns P (if_err m h k)"
  by (simp add: returns_def if_err_Ok_iff) blast

lemma returns_check [returns_intros]: "(\<And>x. returns P (k x)) \<Longrightarrow> returns P (check m k)"
  by (simp add: returns_def check_Ok_iff) blast

lemma returns_seq [returns_intros]: "returns P n \<Longrightarrow> returns P (seq m n)"
  by (simp add: returns_def seq_Ok_iff) blast

lemma returns_If [returns_intros]:
  "(b \<Longrightarrow> returns P m) \<Longrightarrow> (\<not> b \<Longrightarrow> returns P n) \<Longrightarrow> returns P (if b then m else n)"
  by simp

lemma returns_option [returns_intros]:
  "(x = None \<Longrightarrow> returns P m) \<Longrightarrow> (\<And>y. x = Some y \<Longrightarrow> returns P (f y)) \<Longrightarrow>
   returns P (case x of None \<Rightarrow> m | Some y \<Rightarrow> f y)"
  by (cases x) auto

lemma returns_sum [returns_intros]:
  "(\<And>y. x = Inl y \<Longrightarrow> returns P (f y)) \<Longrightarrow> (\<And>y. x = Inr y \<Longrightarrow> returns P (g y)) \<Longrightarrow>
   returns P (case x of Inl y \<Rightarrow> f y | Inr y \<Rightarrow> g y)"
  by (cases x) auto

lemma returns_list [returns_intros]:
  "(x = [] \<Longrightarrow> returns P m) \<Longrightarrow> (\<And>y ys. x = y # ys \<Longrightarrow> returns P (f y ys)) \<Longrightarrow>
   returns P (case x of [] \<Rightarrow> m | y # ys \<Rightarrow> f y ys)"
  by (cases x) auto

lemma returns_Let [returns_intros]: "(\<And>y. y = x \<Longrightarrow> returns P (f y)) \<Longrightarrow> returns P (let y = x in f y)"
  by simp

text \<open>What is up to date exists.\<close>

definition coherent :: "observation \<Rightarrow> bool" where
  "coherent x \<longleftrightarrow> (ResourceUpToDate x \<longrightarrow> ResourceExists x)"

lemma coherent_simps [simp]:
  "coherent \<lparr>ResourceExists = True, ResourceUpToDate = b\<rparr>" "coherent \<lparr>ResourceExists = a, ResourceUpToDate = False\<rparr>"
  "coherent NoObservation"
  by (simp_all add: coherent_def NoObservation_def)

lemma coherentD: "returns coherent m \<Longrightarrow> fst (m s) = Ok x \<Longrightarrow> ResourceUpToDate x \<Longrightarrow> ResourceExists x"
  by (auto simp: coherent_def dest: returnsD)

end
