(* ===== verification/Contracts.thy ===== *)
theory Contracts
  imports Frames
begin

text \<open>
  The contracts behind the two interfaces, as locales with the facts their callers get from
  them. \<open>managed_external\<close> is what every controller promises the reconciler,
  \<open>claimed_external\<close> adds the marker by which a controller knows the resource as its own;
  \<open>admission\<close> and \<open>fixed_identity\<close> are what the webhooks promise the controllers. The
  controller theories interpret each of them on their own operations.
\<close>

section \<open>Controllers\<close>

locale managed_external =
  fixes ec :: "'w external_client"
    and mine :: "managed \<Rightarrow> bool"
    and wrong_kind :: go_error
  assumes foreign_observe: "\<not> mine (cr s) \<Longrightarrow> fst (Observe ec s) = Err wrong_kind \<and> only_logged s (snd (Observe ec s))"
    and foreign_create: "\<not> mine (cr s) \<Longrightarrow> fst (Create ec s) = Err wrong_kind \<and> only_logged s (snd (Create ec s))"
    and foreign_update: "\<not> mine (cr s) \<Longrightarrow> fst (Update ec s) = Err wrong_kind \<and> only_logged s (snd (Update ec s))"
    and foreign_delete: "\<not> mine (cr s) \<Longrightarrow> fst (Delete ec s) = Err wrong_kind \<and> only_logged s (snd (Delete ec s))"
    and disconnect: "Disconnect ec s = (Ok (), s)"
    and keeps_observe: "same_desired (cr s) (cr (snd (Observe ec s)))"
    and keeps_create: "same_desired (cr s) (cr (snd (Create ec s)))"
    and keeps_update: "same_desired (cr s) (cr (snd (Update ec s)))"
    and keeps_delete: "same_desired (cr s) (cr (snd (Delete ec s)))"
    and observe_no_event: "events (snd (Observe ec s)) = events s"
    and current_exists: "fst (Observe ec s) = Ok x \<Longrightarrow> ResourceUpToDate x \<Longrightarrow> ResourceExists x"
begin

lemma foreign_perform: "\<not> mine (cr s) \<Longrightarrow> only_logged s (perform ec x s)"
  by (cases x) (simp_all add: foreign_observe foreign_create foreign_update foreign_delete disconnect)

lemma foreign_untouched: "\<not> mine (cr s) \<Longrightarrow> only_logged s (perform_all ec ops s)"
proof (induction ops arbitrary: s)
  case Nil
  then show ?case by simp
next
  case (Cons x xs)
  from foreign_perform [OF Cons.prems] have x: "only_logged s (perform ec x s)" .
  with Cons.prems have "\<not> mine (cr (perform ec x s))" by (simp add: only_logged_def)
  from only_logged_trans [OF x Cons.IH [OF this]] show ?case by simp
qed

lemma keeps_perform: "same_desired (cr s) (cr (perform ec x s))"
  by (cases x) (simp_all add: keeps_observe keeps_create keeps_update keeps_delete disconnect)

lemma spec_never_written: "same_desired (cr s) (cr (perform_all ec ops s))"
proof (induction ops arbitrary: s)
  case Nil
  then show ?case by simp
next
  case (Cons x xs)
  have "same_desired (cr (perform ec x s)) (cr (perform_all ec (x # xs) s))"
    using Cons.IH by simp
  with keeps_perform show ?case by (rule same_desired_trans)
qed

end

text \<open>
  A controller that knows the resource it created by a mark (an annotation, the external name)
  and takes an unmarked one for absent.
\<close>

locale claimed_external = managed_external +
  fixes claimed :: "managed \<Rightarrow> bool"
  assumes unclaimed_absent: "\<not> claimed (cr s) \<Longrightarrow> fst (Observe ec s) = Ok x \<Longrightarrow> \<not> ResourceExists x"
    and observe_no_claim: "\<not> claimed (cr s) \<Longrightarrow> \<not> claimed (cr (snd (Observe ec s)))"
begin

lemma reconcile_unclaimed:
  assumes "reconcile ec d s v t" and "\<not> claimed (cr s)"
  shows "v \<in> {ObserveFailed, Created, CreateFailed, Current}"
  using assms(1)
proof (cases rule: reconcile.cases)
  case (deleted x u)
  with unclaimed_absent [OF assms(2)] show ?thesis by simp
next
  case (delete_failed x u)
  with unclaimed_absent [OF assms(2)] show ?thesis by simp
next
  case (updated x u)
  with unclaimed_absent [OF assms(2)] show ?thesis by simp
next
  case (update_failed x u)
  with unclaimed_absent [OF assms(2)] show ?thesis by simp
qed auto

end

text \<open>
  When the mark is set by a successful create and by nothing else, a resource whose create
  never succeeded is never updated or deleted: the controller does not adopt what it did not
  create.
\<close>

locale marking_external = claimed_external +
  assumes create_claims: "Create ec s = (Ok c, t) \<Longrightarrow> claimed (cr t)"
    and failed_create_no_claim:
      "Create ec s = (r, t) \<Longrightarrow> (\<And>c. r \<noteq> Ok c) \<Longrightarrow> \<not> claimed (cr s) \<Longrightarrow> \<not> claimed (cr t)"
begin

lemma created_claimed:
  "reconcile ec d s Created t \<Longrightarrow> claimed (cr t)"
  using create_claims by (auto elim!: reconcileE)

lemma reconcile_stays_unclaimed:
  assumes "reconcile ec d s v t" and "\<not> claimed (cr s)" and "v \<noteq> Created"
  shows "v \<in> {ObserveFailed, CreateFailed, Current}" and "\<not> claimed (cr t)"
proof -
  from reconcile_unclaimed [OF assms(1,2)] assms(3)
  show v: "v \<in> {ObserveFailed, CreateFailed, Current}" by auto
  have obs: "\<And>r u. Observe ec s = (r, u) \<Longrightarrow> \<not> claimed (cr u)"
    using observe_no_claim [OF assms(2)] by (metis snd_conv)
  from assms(1) show "\<not> claimed (cr t)"
  proof (cases rule: reconcile.cases)
    case (create_failed x u r)
    with failed_create_no_claim obs show ?thesis by blast
  qed (use obs v in auto)
qed

lemma no_adoption:
  assumes "run_without_create ec s vs t" and "\<not> claimed (cr s)"
  shows "set vs \<subseteq> {ObserveFailed, CreateFailed, Current} \<and> \<not> claimed (cr t)"
  using assms
proof (induction rule: run_without_create.induct)
  case (none_yet s)
  then show ?case by simp
next
  case (one_more s vs t d v u)
  then have "\<not> claimed (cr t)" by simp
  from reconcile_stays_unclaimed [OF one_more.hyps(2) this one_more.hyps(3)] one_more
  show ?case by auto
qed

end

section \<open>Webhooks\<close>

locale admission =
  fixes v :: "('w, 'r) validator"
    and spec_of :: "'r \<Rightarrow> managed_spec"
    and deleting :: "'r \<Rightarrow> bool"
  assumes create_configured: "ValidateCreate v a w = (Ok (), w') \<Longrightarrow> has_provider_config (spec_of a)"
    and update_configured:
      "ValidateUpdate v a b w = (Ok (), w') \<Longrightarrow> \<not> deleting b \<Longrightarrow> has_provider_config (spec_of b)"
    and delete_admitted: "ValidateDelete v a w = (Ok (), w)"
begin

lemma evolves_configured:
  "evolves v a b \<Longrightarrow> has_provider_config (spec_of a) \<Longrightarrow> deleting b \<or> has_provider_config (spec_of b)"
  by (cases rule: evolves.cases) (auto dest: update_configured)

lemma stored_configured: "stored v b \<Longrightarrow> deleting b \<or> has_provider_config (spec_of b)"
  by (auto elim!: stored.cases dest: create_configured evolves_configured)

end

locale fixed_identity = admission +
  fixes ident :: "'r \<Rightarrow> 'i"
  assumes update_identity: "ValidateUpdate v a b w = (Ok (), w') \<Longrightarrow> ident b = ident a"
begin

lemma evolves_identity: "evolves v a b \<Longrightarrow> ident b = ident a"
  by (induction rule: evolves.induct) (auto dest: update_identity)

end

end
