(* ===== verification/Bucket.thy ===== *)
theory Bucket
  imports Contracts
begin

text \<open>
  The bucket controller and its webhook (\<^verbatim>\<open>operator/bucket\<close>): the four operations on the
  S3 client, the deletion of all objects, the annotation that marks a created bucket, and the
  admission checks. The controller is interpreted as a \<open>marking_external\<close>, the webhook as an
  \<open>admission\<close>. The S3 server is a parameter; \<open>s3_bucket_laws\<close> names what of its
  documented behaviour the synchronisation theorems rely on, over a view of its buckets.
\<close>

section \<open>The controller\<close>

definition errNotBucket :: go_error where
  "errNotBucket = ErrNew ''managed resource is not a bucket''"

text \<open>\<^verbatim>\<open>lockAnnotation\<close> is the API group and \<^verbatim>\<open>/lock\<close>.\<close>

definition lockAnnotation :: string where "lockAnnotation = Group @ ''/lock''"

definition as_bucket :: "(bucket \<Rightarrow> ('w, 'a) ctl) \<Rightarrow> ('w, 'a) ctl" where [prim_defs]:
  "as_bucket k s = (case cr s of MBucket b \<Rightarrow> k b s | _ \<Rightarrow> (Err errNotBucket, s))"

subsection \<open>Observe\<close>

definition bucketExists :: "('w, 't, 'n) s3_client \<Rightarrow> string \<Rightarrow> ('w, bool) ctl" where [simp, ctl_defs]:
  "bucketExists mc bucketName = call (BucketExists mc bucketName)"

definition bucketPolicyLatest :: "('w, 't, 'n) s3_client \<Rightarrow> string \<Rightarrow> string \<Rightarrow> ('w, bool) ctl" where [ctl_defs]:
  "bucketPolicyLatest mc bucketName pol =
     check (call (GetBucketPolicy mc bucketName)) (\<lambda>current. ret (current = pol))"

definition bucketTagsLatest :: "('w, 't, 'n) s3_client \<Rightarrow> string \<Rightarrow> (string, string) fmap \<Rightarrow> ('w, bool) ctl" where [ctl_defs]:
  "bucketTagsLatest mc bucketName desiredTags =
     if_err (call (GetBucketTagging mc bucketName))
       (\<lambda>err. if error_code err = ''NoSuchTagSet'' then ret (desiredTags = fmempty) else fail err)
       (\<lambda>current. case current of
          None \<Rightarrow> ret (desiredTags = fmempty)
        | Some t \<Rightarrow> ret (TagsToMap mc t = desiredTags))"

definition observeBucket :: "('w, 't, 'n) s3_client \<Rightarrow> bucket \<Rightarrow> string \<Rightarrow> bool \<Rightarrow> ('w, observation) ctl" where [ctl_defs]:
  "observeBucket mc b bucketName exists =
     (if get_annotation (b_meta b) lockAnnotation \<noteq> None \<and> exists then
        seq (put_cr (MBucket (b\<lparr>b_status := (b_status b)\<lparr>bs_BucketName := bucketName,
               bs_Conditions := bs_Conditions (b_status b) @ [XpAvailable]\<rparr>\<rparr>)))
        (check (case bp_Policy (b_params b) of
                  None \<Rightarrow> ret True
                | Some pol \<Rightarrow>
                    if_err (bucketPolicyLatest mc bucketName pol)
                      (\<lambda>err. fail (ErrWrap ''cannot determine whether a bucket policy exists'' [] err))
                      ret)
          (\<lambda>isLatest.
             check (case bp_Tags (b_params b) of
                      None \<Rightarrow> ret isLatest
                    | Some tg \<Rightarrow>
                        if isLatest then
                          if_err (bucketTagsLatest mc bucketName tg)
                            (\<lambda>err. fail (ErrWrap ''cannot determine whether bucket tags are up to date'' [] err))
                            ret
                        else ret isLatest)
               (\<lambda>isLatest. ret \<lparr>ResourceExists = True, ResourceUpToDate = isLatest\<rparr>)))
      else if exists then fail (ErrFmt ''bucket already exists, try changing bucket name: %s'' [bucketName])
      else ret NoObservation)"

definition Observe_bucket :: "('w, 't, 'n) s3_client \<Rightarrow> ('w, observation) ctl" where [ctl_defs]:
  "Observe_bucket mc = as_bucket (\<lambda>b.
     let bucketName = GetBucketName b in
     if_err (bucketExists mc bucketName)
       (\<lambda>err. if error_status err = 403
              then fail (ErrWrap ''permission denied, please check the provider-config'' [] err)
              else if error_status err = 301
              then fail (ErrWrap ''mismatching endpointURL and zone, or bucket exists already in a different region, try changing bucket name'' [] err)
              else fail (ErrWrap ''cannot determine whether bucket exists'' [] err))
       (\<lambda>exists. observeBucket mc b bucketName exists))"

subsection \<open>Create\<close>

definition createS3Bucket :: "('w, 't, 'n) s3_client \<Rightarrow> bucket \<Rightarrow> ('w, unit) ctl" where [ctl_defs]:
  "createS3Bucket mc b =
     (let bucketName = GetBucketName b in
      if_err (call (MakeBucket mc bucketName (bp_Region (b_params b))))
        (\<lambda>err. if_err (call (BucketExists mc bucketName))
           (\<lambda>_. fail err)
           (\<lambda>exists. if exists then ret () else fail err))
        (\<lambda>_. ret ()))"

definition setLock_bucket :: "bucket \<Rightarrow> bucket" where
  "setLock_bucket b =
     (let a = (case Annotations (b_meta b) of None \<Rightarrow> Map.empty | Some a \<Rightarrow> a) in
      b\<lparr>b_meta := (b_meta b)\<lparr>Annotations := Some (a(lockAnnotation \<mapsto> ''claimed''))\<rparr>\<rparr>)"

definition emitCreationEvent_bucket :: "('w, unit) ctl" where [simp, ctl_defs]:
  "emitCreationEvent_bucket = emit ''Created'' ''Bucket successfully created''"

definition Create_bucket :: "('w, 't, 'n) s3_client \<Rightarrow> ('w, creation) ctl" where [ctl_defs]:
  "Create_bucket mc = as_bucket (\<lambda>b.
     seq (createS3Bucket mc b)
     (seq (case bp_Policy (b_params b) of
             None \<Rightarrow> ret ()
           | Some pol \<Rightarrow> call (SetBucketPolicy mc (GetBucketName b) pol))
     (seq (case bp_Tags (b_params b) of
             None \<Rightarrow> ret ()
           | Some tg \<Rightarrow>
               (case NewTags mc tg False of
                  Inl err \<Rightarrow> fail (ErrApi err)
                | Inr bucketTags \<Rightarrow> call (SetBucketTagging mc (GetBucketName b) bucketTags)))
     (seq (put_cr (MBucket (setLock_bucket b)))
     (seq emitCreationEvent_bucket
          (ret None))))))"

subsection \<open>Update\<close>

definition Update_bucket :: "('w, 't, 'n) s3_client \<Rightarrow> ('w, unit) ctl" where [ctl_defs]:
  "Update_bucket mc = as_bucket (\<lambda>b.
     seq (case bp_Policy (b_params b) of
            None \<Rightarrow> ret ()
          | Some pol \<Rightarrow> call (SetBucketPolicy mc (GetBucketName b) pol))
     (case bp_Tags (b_params b) of
        None \<Rightarrow> ret ()
      | Some tg \<Rightarrow>
          if tg = fmempty then call (RemoveBucketTagging mc (GetBucketName b))
          else (case NewTags mc tg False of
                  Inl err \<Rightarrow> fail (ErrApi err)
                | Inr bucketTags \<Rightarrow> call (SetBucketTagging mc (GetBucketName b) bucketTags))))"

subsection \<open>Delete\<close>

definition hasDeleteAllPolicy :: "bucket \<Rightarrow> bool" where
  "hasDeleteAllPolicy b \<longleftrightarrow> bp_BucketDeletionPolicy (b_params b) = DeleteAll"

definition isBucketLockEnabled :: "('w, 't, 'n) s3_client \<Rightarrow> string \<Rightarrow> ('w, bool) ctl" where [ctl_defs]:
  "isBucketLockEnabled mc bucketName =
     if_err (call (GetObjectLockConfig mc bucketName))
       (\<lambda>err. if error_text err = ''Object Lock configuration does not exist for this bucket''
              then ret False else fail err)
       (\<lambda>mode. ret (mode \<noteq> None))"

text \<open>
  \<^verbatim>\<open>deleteAllObjects\<close> lists in a goroutine that hands each listed object over a channel, and
  skips the entries that carry an error; the main goroutine reads the lock configuration and
  then has the S3 client remove what comes out of the channel. \<open>listed_first\<close> is the
  schedule: whether the listing or the lock query reaches the server first. The channel
  itself is the state machine of theory \<open>Object_Pipeline\<close>; what comes out of it is the
  listed objects without an error, in order.
\<close>

definition objects_sent :: "object_info list \<Rightarrow> object_info list" where
  "objects_sent os = filter (\<lambda>ob. oi_Err ob = None) os"

definition list_objects :: "('w, 't, 'n) s3_client \<Rightarrow> string \<Rightarrow> ('w, object_info list) ctl" where [prim_defs]:
  "list_objects mc n s = (case ListObjects mc n (world s) of (os, w) \<Rightarrow> (Ok os, s\<lparr>world := w\<rparr>))"

definition remove_objects :: "('w, 't, 'n) s3_client \<Rightarrow> string \<Rightarrow> object_info list \<Rightarrow> bool \<Rightarrow> ('w, remove_error list) ctl" where [prim_defs]:
  "remove_objects mc n os bypass s =
     (case RemoveObjects mc n os bypass (world s) of (es, w) \<Rightarrow> (Ok es, s\<lparr>world := w\<rparr>))"

definition lock_or_log :: "('w, 't, 'n) s3_client \<Rightarrow> string \<Rightarrow> ('w, bool) ctl" where [ctl_defs]:
  "lock_or_log mc n =
     if_err (isBucketLockEnabled mc n)
       (\<lambda>_. seq (log_line ''not able to determine ObjectLock status for bucket'') (ret False))
       ret"

definition deleteAllObjects :: "bool \<Rightarrow> ('w, 't, 'n) s3_client \<Rightarrow> bucket \<Rightarrow> ('w, unit) ctl" where [ctl_defs]:
  "deleteAllObjects listed_first mc b =
     (let bucketName = bs_BucketName (b_status b) in
      check (if listed_first
             then check (list_objects mc bucketName) (\<lambda>os.
                  check (lock_or_log mc bucketName) (\<lambda>bypassGovernance. ret (os, bypassGovernance)))
             else check (lock_or_log mc bucketName) (\<lambda>bypassGovernance.
                  check (list_objects mc bucketName) (\<lambda>os. ret (os, bypassGovernance))))
        (\<lambda>(os, bypassGovernance).
           check (remove_objects mc bucketName (objects_sent os) bypassGovernance)
             (\<lambda>es. case es of
                [] \<Rightarrow> ret ()
              | obj # _ \<Rightarrow> fail (ErrWrap ''object %q cannot be removed'' [re_ObjectName obj] (ErrApi (re_Err obj))))))"

definition deleteS3Bucket :: "('w, 't, 'n) s3_client \<Rightarrow> bucket \<Rightarrow> ('w, unit) ctl" where [ctl_defs]:
  "deleteS3Bucket mc b = call (RemoveBucket mc (bs_BucketName (b_status b)))"

definition emitDeletionEvent_bucket :: "('w, unit) ctl" where [simp, ctl_defs]:
  "emitDeletionEvent_bucket = emit ''Deleted'' ''Bucket deleted''"

definition Delete_bucket :: "bool \<Rightarrow> ('w, 't, 'n) s3_client \<Rightarrow> ('w, unit) ctl" where [ctl_defs]:
  "Delete_bucket listed_first mc =
     seq (log_line ''deleting resource'')
     (as_bucket (\<lambda>b.
        seq (if hasDeleteAllPolicy b then deleteAllObjects listed_first mc b else ret ())
        (seq (deleteS3Bucket mc b)
             emitDeletionEvent_bucket)))"

definition Disconnect_bucket :: "('w, unit) ctl" where [simp, ctl_defs]:
  "Disconnect_bucket = ret ()"

definition bucketClient :: "bool \<Rightarrow> ('w, 't, 'n) s3_client \<Rightarrow> 'w external_client" where
  "bucketClient listed_first mc = \<lparr>Observe = Observe_bucket mc, Create = Create_bucket mc,
     Update = Update_bucket mc, Delete = Delete_bucket listed_first mc, Disconnect = Disconnect_bucket\<rparr>"

section \<open>The contract with the reconciler\<close>

lemma keeps_as_bucket [keeps_intros]:
  "(\<And>b s. I s \<Longrightarrow> cr s = MBucket b \<Longrightarrow> keeps I (k b)) \<Longrightarrow> keeps I (as_bucket k)"
  by (auto simp: keeps_def as_bucket_def split: managed.split)

lemma keeps_list_objects [keeps_intros]:
  "(\<And>s w. I s \<Longrightarrow> I (s\<lparr>world := w\<rparr>)) \<Longrightarrow> keeps I (list_objects mc n)"
  by (simp add: keeps_def list_objects_def split: prod.split)

lemma keeps_remove_objects [keeps_intros]:
  "(\<And>s w. I s \<Longrightarrow> I (s\<lparr>world := w\<rparr>)) \<Longrightarrow> keeps I (remove_objects mc n os g)"
  by (simp add: keeps_def remove_objects_def split: prod.split)

definition is_bucket :: "managed \<Rightarrow> bool" where
  "is_bucket m \<longleftrightarrow> (case m of MBucket _ \<Rightarrow> True | _ \<Rightarrow> False)"

definition bucket_claimed :: "managed \<Rightarrow> bool" where
  "bucket_claimed m \<longleftrightarrow>
     (case m of MBucket b \<Rightarrow> get_annotation (b_meta b) lockAnnotation \<noteq> None | _ \<Rightarrow> False)"

lemma as_bucket_foreign:
  "\<not> is_bucket (cr s) \<Longrightarrow> as_bucket k s = (Err errNotBucket, s)"
  by (simp add: is_bucket_def as_bucket_def split: managed.splits)

lemma same_desired_bucket:
  "same_desired m (MBucket b) \<Longrightarrow> same_desired m (MBucket (b\<lparr>b_status := st\<rparr>))"
  "same_desired m (MBucket b) \<Longrightarrow> same_desired m (MBucket (setLock_bucket b))"
  by (cases m; auto simp: setLock_bucket_def Let_def same_identity_def)+

lemma bucket_keeps_desires:
  "keeps (desires m) (Observe_bucket mc)" "keeps (desires m) (Create_bucket mc)"
  "keeps (desires m) (Update_bucket mc)" "keeps (desires m) (Delete_bucket l mc)"
  unfolding ctl_defs
  by (intro keeps_intros; auto simp: same_desired_bucket desires_def)+

lemma bucket_observe_no_event: "keeps (has_events es) (Observe_bucket mc)"
  unfolding ctl_defs
  by (intro keeps_intros; simp)+

lemma bucket_observe_no_event': "events (snd (Observe_bucket mc s)) = events s"
  by (rule keeps_has_events) (rule bucket_observe_no_event)

lemma bucket_foreign:
  assumes "\<not> is_bucket (cr s)"
  shows "Observe_bucket mc s = (Err errNotBucket, s)" "Create_bucket mc s = (Err errNotBucket, s)"
    "Update_bucket mc s = (Err errNotBucket, s)"
    "Delete_bucket l mc s = (Err errNotBucket, s\<lparr>logs := logs s @ [''deleting resource'']\<rparr>)"
  using assms
  by (simp_all add: Observe_bucket_def Create_bucket_def Update_bucket_def Delete_bucket_def
      as_bucket_foreign seq_def check_def if_err_def log_line_def)

lemma returns_as_bucket [returns_intros]: "(\<And>b. returns P (k b)) \<Longrightarrow> returns P (as_bucket k)"
  by (auto simp: returns_def as_bucket_def split: managed.splits)

lemma bucket_observe_coherent: "returns coherent (Observe_bucket mc)"
  unfolding ctl_defs by (intro returns_intros; simp)

lemma bucket_observe_unclaimed:
  "\<not> bucket_claimed (cr s) \<Longrightarrow> fst (Observe_bucket mc s) = Ok x \<Longrightarrow> \<not> ResourceExists x"
  by (auto simp: ctl_defs prim_defs fst_Ok_iff Ok_iffs Let_def NoObservation_def bucket_claimed_def
      split: managed.splits if_splits option.splits)

lemma bucket_claimed_updates [simp]:
  "bucket_claimed (MBucket (setLock_bucket b))"
  "bucket_claimed (MBucket (b\<lparr>b_status := st\<rparr>)) = bucket_claimed (MBucket b)"
  by (simp_all add: bucket_claimed_def setLock_bucket_def get_annotation_def Let_def split: option.splits)

lemma bucket_observe_no_claim: "keeps (\<lambda>s. \<not> bucket_claimed (cr s)) (Observe_bucket mc)"
  unfolding ctl_defs by (intro keeps_intros; auto)

lemma bucket_create_claims:
  "Create_bucket mc s = (Ok c, t) \<Longrightarrow> bucket_claimed (cr t)"
  by (auto simp: Create_bucket_def as_bucket_def seq_Ok_iff split: managed.splits)

text \<open>A create that fails stops before the lock is set.\<close>

lemma failing_as_bucket:
  "(\<And>b. failing_keeps I (k b)) \<Longrightarrow> failing_keeps I (as_bucket k)"
  by (auto simp: failing_keeps_def as_bucket_def split: managed.splits)

lemma bucket_create_stops:
  "failing_keeps (\<lambda>s. \<not> bucket_claimed (cr s)) (Create_bucket mc)"
  unfolding ctl_defs
  by (rule failing_as_bucket, (rule failing_keeps_seq, (intro keeps_intros; simp; fail))+,
      intro failing_keeps_succeeds succeeds_seq succeeds_intros)

interpretation bucket: marking_external "bucketClient l mc" is_bucket errNotBucket bucket_claimed
  for l :: bool and mc :: "('w, 't, 'n) s3_client"
proof (unfold_locales, goal_cases)
  case 10
  then show ?case using bucket_observe_no_event' by (auto simp: bucketClient_def)
next
  case 11
  then show ?case using coherentD [OF bucket_observe_coherent] by (auto simp: bucketClient_def)
next
  case 12
  then show ?case using bucket_observe_unclaimed by (auto simp: bucketClient_def)
next
  case (13 s)
  with keepsD [OF bucket_observe_no_claim] show ?case by (simp add: bucketClient_def)
next
  case 14
  then show ?case using bucket_create_claims by (auto simp: bucketClient_def)
next
  case (15 s r t)
  then show ?case
    by (intro failing_keepsD [OF bucket_create_stops, of mc s r t]) (simp_all add: bucketClient_def)
qed (simp_all add: bucketClient_def bucket_foreign only_logged_def ret_def keeps_desires bucket_keeps_desires)

section \<open>The webhook\<close>

definition ValidateCreate_bucket :: "bucket \<Rightarrow> ('w, unit) go" where [ctl_defs]:
  "ValidateCreate_bucket b =
     (if \<not> has_provider_config (b_spec b) then fail (ErrNew ''.spec.providerConfigRef.name is required'')
      else ret ())"

definition ValidateUpdate_bucket :: "bucket \<Rightarrow> bucket \<Rightarrow> ('w, unit) go" where [ctl_defs]:
  "ValidateUpdate_bucket oldBucket newBucket =
     (if bs_BucketName (b_status oldBucket) \<noteq> [] \<and>
         GetBucketName newBucket \<noteq> bs_BucketName (b_status oldBucket)
      then fail (ErrInvalid [''spec'', ''forProvider'', ''bucketName''] (VStr (bp_BucketName (b_params newBucket)))
        (Detail ''Changing the bucket name is not allowed after creation''))
      else if bs_BucketName (b_status oldBucket) \<noteq> [] \<and>
         bp_Region (b_params newBucket) \<noteq> bp_Region (b_params oldBucket)
      then fail (ErrInvalid [''spec'', ''forProvider'', ''region''] (VStr (bp_Region (b_params newBucket)))
        (Detail ''Changing the region is not allowed after creation''))
      else if \<not> has_provider_config (b_spec newBucket)
      then fail (ErrInvalid [''spec'', ''providerConfigRef'', ''name''] (VStr ''null'')
        (Detail ''Provider config is required''))
      else ret ())"

definition ValidateDelete_bucket :: "bucket \<Rightarrow> ('w, unit) go" where [ctl_defs]:
  "ValidateDelete_bucket b = ret ()"

definition bucketValidator :: "('w, bucket) validator" where
  "bucketValidator = \<lparr>ValidateCreate = ValidateCreate_bucket, ValidateUpdate = ValidateUpdate_bucket,
     ValidateDelete = ValidateDelete_bucket\<rparr>"

lemma ValidateUpdate_bucket_Ok_iff:
  "ValidateUpdate_bucket a b w = (Ok (), w') \<longleftrightarrow>
     w' = w \<and> has_provider_config (b_spec b) \<and>
     (bs_BucketName (b_status a) = [] \<or>
      GetBucketName b = bs_BucketName (b_status a) \<and> bp_Region (b_params b) = bp_Region (b_params a))"
  by (auto simp: ValidateUpdate_bucket_def)

interpretation bucket_webhook: admission "bucketValidator :: ('w, bucket) validator" b_spec "\<lambda>_. False"
  by unfold_locales
    (auto simp: bucketValidator_def ValidateCreate_bucket_def ValidateUpdate_bucket_Ok_iff
      ValidateDelete_bucket_def ret_def split: if_splits)

section \<open>What the controller relies on from the S3 server\<close>

text \<open>
  A view of the server: for each bucket that exists its policy text, tags and object keys. The
  laws say what a call that succeeds means, and that reads change nothing; a call may fail at
  any time.
\<close>

record bucket_view =
  v_policy :: string
  v_tags :: "(string, string) fmap"
  v_objects :: "string list"

type_synonym 'w server_view = "'w \<Rightarrow> string \<Rightarrow> bucket_view option"

definition s3_read_laws :: "('w, 't, 'n) s3_client \<Rightarrow> 'w server_view \<Rightarrow> bool" where
  "s3_read_laws mc view \<longleftrightarrow> (\<forall>n.
     reads view (BucketExists mc n) (\<lambda>v r. case r of Inl _ \<Rightarrow> True | Inr x \<Rightarrow> x = (v n \<noteq> None)) \<and>
     reads view (GetBucketPolicy mc n)
       (\<lambda>v r. case (r, v n) of (Inr x, Some b) \<Rightarrow> x = v_policy b | _ \<Rightarrow> True) \<and>
     reads view (GetBucketTagging mc n)
       (\<lambda>v r. case v n of
          None \<Rightarrow> True
        | Some b \<Rightarrow>
            (case r of
               Inl e \<Rightarrow> err_code e = ''NoSuchTagSet'' \<longrightarrow> v_tags b = fmempty
             | Inr None \<Rightarrow> v_tags b = fmempty
             | Inr (Some t) \<Rightarrow> TagsToMap mc t = v_tags b)))"

definition s3_write_laws :: "('w, 't, 'n) s3_client \<Rightarrow> 'w server_view \<Rightarrow> bool" where
  "s3_write_laws mc view \<longleftrightarrow>
     (\<forall>n.
        (\<forall>g. effects view (MakeBucket mc n g) (\<lambda>v _ v'. v' n \<noteq> None)) \<and>
        (\<forall>p. effects view (SetBucketPolicy mc n p)
           (\<lambda>v _ v'. \<exists>b. v n = Some b \<and> v' n = Some (b\<lparr>v_policy := p\<rparr>))) \<and>
        (\<forall>t. effects view (SetBucketTagging mc n t)
           (\<lambda>v _ v'. \<exists>b. v n = Some b \<and> v' n = Some (b\<lparr>v_tags := TagsToMap mc t\<rparr>))) \<and>
        effects view (RemoveBucketTagging mc n)
           (\<lambda>v _ v'. \<exists>b. v n = Some b \<and> v' n = Some (b\<lparr>v_tags := fmempty\<rparr>))) \<and>
     (\<forall>m t. NewTags mc m False = Inr t \<longrightarrow> TagsToMap mc t = m)"

text \<open>The server removes only an empty bucket, and refuses without effect otherwise.\<close>

definition s3_remove_laws :: "('w, 't, 'n) s3_client \<Rightarrow> 'w server_view \<Rightarrow> bool" where
  "s3_remove_laws mc view \<longleftrightarrow> (\<forall>n w.
     (case RemoveBucket mc n w of
        (Inl _, w') \<Rightarrow> view w' = view w
      | (Inr _, w') \<Rightarrow> (\<exists>b. view w n = Some b \<and> v_objects b = []) \<and> view w' = (view w)(n := None)))"

lemma s3_readsD:
  assumes "s3_read_laws mc view"
  shows "BucketExists mc n w = (r, w') \<Longrightarrow>
      view w' = view w \<and> (case r of Inl _ \<Rightarrow> True | Inr x \<Rightarrow> x = (view w n \<noteq> None))"
    and "GetBucketPolicy mc n w = (q, w') \<Longrightarrow>
      view w' = view w \<and> (case (q, view w n) of (Inr x, Some b) \<Rightarrow> x = v_policy b | _ \<Rightarrow> True)"
    and "GetBucketTagging mc n w = (g, w') \<Longrightarrow>
      view w' = view w \<and> (case view w n of None \<Rightarrow> True | Some b \<Rightarrow>
        (case g of
           Inl e \<Rightarrow> err_code e = ''NoSuchTagSet'' \<longrightarrow> v_tags b = fmempty
         | Inr None \<Rightarrow> v_tags b = fmempty
         | Inr (Some t) \<Rightarrow> TagsToMap mc t = v_tags b))"
proof -
  note l = spec [OF assms [unfolded s3_read_laws_def], of n]
  show "BucketExists mc n w = (r, w') \<Longrightarrow>
      view w' = view w \<and> (case r of Inl _ \<Rightarrow> True | Inr x \<Rightarrow> x = (view w n \<noteq> None))"
    by (rule readsD [OF conjunct1 [OF l]])
  show "GetBucketPolicy mc n w = (q, w') \<Longrightarrow>
      view w' = view w \<and> (case (q, view w n) of (Inr x, Some b) \<Rightarrow> x = v_policy b | _ \<Rightarrow> True)"
    by (rule readsD [OF conjunct1 [OF conjunct2 [OF l]]])
  show "GetBucketTagging mc n w = (g, w') \<Longrightarrow>
      view w' = view w \<and> (case view w n of None \<Rightarrow> True | Some b \<Rightarrow>
        (case g of
           Inl e \<Rightarrow> err_code e = ''NoSuchTagSet'' \<longrightarrow> v_tags b = fmempty
         | Inr None \<Rightarrow> v_tags b = fmempty
         | Inr (Some t) \<Rightarrow> TagsToMap mc t = v_tags b))"
    by (rule readsD [OF conjunct2 [OF conjunct2 [OF l]]])
qed

lemma s3_writesD:
  assumes "s3_write_laws mc view"
  shows "MakeBucket mc n g w = (Inr u, w') \<Longrightarrow> view w' n \<noteq> None"
    and "SetBucketPolicy mc n p w = (Inr u, w') \<Longrightarrow>
      \<exists>b. view w n = Some b \<and> view w' n = Some (b\<lparr>v_policy := p\<rparr>)"
    and "SetBucketTagging mc n t w = (Inr u, w') \<Longrightarrow>
      \<exists>b. view w n = Some b \<and> view w' n = Some (b\<lparr>v_tags := TagsToMap mc t\<rparr>)"
    and "RemoveBucketTagging mc n w = (Inr u, w') \<Longrightarrow>
      \<exists>b. view w n = Some b \<and> view w' n = Some (b\<lparr>v_tags := fmempty\<rparr>)"
    and "NewTags mc m False = Inr t' \<Longrightarrow> TagsToMap mc t' = m"
proof -
  note l = spec [OF conjunct1 [OF assms [unfolded s3_write_laws_def]], of n]
  show "MakeBucket mc n g w = (Inr u, w') \<Longrightarrow> view w' n \<noteq> None"
    by (rule effectsD [OF spec [OF conjunct1 [OF l]]])
  show "SetBucketPolicy mc n p w = (Inr u, w') \<Longrightarrow>
      \<exists>b. view w n = Some b \<and> view w' n = Some (b\<lparr>v_policy := p\<rparr>)"
    by (rule effectsD [OF spec [OF conjunct1 [OF conjunct2 [OF l]]]])
  show "SetBucketTagging mc n t w = (Inr u, w') \<Longrightarrow>
      \<exists>b. view w n = Some b \<and> view w' n = Some (b\<lparr>v_tags := TagsToMap mc t\<rparr>)"
    by (rule effectsD [OF spec [OF conjunct1 [OF conjunct2 [OF conjunct2 [OF l]]]]])
  show "RemoveBucketTagging mc n w = (Inr u, w') \<Longrightarrow>
      \<exists>b. view w n = Some b \<and> view w' n = Some (b\<lparr>v_tags := fmempty\<rparr>)"
    by (rule effectsD [OF conjunct2 [OF conjunct2 [OF conjunct2 [OF l]]]])
  show "NewTags mc m False = Inr t' \<Longrightarrow> TagsToMap mc t' = m"
    using conjunct2 [OF assms [unfolded s3_write_laws_def]] by blast
qed

lemma s3_removesD:
  assumes "s3_remove_laws mc view"
  shows "RemoveBucket mc n w = (Inl e, w') \<Longrightarrow> view w' = view w"
    and "RemoveBucket mc n w = (Inr u, w') \<Longrightarrow>
      (\<exists>b. view w n = Some b \<and> v_objects b = []) \<and> view w' = (view w)(n := None)"
  using spec [OF spec [OF assms [unfolded s3_remove_laws_def], of n], of w] by auto

text \<open>The abstract specification: what of the desired state the server must show.\<close>

definition bucket_in_sync :: "bucket_params \<Rightarrow> bucket_view \<Rightarrow> bool" where
  "bucket_in_sync p v \<longleftrightarrow>
     (case bp_Policy p of None \<Rightarrow> True | Some pol \<Rightarrow> v_policy v = pol) \<and>
     (case bp_Tags p of None \<Rightarrow> True | Some tg \<Rightarrow> v_tags v = tg)"

end
