(* ===== verification/Mem_S3.thy ===== *)
theory Mem_S3
  imports Bucket
begin

text \<open>
  An in-memory S3 store, on which the laws of theory \<open>Bucket\<close> hold. It stands for the server
  in the witnesses only: nothing of the provider is modelled here.
\<close>

type_synonym mem_s3 = "string \<rightharpoonup> bucket_view"

definition no_such_bucket :: api_error where
  "no_such_bucket = \<lparr>err_text = ''The specified bucket does not exist'', err_code = ''NoSuchBucket'', err_status = 404\<rparr>"

definition bucket_not_empty :: api_error where
  "bucket_not_empty = \<lparr>err_text = ''The bucket you tried to delete is not empty'', err_code = ''BucketNotEmpty'', err_status = 409\<rparr>"

definition on_bucket :: "string \<Rightarrow> (bucket_view \<Rightarrow> bucket_view) \<Rightarrow> (mem_s3, unit) api" where
  "on_bucket n f w = (case w n of None \<Rightarrow> (Inl no_such_bucket, w) | Some v \<Rightarrow> (Inr (), w(n \<mapsto> f v)))"

definition read_bucket :: "string \<Rightarrow> (bucket_view \<Rightarrow> 'a) \<Rightarrow> (mem_s3, 'a) api" where
  "read_bucket n f w = (case w n of None \<Rightarrow> (Inl no_such_bucket, w) | Some v \<Rightarrow> (Inr (f v), w))"

definition new_bucket :: bucket_view where
  "new_bucket = \<lparr>v_policy = [], v_tags = fmempty, v_objects = []\<rparr>"

definition mem_client :: "(mem_s3, (string, string) fmap, unit) s3_client" where
  "mem_client = \<lparr>
     MakeBucket = (\<lambda>n g w. (case w n of
         None \<Rightarrow> (Inr (), w(n \<mapsto> new_bucket))
       | Some _ \<Rightarrow> (Inl \<lparr>err_text = ''exists'', err_code = ''BucketAlreadyOwnedByYou'', err_status = 409\<rparr>, w))),
     BucketExists = (\<lambda>n w. (Inr (w n \<noteq> None), w)),
     RemoveBucket = (\<lambda>n w. (case w n of
         None \<Rightarrow> (Inl no_such_bucket, w)
       | Some v \<Rightarrow> if v_objects v = [] then (Inr (), w(n := None)) else (Inl bucket_not_empty, w))),
     GetBucketPolicy = (\<lambda>n. read_bucket n v_policy),
     SetBucketPolicy = (\<lambda>n p. on_bucket n (v_policy_update (\<lambda>_. p))),
     GetBucketTagging = (\<lambda>n. read_bucket n (\<lambda>v. Some (v_tags v))),
     SetBucketTagging = (\<lambda>n t. on_bucket n (v_tags_update (\<lambda>_. t))),
     RemoveBucketTagging = (\<lambda>n. on_bucket n (v_tags_update (\<lambda>_. fmempty))),
     NewTags = (\<lambda>m _. Inr m),
     TagsToMap = (\<lambda>m. m),
     ListObjects = (\<lambda>n w. (case w n of
         None \<Rightarrow> ([], w)
       | Some v \<Rightarrow> (map (\<lambda>k. \<lparr>oi_Key = k, oi_Err = None\<rparr>) (v_objects v), w))),
     RemoveObjects = (\<lambda>n os g w. (case w n of
         None \<Rightarrow> ([], w)
       | Some v \<Rightarrow> ([], w(n \<mapsto> v\<lparr>v_objects := filter (\<lambda>k. k \<notin> oi_Key ` set os) (v_objects v)\<rparr>)))),
     GetObjectLockConfig = (\<lambda>n w. (Inr None, w)),
     GetBucketNotification = (\<lambda>n w. (Inr \<lparr>LambdaConfigs = [], OtherConfigs = ()\<rparr>, w)),
     SetBucketNotification = (\<lambda>n c w. (Inr (), w))\<rparr>"

definition mem_view :: "mem_s3 server_view" where
  "mem_view w = w"

lemmas mem_defs = mem_client_def mem_view_def on_bucket_def read_bucket_def new_bucket_def

lemma mem_read_laws: "s3_read_laws mem_client mem_view"
  by (auto simp: s3_read_laws_def reads_def mem_defs no_such_bucket_def split: option.splits)

lemma mem_write_laws: "s3_write_laws mem_client mem_view"
  by (auto simp: s3_write_laws_def effects_def mem_defs split: option.splits)

lemma mem_remove_laws: "s3_remove_laws mem_client mem_view"
  by (auto simp: s3_remove_laws_def mem_defs split: option.splits if_splits)

text \<open>A bucket resource and states over it, for the witnesses.\<close>

definition demo_bucket :: bucket where
  "demo_bucket = \<lparr>
     b_meta = \<lparr>Name = ''photos'', Namespace = ''prod'', Annotations = None, DeletionTimestamp = None\<rparr>,
     b_spec = \<lparr>ManagementPolicies = None, ProviderConfigReference = Some ''default'', WriteConnectionSecretToReference = None\<rparr>,
     b_params = \<lparr>bp_BucketName = [], bp_Region = ''us-east-1'', bp_BucketDeletionPolicy = DeleteIfEmpty,
       bp_Policy = Some ''p1'', bp_Tags = Some (fmupd ''team'' ''web'' fmempty)\<rparr>,
     b_status = \<lparr>bs_Conditions = [], bs_Endpoint = [], bs_EndpointURL = [], bs_BucketName = []\<rparr>\<rparr>"

definition demo_state :: "'w \<Rightarrow> managed \<Rightarrow> 'w cstate" where
  "demo_state w m = \<lparr>world = w, cr = m, events = [], logs = []\<rparr>"

lemma demo_state_simps [simp]:
  "world (demo_state w m) = w" "cr (demo_state w m) = m" "events (demo_state w m) = []" "logs (demo_state w m) = []"
  by (simp_all add: demo_state_def)

lemma GetBucketName_demo [simp]: "GetBucketName demo_bucket = ''photos''"
  by (simp add: GetBucketName_def demo_bucket_def)

end
