(* ===== verification/Bucket_Props.thy ===== *)
theory Bucket_Props
  imports Bucket Mem_S3
begin

text \<open>
  The properties of the bucket controller: what Observe reports against the server's view,
  that a create or update that succeeds brings the server in sync, that an unmarked bucket is
  never adopted, what a deletion removes, and that the admission checks pin the bucket the
  controller works on. Witnesses run on the in-memory store of theory \<open>Mem_S3\<close>.
\<close>

section \<open>Observe\<close>

lemma tags_latest_exact:
  assumes laws: "s3_read_laws mc view" and v: "view (world s) n = Some v"
    and ok: "bucketTagsLatest mc n tg s = (Ok u, t)"
  shows "u = (v_tags v = tg) \<and> view (world t) = view (world s) \<and> cr t = cr s"
proof (cases "\<exists>x w. call (GetBucketTagging mc n) s = (Ok x, w)")
  case True
  then obtain x w where x: "GetBucketTagging mc n (world s) = (Inr x, w)"
    by (auto simp: call_Ok_iff)
  with ok have "(case x of None \<Rightarrow> ret (tg = fmempty) | Some y \<Rightarrow> ret (TagsToMap mc y = tg)) (s\<lparr>world := w\<rparr>) = (Ok u, t)"
    by (auto simp: bucketTagsLatest_def if_err_Ok_iff call_Ok_iff call_Err_iff)
  with v s3_readsD(3) [OF laws x] show ?thesis by (cases x) auto
next
  case False
  with ok obtain e w where "GetBucketTagging mc n (world s) = (Inl e, w)"
    and "(if err_code e = ''NoSuchTagSet'' then ret (tg = fmempty) else fail (ErrApi e)) (s\<lparr>world := w\<rparr>) = (Ok u, t)"
    by (auto simp: bucketTagsLatest_def if_err_Ok_iff call_Err_iff)
  with v s3_readsD(3) [OF laws, of n "world s" "Inl e" w] show ?thesis by (auto split: if_splits)
qed

lemma policy_latest_exact:
  assumes "s3_read_laws mc view" and "view (world s) n = Some v"
    and "bucketPolicyLatest mc n p s = (Ok u, t)"
  shows "u = (v_policy v = p) \<and> view (world t) = view (world s) \<and> cr t = cr s"
  using assms(2,3) unfolding bucketPolicyLatest_def
  by (auto simp: check_Ok_iff call_Ok_iff dest!: s3_readsD(2) [OF assms(1)])

lemma policy_segment:
  assumes "s3_read_laws mc view" and "view (world s) n = Some v"
    and "(case q of None \<Rightarrow> ret True
          | Some pol \<Rightarrow> if_err (bucketPolicyLatest mc n pol) (\<lambda>err. fail (f err)) ret) s = (Ok u, t)"
  shows "u = (case q of None \<Rightarrow> True | Some pol \<Rightarrow> v_policy v = pol) \<and> view (world t) = view (world s) \<and> cr t = cr s"
  using assms(3) policy_latest_exact [OF assms(1,2)]
  by (cases q) (auto simp: if_err_Ok_iff)

lemma tags_segment:
  assumes "s3_read_laws mc view" and "view (world s) n = Some v"
    and "(case q of None \<Rightarrow> ret l
          | Some tg \<Rightarrow> if l then if_err (bucketTagsLatest mc n tg) (\<lambda>err. fail (f err)) ret else ret l) s = (Ok u, t)"
  shows "u = (l \<and> (case q of None \<Rightarrow> True | Some tg \<Rightarrow> v_tags v = tg)) \<and> view (world t) = view (world s) \<and> cr t = cr s"
  using assms(3) tags_latest_exact [OF assms(1,2)]
  by (cases q) (auto simp: if_err_Ok_iff split: if_splits)

lemma observeBucket_exact:
  assumes laws: "s3_read_laws mc view" and v: "view (world s) n = Some v"
    and claimed: "get_annotation (b_meta b) lockAnnotation \<noteq> None"
    and ok: "observeBucket mc b n True s = (Ok x, t)"
  shows "x = \<lparr>ResourceExists = True, ResourceUpToDate = bucket_in_sync (b_params b) v\<rparr> \<and>
    view (world t) = view (world s) \<and>
    cr t = MBucket (b\<lparr>b_status := (b_status b)\<lparr>bs_BucketName := n,
      bs_Conditions := bs_Conditions (b_status b) @ [XpAvailable]\<rparr>\<rparr>)"
proof -
  let ?c = "MBucket (b\<lparr>b_status := (b_status b)\<lparr>bs_BucketName := n,
      bs_Conditions := bs_Conditions (b_status b) @ [XpAvailable]\<rparr>\<rparr>)"
  from ok claimed obtain l u m t' where
    l: "(case bp_Policy (b_params b) of None \<Rightarrow> ret True
         | Some pol \<Rightarrow> if_err (bucketPolicyLatest mc n pol)
             (\<lambda>err. fail (ErrWrap ''cannot determine whether a bucket policy exists'' [] err)) ret)
         (s\<lparr>cr := ?c\<rparr>) = (Ok l, u)" and
    m: "(case bp_Tags (b_params b) of None \<Rightarrow> ret l
         | Some tg \<Rightarrow> if l then if_err (bucketTagsLatest mc n tg)
             (\<lambda>err. fail (ErrWrap ''cannot determine whether bucket tags are up to date'' [] err)) ret
           else ret l) u = (Ok m, t)" and
    x: "x = \<lparr>ResourceExists = True, ResourceUpToDate = m\<rparr>"
    by (auto simp: observeBucket_def seq_Ok_iff check_Ok_iff)
  from policy_segment [OF laws _ l] v have l':
    "l = (case bp_Policy (b_params b) of None \<Rightarrow> True | Some pol \<Rightarrow> v_policy v = pol)"
    "view (world u) = view (world s)" "cr u = ?c" by simp_all
  from tags_segment [OF laws _ m] v l' x show ?thesis by (simp add: bucket_in_sync_def)
qed

lemma bucket_observe_spec:
  assumes "s3_read_laws mc view"
    and "cr s = MBucket b" and "bucket_claimed (MBucket b)"
    and "Observe_bucket mc s = (Ok x, t)"
  shows "view (world t) = view (world s) \<and>
    (case view (world s) (GetBucketName b) of
       None \<Rightarrow> x = NoObservation \<and> cr t = cr s
     | Some v \<Rightarrow> x = \<lparr>ResourceExists = True, ResourceUpToDate = bucket_in_sync (b_params b) v\<rparr> \<and>
         cr t = MBucket (b\<lparr>b_status := (b_status b)\<lparr>bs_BucketName := GetBucketName b,
           bs_Conditions := bs_Conditions (b_status b) @ [XpAvailable]\<rparr>\<rparr>))"
proof -
  from assms(3) have claimed: "get_annotation (b_meta b) lockAnnotation \<noteq> None"
    by (simp add: bucket_claimed_def)
  from assms(2,4) obtain e u where e: "call (BucketExists mc (GetBucketName b)) s = (Ok e, u)"
    and ob: "observeBucket mc b (GetBucketName b) e u = (Ok x, t)"
    by (auto simp: Observe_bucket_def as_bucket_def Let_def if_err_Ok_iff split: if_splits)
  from e assms(1) have u: "view (world u) = view (world s)" "e = (view (world s) (GetBucketName b) \<noteq> None)" "cr u = cr s"
    by (auto simp: call_Ok_iff dest!: s3_readsD(1))
  show ?thesis
  proof (cases "view (world s) (GetBucketName b)")
    case None
    with u ob show ?thesis by (auto simp: observeBucket_def)
  next
    case (Some v)
    with u ob observeBucket_exact [OF assms(1), of u "GetBucketName b" v b x t] claimed
    show ?thesis by simp
  qed
qed

lemma bucket_observe_unclaimed_spec:
  "cr s = MBucket b \<Longrightarrow> \<not> bucket_claimed (MBucket b) \<Longrightarrow> Observe_bucket mc s = (Ok x, t) \<Longrightarrow>
   x = NoObservation \<and> cr t = cr s"
  by (auto simp: Observe_bucket_def observeBucket_def as_bucket_def Let_def if_err_Ok_iff call_Ok_iff
      bucket_claimed_def split: if_splits)

text \<open>
  C10. Whenever Observe of a bucket resource that carries the lock annotation succeeds, it
  reports exactly what the S3 server holds: the bucket exists iff the server has it, and is up
  to date iff the server's policy and tags are the desired ones (a nil policy or tag map is not
  managed). Observing changes nothing on the server.
\<close>

theorem bucket_observe_exact:
  assumes "s3_read_laws mc view"
    and "cr s = MBucket b" and "bucket_claimed (MBucket b)"
    and "Observe_bucket mc s = (Ok x, t)"
  shows "view (world t) = view (world s) \<and>
    x = (case view (world s) (GetBucketName b) of
           None \<Rightarrow> NoObservation
         | Some v \<Rightarrow> \<lparr>ResourceExists = True, ResourceUpToDate = bucket_in_sync (b_params b) v\<rparr>)"
  using bucket_observe_spec [OF assms] by (auto split: option.splits)

definition locked_demo :: bucket where
  "locked_demo = setLock_bucket demo_bucket"

lemma locked_demo_simps [simp]:
  "bucket_claimed (MBucket locked_demo)" "GetBucketName locked_demo = ''photos''"
  "b_params locked_demo = b_params demo_bucket"
  by (simp_all add: locked_demo_def setLock_bucket_def Let_def GetBucketName_def demo_bucket_def
      bucket_claimed_def get_annotation_def)

theorem bucket_observe_exact_witness:
  "\<exists>t. Observe_bucket mem_client (demo_state [''photos'' \<mapsto> new_bucket] (MBucket locked_demo)) =
     (Ok \<lparr>ResourceExists = True, ResourceUpToDate = False\<rparr>, t) \<and>
   mem_view (world t) = [''photos'' \<mapsto> new_bucket]"
proof -
  let ?s = "demo_state [''photos'' \<mapsto> new_bucket] (MBucket locked_demo)"
  have "\<exists>x t. Observe_bucket mem_client ?s = (Ok x, t)"
    by (simp add: Observe_bucket_def as_bucket_def observeBucket_def locked_demo_def setLock_bucket_def
        demo_bucket_def mem_defs go_defs GetBucketName_def get_annotation_def bucketPolicyLatest_def Let_def)
  then obtain x t where ob: "Observe_bucket mem_client ?s = (Ok x, t)" by blast
  from bucket_observe_exact [OF mem_read_laws _ _ ob, of locked_demo] ob
  show ?thesis
    by (simp add: mem_view_def bucket_in_sync_def demo_bucket_def new_bucket_def)
qed

section \<open>Create and Update\<close>

lemma set_policy_step:
  assumes "s3_write_laws mc view"
    and "(case q of None \<Rightarrow> ret () | Some pol \<Rightarrow> call (SetBucketPolicy mc n pol)) s = (Ok (), t)"
    and "view (world s) n = Some v"
  shows "\<exists>v'. view (world t) n = Some v' \<and> cr t = cr s \<and>
    (case q of None \<Rightarrow> True | Some pol \<Rightarrow> v_policy v' = pol)"
  using assms(2,3) by (auto simp: call_Ok_iff split: option.splits dest!: s3_writesD [OF assms(1)])

lemma set_tags_step:
  assumes "s3_write_laws mc view"
    and "(case NewTags mc tg False of Inl err \<Rightarrow> fail (ErrApi err)
          | Inr bt \<Rightarrow> call (SetBucketTagging mc n bt)) s = (Ok (), t)"
  shows "\<exists>v. view (world s) n = Some v \<and> view (world t) n = Some (v\<lparr>v_tags := tg\<rparr>) \<and> cr t = cr s"
  using assms(2) by (auto simp: call_Ok_iff split: sum.splits dest!: s3_writesD [OF assms(1)])

lemma bucket_update_syncs_view:
  assumes "s3_write_laws mc view"
    and "cr s = MBucket b" and "view (world s) (GetBucketName b) = Some v"
    and "Update_bucket mc s = (Ok (), t)"
  shows "\<exists>v'. view (world t) (GetBucketName b) = Some v' \<and> bucket_in_sync (b_params b) v'"
proof -
  from assms(2,4) obtain u where
    p: "(case bp_Policy (b_params b) of None \<Rightarrow> ret ()
         | Some pol \<Rightarrow> call (SetBucketPolicy mc (GetBucketName b) pol)) s = (Ok (), u)" and
    g: "(case bp_Tags (b_params b) of None \<Rightarrow> ret () | Some tg \<Rightarrow>
          if tg = fmempty then call (RemoveBucketTagging mc (GetBucketName b))
          else (case NewTags mc tg False of Inl err \<Rightarrow> fail (ErrApi err)
                | Inr bt \<Rightarrow> call (SetBucketTagging mc (GetBucketName b) bt))) u = (Ok (), t)"
    by (auto simp: Update_bucket_def as_bucket_def seq_Ok_iff)
  from set_policy_step [OF assms(1) p assms(3)] obtain v' where v':
    "view (world u) (GetBucketName b) = Some v'"
    "case bp_Policy (b_params b) of None \<Rightarrow> True | Some pol \<Rightarrow> v_policy v' = pol"
    by blast
  show ?thesis
  proof (cases "bp_Tags (b_params b)")
    case None
    with g v' show ?thesis by (auto simp: bucket_in_sync_def)
  next
    case (Some tg)
    have "view (world t) (GetBucketName b) = Some (v'\<lparr>v_tags := tg\<rparr>)"
    proof (cases "tg = fmempty")
      case True
      with g Some v' show ?thesis by (auto simp: call_Ok_iff dest!: s3_writesD [OF assms(1)])
    next
      case False
      with g Some have "(case NewTags mc tg False of Inl err \<Rightarrow> fail (ErrApi err)
                | Inr bt \<Rightarrow> call (SetBucketTagging mc (GetBucketName b) bt)) u = (Ok (), t)" by simp
      from set_tags_step [OF assms(1) this] v' show ?thesis by auto
    qed
    with Some v'(2) show ?thesis by (auto simp: bucket_in_sync_def split: option.splits)
  qed
qed

lemma bucket_create_syncs:
  assumes laws: "s3_read_laws mc view" "s3_write_laws mc view"
    and b: "cr s = MBucket b"
    and ok: "Create_bucket mc s = (Ok c, t)"
  shows "cr t = MBucket (setLock_bucket b) \<and>
    (\<exists>v. view (world t) (GetBucketName b) = Some v \<and> bucket_in_sync (b_params b) v)"
proof -
  let ?n = "GetBucketName b"
  from ok b obtain s1 s2 s3 where
    m: "createS3Bucket mc b s = (Ok (), s1)" and
    p: "(case bp_Policy (b_params b) of None \<Rightarrow> ret ()
         | Some pol \<Rightarrow> call (SetBucketPolicy mc ?n pol)) s1 = (Ok (), s2)" and
    g: "(case bp_Tags (b_params b) of None \<Rightarrow> ret () | Some tg \<Rightarrow>
          (case NewTags mc tg False of Inl err \<Rightarrow> fail (ErrApi err)
           | Inr bt \<Rightarrow> call (SetBucketTagging mc ?n bt))) s2 = (Ok (), s3)" and
    t: "world t = world s3" "cr t = MBucket (setLock_bucket b)"
    by (auto simp: Create_bucket_def as_bucket_def seq_Ok_iff)
  from m obtain v1 where "view (world s1) ?n = Some v1"
    by (auto simp: createS3Bucket_def Let_def if_err_Ok_iff call_Ok_iff call_Err_iff split: if_splits
        dest!: s3_readsD(1) [OF laws(1)] s3_writesD(1) [OF laws(2)])
  from set_policy_step [OF laws(2) p this] obtain v2 where v2: "view (world s2) ?n = Some v2"
    "case bp_Policy (b_params b) of None \<Rightarrow> True | Some pol \<Rightarrow> v_policy v2 = pol" by blast
  show ?thesis
  proof (cases "bp_Tags (b_params b)")
    case None
    with g v2 t show ?thesis by (auto simp: bucket_in_sync_def)
  next
    case (Some tg)
    with g set_tags_step [OF laws(2), where tg = tg and n = ?n and s = s2 and t = s3] v2(1)
    have "view (world s3) ?n = Some (v2\<lparr>v_tags := tg\<rparr>)" by auto
    with Some v2(2) t show ?thesis by (auto simp: bucket_in_sync_def split: option.splits)
  qed
qed

lemma bucket_update_frame: "Update_bucket mc s = (r, t) \<Longrightarrow> cr t = cr s"
proof -
  have "keeps (\<lambda>x. cr x = cr s) (Update_bucket mc)"
    unfolding ctl_defs by (intro keeps_intros; simp)
  from keepsD [OF this, of s] show "Update_bucket mc s = (r, t) \<Longrightarrow> cr t = cr s" by simp
qed

lemma is_bucket_iff: "is_bucket m \<longleftrightarrow> (\<exists>b. m = MBucket b)"
  by (cases m) (auto simp: is_bucket_def)

lemma bucket_observe_kind: "is_bucket (cr s) \<Longrightarrow> Observe_bucket mc s = (r, t) \<Longrightarrow> \<exists>b. cr t = MBucket b"
  using keeps_desires [OF bucket_keeps_desires(1), of s mc]
  by (cases "cr t") (auto simp: is_bucket_iff)

definition bucket_synced :: "'w server_view \<Rightarrow> 'w cstate \<Rightarrow> bool" where
  "bucket_synced view s \<longleftrightarrow> (\<exists>b v. cr s = MBucket b \<and> bucket_claimed (MBucket b) \<and>
     view (world s) (GetBucketName b) = Some v \<and> bucket_in_sync (b_params b) v)"

lemma setLock_bucket_simps [simp]:
  "GetBucketName (setLock_bucket b) = GetBucketName b" "b_params (setLock_bucket b) = b_params b"
  "GetBucketName (b\<lparr>b_status := st\<rparr>) = GetBucketName b"
  by (simp_all add: setLock_bucket_def Let_def GetBucketName_def)

text \<open>
  Convergence of a bucket: a reconcile that created or updated it leaves it in sync, so that the
  next Observe that succeeds finds it existing and up to date.
\<close>

lemma bucket_write_syncs:
  assumes "s3_read_laws mc view" "s3_write_laws mc view"
    and "reconcile (bucketClient l mc) False s v t" and "v \<in> {Created, Updated}"
    and "is_bucket (cr s)"
  shows "bucket_synced view t"
  using assms(3)
proof (cases rule: reconcile.cases)
  case (created y s' c)
  then have ob: "Observe_bucket mc s = (Ok y, s')" and cr: "Create_bucket mc s' = (Ok c, t)"
    by (simp_all add: bucketClient_def)
  from bucket_observe_kind [OF assms(5) ob] obtain b where b: "cr s' = MBucket b" by auto
  from bucket_create_syncs [OF assms(1,2) b cr] show ?thesis
    by (auto simp: bucket_synced_def)
next
  case (updated y s')
  from assms(5) obtain b where b: "cr s = MBucket b" by (auto simp: is_bucket_iff)
  from updated have ob: "Observe_bucket mc s = (Ok y, s')" and ex: "ResourceExists y"
    and up: "Update_bucket mc s' = (Ok (), t)" by (simp_all add: bucketClient_def)
  from ob ex bucket_observe_unclaimed [of s mc] have c: "bucket_claimed (MBucket b)" by (auto simp: b)
  let ?b = "b\<lparr>b_status := (b_status b)\<lparr>bs_BucketName := GetBucketName b,
         bs_Conditions := bs_Conditions (b_status b) @ [XpAvailable]\<rparr>\<rparr>"
  from bucket_observe_spec [OF assms(1) b c ob] ex obtain w where
    w: "view (world s') (GetBucketName ?b) = Some w" "cr s' = MBucket ?b" "bucket_claimed (MBucket ?b)"
    using c by (auto simp: NoObservation_def split: option.splits)
  from bucket_update_syncs_view [OF assms(2) w(2,1) up] bucket_update_frame [OF up] w show ?thesis
    by (auto simp: bucket_synced_def)
qed (use assms(4) in auto)

lemma bucket_synced_observe:
  assumes "s3_read_laws mc view" and "bucket_synced view t" and "Observe_bucket mc t = (Ok x, u)"
  shows "x = \<lparr>ResourceExists = True, ResourceUpToDate = True\<rparr> \<and> bucket_synced view u"
proof -
  from assms(2) obtain b w where b: "cr t = MBucket b" "bucket_claimed (MBucket b)"
      "view (world t) (GetBucketName b) = Some w" "bucket_in_sync (b_params b) w"
    by (auto simp: bucket_synced_def)
  from bucket_observe_spec [OF assms(1) b(1,2) assms(3)] b show ?thesis by (auto simp: bucket_synced_def)
qed

lemmas bucket_eval = Observe_bucket_def observeBucket_def bucketPolicyLatest_def bucketTagsLatest_def
  Create_bucket_def createS3Bucket_def setLock_bucket_def Update_bucket_def as_bucket_def mem_defs go_defs
  GetBucketName_def get_annotation_def Let_def

lemma demo_create_run:
  "Observe_bucket mem_client (demo_state Map.empty (MBucket demo_bucket)) =
     (Ok NoObservation, demo_state Map.empty (MBucket demo_bucket))"
  "\<exists>t x u. Create_bucket mem_client (demo_state Map.empty (MBucket demo_bucket)) = (Ok None, t) \<and>
     Observe_bucket mem_client t = (Ok x, u)"
  by (simp_all add: bucket_eval demo_bucket_def demo_state_def)

lemma demo_bucket_converges:
  "\<exists>t x u. reconcile (bucketClient True mem_client) False (demo_state Map.empty (MBucket demo_bucket)) Created t \<and>
     Observe_bucket mem_client t = (Ok x, u)"
proof -
  let ?s = "demo_state Map.empty (MBucket demo_bucket)"
  from demo_create_run(2) obtain t x u where t: "Create_bucket mem_client ?s = (Ok None, t)"
    and ob: "Observe_bucket mem_client t = (Ok x, u)" by blast
  with demo_create_run(1) have "reconcile (bucketClient True mem_client) False ?s Created t"
    by (intro reconcile.created) (auto simp: bucketClient_def NoObservation_def)
  with ob show ?thesis by blast
qed

section \<open>Delete\<close>

text \<open>
  C12. Without the \<open>DeleteAll\<close> policy a deletion never loses an object: a Delete that succeeds
  removed the bucket named in the status, which was empty, and nothing else; a Delete that
  fails left every bucket as it was.
\<close>

theorem bucket_delete_keeps_objects:
  assumes "s3_remove_laws mc view"
    and "cr s = MBucket b" and "bp_BucketDeletionPolicy (b_params b) \<noteq> DeleteAll"
    and "Delete_bucket l mc s = (r, t)"
  shows "(case r of
      Ok _ \<Rightarrow> (\<exists>v. view (world s) (bs_BucketName (b_status b)) = Some v \<and> v_objects v = []) \<and>
        view (world t) = (view (world s))(bs_BucketName (b_status b) := None) \<and>
        events t = events s @ [\<lparr>ev_Reason = ''Deleted'', ev_Message = ''Bucket deleted''\<rparr>]
    | Err _ \<Rightarrow> view (world t) = view (world s) \<and> events t = events s
    | Panic _ \<Rightarrow> False)"
proof (cases "RemoveBucket mc (bs_BucketName (b_status b)) (world s)")
  case (Pair a w)
  with assms(2-4) s3_removesD [OF assms(1)] show ?thesis
    by (cases a) (auto simp: Delete_bucket_def deleteS3Bucket_def hasDeleteAllPolicy_def as_bucket_def go_defs)
qed

definition demo_observed :: bucket where
  "demo_observed = locked_demo\<lparr>b_status := (b_status locked_demo)\<lparr>bs_BucketName := ''photos''\<rparr>\<rparr>"

theorem bucket_delete_keeps_objects_witness:
  "\<exists>e t. Delete_bucket True mem_client
     (demo_state [''photos'' \<mapsto> new_bucket\<lparr>v_objects := [''a.jpg'']\<rparr>] (MBucket demo_observed)) = (Err e, t) \<and>
     mem_view (world t) = [''photos'' \<mapsto> new_bucket\<lparr>v_objects := [''a.jpg'']\<rparr>]"
proof -
  let ?s = "demo_state [''photos'' \<mapsto> new_bucket\<lparr>v_objects := [''a.jpg'']\<rparr>] (MBucket demo_observed)"
  obtain e t where d: "Delete_bucket True mem_client ?s = (Err e, t)"
    by (simp add: Delete_bucket_def deleteS3Bucket_def hasDeleteAllPolicy_def as_bucket_def go_defs
        demo_observed_def locked_demo_def demo_bucket_def setLock_bucket_def mem_defs DeleteIfEmpty_def DeleteAll_def Let_def)
  have "bp_BucketDeletionPolicy (b_params demo_observed) \<noteq> DeleteAll"
    by (simp add: demo_observed_def demo_bucket_def DeleteIfEmpty_def DeleteAll_def)
  from bucket_delete_keeps_objects [OF mem_remove_laws _ this d] d show ?thesis
    by (auto simp: mem_view_def)
qed

lemma deleteAllObjects_run:
  assumes "\<And>w. snd (ListObjects mc n w) = w"
    and "\<And>w. snd (GetObjectLockConfig mc n w) = w"
    and "bs_BucketName (b_status b) = n"
  shows "deleteAllObjects l mc b s =
    (let (g, lg) = (case fst (GetObjectLockConfig mc n (world s)) of
            Inr mode \<Rightarrow> (mode \<noteq> None, [])
          | Inl e \<Rightarrow> (False, if err_text e = ''Object Lock configuration does not exist for this bucket''
              then [] else [''not able to determine ObjectLock status for bucket'']));
         (es, w) = RemoveObjects mc n (objects_sent (fst (ListObjects mc n (world s)))) g (world s)
     in (case es of
           [] \<Rightarrow> (Ok (), s\<lparr>world := w, logs := logs s @ lg\<rparr>)
         | e # _ \<Rightarrow> (Err (ErrWrap ''object %q cannot be removed'' [re_ObjectName e] (ErrApi (re_Err e))),
              s\<lparr>world := w, logs := logs s @ lg\<rparr>)))"
proof -
  obtain os where os: "ListObjects mc n (world s) = (os, world s)"
    using assms(1) [of "world s"] by (cases "ListObjects mc n (world s)") auto
  obtain c where c: "GetObjectLockConfig mc n (world s) = (c, world s)"
    using assms(2) [of "world s"] by (cases "GetObjectLockConfig mc n (world s)") auto
  from os c assms(3) show ?thesis
    by (cases c)
      (simp_all add: deleteAllObjects_def lock_or_log_def isBucketLockEnabled_def list_objects_def
        remove_objects_def go_defs split: list.split prod.split)
qed


text \<open>A store that refuses to remove an object, as one under retention does.\<close>

definition retention_client :: "(mem_s3, (string, string) fmap, unit) s3_client" where
  "retention_client = mem_client\<lparr>RemoveObjects := (\<lambda>n os g w.
     (map (\<lambda>ob. \<lparr>re_ObjectName = oi_Key ob, re_Err = bucket_not_empty\<rparr>) os, w))\<rparr>"


section \<open>The admission checks\<close>

text \<open>A sequence of admitted edits of a resource; the status is not the editor's to write.\<close>

inductive spec_edits :: "bucket \<Rightarrow> bucket \<Rightarrow> bool" where
  unedited: "spec_edits a a"
| edited: "spec_edits a b \<Longrightarrow> ValidateUpdate_bucket b c () = (Ok (), ()) \<Longrightarrow> b_status c = b_status b \<Longrightarrow> spec_edits a c"

lemma spec_edits_pinned:
  "spec_edits a b \<Longrightarrow> bs_BucketName (b_status a) \<noteq> [] \<Longrightarrow> GetBucketName a = bs_BucketName (b_status a) \<Longrightarrow>
   b_status b = b_status a \<and> GetBucketName b = GetBucketName a \<and> bp_Region (b_params b) = bp_Region (b_params a)"
  by (induction rule: spec_edits.induct) (auto simp: ValidateUpdate_bucket_Ok_iff)

lemma bucket_observe_status:
  assumes "cr s = MBucket a" and "Observe_bucket mc s = (Ok x, t)" and "ResourceExists x"
  shows "cr t = MBucket (a\<lparr>b_status := (b_status a)\<lparr>bs_BucketName := GetBucketName a,
           bs_Conditions := bs_Conditions (b_status a) @ [XpAvailable]\<rparr>\<rparr>)" (is "_ = ?c")
proof -
  have k: "keeps (\<lambda>s. cr s = ?c) (check (case bp_Policy (b_params a) of None \<Rightarrow> ret True
         | Some pol \<Rightarrow> if_err (bucketPolicyLatest mc (GetBucketName a) pol)
             (\<lambda>err. fail (ErrWrap ''cannot determine whether a bucket policy exists'' [] err)) ret)
       (\<lambda>isLatest. check (case bp_Tags (b_params a) of None \<Rightarrow> ret isLatest
         | Some tg \<Rightarrow> if isLatest then if_err (bucketTagsLatest mc (GetBucketName a) tg)
             (\<lambda>err. fail (ErrWrap ''cannot determine whether bucket tags are up to date'' [] err)) ret
           else ret isLatest)
         (\<lambda>isLatest. ret \<lparr>ResourceExists = True, ResourceUpToDate = isLatest\<rparr>)))"
    unfolding ctl_defs by (intro keeps_intros; simp)
  from assms show ?thesis
    by (auto simp: Observe_bucket_def observeBucket_def as_bucket_def Let_def if_err_Ok_iff call_Ok_iff seq_Ok_iff
        NoObservation_def split: if_splits dest!: keeps_result [OF _ k])
qed

text \<open>
  C28. The bucket under a resource stays the same: once Observe has seen the bucket, every
  version of the resource reached by edits that \<open>ValidateUpdate\<close> admits has the same bucket
  name and region, so that every later call goes to the same bucket, and the name is the one a
  deletion uses.
\<close>

theorem bucket_identity_pinned:
  assumes "cr s = MBucket a" and "Observe_bucket mc s = (Ok x, t)" and "ResourceExists x"
    and "GetBucketName a \<noteq> []"
    and "cr t = MBucket b" and "spec_edits b b'"
  shows "GetBucketName b' = GetBucketName a \<and> bp_Region (b_params b') = bp_Region (b_params a) \<and>
    bs_BucketName (b_status b') = GetBucketName a"
  using bucket_observe_status [OF assms(1-3)] spec_edits_pinned [OF assms(6)] assms(4,5) by auto

definition observed_photos :: bucket where
  "observed_photos = locked_demo\<lparr>b_status := (b_status locked_demo)\<lparr>bs_BucketName := ''photos'',
     bs_Conditions := [XpAvailable]\<rparr>\<rparr>"

theorem bucket_identity_pinned_witness:
  "GetBucketName (observed_photos\<lparr>b_params := (b_params observed_photos)\<lparr>bp_Policy := None\<rparr>\<rparr>) = ''photos''"
proof -
  let ?s = "demo_state [''photos'' \<mapsto> new_bucket] (MBucket locked_demo)"
  let ?b = "observed_photos\<lparr>b_params := (b_params observed_photos)\<lparr>bp_Policy := None\<rparr>\<rparr>"
  have "\<exists>x t. Observe_bucket mem_client ?s = (Ok x, t) \<and> ResourceExists x \<and> cr t = MBucket observed_photos"
    by (simp add: bucket_eval locked_demo_def observed_photos_def demo_bucket_def demo_state_def)
  then obtain x t where t: "Observe_bucket mem_client ?s = (Ok x, t)" "ResourceExists x" "cr t = MBucket observed_photos"
    by blast
  have "ValidateUpdate_bucket observed_photos ?b () = (Ok (), ())"
    by (simp add: ValidateUpdate_bucket_Ok_iff observed_photos_def locked_demo_def setLock_bucket_def demo_bucket_def
        GetBucketName_def has_provider_config_def Let_def)
  from spec_edits.edited [OF spec_edits.unedited this] have "spec_edits observed_photos ?b" by simp
  from bucket_identity_pinned [OF _ t(1,2) _ t(3) this, of locked_demo] show ?thesis by simp
qed

end
