(* ===== verification/MinioUtil.thy ===== *)
theory MinioUtil
  imports Interfaces
begin

text \<open>
  How the provider connects to MinIO (\<^verbatim>\<open>operator/minioutil\<close>): the S3 and the admin client
  are built from a provider config, its API secret and its TLS settings, which may sit inline,
  in a Secret or in a ConfigMap.

  The constructors of the two clients, URL parsing and the X.509 routines are library code and
  parameters (\<open>minio_lib\<close>). A certificate pool is represented by the PEM text it was
  filled from, a key pair by its two PEM texts. The functions run on the world alone: they
  touch no managed resource.
\<close>

record url =
  url_Scheme :: string
  url_Host :: string

record tls_config =
  tls_InsecureSkipVerify :: bool
  tls_RootCAs :: "string option"
  tls_Certificates :: "(string \<times> string) list"

text \<open>\<^verbatim>\<open>minio.Options\<close> and \<^verbatim>\<open>madmin.Options\<close>; the transport is known by its TLS configuration.\<close>

record client_options =
  opt_AccessKey :: string
  opt_SecretKey :: string
  opt_Secure :: bool
  opt_Transport :: "tls_config option"

record ('c, 'a) minio_lib =
  ParseURL :: "string \<Rightarrow> api_error + url"
  AppendCertsFromPEM :: "string \<Rightarrow> bool"
  X509KeyPair :: "string \<Rightarrow> string \<Rightarrow> api_error option"
  NewS3 :: "string \<Rightarrow> client_options \<Rightarrow> api_error + 'c"
  NewAdmin :: "string \<Rightarrow> client_options \<Rightarrow> api_error + 'a"
  SetCustomTransport :: "'a \<Rightarrow> tls_config \<Rightarrow> 'a"

text \<open>A library function that touches nothing outside the process.\<close>

definition lib_call :: "api_error + 'a \<Rightarrow> ('w, 'a) go" where [go_defs]:
  "lib_call r = (case r of Inl e \<Rightarrow> fail (ErrApi e) | Inr x \<Rightarrow> ret x)"

lemma lib_call_Ok_iff: "lib_call r s = (Ok x, t) \<longleftrightarrow> r = Inr x \<and> t = s"
  by (auto simp: lib_call_def split: sum.split)

definition MinioIDKey :: string where "MinioIDKey = ''AWS_ACCESS_KEY_ID''"

definition MinioSecretKey :: string where "MinioSecretKey = ''AWS_SECRET_ACCESS_KEY''"

text \<open>The library stores the scheme in lower case or not; only ``http'' in any case turns TLS off.\<close>

definition IsTLSEnabled :: "url \<Rightarrow> bool" where
  "IsTLSEnabled u \<longleftrightarrow> \<not> equal_fold (url_Scheme u) ''http''"

section \<open>TLS settings\<close>

text \<open>The Kubernetes client takes the name and then the namespace of an object.\<close>

definition getTLSData :: "'w kube_client \<Rightarrow> string \<Rightarrow> string \<Rightarrow> key_selector option \<Rightarrow> key_selector option \<Rightarrow> ('w, string) go" where
  "getTLSData kube namespace inlineData secretRef configMapRef =
     (if inlineData \<noteq> [] then ret inlineData
      else case secretRef of
        Some ref \<Rightarrow>
          if_err (api_call (KubeGetSecret kube (ks_Name ref) namespace))
            (\<lambda>err. fail (ErrWrap ''failed to get secret %s'' [ks_Name ref] err))
            (\<lambda>sec. case sec (ks_Key ref) of
               None \<Rightarrow> fail (ErrFmt ''key %s not found in secret %s'' [ks_Key ref, ks_Name ref])
             | Some data \<Rightarrow> ret data)
      | None \<Rightarrow>
          (case configMapRef of
             Some ref \<Rightarrow>
               if_err (api_call (KubeGetConfigMap kube (ks_Name ref) namespace))
                 (\<lambda>err. fail (ErrWrap ''failed to get configmap %s'' [ks_Name ref] err))
                 (\<lambda>cm. case cm (ks_Key ref) of
                    None \<Rightarrow> fail (ErrFmt ''key %s not found in configmap %s'' [ks_Key ref, ks_Name ref])
                  | Some data \<Rightarrow> ret data)
           | None \<Rightarrow> ret []))"

definition rootCAs :: "('c, 'a) minio_lib \<Rightarrow> string \<Rightarrow> ('w, string option) go" where
  "rootCAs lib caData =
     (if caData \<noteq> [] then
        if \<not> AppendCertsFromPEM lib caData then fail (ErrNew ''failed to parse CA certificate data'')
        else ret (Some caData)
      else ret None)"

definition keyPairs :: "('c, 'a) minio_lib \<Rightarrow> string \<Rightarrow> string \<Rightarrow> ('w, (string \<times> string) list) go" where
  "keyPairs lib clientCertData clientKeyData =
     (if clientCertData \<noteq> [] \<and> clientKeyData \<noteq> [] then
        (case X509KeyPair lib clientCertData clientKeyData of
           Some err \<Rightarrow> fail (ErrWrap ''failed to load client certificate and key'' [] (ErrApi err))
         | None \<Rightarrow> ret [(clientCertData, clientKeyData)])
      else if clientCertData \<noteq> [] \<or> clientKeyData \<noteq> []
      then fail (ErrNew ''both client certificate and key must be provided for mutual TLS'')
      else ret [])"

definition buildTLSConfig :: "('c, 'a) minio_lib \<Rightarrow> 'w kube_client \<Rightarrow> TLSConfig option \<Rightarrow> string \<Rightarrow> ('w, tls_config) go" where
  "buildTLSConfig lib kube tlsConfig namespace =
     (case tlsConfig of
        None \<Rightarrow> ret \<lparr>tls_InsecureSkipVerify = False, tls_RootCAs = None, tls_Certificates = []\<rparr>
      | Some cfg \<Rightarrow>
          if_err (getTLSData kube namespace (CAData cfg) (CASecretRef cfg) (CAConfigMapRef cfg))
            (\<lambda>err. fail (ErrWrap ''failed to get CA certificate data'' [] err))
            (\<lambda>caData. check (rootCAs lib caData) (\<lambda>pool.
               if_err (getTLSData kube namespace (ClientCertData cfg) (ClientCertSecretRef cfg) None)
                 (\<lambda>err. fail (ErrWrap ''failed to get client certificate data'' [] err))
                 (\<lambda>clientCertData.
                    if_err (getTLSData kube namespace (ClientKeyData cfg) (ClientKeySecretRef cfg) None)
                      (\<lambda>err. fail (ErrWrap ''failed to get client key data'' [] err))
                      (\<lambda>clientKeyData.
                         check (keyPairs lib clientCertData clientKeyData) (\<lambda>certs.
                           ret \<lparr>tls_InsecureSkipVerify = InsecureSkipVerify cfg, tls_RootCAs = pool,
                             tls_Certificates = certs\<rparr>))))))"

section \<open>The clients\<close>

definition api_secret :: "'w kube_client \<Rightarrow> provider_config \<Rightarrow> ('w, secret) go" where
  "api_secret kube config =
     api_call (KubeGetSecret kube (sr_Name (cred_APISecretRef (pc_Credentials config)))
       (sr_Namespace (cred_APISecretRef (pc_Credentials config))))"

definition NewMinioClient :: "('c, 'a) minio_lib \<Rightarrow> 'w kube_client \<Rightarrow> provider_config \<Rightarrow> ('w, 'c) go" where
  "NewMinioClient lib kube config =
     check (api_secret kube config) (\<lambda>sec.
     check (lib_call (ParseURL lib (pc_MinioURL config))) (\<lambda>parsed.
     check (case pc_TLS config of
              None \<Rightarrow> ret None
            | Some _ \<Rightarrow>
                if_err (buildTLSConfig lib kube (pc_TLS config) (sr_Namespace (cred_APISecretRef (pc_Credentials config))))
                  (\<lambda>err. fail (ErrWrap ''failed to build TLS configuration'' [] err))
                  (\<lambda>t. ret (Some t)))
       (\<lambda>transport.
          lib_call (NewS3 lib (url_Host parsed)
            \<lparr>opt_AccessKey = map_get sec MinioIDKey, opt_SecretKey = map_get sec MinioSecretKey,
             opt_Secure = IsTLSEnabled parsed, opt_Transport = transport\<rparr>))))"

definition NewMinioAdmin :: "('c, 'a) minio_lib \<Rightarrow> 'w kube_client \<Rightarrow> provider_config \<Rightarrow> ('w, 'a) go" where
  "NewMinioAdmin lib kube config =
     check (api_secret kube config) (\<lambda>sec.
     check (lib_call (ParseURL lib (pc_MinioURL config))) (\<lambda>parsed.
     check (lib_call (NewAdmin lib (url_Host parsed)
            \<lparr>opt_AccessKey = map_get sec MinioIDKey, opt_SecretKey = map_get sec MinioSecretKey,
             opt_Secure = IsTLSEnabled parsed, opt_Transport = None\<rparr>)) (\<lambda>adminClient.
       (case pc_TLS config of
          None \<Rightarrow> ret adminClient
        | Some _ \<Rightarrow>
            if_err (buildTLSConfig lib kube (pc_TLS config) (sr_Namespace (cred_APISecretRef (pc_Credentials config))))
              (\<lambda>err. fail (ErrWrap ''failed to build TLS configuration'' [] err))
              (\<lambda>t. ret (SetCustomTransport lib adminClient t))))))"

text \<open>
  Every controller package fetches the provider config by the reference in the resource's
  specification, which it dereferences.
\<close>

definition getProviderConfig :: "'w kube_client \<Rightarrow> managed_spec \<Rightarrow> ('w, provider_config) go" where
  "getProviderConfig kube sp =
     check (deref (ProviderConfigReference sp)) (\<lambda>configName. api_call (KubeGetProviderConfig kube configName))"

section \<open>A Kubernetes API that answers from a fixed set of objects\<close>

text \<open>
  The read-only contract of the Kubernetes client the statements below use: a \<^verbatim>\<open>Get\<close> leaves
  the world alone. \<open>tls_data\<close> is then the value a TLS setting resolves to: inline data wins
  over a Secret, which wins over a ConfigMap.
\<close>

definition kube_reads :: "'w kube_client \<Rightarrow> bool" where
  "kube_reads kube \<longleftrightarrow>
     (\<forall>n ns w. snd (KubeGetSecret kube n ns w) = w) \<and>
     (\<forall>n ns w. snd (KubeGetConfigMap kube n ns w) = w) \<and>
     (\<forall>n w. snd (KubeGetProviderConfig kube n w) = w)"

lemma kube_readsD:
  assumes "kube_reads kube"
  shows "KubeGetSecret kube n ns w = (r, w') \<Longrightarrow> w' = w"
    and "KubeGetConfigMap kube n ns w = (r', w') \<Longrightarrow> w' = w"
    and "KubeGetProviderConfig kube n w = (r'', w') \<Longrightarrow> w' = w"
  using assms unfolding kube_reads_def by (metis snd_conv)+

definition selected :: "(api_error + secret) \<times> 'w \<Rightarrow> key_selector \<Rightarrow> string option" where
  "selected r ref = (case fst r of Inl _ \<Rightarrow> None | Inr sec \<Rightarrow> sec (ks_Key ref))"

definition tls_data :: "'w kube_client \<Rightarrow> 'w \<Rightarrow> string \<Rightarrow> string \<Rightarrow> key_selector option \<Rightarrow> key_selector option \<Rightarrow> string option" where
  "tls_data kube w namespace inlineData secretRef configMapRef =
     (case (inlineData, secretRef, configMapRef) of
        (c # cs, _, _) \<Rightarrow> Some (c # cs)
      | ([], Some ref, _) \<Rightarrow> selected (KubeGetSecret kube (ks_Name ref) namespace w) ref
      | ([], None, Some ref) \<Rightarrow> selected (KubeGetConfigMap kube (ks_Name ref) namespace w) ref
      | ([], None, None) \<Rightarrow> Some [])"

lemma getTLSData_Ok_iff:
  assumes "kube_reads kube"
  shows "getTLSData kube ns d r c w = (Ok x, w') \<longleftrightarrow> w' = w \<and> tls_data kube w ns d r c = Some x"
  by (auto simp: getTLSData_def tls_data_def selected_def go_defs split: list.split option.split sum.split prod.split
      dest: kube_readsD [OF assms])

lemma rootCAs_Ok_iff:
  "rootCAs lib ca w = (Ok x, w') \<longleftrightarrow> w' = w \<and> x = (if ca = [] then None else Some ca) \<and> (ca \<noteq> [] \<longrightarrow> AppendCertsFromPEM lib ca)"
  by (auto simp: rootCAs_def)

lemma keyPairs_Ok_iff:
  "keyPairs lib cert key w = (Ok x, w') \<longleftrightarrow> w' = w \<and> (cert = [] \<longleftrightarrow> key = []) \<and>
     x = (if cert = [] then [] else [(cert, key)]) \<and> (cert \<noteq> [] \<longrightarrow> X509KeyPair lib cert key = None)"
  by (auto simp: keyPairs_def split: option.splits)

text \<open>The TLS configuration the settings stand for: verification on unless asked off, and a complete key pair.\<close>

definition tls_allowed :: "('c, 'a) minio_lib \<Rightarrow> 'w kube_client \<Rightarrow> 'w \<Rightarrow> string \<Rightarrow> TLSConfig \<Rightarrow> tls_config \<Rightarrow> bool" where
  "tls_allowed lib kube w ns cfg t \<longleftrightarrow>
     (\<exists>ca cert key.
        tls_data kube w ns (CAData cfg) (CASecretRef cfg) (CAConfigMapRef cfg) = Some ca \<and>
        tls_data kube w ns (ClientCertData cfg) (ClientCertSecretRef cfg) None = Some cert \<and>
        tls_data kube w ns (ClientKeyData cfg) (ClientKeySecretRef cfg) None = Some key \<and>
        (cert = [] \<longleftrightarrow> key = []) \<and>
        (ca \<noteq> [] \<longrightarrow> AppendCertsFromPEM lib ca) \<and> (cert \<noteq> [] \<longrightarrow> X509KeyPair lib cert key = None) \<and>
        t = \<lparr>tls_InsecureSkipVerify = InsecureSkipVerify cfg, tls_RootCAs = (if ca = [] then None else Some ca),
             tls_Certificates = (if cert = [] then [] else [(cert, key)])\<rparr>)"

lemma if_err_fail_Ok_iff:
  "if_err m (\<lambda>e. fail (f e)) k s = (Ok y, t) \<longleftrightarrow> (\<exists>x u. m s = (Ok x, u) \<and> k x u = (Ok y, t))"
  by (simp add: if_err_Ok_iff)

lemma buildTLSConfig_Ok_iff:
  assumes "kube_reads kube"
  shows "buildTLSConfig lib kube (Some cfg) ns w = (Ok t, w') \<longleftrightarrow> w' = w \<and> tls_allowed lib kube w ns cfg t"
  by (simp add: buildTLSConfig_def tls_allowed_def if_err_fail_Ok_iff check_Ok_iff getTLSData_Ok_iff [OF assms]
      rootCAs_Ok_iff keyPairs_Ok_iff conj_ac cong: conj_cong split del: if_split) (fastforce split del: if_split)

section \<open>What the two clients connect to\<close>

text \<open>
  The connection a provider config describes: the host of its URL, the credentials of its API
  secret, TLS unless the scheme is http, and a transport of its own exactly when it has TLS
  settings.
\<close>

definition connection :: "('c, 'a) minio_lib \<Rightarrow> 'w kube_client \<Rightarrow> 'w \<Rightarrow> provider_config \<Rightarrow> string \<Rightarrow> client_options \<Rightarrow> bool" where
  "connection lib kube w config host opts \<longleftrightarrow>
     (let ref = cred_APISecretRef (pc_Credentials config) in
      \<exists>sec u. fst (KubeGetSecret kube (sr_Name ref) (sr_Namespace ref) w) = Inr sec \<and>
        ParseURL lib (pc_MinioURL config) = Inr u \<and> host = url_Host u \<and>
        opt_AccessKey opts = map_get sec MinioIDKey \<and> opt_SecretKey opts = map_get sec MinioSecretKey \<and>
        (opt_Secure opts \<longleftrightarrow> \<not> equal_fold (url_Scheme u) ''http'') \<and>
        (case pc_TLS config of
           None \<Rightarrow> opt_Transport opts = None
         | Some cfg \<Rightarrow> \<exists>t. opt_Transport opts = Some t \<and> tls_allowed lib kube w (sr_Namespace ref) cfg t))"

lemma ex_client_options:
  "(\<exists>r. P r) \<longleftrightarrow> (\<exists>k s b t. P \<lparr>opt_AccessKey = k, opt_SecretKey = s, opt_Secure = b, opt_Transport = t\<rparr>)"
  by (metis client_options.cases)

lemma tls_allowed_unique: "tls_allowed lib kube w ns cfg t \<Longrightarrow> tls_allowed lib kube w ns cfg t' \<Longrightarrow> t = t'"
  by (auto simp: tls_allowed_def)

lemma connection_unique:
  "connection lib kube w config host opts \<Longrightarrow> connection lib kube w config host' opts' \<Longrightarrow> host = host' \<and> opts = opts'"
  by (auto simp: connection_def Let_def tls_allowed_unique split: option.splits intro!: client_options.equality)

lemma api_secret_Ok_iff:
  assumes "kube_reads kube"
  shows "api_secret kube config w = (Ok sec, w') \<longleftrightarrow> w' = w \<and>
    fst (KubeGetSecret kube (sr_Name (cred_APISecretRef (pc_Credentials config)))
      (sr_Namespace (cred_APISecretRef (pc_Credentials config))) w) = Inr sec"
  by (auto simp: api_secret_def api_call_def split: prod.splits sum.splits dest: kube_readsD(1) [OF assms])

lemma NewMinioClient_connection:
  assumes "kube_reads kube" and "NewMinioClient lib kube config w = (Ok c, w')"
  shows "w' = w \<and> (\<exists>host opts. connection lib kube w config host opts \<and> NewS3 lib host opts = Inr c)"
  using assms(2)
  by (cases "pc_TLS config")
    (auto simp: NewMinioClient_def check_Ok_iff if_err_fail_Ok_iff lib_call_Ok_iff api_secret_Ok_iff [OF assms(1)]
      buildTLSConfig_Ok_iff [OF assms(1)] connection_def Let_def IsTLSEnabled_def ex_client_options split_option_ex)

lemma NewMinioAdmin_connection:
  assumes "kube_reads kube" and "NewMinioAdmin lib kube config w = (Ok a, w')"
  shows "w' = w \<and> (\<exists>host opts a0. connection lib kube w config host opts \<and>
    NewAdmin lib host (opts\<lparr>opt_Transport := None\<rparr>) = Inr a0 \<and>
    a = (case opt_Transport opts of None \<Rightarrow> a0 | Some t \<Rightarrow> SetCustomTransport lib a0 t))"
proof (cases "pc_TLS config")
  case None
  with assms(2) show ?thesis
    by (auto simp: NewMinioAdmin_def check_Ok_iff lib_call_Ok_iff api_secret_Ok_iff [OF assms(1)]
        connection_def Let_def IsTLSEnabled_def ex_client_options)
next
  case (Some cfg)
  with assms(2) obtain sec u a0 t where
    "w' = w" and
    f: "fst (KubeGetSecret kube (sr_Name (cred_APISecretRef (pc_Credentials config)))
      (sr_Namespace (cred_APISecretRef (pc_Credentials config))) w) = Inr sec"
      "ParseURL lib (pc_MinioURL config) = Inr u" and
    a0: "NewAdmin lib (url_Host u) \<lparr>opt_AccessKey = map_get sec MinioIDKey, opt_SecretKey = map_get sec MinioSecretKey,
      opt_Secure = IsTLSEnabled u, opt_Transport = None\<rparr> = Inr a0" and
    t: "tls_allowed lib kube w (sr_Namespace (cred_APISecretRef (pc_Credentials config))) cfg t"
      "a = SetCustomTransport lib a0 t"
    by (auto simp: NewMinioAdmin_def check_Ok_iff if_err_fail_Ok_iff lib_call_Ok_iff api_secret_Ok_iff [OF assms(1)]
      buildTLSConfig_Ok_iff [OF assms(1)])
  let ?opts = "\<lparr>opt_AccessKey = map_get sec MinioIDKey, opt_SecretKey = map_get sec MinioSecretKey,
      opt_Secure = IsTLSEnabled u, opt_Transport = Some t\<rparr>"
  have "connection lib kube w config (url_Host u) ?opts"
    using f t Some by (auto simp: connection_def Let_def IsTLSEnabled_def)
  with a0 t \<open>w' = w\<close> show ?thesis
    by (intro conjI exI [of _ "url_Host u"] exI [of _ ?opts] exI [of _ a0]) simp_all
qed

text \<open>
  C21. The S3 client and the admin client built from one provider config agree: same host,
  same credentials, TLS off only for the scheme http in any case, and the same TLS
  configuration, which verifies the server unless the config asks otherwise, trusts exactly the
  resolved CA data, and carries a client certificate only together with its key. Building
  either changes nothing outside the process.
\<close>

theorem clients_agree:
  assumes "kube_reads kube"
    and "NewMinioClient lib kube config w = (Ok c, w1)"
    and "NewMinioAdmin lib kube config w = (Ok a, w2)"
  shows "w1 = w \<and> w2 = w \<and> (\<exists>host opts a0.
    connection lib kube w config host opts \<and>
    NewS3 lib host opts = Inr c \<and>
    NewAdmin lib host (opts\<lparr>opt_Transport := None\<rparr>) = Inr a0 \<and>
    a = (case opt_Transport opts of None \<Rightarrow> a0 | Some t \<Rightarrow> SetCustomTransport lib a0 t))"
proof -
  from NewMinioClient_connection [OF assms(1,2)] obtain h o' where
    "w1 = w" "connection lib kube w config h o'" "NewS3 lib h o' = Inr c" by blast
  moreover from NewMinioAdmin_connection [OF assms(1,3)] obtain h2 o2 a0 where
    "w2 = w" "connection lib kube w config h2 o2" "NewAdmin lib h2 (o2\<lparr>opt_Transport := None\<rparr>) = Inr a0"
    "a = (case opt_Transport o2 of None \<Rightarrow> a0 | Some t \<Rightarrow> SetCustomTransport lib a0 t)" by blast
  ultimately show ?thesis using connection_unique by metis
qed

text \<open>
  A library whose clients are their connection, and a Kubernetes API with one Secret, for
  witnesses.
\<close>

definition plain_lib :: "(string \<times> client_options, string \<times> client_options) minio_lib" where
  "plain_lib = \<lparr>ParseURL = (\<lambda>u. Inr \<lparr>url_Scheme = ''HTTPS'', url_Host = u\<rparr>),
     AppendCertsFromPEM = (\<lambda>_. True), X509KeyPair = (\<lambda>_ _. None),
     NewS3 = (\<lambda>h opts. Inr (h, opts)), NewAdmin = (\<lambda>h opts. Inr (h, opts)),
     SetCustomTransport = (\<lambda>(h, opts) t. (h, opts\<lparr>opt_Transport := Some t\<rparr>))\<rparr>"

definition one_secret :: "secret \<Rightarrow> provider_config \<Rightarrow> 'w kube_client" where
  "one_secret sec config = \<lparr>KubeGetSecret = (\<lambda>n ns w. (Inr sec, w)), KubeGetConfigMap = (\<lambda>n ns w. (Inr sec, w)),
     KubeGetProviderConfig = (\<lambda>n w. (Inr config, w))\<rparr>"

lemma one_secret_reads: "kube_reads (one_secret sec config)"
  by (simp add: kube_reads_def one_secret_def)

definition tls_demo :: provider_config where
  "tls_demo = \<lparr>pc_Credentials = \<lparr>cred_Source = ''Secret'',
       cred_APISecretRef = \<lparr>sr_Name = ''minio'', sr_Namespace = ''system''\<rparr>, cred_SecretRef = None\<rparr>,
     pc_MinioURL = ''minio:9000'',
     pc_TLS = Some \<lparr>CAData = ''ca'', CASecretRef = None, CAConfigMapRef = None, ClientCertData = [],
       ClientCertSecretRef = None, ClientKeyData = [], ClientKeySecretRef = None, InsecureSkipVerify = False\<rparr>\<rparr>"

lemma plain_clients:
  "\<exists>c. NewMinioClient plain_lib (one_secret [''AWS_ACCESS_KEY_ID'' \<mapsto> ''root''] tls_demo) tls_demo () = (Ok c, ())"
  "\<exists>a. NewMinioAdmin plain_lib (one_secret [''AWS_ACCESS_KEY_ID'' \<mapsto> ''root''] tls_demo) tls_demo () = (Ok a, ())"
  by (simp_all add: NewMinioClient_def NewMinioAdmin_def buildTLSConfig_def getTLSData_def rootCAs_def keyPairs_def
      api_secret_def plain_lib_def one_secret_def tls_demo_def go_defs)

theorem clients_agree_witness:
  "\<exists>c. NewMinioClient plain_lib (one_secret [''AWS_ACCESS_KEY_ID'' \<mapsto> ''root''] tls_demo) tls_demo () = (Ok c, ()) \<and>
       NewMinioAdmin plain_lib (one_secret [''AWS_ACCESS_KEY_ID'' \<mapsto> ''root''] tls_demo) tls_demo () = (Ok c, ())"
proof -
  obtain c a where ca:
    "NewMinioClient plain_lib (one_secret [''AWS_ACCESS_KEY_ID'' \<mapsto> ''root''] tls_demo) tls_demo () = (Ok c, ())"
    "NewMinioAdmin plain_lib (one_secret [''AWS_ACCESS_KEY_ID'' \<mapsto> ''root''] tls_demo) tls_demo () = (Ok a, ())"
    using plain_clients by blast
  from clients_agree [OF one_secret_reads ca] have "a = c"
    by (auto simp: plain_lib_def connection_def Let_def tls_demo_def split: option.splits)
  with ca show ?thesis by blast
qed

end
