(* ===== verification/User.thy ===== *)
theory User
  imports Contracts MinioUtil
begin

text \<open>
  The user controller and its webhook (\<^verbatim>\<open>operator/user\<close>). A user is known as the
  controller's own by the annotation Create sets or by the user name in its status. Observe
  compares the attached policies, and, unless the resource is being deleted, tries the
  credentials of the connection secret against the server with an S3 client of its own.

  The controller is interpreted as a \<open>marking_external\<close>, the webhook as a \<open>fixed_identity\<close>.
\<close>

section \<open>The controller\<close>

definition errNotUser :: go_error where
  "errNotUser = ErrNew ''managed resource is not a user''"

definition AccessKeyName :: string where "AccessKeyName = ''AWS_ACCESS_KEY_ID''"

definition SecretKeyName :: string where "SecretKeyName = ''AWS_SECRET_ACCESS_KEY''"

definition UserCreatedAnnotationKey :: string where
  "UserCreatedAnnotationKey = ''minio.crossplane.io/user-created''"

text \<open>The client of one resource; \<open>uc_NewS3\<close> and \<open>uc_ListBuckets\<close> are \<^verbatim>\<open>minio.New\<close> and its \<^verbatim>\<open>ListBuckets\<close>.\<close>

record ('w, 'c) user_client =
  uc_ma :: "'w admin_client"
  uc_kube :: "'w kube_client"
  uc_url :: url
  uc_tlsSettings :: bool
  uc_NewS3 :: "string \<Rightarrow> client_options \<Rightarrow> api_error + 'c"
  uc_ListBuckets :: "'c \<Rightarrow> ('w, unit) api"

definition as_user :: "(user \<Rightarrow> ('w, 'a) ctl) \<Rightarrow> ('w, 'a) ctl" where [prim_defs]:
  "as_user k s = (case cr s of MUser u \<Rightarrow> k u s | _ \<Rightarrow> (Err errNotUser, s))"

definition SetConditions_user :: "user \<Rightarrow> condition \<Rightarrow> user" where
  "SetConditions_user u c = u\<lparr>u_status := (u_status u)\<lparr>us_Conditions := us_Conditions (u_status u) @ [c]\<rparr>\<rparr>"

lemma GetUserName_status [simp]: "GetUserName (u\<lparr>u_status := st\<rparr>) = GetUserName u"
  by (simp add: GetUserName_def)

subsection \<open>Observe\<close>

definition equalPolicies :: "user_info \<Rightarrow> user \<Rightarrow> bool" where
  "equalPolicies minioUser u \<longleftrightarrow>
     (let minioPolicies = str_split CHR '','' (ui_PolicyName minioUser) in
      (if hd minioPolicies = [] then None else Some minioPolicies) = up_Policies (u_params u))"

definition credentialsLine :: "string \<Rightarrow> string \<Rightarrow> string" where
  "credentialsLine accessKey secretKey =
     ''user client created, everything went fine '' @ accessKey @ '' '' @ secretKey"

definition checkCredentials :: "('w, 'c) user_client \<Rightarrow> user \<Rightarrow> ('w, observation) ctl" where [ctl_defs]:
  "checkCredentials uc u =
     check (deref (WriteConnectionSecretToReference (u_spec u))) (\<lambda>name.
     check (call (KubeGetSecret (uc_kube uc) name (Namespace (u_meta u)))) (\<lambda>sec.
       case uc_NewS3 uc (url_Host (uc_url uc))
              \<lparr>opt_AccessKey = map_get sec AccessKeyName, opt_SecretKey = map_get sec SecretKeyName,
               opt_Secure = uc_tlsSettings uc, opt_Transport = None\<rparr> of
         Inl err \<Rightarrow> ret \<lparr>ResourceExists = True, ResourceUpToDate = False\<rparr>
       | Inr mclient \<Rightarrow>
           check (if_err (call (uc_ListBuckets uc mclient))
                    (\<lambda>err. ret (error_text err = ''Access Denied.'')) (\<lambda>_. ret True))
             (\<lambda>works.
                if \<not> works then ret \<lparr>ResourceExists = True, ResourceUpToDate = False\<rparr>
                else seq (log_line (credentialsLine (map_get sec AccessKeyName) (map_get sec SecretKeyName)))
                  (ret \<lparr>ResourceExists = True, ResourceUpToDate = True\<rparr>))))"

text \<open>The part of Observe for a user the server lists.\<close>

definition observeMinioUser :: "('w, 'c) user_client \<Rightarrow> user \<Rightarrow> user_info \<Rightarrow> ('w, observation) ctl" where [ctl_defs]:
  "observeMinioUser uc u minioUser =
     (if \<not> equalPolicies minioUser u then
        seq (put_cr (MUser (SetConditions_user u Updating)))
          (ret \<lparr>ResourceExists = True, ResourceUpToDate = False\<rparr>)
      else
        let u' = SetConditions_user
              (u\<lparr>u_status := (u_status u)\<lparr>us_Status := ui_Status minioUser, us_Policies := ui_PolicyName minioUser\<rparr>\<rparr>)
              (if ui_Status minioUser = AccountEnabled then XpAvailable else Disabled) in
        seq (put_cr (MUser u'))
          (if DeletionTimestamp (u_meta u) = None then checkCredentials uc u'
           else ret \<lparr>ResourceExists = True, ResourceUpToDate = True\<rparr>))"

definition Observe_user :: "('w, 'c) user_client \<Rightarrow> ('w, observation) ctl" where [ctl_defs]:
  "Observe_user uc = as_user (\<lambda>u.
     if get_annotation (u_meta u) UserCreatedAnnotationKey = None \<and> us_UserName (u_status u) = []
     then ret NoObservation
     else
       let u1 = u\<lparr>u_status := (u_status u)\<lparr>us_UserName := GetUserName u\<rparr>\<rparr> in
       seq (put_cr (MUser u1))
       (check (call (ListUsers (uc_ma uc))) (\<lambda>users.
          case users (GetUserName u1) of
            None \<Rightarrow>
              seq (put_cr (MUser (u1\<lparr>u_status := (u_status u1)\<lparr>us_UserName := []\<rparr>\<rparr>)))
                (ret \<lparr>ResourceExists = False, ResourceUpToDate = False\<rparr>)
          | Some minioUser \<Rightarrow> observeMinioUser uc u1 minioUser)))"

subsection \<open>Create, Update and Delete\<close>

definition userExists :: "'w admin_client \<Rightarrow> string \<Rightarrow> ('w, bool) ctl" where [ctl_defs]:
  "userExists ma name = check (call (ListUsers ma)) (\<lambda>users. ret (users name \<noteq> None))"

definition setUserPolicies :: "'w admin_client \<Rightarrow> string \<Rightarrow> string list option \<Rightarrow> ('w, unit) ctl" where [ctl_defs]:
  "setUserPolicies ma userName policies =
     (if slice policies = [] then ret () else call (AttachPolicy ma (slice policies) userName))"

text \<open>
  The annotations are read with \<^verbatim>\<open>GetAnnotations\<close> and written to as they are: a resource
  without any has a nil map, and the write panics.
\<close>

definition emitCreationEvent_user :: "('w, unit) ctl" where [simp, ctl_defs]:
  "emitCreationEvent_user = emit ''Created'' ''User successfully created''"

definition Create_user :: "'w password_gen \<Rightarrow> ('w, 'c) user_client \<Rightarrow> ('w, creation) ctl" where [ctl_defs]:
  "Create_user generate uc = as_user (\<lambda>u.
     check (call (generate 64 5 0 False True)) (\<lambda>secretKey.
     check (userExists (uc_ma uc) (GetUserName u)) (\<lambda>exists.
       if exists then fail (ErrNew ''user already exists'')
       else
         seq (call (AddUser (uc_ma uc) (GetUserName u) secretKey))
         (seq (setUserPolicies (uc_ma uc) (GetUserName u) (up_Policies (u_params u)))
         (seq emitCreationEvent_user
           (case Annotations (u_meta u) of
              None \<Rightarrow> go_panic ''assignment to entry in nil map''
            | Some annotations \<Rightarrow>
                seq (put_cr (MUser (u\<lparr>u_meta := (u_meta u)\<lparr>Annotations := Some (annotations(UserCreatedAnnotationKey \<mapsto> ''true''))\<rparr>\<rparr>)))
                  (ret (Some [SecretKeyName \<mapsto> secretKey, AccessKeyName \<mapsto> GetUserName u]))))))))"

definition emitUpdateEvent_user :: "('w, unit) ctl" where [simp, ctl_defs]:
  "emitUpdateEvent_user = emit ''Updated'' ''User successfully updated''"

definition Update_user :: "('w, 'c) user_client \<Rightarrow> ('w, unit) ctl" where [ctl_defs]:
  "Update_user uc = as_user (\<lambda>u.
     check (call (GetUserInfo (uc_ma uc) (GetUserName u))) (\<lambda>userInfo.
       let split = str_split CHR '','' (ui_PolicyName userInfo);
           policies = (if hd split = [] then [] else split) in
       seq (if policies \<noteq> [] then call (DetachPolicy (uc_ma uc) policies (GetUserName u)) else ret ())
       (seq (setUserPolicies (uc_ma uc) (GetUserName u) (up_Policies (u_params u)))
       (seq (if DeletionTimestamp (u_meta u) = None then
               check (deref (WriteConnectionSecretToReference (u_spec u))) (\<lambda>name.
               check (call (KubeGetSecret (uc_kube uc) name (Namespace (u_meta u)))) (\<lambda>sec.
                 call (SetUser (uc_ma uc) (map_get sec AccessKeyName) (map_get sec SecretKeyName) AccountEnabled)))
             else ret ())
         emitUpdateEvent_user))))"

definition emitDeletionEvent_user :: "('w, unit) ctl" where [simp, ctl_defs]:
  "emitDeletionEvent_user = emit ''Deleted'' ''User successfully deleted''"

definition Delete_user :: "('w, 'c) user_client \<Rightarrow> ('w, unit) ctl" where [ctl_defs]:
  "Delete_user uc = as_user (\<lambda>u.
     seq (call (RemoveUser (uc_ma uc) (GetUserName u)))
     (seq emitDeletionEvent_user
       (put_cr (MUser (SetConditions_user u XpDeleting)))))"

definition Disconnect_user :: "('w, unit) ctl" where [simp, ctl_defs]:
  "Disconnect_user = ret ()"

definition userClient :: "'w password_gen \<Rightarrow> ('w, 'c) user_client \<Rightarrow> 'w external_client" where
  "userClient generate uc = \<lparr>Observe = Observe_user uc, Create = Create_user generate uc,
     Update = Update_user uc, Delete = Delete_user uc, Disconnect = Disconnect_user\<rparr>"

section \<open>The contract with the reconciler\<close>

definition is_user :: "managed \<Rightarrow> bool" where
  "is_user m \<longleftrightarrow> (case m of MUser _ \<Rightarrow> True | _ \<Rightarrow> False)"

definition user_claimed :: "managed \<Rightarrow> bool" where
  "user_claimed m \<longleftrightarrow> (case m of
     MUser u \<Rightarrow> get_annotation (u_meta u) UserCreatedAnnotationKey \<noteq> None \<or> us_UserName (u_status u) \<noteq> []
   | _ \<Rightarrow> False)"

lemma keeps_as_user [keeps_intros]:
  "(\<And>u s. I s \<Longrightarrow> cr s = MUser u \<Longrightarrow> keeps I (k u)) \<Longrightarrow> keeps I (as_user k)"
  by (auto simp: keeps_def as_user_def split: managed.split)

lemma failing_as_user: "(\<And>u. failing_keeps I (k u)) \<Longrightarrow> failing_keeps I (as_user k)"
  by (auto simp: failing_keeps_def as_user_def split: managed.splits)

lemma as_user_foreign: "\<not> is_user (cr s) \<Longrightarrow> as_user k s = (Err errNotUser, s)"
  by (simp add: is_user_def as_user_def split: managed.splits)

lemma same_desired_user:
  "same_desired m (MUser u) \<Longrightarrow> same_desired m (MUser (u\<lparr>u_status := st\<rparr>))"
  "same_desired m (MUser u) \<Longrightarrow> same_desired m (MUser (u\<lparr>u_meta := (u_meta u)\<lparr>Annotations := a\<rparr>\<rparr>))"
  by (cases m; auto simp: same_identity_def)+

lemma user_keeps_desires:
  "keeps (desires m) (Observe_user uc)" "keeps (desires m) (Create_user g uc)"
  "keeps (desires m) (Update_user uc)" "keeps (desires m) (Delete_user uc)"
  unfolding ctl_defs
  by (intro keeps_intros; auto simp: same_desired_user desires_def SetConditions_user_def)+

lemma user_observe_no_event: "keeps (has_events es) (Observe_user uc)"
  unfolding ctl_defs by (intro keeps_intros; simp)

lemma user_observe_no_event': "events (snd (Observe_user uc s)) = events s"
  by (rule keeps_has_events) (rule user_observe_no_event)

lemma user_foreign:
  assumes "\<not> is_user (cr s)"
  shows "Observe_user uc s = (Err errNotUser, s)" "Create_user g uc s = (Err errNotUser, s)"
    "Update_user uc s = (Err errNotUser, s)" "Delete_user uc s = (Err errNotUser, s)"
  using assms
  by (simp_all add: Observe_user_def Create_user_def Update_user_def Delete_user_def as_user_foreign)

lemma returns_as_user [returns_intros]: "(\<And>u. returns P (k u)) \<Longrightarrow> returns P (as_user k)"
  by (auto simp: returns_def as_user_def split: managed.splits)

lemma user_observe_coherent: "returns coherent (Observe_user uc)"
  unfolding ctl_defs by (intro returns_intros; simp)

lemma user_observe_unclaimed:
  "\<not> user_claimed (MUser u) \<Longrightarrow> cr s = MUser u \<Longrightarrow> Observe_user uc s = (Ok NoObservation, s)"
  by (simp add: Observe_user_def as_user_def user_claimed_def ret_def)

lemma user_create_claims: "Create_user g uc s = (Ok c, t) \<Longrightarrow> user_claimed (cr t)"
  by (auto simp: Create_user_def as_user_def check_Ok_iff seq_Ok_iff user_claimed_def get_annotation_def
      split: managed.splits if_splits option.splits)

lemma user_create_stops: "failing_keeps (\<lambda>s. P (cr s)) (Create_user g uc)"
  unfolding ctl_defs
  by (rule failing_as_user, (rule failing_keeps_check, (intro keeps_intros; simp; fail))+, rule failing_keeps_If,
      (intro failing_keeps_keeps keeps_intros; simp; fail),
      (rule failing_keeps_seq, (intro keeps_intros; simp; fail))+,
      rule failing_keeps_option, intro failing_keeps_keeps keeps_intros,
      intro failing_keeps_succeeds succeeds_seq succeeds_intros)

interpretation user: marking_external "userClient g uc" is_user errNotUser user_claimed
  for g :: "'w password_gen" and uc :: "('w, 'c) user_client"
proof (unfold_locales, goal_cases)
  case 10
  then show ?case using user_observe_no_event' by (auto simp: userClient_def)
next
  case 11
  then show ?case using coherentD [OF user_observe_coherent] by (auto simp: userClient_def)
next
  case (12 s x)
  then show ?case using user_observe_unclaimed [of _ s uc]
    by (cases "cr s") (auto simp: userClient_def user_foreign is_user_def NoObservation_def)
next
  case (13 s)
  then show ?case using user_observe_unclaimed [of _ s uc]
    by (cases "cr s") (auto simp: userClient_def user_foreign is_user_def)
next
  case 14
  then show ?case using user_create_claims by (auto simp: userClient_def)
next
  case (15 s r t)
  then show ?case
    by (intro failing_keepsD [OF user_create_stops, of g uc s r t "\<lambda>m. \<not> user_claimed m"]) (simp_all add: userClient_def)
qed (simp_all add: userClient_def user_foreign only_logged_def ret_def keeps_desires user_keeps_desires)

section \<open>The webhook\<close>

text \<open>The check runs on the world: it reads the provider config and lists the policies of the server.\<close>

definition getProviderConfig_user_webhook :: "user \<Rightarrow> 'w kube_client \<Rightarrow> ('w, provider_config) go" where [simp]:
  "getProviderConfig_user_webhook u kube = getProviderConfig kube (u_spec u)"

definition getMinioAdmin :: "('c, 'w admin_client) minio_lib \<Rightarrow> 'w kube_client \<Rightarrow> provider_config \<Rightarrow> ('w, 'w admin_client) go" where [simp]:
  "getMinioAdmin lib kube config = NewMinioAdmin lib kube config"

definition doesPolicyExist :: "('c, 'w admin_client) minio_lib \<Rightarrow> 'w kube_client \<Rightarrow> user \<Rightarrow> ('w, unit) go" where
  "doesPolicyExist lib kube u =
     (if slice (up_Policies (u_params u)) = [] then ret ()
      else
        check (getProviderConfig_user_webhook u kube) (\<lambda>config.
        check (getMinioAdmin lib kube config) (\<lambda>ma.
        check (api_call (ListCannedPolicies ma)) (\<lambda>policies.
          for_each (\<lambda>policy. if policies policy = None then fail (ErrFmt ''policy not found: %s'' [policy]) else ret ())
            (slice (up_Policies (u_params u)))))))"

definition ValidateCreate_user :: "('c, 'w admin_client) minio_lib \<Rightarrow> 'w kube_client \<Rightarrow> user \<Rightarrow> ('w, unit) go" where
  "ValidateCreate_user lib kube u =
     (if \<not> has_provider_config (u_spec u) then
        fail (ErrInvalid [''spec'', ''providerConfigRef'', ''name''] (VStr ''null'') (Detail ''Provider config is required''))
      else if_err (doesPolicyExist lib kube u)
        (\<lambda>err. fail (ErrInvalid [''spec'', ''forProvider'', ''policies''] (VList (up_Policies (u_params u))) (DetailErr err)))
        ret)"

definition ValidateUpdate_user :: "('c, 'w admin_client) minio_lib \<Rightarrow> 'w kube_client \<Rightarrow> user \<Rightarrow> user \<Rightarrow> ('w, unit) go" where
  "ValidateUpdate_user lib kube oldUser newUser =
     (if GetUserName newUser \<noteq> GetUserName oldUser then
        fail (ErrInvalid [''spec'', ''forProvider'', ''userName''] (VStr (GetUserName newUser)) (Detail ''Changing the username is not allowed''))
      else if \<not> has_provider_config (u_spec newUser) then
        fail (ErrInvalid [''spec'', ''providerConfigRef'', ''name''] (VStr ''null'') (Detail ''Provider config is required''))
      else if DeletionTimestamp (u_meta newUser) \<noteq> None then ret ()
      else if_err (doesPolicyExist lib kube newUser)
        (\<lambda>err. fail (ErrInvalid [''spec'', ''forProvider'', ''policies''] (VList (up_Policies (u_params newUser))) (DetailErr err)))
        ret)"

definition ValidateDelete_user :: "user \<Rightarrow> ('w, unit) go" where
  "ValidateDelete_user u = ret ()"

definition userValidator :: "('c, 'w admin_client) minio_lib \<Rightarrow> 'w kube_client \<Rightarrow> ('w, user) validator" where
  "userValidator lib kube = \<lparr>ValidateCreate = ValidateCreate_user lib kube,
     ValidateUpdate = ValidateUpdate_user lib kube, ValidateDelete = ValidateDelete_user\<rparr>"

interpretation user_webhook: fixed_identity "userValidator lib kube" u_spec "\<lambda>_. False" GetUserName
  for lib :: "('c, 'w admin_client) minio_lib" and kube :: "'w kube_client"
  by unfold_locales
    (auto simp: userValidator_def ValidateCreate_user_def ValidateUpdate_user_def ValidateDelete_user_def ret_def
      split: if_split_asm)

lemma api_call_Ok_iff: "api_call f w = (Ok x, w') \<longleftrightarrow> f w = (Inr x, w')"
  by (auto simp: api_call_def split: prod.splits sum.splits)

section \<open>What the controller relies on from the admin API\<close>

text \<open>
  A view of the server: for each user its status and attached policies. Policy names are not
  empty and hold no comma, as the comma-joined \<^verbatim>\<open>PolicyName\<close> of the API requires. Attaching
  and detaching change the set of policies; the order in which the server lists them is its own.
\<close>

record account =
  ac_Status :: string
  ac_Policies :: "string list"

definition policy_names :: "string list \<Rightarrow> bool" where
  "policy_names ps \<longleftrightarrow> distinct ps \<and> (\<forall>p \<in> set ps. p \<noteq> [] \<and> CHR '','' \<notin> set p)"

definition account_info :: "account \<Rightarrow> user_info" where
  "account_info a = \<lparr>ui_PolicyName = str_join CHR '','' (ac_Policies a), ui_Status = ac_Status a\<rparr>"

type_synonym 'w account_view = "'w \<Rightarrow> string \<Rightarrow> account option"

definition user_read_laws :: "'w admin_client \<Rightarrow> 'w account_view \<Rightarrow> bool" where
  "user_read_laws ma view \<longleftrightarrow>
     (\<forall>w n a. view w n = Some a \<longrightarrow> policy_names (ac_Policies a)) \<and>
     reads view (ListUsers ma) (\<lambda>v r. case r of Inl _ \<Rightarrow> True | Inr m \<Rightarrow> m = (\<lambda>n. map_option account_info (v n))) \<and>
     (\<forall>n. reads view (GetUserInfo ma n)
        (\<lambda>v r. case r of Inl _ \<Rightarrow> True | Inr i \<Rightarrow> \<exists>a. v n = Some a \<and> i = account_info a))"

definition user_write_laws :: "'w admin_client \<Rightarrow> 'w account_view \<Rightarrow> bool" where
  "user_write_laws ma view \<longleftrightarrow>
     (\<forall>n sk. effects view (AddUser ma n sk) (\<lambda>v _ v'. \<exists>a. v' n = Some a \<and> (v n = None \<longrightarrow> ac_Policies a = []))) \<and>
     (\<forall>ps n. effects view (AttachPolicy ma ps n)
        (\<lambda>v _ v'. \<exists>a a'. v n = Some a \<and> v' n = Some a' \<and> set (ac_Policies a') = set (ac_Policies a) \<union> set ps)) \<and>
     (\<forall>ps n. effects view (DetachPolicy ma ps n)
        (\<lambda>v _ v'. \<exists>a a'. v n = Some a \<and> v' n = Some a' \<and> set (ac_Policies a') = set (ac_Policies a) - set ps)) \<and>
     (\<forall>k sk st. effects view (SetUser ma k sk st)
        (\<lambda>v _ v'. \<forall>n a. v n = Some a \<longrightarrow> (\<exists>a'. v' n = Some a' \<and> ac_Policies a' = ac_Policies a)))"

lemma user_readsD:
  assumes "user_read_laws ma view"
  shows "view w n = Some a \<Longrightarrow> policy_names (ac_Policies a)"
    and "ListUsers ma w = (Inr m, w') \<Longrightarrow> view w' = view w \<and> m = (\<lambda>n. map_option account_info (view w n))"
    and "GetUserInfo ma n w = (Inr i, w') \<Longrightarrow> view w' = view w \<and> (\<exists>a. view w n = Some a \<and> i = account_info a)"
    and "ListUsers ma w = (r, w') \<Longrightarrow> view w' = view w"
proof -
  note l = assms [unfolded user_read_laws_def]
  show "view w n = Some a \<Longrightarrow> policy_names (ac_Policies a)" using l by blast
  show "ListUsers ma w = (Inr m, w') \<Longrightarrow> view w' = view w \<and> m = (\<lambda>n. map_option account_info (view w n))"
    using readsD [OF conjunct1 [OF conjunct2 [OF l]], of w "Inr m" w'] by simp
  show "ListUsers ma w = (r, w') \<Longrightarrow> view w' = view w"
    using readsD [OF conjunct1 [OF conjunct2 [OF l]], of w r w'] by simp
  show "GetUserInfo ma n w = (Inr i, w') \<Longrightarrow> view w' = view w \<and> (\<exists>a. view w n = Some a \<and> i = account_info a)"
    using readsD [OF spec [OF conjunct2 [OF conjunct2 [OF l]], of n], of w "Inr i" w'] by simp
qed

lemma user_writesD:
  assumes "user_write_laws ma view"
  shows "AddUser ma n sk w = (Inr u, w') \<Longrightarrow> \<exists>a. view w' n = Some a \<and> (view w n = None \<longrightarrow> ac_Policies a = [])"
    and "AttachPolicy ma ps n w = (Inr u, w') \<Longrightarrow>
      \<exists>a a'. view w n = Some a \<and> view w' n = Some a' \<and> set (ac_Policies a') = set (ac_Policies a) \<union> set ps"
    and "DetachPolicy ma ps n w = (Inr u, w') \<Longrightarrow>
      \<exists>a a'. view w n = Some a \<and> view w' n = Some a' \<and> set (ac_Policies a') = set (ac_Policies a) - set ps"
    and "SetUser ma k sk st w = (Inr u, w') \<Longrightarrow>
      \<forall>n a. view w n = Some a \<longrightarrow> (\<exists>a'. view w' n = Some a' \<and> ac_Policies a' = ac_Policies a)"
proof -
  note l = assms [unfolded user_write_laws_def]
  show "AddUser ma n sk w = (Inr u, w') \<Longrightarrow> \<exists>a. view w' n = Some a \<and> (view w n = None \<longrightarrow> ac_Policies a = [])"
    by (rule effectsD [OF spec [OF spec [OF conjunct1 [OF l]]]])
  show "AttachPolicy ma ps n w = (Inr u, w') \<Longrightarrow>
      \<exists>a a'. view w n = Some a \<and> view w' n = Some a' \<and> set (ac_Policies a') = set (ac_Policies a) \<union> set ps"
    by (rule effectsD [OF spec [OF spec [OF conjunct1 [OF conjunct2 [OF l]]]]])
  show "DetachPolicy ma ps n w = (Inr u, w') \<Longrightarrow>
      \<exists>a a'. view w n = Some a \<and> view w' n = Some a' \<and> set (ac_Policies a') = set (ac_Policies a) - set ps"
    by (rule effectsD [OF spec [OF spec [OF conjunct1 [OF conjunct2 [OF conjunct2 [OF l]]]]]])
  show "SetUser ma k sk st w = (Inr u, w') \<Longrightarrow>
      \<forall>n a. view w n = Some a \<longrightarrow> (\<exists>a'. view w' n = Some a' \<and> ac_Policies a' = ac_Policies a)"
    by (rule effectsD [OF spec [OF spec [OF spec [OF conjunct2 [OF conjunct2 [OF conjunct2 [OF l]]]]]]])
qed

text \<open>The abstract specification of the policy comparison.\<close>

definition policies_match :: "string list option \<Rightarrow> string list \<Rightarrow> bool" where
  "policies_match desired ps \<longleftrightarrow> (case desired of None \<Rightarrow> ps = [] | Some d \<Rightarrow> d \<noteq> [] \<and> ps = d)"

lemma split_policies:
  "policy_names ps \<Longrightarrow> str_split CHR '','' (str_join CHR '','' ps) = (if ps = [] then [[]] else ps)"
  by (auto simp: policy_names_def str_split_join)

lemma hd_policy: "policy_names ps \<Longrightarrow> ps \<noteq> [] \<Longrightarrow> hd ps \<noteq> []"
  by (cases ps) (auto simp: policy_names_def)

lemma equalPolicies_match:
  "policy_names (ac_Policies a) \<Longrightarrow>
   equalPolicies (account_info a) u \<longleftrightarrow> policies_match (up_Policies (u_params u)) (ac_Policies a)"
  by (auto simp: equalPolicies_def account_info_def split_policies policies_match_def hd_policy Let_def split: option.splits)

end
