(* ===== verification/Mem_Admin.thy ===== *)
theory Mem_Admin
  imports User
begin

text \<open>
  An in-memory MinIO server behind the admin API, on which the laws of the controllers hold:
  accounts, canned policies and service accounts. It stands for the server in the witnesses
  only: nothing of the provider is modelled here.
\<close>

record mem_server =
  accounts :: "string \<Rightarrow> account option"
  canned :: "string \<Rightarrow> string option"
  service_accounts :: "string \<Rightarrow> sa_info option"

definition not_found :: api_error where
  "not_found = \<lparr>err_text = ''The specified entry does not exist.'', err_code = ''NoSuchEntry'', err_status = 404\<rparr>"

definition server_busy :: api_error where
  "server_busy = \<lparr>err_text = ''Server busy'', err_code = ''SlowDown'', err_status = 503\<rparr>"

text \<open>The server shows of an account the policies with proper names, in the order attached.\<close>

definition proper :: "string \<Rightarrow> bool" where
  "proper p \<longleftrightarrow> p \<noteq> [] \<and> CHR '','' \<notin> set p"

definition shown :: "account \<Rightarrow> account" where
  "shown a = a\<lparr>ac_Policies := remdups (filter proper (ac_Policies a))\<rparr>"

definition on_account :: "string \<Rightarrow> (account \<Rightarrow> account) \<Rightarrow> (mem_server, unit) api" where
  "on_account n f w = (case accounts w n of
     None \<Rightarrow> (Inl not_found, w)
   | Some a \<Rightarrow> (Inr (), w\<lparr>accounts := (accounts w)(n \<mapsto> f a)\<rparr>))"

definition attach :: "string list \<Rightarrow> account \<Rightarrow> account" where
  "attach ps a = a\<lparr>ac_Policies := ac_Policies a @ filter (\<lambda>p. p \<notin> set (ac_Policies a)) (remdups ps)\<rparr>"

definition mem_admin :: "mem_server admin_client" where
  "mem_admin = \<lparr>
     ListCannedPolicies = (\<lambda>w. (Inr (canned w), w)),
     AddCannedPolicy = (\<lambda>n p w. (Inr (), w\<lparr>canned := (canned w)(n \<mapsto> p)\<rparr>)),
     RemoveCannedPolicy = (\<lambda>n w. (Inr (), w\<lparr>canned := (canned w)(n := None)\<rparr>)),
     ListUsers = (\<lambda>w. (Inr (\<lambda>n. map_option (\<lambda>a. account_info (shown a)) (accounts w n)), w)),
     GetUserInfo = (\<lambda>n w. (case accounts w n of None \<Rightarrow> (Inl not_found, w) | Some a \<Rightarrow> (Inr (account_info (shown a)), w))),
     AddUser = (\<lambda>n sk w. (Inr (), w\<lparr>accounts := (accounts w)(n \<mapsto> \<lparr>ac_Status = AccountEnabled, ac_Policies = []\<rparr>)\<rparr>)),
     SetUser = (\<lambda>n sk st. on_account n (ac_Status_update (\<lambda>_. st))),
     RemoveUser = (\<lambda>n w. (Inr (), w\<lparr>accounts := (accounts w)(n := None)\<rparr>)),
     AttachPolicy = (\<lambda>ps n w. if \<forall>p \<in> set ps. proper p \<and> canned w p \<noteq> None then on_account n (attach ps) w else (Inl not_found, w)),
     DetachPolicy = (\<lambda>ps n. on_account n (\<lambda>a. a\<lparr>ac_Policies := filter (\<lambda>p. p \<notin> set ps) (ac_Policies a)\<rparr>)),
     AddServiceAccount = (\<lambda>r w. (Inr \<lparr>sac_AccessKey = req_AccessKey r, sac_SecretKey = req_SecretKey r\<rparr>,
       w\<lparr>service_accounts := (service_accounts w)(req_AccessKey r \<mapsto>
         \<lparr>si_ParentUser = req_TargetUser r, si_AccountStatus = ''enabled'', si_ImpliedPolicy = (req_Policy r = None),
          si_Policy = (case req_Policy r of None \<Rightarrow> [] | Some p \<Rightarrow> p), si_Expiration = req_Expiration r\<rparr>)\<rparr>)),
     InfoServiceAccount = (\<lambda>n w. (case service_accounts w n of None \<Rightarrow> (Inl not_found, w) | Some i \<Rightarrow> (Inr i, w))),
     UpdateServiceAccount = (\<lambda>n r w. (case service_accounts w n of
         None \<Rightarrow> (Inl not_found, w)
       | Some i \<Rightarrow> (Inr (), w\<lparr>service_accounts := (service_accounts w)(n \<mapsto>
           i\<lparr>si_Policy := (case upd_NewPolicy r of None \<Rightarrow> si_Policy i | Some p \<Rightarrow> p),
             si_Expiration := (case upd_NewExpiration r of None \<Rightarrow> si_Expiration i | Some t \<Rightarrow> Some t)\<rparr>)\<rparr>))),
     DeleteServiceAccount = (\<lambda>n w. (Inr (), w\<lparr>service_accounts := (service_accounts w)(n := None)\<rparr>))\<rparr>"

definition account_view_of :: "mem_server \<Rightarrow> string \<Rightarrow> account option" where
  "account_view_of w n = map_option shown (accounts w n)"

lemmas mem_admin_simps = mem_admin_def on_account_def attach_def account_view_of_def

lemma shown_names: "policy_names (ac_Policies (shown a))"
  by (auto simp: shown_def policy_names_def proper_def)

lemma mem_user_read_laws: "user_read_laws mem_admin account_view_of"
  by (auto simp: user_read_laws_def reads_def mem_admin_simps shown_names fun_eq_iff option.map_comp comp_def
      split: option.splits)

lemma mem_user_write_laws: "user_write_laws mem_admin account_view_of"
  by (auto simp: user_write_laws_def effects_def mem_admin_simps shown_def split: option.splits)

end
