(* ===== verification/User_Props.thy ===== *)
theory User_Props
  imports User Mem_Admin
begin

text \<open>
  The properties of the user controller: what Observe reports, that an update leaves exactly
  the desired policies attached, that an existing user is never taken over, and the ends a user
  can get stuck in. Witnesses run on the in-memory server of theory \<open>Mem_Admin\<close>.
\<close>

section \<open>Observe\<close>

lemma checkCredentials_exists: "returns ResourceExists (checkCredentials uc u)"
  unfolding ctl_defs by (intro returns_intros; simp)

definition reported :: "user_info \<Rightarrow> user \<Rightarrow> observation \<Rightarrow> bool" where
  "reported i u x \<longleftrightarrow> ResourceExists x \<and> (ResourceUpToDate x \<longrightarrow> equalPolicies i u) \<and>
     (DeletionTimestamp (u_meta u) \<noteq> None \<longrightarrow> ResourceUpToDate x = equalPolicies i u)"

lemma observeMinioUser_reports: "returns (reported i u) (observeMinioUser uc u i)"
proof -
  have "equalPolicies i u \<Longrightarrow> DeletionTimestamp (u_meta u) = None \<Longrightarrow> returns (reported i u) (checkCredentials uc v)" for v
    using checkCredentials_exists [of uc v] by (auto simp: returns_def reported_def)
  then show ?thesis
    unfolding observeMinioUser_def Let_def
    by (intro returns_If returns_seq returns_ends(1)) (auto simp: reported_def)
qed

text \<open>A claimed user is looked up in the list, whatever the list call did on the way.\<close>

lemma observe_user_listed:
  assumes "cr s = MUser u" and "user_claimed (MUser u)" and "Observe_user uc s = (Ok x, t)"
  shows "\<exists>users w. ListUsers (uc_ma uc) (world s) = (Inr users, w) \<and>
    (case users (GetUserName u) of
       None \<Rightarrow> x = NoObservation
     | Some i \<Rightarrow> reported i u x \<and>
         (\<exists>s'. observeMinioUser uc (u\<lparr>u_status := (u_status u)\<lparr>us_UserName := GetUserName u\<rparr>\<rparr>) i s' = (Ok x, t)))"
proof -
  let ?u1 = "u\<lparr>u_status := (u_status u)\<lparr>us_UserName := GetUserName u\<rparr>\<rparr>"
  have n: "reported i ?u1 = reported i u" for i
    by (auto simp: reported_def equalPolicies_def fun_eq_iff)
  from assms obtain users w where users: "ListUsers (uc_ma uc) (world s) = (Inr users, w)"
    and rest: "(case users (GetUserName u) of
            None \<Rightarrow>
              seq (put_cr (MUser (?u1\<lparr>u_status := (u_status ?u1)\<lparr>us_UserName := []\<rparr>\<rparr>)))
                (ret \<lparr>ResourceExists = False, ResourceUpToDate = False\<rparr>)
          | Some minioUser \<Rightarrow> observeMinioUser uc ?u1 minioUser)
        (s\<lparr>cr := MUser ?u1, world := w\<rparr>) = (Ok x, t)"
    unfolding Observe_user_def as_user_def Let_def user_claimed_def
    by (auto simp: check_Ok_iff seq_Ok_iff call_Ok_iff)
  have rep: "reported i u x" if "observeMinioUser uc ?u1 i s' = (Ok x, t)" for i s'
    using observeMinioUser_reports [of i ?u1 uc] that by (simp add: n returns_def) blast
  from rest have "case users (GetUserName u) of
       None \<Rightarrow> x = NoObservation
     | Some i \<Rightarrow> reported i u x \<and> (\<exists>s'. observeMinioUser uc ?u1 i s' = (Ok x, t))"
    by (cases "users (GetUserName u)") (auto simp: seq_Ok_iff NoObservation_def rep)
  with users show ?thesis by blast
qed

text \<open>
  C11. Whenever Observe of a claimed user succeeds, it reports the user existing iff the server
  lists it, and up to date only if the attached policies are the desired ones in the server's
  order, none for an absent list; for a resource that is being deleted it is up to date exactly
  then.
\<close>

theorem user_observe_exact:
  assumes "user_read_laws (uc_ma uc) view"
    and "cr s = MUser u" and "user_claimed (MUser u)"
    and "Observe_user uc s = (Ok x, t)"
  shows "case view (world s) (GetUserName u) of
      None \<Rightarrow> x = NoObservation
    | Some a \<Rightarrow> ResourceExists x \<and>
        (ResourceUpToDate x \<longrightarrow> policies_match (up_Policies (u_params u)) (ac_Policies a)) \<and>
        (DeletionTimestamp (u_meta u) \<noteq> None \<longrightarrow>
           ResourceUpToDate x = policies_match (up_Policies (u_params u)) (ac_Policies a))"
proof -
  from observe_user_listed [OF assms(2-4)] obtain users w where
    "ListUsers (uc_ma uc) (world s) = (Inr users, w)" and
    r: "case users (GetUserName u) of None \<Rightarrow> x = NoObservation | Some i \<Rightarrow> reported i u x"
    by (fastforce split: option.splits)
  from user_readsD(2) [OF assms(1) this(1)] have "users = (\<lambda>n. map_option account_info (view (world s) n))" by simp
  with r show ?thesis
    by (cases "view (world s) (GetUserName u)")
      (simp_all add: reported_def equalPolicies_match [OF user_readsD(1) [OF assms(1)]])
qed

definition demo_user :: user where
  "demo_user = \<lparr>
     u_meta = \<lparr>Name = ''ada'', Namespace = ''prod'', Annotations = Some Map.empty, DeletionTimestamp = None\<rparr>,
     u_spec = \<lparr>ManagementPolicies = None, ProviderConfigReference = Some ''default'', WriteConnectionSecretToReference = Some ''ada-secret''\<rparr>,
     u_params = \<lparr>up_UserName = [], up_Policies = Some [''readonly'']\<rparr>,
     u_status = \<lparr>us_Conditions = [], us_UserName = [], us_Status = [], us_Policies = []\<rparr>\<rparr>"

text \<open>A server with the canned policy and a client that accepts any credentials.\<close>

definition demo_server :: mem_server where
  "demo_server = \<lparr>accounts = Map.empty, canned = [''readonly'' \<mapsto> ''{}''], service_accounts = Map.empty\<rparr>"

definition demo_uc :: "(mem_server, unit) user_client" where
  "demo_uc = \<lparr>uc_ma = mem_admin,
     uc_kube = one_secret [''AWS_ACCESS_KEY_ID'' \<mapsto> ''ada'', ''AWS_SECRET_ACCESS_KEY'' \<mapsto> ''pa55word''] tls_demo,
     uc_url = \<lparr>url_Scheme = ''https'', url_Host = ''minio:9000''\<rparr>, uc_tlsSettings = True,
     uc_NewS3 = (\<lambda>_ _. Inr ()), uc_ListBuckets = (\<lambda>_ w. (Inr (), w))\<rparr>"

definition claimed_demo_user :: user where
  "claimed_demo_user = demo_user\<lparr>u_status := (u_status demo_user)\<lparr>us_UserName := ''ada''\<rparr>\<rparr>"

definition ada_server :: "string list \<Rightarrow> mem_server" where
  "ada_server ps = demo_server\<lparr>accounts := [''ada'' \<mapsto> \<lparr>ac_Status = AccountEnabled, ac_Policies = ps\<rparr>]\<rparr>"

lemma demo_user_simps [simp]:
  "GetUserName demo_user = ''ada''" "GetUserName claimed_demo_user = ''ada''"
  "user_claimed (MUser claimed_demo_user)" "\<not> user_claimed (MUser demo_user)"
  "up_Policies (u_params claimed_demo_user) = Some [''readonly'']" "up_Policies (u_params demo_user) = Some [''readonly'']"
  by (simp_all add: GetUserName_def demo_user_def claimed_demo_user_def user_claimed_def get_annotation_def)

lemmas user_eval = as_user_def Let_def go_defs Observe_user_def observeMinioUser_def equalPolicies_def checkCredentials_def
  demo_uc_def mem_admin_simps one_secret_def shown_def account_info_def

lemma demo_user_observe:
  "\<exists>x t. Observe_user demo_uc \<lparr>world = ada_server [''readonly''], cr = MUser claimed_demo_user, events = [], logs = []\<rparr> = (Ok x, t) \<and>
     ResourceUpToDate x"
  by (simp add: user_eval claimed_demo_user_def demo_user_def ada_server_def GetUserName_def
      get_annotation_def SetConditions_user_def proper_def)

theorem user_observe_exact_witness:
  "\<exists>t x. Observe_user demo_uc \<lparr>world = ada_server [''readonly''], cr = MUser claimed_demo_user, events = [], logs = []\<rparr> = (Ok x, t) \<and>
     ResourceExists x \<and> policies_match (Some [''readonly'']) [''readonly'']"
proof -
  let ?s = "\<lparr>world = ada_server [''readonly''], cr = MUser claimed_demo_user, events = [], logs = []\<rparr>"
  from demo_user_observe obtain x t where ob: "Observe_user demo_uc ?s = (Ok x, t)" "ResourceUpToDate x" by blast
  have "user_read_laws (uc_ma demo_uc) account_view_of" by (simp add: demo_uc_def mem_user_read_laws)
  from user_observe_exact [OF this _ _ ob(1), of claimed_demo_user] ob
  show ?thesis by (auto simp: account_view_of_def ada_server_def shown_def proper_def)
qed

section \<open>Update\<close>

lemma detach_step:
  assumes laws: "user_read_laws ma view" "user_write_laws ma view"
    and ok: "(if ps \<noteq> [] then call (DetachPolicy ma ps n) else ret ()) s = (Ok (), t)"
    and ps: "ps = (if hd (str_split CHR '','' (ui_PolicyName (account_info a))) = [] then []
      else str_split CHR '','' (ui_PolicyName (account_info a)))"
    and s: "view (world s) n = Some a"
  shows "\<exists>a'. view (world t) n = Some a' \<and> ac_Policies a' = []"
proof -
  have "policy_names (ac_Policies a)" using user_readsD(1) [OF laws(1) s] .
  then have "ps = ac_Policies a" using ps
    by (auto simp: account_info_def split_policies hd_policy split: if_splits)
  with ok s show ?thesis
    by (cases "ps = []") (auto simp: call_Ok_iff dest!: user_writesD(3) [OF laws(2)])
qed

lemma attach_step:
  assumes laws: "user_read_laws ma view" "user_write_laws ma view"
    and ok: "setUserPolicies ma n d s = (Ok (), t)"
    and s: "view (world s) n = Some a" "ac_Policies a = []"
  shows "\<exists>a'. view (world t) n = Some a' \<and> set (ac_Policies a') = set (slice d)"
  using ok s by (auto simp: setUserPolicies_def call_Ok_iff split: if_splits dest!: user_writesD(2) [OF laws(2)])

lemma user_update_attaches:
  assumes "user_read_laws (uc_ma uc) view" and "user_write_laws (uc_ma uc) view"
    and "\<And>n ns. unnoticed view (KubeGetSecret (uc_kube uc) n ns)"
    and "cr s = MUser u" and "Update_user uc s = (Ok (), t)"
  shows "\<exists>a. view (world t) (GetUserName u) = Some a \<and> set (ac_Policies a) = set (slice (up_Policies (u_params u)))"
proof -
  let ?n = "GetUserName u" and ?ma = "uc_ma uc"
  let ?ps = "\<lambda>i. if hd (str_split CHR '','' (ui_PolicyName i)) = [] then [] else str_split CHR '','' (ui_PolicyName i)"
  from assms(4,5) obtain i s1 s2 s3 s4 where
    i: "call (GetUserInfo ?ma ?n) s = (Ok i, s1)" and
    d: "(if ?ps i \<noteq> [] then call (DetachPolicy ?ma (?ps i) ?n) else ret ()) s1 = (Ok (), s2)" and
    at: "setUserPolicies ?ma ?n (up_Policies (u_params u)) s2 = (Ok (), s3)" and
    set: "(if DeletionTimestamp (u_meta u) = None then
        check (deref (WriteConnectionSecretToReference (u_spec u))) (\<lambda>name.
        check (call (KubeGetSecret (uc_kube uc) name (Namespace (u_meta u)))) (\<lambda>sec.
          call (SetUser ?ma (map_get sec AccessKeyName) (map_get sec SecretKeyName) AccountEnabled)))
      else ret ()) s3 = (Ok (), s4)" and t: "world t = world s4"
    unfolding Update_user_def as_user_def Let_def by (auto simp: check_Ok_iff seq_Ok_iff split del: if_split)
  from i obtain a where a: "view (world s1) ?n = Some a" "i = account_info a"
    by (auto simp: call_Ok_iff dest!: user_readsD(3) [OF assms(1)])
  from detach_step [OF assms(1,2) d _ a(1)] a(2) obtain a2 where
    "view (world s2) ?n = Some a2" "ac_Policies a2 = []" by auto
  from attach_step [OF assms(1,2) at this] obtain a3 where
    a3: "view (world s3) ?n = Some a3" "set (ac_Policies a3) = set (slice (up_Policies (u_params u)))" by blast
  have "\<exists>a4. view (world s4) ?n = Some a4 \<and> ac_Policies a4 = ac_Policies a3"
  proof (cases "DeletionTimestamp (u_meta u) = None")
    case True
    with set obtain name sec w where
      k: "KubeGetSecret (uc_kube uc) name (Namespace (u_meta u)) (world s3) = (Inr sec, w)"
      and st: "SetUser ?ma (map_get sec AccessKeyName) (map_get sec SecretKeyName) AccountEnabled w = (Inr (), world s4)"
      by (auto simp: check_Ok_iff deref_Ok_iff call_Ok_iff)
    from unnoticedD [OF assms(3) k] have "view w = view (world s3)" .
    with user_writesD(4) [OF assms(2) st] a3(1) show ?thesis by simp
  next
    case False
    with set a3 show ?thesis by simp
  qed
  with a3(2) t show ?thesis by auto
qed

text \<open>Of calls that fail it is relied on that the server refused them, and changed nothing.\<close>

definition refusal_unnoticed :: "('w \<Rightarrow> 'v) \<Rightarrow> ('w, 'a) api \<Rightarrow> bool" where
  "refusal_unnoticed view f \<longleftrightarrow> (\<forall>w e w'. f w = (Inl e, w') \<longrightarrow> view w' = view w)"

definition user_refusal_laws :: "'w admin_client \<Rightarrow> 'w account_view \<Rightarrow> bool" where
  "user_refusal_laws ma view \<longleftrightarrow>
     (\<forall>ps n. refusal_unnoticed view (AttachPolicy ma ps n) \<and> refusal_unnoticed view (DetachPolicy ma ps n)) \<and>
     (\<forall>k sk st. refusal_unnoticed view (SetUser ma k sk st))"

lemma call_refused:
  "refusal_unnoticed view f \<Longrightarrow> call f s = (r, t) \<Longrightarrow> (\<And>x. r \<noteq> Ok x) \<Longrightarrow> view (world t) = view (world s)"
  by (auto simp: refusal_unnoticed_def go_defs split: prod.splits sum.splits)

lemma call_unnoticed: "unnoticed view f \<Longrightarrow> call f s = (r, t) \<Longrightarrow> view (world t) = view (world s)"
  by (auto simp: go_defs dest: unnoticedD split: prod.splits sum.splits)

lemma push_refused:
  assumes sec: "\<And>n ns. unnoticed view (KubeGetSecret (uc_kube uc) n ns)" and ref: "user_refusal_laws (uc_ma uc) view"
    and run: "(if DeletionTimestamp (u_meta u) = None then
        check (deref (WriteConnectionSecretToReference (u_spec u))) (\<lambda>name.
        check (call (KubeGetSecret (uc_kube uc) name (Namespace (u_meta u)))) (\<lambda>sec.
          call (SetUser (uc_ma uc) (map_get sec AccessKeyName) (map_get sec SecretKeyName) AccountEnabled)))
      else ret ()) s = (r, t)" and "\<And>x. r \<noteq> Ok x"
  shows "view (world t) = view (world s)"
proof -
  let ?set = "\<lambda>sec. call (SetUser (uc_ma uc) (map_get sec AccessKeyName) (map_get sec SecretKeyName) AccountEnabled)"
  from run assms(4) have "check (deref (WriteConnectionSecretToReference (u_spec u))) (\<lambda>name.
        check (call (KubeGetSecret (uc_kube uc) name (Namespace (u_meta u)))) ?set) s = (r, t)"
    by (auto simp: ret_def split: if_split_asm)
  then show ?thesis
  proof (cases rule: check_cases)
    case (on name w)
    then have w: "w = s" by (simp add: deref_Ok_iff)
    from on(2) show ?thesis
    proof (cases rule: check_cases)
      case (on sec v)
      from ref have "refusal_unnoticed view (SetUser (uc_ma uc) (map_get sec AccessKeyName) (map_get sec SecretKeyName) AccountEnabled)"
        by (simp add: user_refusal_laws_def)
      from call_refused [OF this on(2) assms(4)] call_unnoticed [OF sec on(1)] w show ?thesis by simp
    next
      case (early q)
      from call_unnoticed [OF sec early(1)] w show ?thesis by simp
    qed
  next
    case (early q)
    then have "t = s" by (auto simp: go_defs split: option.splits)
    then show ?thesis by simp
  qed
qed

lemma change_refused:
  assumes "user_refusal_laws ma view" and "\<And>x. r \<noteq> Ok x"
  shows "setUserPolicies ma n d s = (r, t) \<Longrightarrow> view (world t) = view (world s)"
    and "(if ps \<noteq> [] then call (DetachPolicy ma ps n) else ret ()) s = (r, t) \<Longrightarrow> view (world t) = view (world s)"
proof -
  from assms(1) have ref: "refusal_unnoticed view (AttachPolicy ma (slice d) n)" "refusal_unnoticed view (DetachPolicy ma ps n)"
    by (simp_all add: user_refusal_laws_def)
  show "setUserPolicies ma n d s = (r, t) \<Longrightarrow> view (world t) = view (world s)"
    using call_refused [OF ref(1) _ assms(2)] by (auto simp: setUserPolicies_def ret_def split: if_split_asm)
  show "(if ps \<noteq> [] then call (DetachPolicy ma ps n) else ret ()) s = (r, t) \<Longrightarrow> view (world t) = view (world s)"
    using call_refused [OF ref(2) _ assms(2)] by (auto simp: ret_def split: if_split_asm)
qed

text \<open>Where an Update can stop, and what is attached then: what was, nothing, or what is desired.\<close>

lemma user_update_interrupted:
  assumes "user_read_laws (uc_ma uc) view" and "user_write_laws (uc_ma uc) view"
    and sec: "\<And>n ns. unnoticed view (KubeGetSecret (uc_kube uc) n ns)" and ref: "user_refusal_laws (uc_ma uc) view"
    and "cr s = MUser u" and "Update_user uc s = (r, t)" and "r \<noteq> Ok ()"
    and old: "view (world s) (GetUserName u) = Some a"
  shows "\<exists>b. view (world t) (GetUserName u) = Some b \<and>
    set (ac_Policies b) \<in> {set (ac_Policies a), {}, set (slice (up_Policies (u_params u)))}"
proof -
  let ?n = "GetUserName u" and ?ma = "uc_ma uc" and ?d = "up_Policies (u_params u)"
  let ?ps = "\<lambda>i. if hd (str_split CHR '','' (ui_PolicyName i)) = [] then [] else str_split CHR '','' (ui_PolicyName i)"
  let ?push = "if DeletionTimestamp (u_meta u) = None then
        check (deref (WriteConnectionSecretToReference (u_spec u))) (\<lambda>name.
        check (call (KubeGetSecret (uc_kube uc) name (Namespace (u_meta u)))) (\<lambda>sec.
          call (SetUser ?ma (map_get sec AccessKeyName) (map_get sec SecretKeyName) AccountEnabled)))
      else ret ()"
  from assms(5,6) have "check (call (GetUserInfo ?ma ?n)) (\<lambda>i.
       seq (if ?ps i \<noteq> [] then call (DetachPolicy ?ma (?ps i) ?n) else ret ())
       (seq (setUserPolicies ?ma ?n ?d) (seq ?push emitUpdateEvent_user))) s = (r, t)"
    by (simp add: Update_user_def as_user_def Let_def split del: if_split)
  then show ?thesis
  proof (cases rule: check_cases)
    case (early q)
    have "unnoticed view (GetUserInfo ?ma ?n)" using assms(1) by (simp add: user_read_laws_def reads_def unnoticed_def)
    from call_unnoticed [OF this early(1)] old show ?thesis by simp
  next
    case (on i s1)
    then have i: "view (world s1) = view (world s)" "i = account_info a"
      using old by (auto simp: call_Ok_iff dest!: user_readsD(3) [OF assms(1)])
    from on(2) show ?thesis
    proof (cases rule: seq_cases)
      case (early q)
      from change_refused(2) [OF ref early(2,1)] i old show ?thesis by simp
    next
      case (on s2)
      from detach_step [OF assms(1,2) on(1), of a] i old obtain a2 where
        a2: "view (world s2) ?n = Some a2" "ac_Policies a2 = []" by auto
      from on(2) show ?thesis
      proof (cases rule: seq_cases)
        case (early q)
        from change_refused(1) [OF ref early(2,1)] a2 show ?thesis by auto
      next
        case (on s3)
        from attach_step [OF assms(1,2) on(1) a2] obtain a3 where
          a3: "view (world s3) ?n = Some a3" "set (ac_Policies a3) = set (slice ?d)" by blast
        from on(2) show ?thesis
        proof (cases rule: seq_cases)
          case (early q)
          from push_refused [OF sec ref early(1,2)] a3 show ?thesis by auto
        next
          case (on s4)
          with assms(7) show ?thesis by (simp add: emit_def)
        qed
      qed
    qed
  qed
qed

text \<open>
  C9. What an Update of a user leaves attached on the server: when it succeeds, exactly the
  desired policies, whatever was attached before and whatever the connection secret holds; when it
  fails, what was attached before, the desired policies, or none at all, since the old ones are
  detached before the desired ones are attached.
\<close>

theorem user_update_policies:
  assumes "user_read_laws (uc_ma uc) view" and "user_write_laws (uc_ma uc) view"
    and "\<And>n ns. unnoticed view (KubeGetSecret (uc_kube uc) n ns)"
    and "cr s = MUser u" and "Update_user uc s = (r, t)"
  shows "(r = Ok () \<longrightarrow>
      (\<exists>a. view (world t) (GetUserName u) = Some a \<and> set (ac_Policies a) = set (slice (up_Policies (u_params u))))) \<and>
    (r \<noteq> Ok () \<longrightarrow> user_refusal_laws (uc_ma uc) view \<longrightarrow> (\<forall>a. view (world s) (GetUserName u) = Some a \<longrightarrow>
      (\<exists>b. view (world t) (GetUserName u) = Some b \<and>
        set (ac_Policies b) \<in> {set (ac_Policies a), {}, set (slice (up_Policies (u_params u)))})))"
proof (intro conjI impI allI)
  assume "r = Ok ()"
  with assms(5) have "Update_user uc s = (Ok (), t)" by simp
  from user_update_attaches [OF assms(1-4) this]
  show "\<exists>a. view (world t) (GetUserName u) = Some a \<and> set (ac_Policies a) = set (slice (up_Policies (u_params u)))" .
next
  fix a assume "r \<noteq> Ok ()" "user_refusal_laws (uc_ma uc) view" "view (world s) (GetUserName u) = Some a"
  from user_update_interrupted [OF assms(1-3) this(2) assms(4,5) this(1,3)]
  show "\<exists>b. view (world t) (GetUserName u) = Some b \<and>
      set (ac_Policies b) \<in> {set (ac_Policies a), {}, set (slice (up_Policies (u_params u)))}" .
qed

text \<open>An Update that succeeds, and one on a server that has lost the desired policy: the user loses all.\<close>

definition forgetful_server :: "string list \<Rightarrow> mem_server" where
  "forgetful_server ps = (ada_server ps)\<lparr>canned := Map.empty\<rparr>"

lemma demo_update_run:
  "\<exists>t. Update_user demo_uc \<lparr>world = ada_server [''writeonly''], cr = MUser claimed_demo_user, events = [], logs = []\<rparr> = (Ok (), t)"
  "\<exists>e t. Update_user demo_uc \<lparr>world = forgetful_server [''writeonly''], cr = MUser claimed_demo_user, events = [], logs = []\<rparr> = (Err e, t) \<and>
     (\<forall>a. account_view_of (world t) ''ada'' = Some a \<longrightarrow> ac_Policies a = [])"
  by (simp_all add: Update_user_def setUserPolicies_def user_eval claimed_demo_user_def demo_user_def ada_server_def demo_server_def
      forgetful_server_def GetUserName_def proper_def AccessKeyName_def SecretKeyName_def)

lemma mem_user_refusal_laws: "user_refusal_laws mem_admin account_view_of"
  by (auto simp: user_refusal_laws_def refusal_unnoticed_def mem_admin_simps split: option.splits if_splits)

theorem user_update_policies_witness:
  "(\<exists>t a. Update_user demo_uc \<lparr>world = ada_server [''writeonly''], cr = MUser claimed_demo_user, events = [], logs = []\<rparr> = (Ok (), t) \<and>
     account_view_of (world t) ''ada'' = Some a \<and> set (ac_Policies a) = {''readonly''}) \<and>
   (\<exists>e t b. Update_user demo_uc \<lparr>world = forgetful_server [''writeonly''], cr = MUser claimed_demo_user, events = [], logs = []\<rparr> = (Err e, t) \<and>
     account_view_of (world t) ''ada'' = Some b \<and> ac_Policies b = [])"
proof -
  let ?s = "\<lambda>w. \<lparr>world = w, cr = MUser claimed_demo_user, events = [], logs = []\<rparr>"
  have l: "user_read_laws (uc_ma demo_uc) account_view_of" "user_write_laws (uc_ma demo_uc) account_view_of"
    "\<And>n ns. unnoticed account_view_of (KubeGetSecret (uc_kube demo_uc) n ns)" "user_refusal_laws (uc_ma demo_uc) account_view_of"
    by (simp_all add: unnoticed_def demo_uc_def mem_user_read_laws mem_user_write_laws mem_user_refusal_laws one_secret_def)
  from demo_update_run(1) obtain t where t: "Update_user demo_uc (?s (ada_server [''writeonly''])) = (Ok (), t)" by blast
  from user_update_policies [OF l(1-3) _ t, of claimed_demo_user]
  have one: "\<exists>a. account_view_of (world t) ''ada'' = Some a \<and> set (ac_Policies a) = {''readonly''}" by auto
  from demo_update_run(2) obtain e t2 where t2: "Update_user demo_uc (?s (forgetful_server [''writeonly''])) = (Err e, t2)"
    and lost: "\<And>a. account_view_of (world t2) ''ada'' = Some a \<Longrightarrow> ac_Policies a = []" by blast
  have w: "account_view_of (forgetful_server [''writeonly'']) ''ada'' = Some \<lparr>ac_Status = AccountEnabled, ac_Policies = [''writeonly'']\<rparr>"
    by (simp add: account_view_of_def forgetful_server_def ada_server_def shown_def proper_def)
  from user_update_policies [OF l(1-3) _ t2, of claimed_demo_user] l(4) w
  obtain b where "account_view_of (world t2) ''ada'' = Some b" by auto
  with lost have "account_view_of (world t2) ''ada'' = Some b \<and> ac_Policies b = []" by simp
  with t2 have "\<exists>e t b. Update_user demo_uc (?s (forgetful_server [''writeonly''])) = (Err e, t) \<and>
     account_view_of (world t) ''ada'' = Some b \<and> ac_Policies b = []" by blast
  moreover from t one have "\<exists>t a. Update_user demo_uc (?s (ada_server [''writeonly''])) = (Ok (), t) \<and>
     account_view_of (world t) ''ada'' = Some a \<and> set (ac_Policies a) = {''readonly''}" by blast
  ultimately show ?thesis by (rule conjI [rotated])
qed

section \<open>Create\<close>

lemma create_existing:
  assumes "user_read_laws (uc_ma uc) view"
    and "unnoticed view (generate 64 5 0 False True)"
    and "cr s = MUser u" and "view (world s) (GetUserName u) \<noteq> None"
    and "Create_user generate uc s = (r, t)"
  shows "(\<exists>e. r = Err e) \<and> view (world t) = view (world s) \<and> cr t = cr s \<and> events t = events s"
proof -
  obtain g w where g: "generate 64 5 0 False True (world s) = (g, w)" by force
  with unnoticedD [OF assms(2)] have w: "view w = view (world s)" by blast
  obtain l w2 where l: "ListUsers (uc_ma uc) w = (l, w2)" by force
  from user_readsD(4) [OF assms(1) l] w have w2: "view w2 = view (world s)" by simp
  show ?thesis
  proof (cases "\<exists>k m. g = Inr k \<and> l = Inr m")
    case True
    then obtain k m where km: "g = Inr k" "l = Inr m" by blast
    with user_readsD(2) [OF assms(1), of w m w2] l w assms(4) have "m (GetUserName u) \<noteq> None" by auto
    with km g l w2 assms(3,5) show ?thesis
      by (auto simp: Create_user_def userExists_def as_user_def go_defs split: if_split_asm)
  next
    case False
    with g l w w2 assms(3,5) show ?thesis
      by (cases g; cases l) (auto simp: Create_user_def userExists_def as_user_def go_defs)
  qed
qed

lemma create_new:
  assumes laws: "user_read_laws (uc_ma uc) view" "user_write_laws (uc_ma uc) view"
    and gen: "unnoticed view (generate 64 5 0 False True)"
    and u: "cr s = MUser u" and ok: "Create_user generate uc s = (Ok c, t)"
  shows "\<exists>k a w. generate 64 5 0 False True (world s) = (Inr k, w) \<and>
        c = Some [SecretKeyName \<mapsto> k, AccessKeyName \<mapsto> GetUserName u] \<and>
        view (world s) (GetUserName u) = None \<and>
        view (world t) (GetUserName u) = Some a \<and> set (ac_Policies a) = set (slice (up_Policies (u_params u)))"
proof -
  from ok u obtain k s1 s2 s3 s4 where
    k: "call (generate 64 5 0 False True) s = (Ok k, s1)" and
    ex: "userExists (uc_ma uc) (GetUserName u) s1 = (Ok False, s2)" and
    add: "call (AddUser (uc_ma uc) (GetUserName u) k) s2 = (Ok (), s3)" and
    at: "setUserPolicies (uc_ma uc) (GetUserName u) (up_Policies (u_params u)) s3 = (Ok (), s4)" and
    t: "world t = world s4" and c: "c = Some [SecretKeyName \<mapsto> k, AccessKeyName \<mapsto> GetUserName u]"
    by (auto simp: Create_user_def as_user_def check_Ok_iff seq_Ok_iff split: if_split_asm option.split_asm)
  from k unnoticedD [OF gen] have g: "generate 64 5 0 False True (world s) = (Inr k, world s1)"
    and v1: "view (world s1) = view (world s)" by (auto simp: call_Ok_iff)
  from ex have none: "view (world s1) (GetUserName u) = None" and v2: "view (world s2) = view (world s1)"
    by (auto simp: userExists_def check_Ok_iff call_Ok_iff dest!: user_readsD(2) [OF laws(1)])
  from add v2 none obtain a where "view (world s3) (GetUserName u) = Some a" "ac_Policies a = []"
    by (auto simp: call_Ok_iff dest!: user_writesD(1) [OF laws(2)])
  from attach_step [OF laws at this] g c t none v1 show ?thesis by auto
qed

text \<open>
  C8. Create never takes over a user the server already has: it fails with ``user already
  exists'', and leaves the server, the resource and the event stream alone. A Create that
  succeeds made a new user with exactly the desired policies, returns the generated key and the
  user name as connection details, and marks the resource.
\<close>

theorem user_create_fresh:
  assumes "user_read_laws (uc_ma uc) view" and "user_write_laws (uc_ma uc) view"
    and "unnoticed view (generate 64 5 0 False True)"
    and "cr s = MUser u" and "Create_user generate uc s = (r, t)"
  shows "(view (world s) (GetUserName u) \<noteq> None \<longrightarrow>
      (\<forall>c. r \<noteq> Ok c) \<and> view (world t) = view (world s) \<and> cr t = cr s \<and> events t = events s) \<and>
    (\<forall>c. r = Ok c \<longrightarrow>
      (\<exists>k a w. generate 64 5 0 False True (world s) = (Inr k, w) \<and>
        c = Some [SecretKeyName \<mapsto> k, AccessKeyName \<mapsto> GetUserName u] \<and>
        view (world s) (GetUserName u) = None \<and>
        view (world t) (GetUserName u) = Some a \<and> set (ac_Policies a) = set (slice (up_Policies (u_params u))) \<and>
        user_claimed (cr t)))"
proof (intro conjI impI allI)
  assume "view (world s) (GetUserName u) \<noteq> None"
  from create_existing [OF assms(1,3,4) this assms(5)]
  show "r \<noteq> Ok c" and "view (world t) = view (world s)" and "cr t = cr s" and "events t = events s" for c by auto
next
  fix c assume "r = Ok c"
  with assms(5) have ok: "Create_user generate uc s = (Ok c, t)" by simp
  from create_new [OF assms(1-4) ok] user_create_claims [OF ok]
  show "\<exists>k a w. generate 64 5 0 False True (world s) = (Inr k, w) \<and>
        c = Some [SecretKeyName \<mapsto> k, AccessKeyName \<mapsto> GetUserName u] \<and>
        view (world s) (GetUserName u) = None \<and>
        view (world t) (GetUserName u) = Some a \<and> set (ac_Policies a) = set (slice (up_Policies (u_params u))) \<and>
        user_claimed (cr t)" by blast
qed

definition demo_password :: "'w password_gen" where
  "demo_password l d y u rep w = (Inr ''pa55word'', w)"

lemma demo_user_create_run:
  "\<exists>c t. Create_user demo_password demo_uc \<lparr>world = demo_server, cr = MUser demo_user, events = [], logs = []\<rparr> = (Ok c, t)"
  by (simp add: Create_user_def userExists_def setUserPolicies_def user_eval demo_user_def demo_server_def demo_password_def
      GetUserName_def proper_def)

theorem user_create_fresh_witness:
  "\<exists>c t. Create_user demo_password demo_uc \<lparr>world = demo_server, cr = MUser demo_user, events = [], logs = []\<rparr> = (Ok c, t) \<and>
     c = Some [SecretKeyName \<mapsto> ''pa55word'', AccessKeyName \<mapsto> ''ada'']"
proof -
  let ?s = "\<lparr>world = demo_server, cr = MUser demo_user, events = [], logs = []\<rparr>"
  have l: "user_read_laws (uc_ma demo_uc) account_view_of" "user_write_laws (uc_ma demo_uc) account_view_of"
    "unnoticed account_view_of (demo_password 64 5 0 False True)"
    by (simp_all add: unnoticed_def demo_uc_def mem_user_read_laws mem_user_write_laws demo_password_def)
  from demo_user_create_run obtain c t where t: "Create_user demo_password demo_uc ?s = (Ok c, t)" by blast
  from user_create_fresh [OF l _ t, of demo_user] t show ?thesis by (auto simp: demo_password_def)
qed

section \<open>Ends a user can get stuck in\<close>

lemma stuck_reconcile:
  assumes laws: "user_read_laws (uc_ma uc) view" and gen: "unnoticed view (generate 64 5 0 False True)"
    and u: "\<not> user_claimed (MUser u)" and V: "V (GetUserName u) \<noteq> None"
    and s: "cr s = MUser u \<and> view (world s) = V"
    and rec: "reconcile (userClient generate uc) d s v t"
  shows "(cr t = MUser u \<and> view (world t) = V) \<and> v \<in> {CreateFailed, Current}"
proof -
  from user_observe_unclaimed [OF u, of s uc] s
  have ob: "Observe (userClient generate uc) s = (Ok NoObservation, s)" by (simp add: userClient_def)
  have cr: "r \<noteq> Ok c \<and> cr t = MUser u \<and> view (world t) = V"
    if "Create (userClient generate uc) s = (r, t)" for r c t
    using create_existing [where generate = generate and view = view, OF laws gen, where s = s and u = u and r = r and t = t] that s V by (auto simp: userClient_def)
  from rec ob show ?thesis
  proof (cases rule: reconcile.cases)
    case (created x s' c)
    with ob cr [of "Ok c" t] show ?thesis by auto
  next
    case (create_failed x s' r)
    with ob cr [of r t] show ?thesis by auto
  qed (use ob s in \<open>auto simp: NoObservation_def\<close>)
qed


text \<open>A server that has lost the policy the user asks for.\<close>

lemma demo_failed_create:
  "\<exists>e t. Create_user demo_password demo_uc \<lparr>world = demo_server\<lparr>canned := Map.empty\<rparr>, cr = MUser demo_user, events = [], logs = []\<rparr> = (Err e, t) \<and>
     account_view_of (world t) ''ada'' \<noteq> None"
  by (simp add: Create_user_def userExists_def setUserPolicies_def user_eval demo_user_def demo_server_def demo_password_def
      GetUserName_def proper_def)


text \<open>
  A user whose specification lists no policies explicitly (an empty list instead of an
  absent one) is never reported up to date, whatever the server holds.
\<close>

theorem user_empty_policies_never_current:
  assumes "cr s = MUser u" and "up_Policies (u_params u) = Some []" and "Observe_user uc s = (Ok x, t)"
  shows "\<not> ResourceUpToDate x"
proof (cases "user_claimed (MUser u)")
  case True
  have "\<not> equalPolicies i u" for i using assms(2) by (simp add: equalPolicies_def Let_def)
  from observe_user_listed [OF assms(1) True assms(3)] obtain users w where
    "ListUsers (uc_ma uc) (world s) = (Inr users, w)"
    "case users (GetUserName u) of None \<Rightarrow> x = NoObservation | Some i \<Rightarrow> reported i u x"
    by (fastforce split: option.splits)
  with \<open>\<And>i. \<not> equalPolicies i u\<close> show ?thesis
    by (cases "users (GetUserName u)") (simp_all add: reported_def NoObservation_def)
next
  case False
  with user_observe_unclaimed [of u s uc] assms show ?thesis by (simp add: NoObservation_def)
qed

theorem user_empty_policies_never_current_witness:
  "\<exists>x t. Observe_user demo_uc \<lparr>world = ada_server [],
       cr = MUser (claimed_demo_user\<lparr>u_params := \<lparr>up_UserName = [], up_Policies = Some []\<rparr>\<rparr>), events = [], logs = []\<rparr> = (Ok x, t) \<and>
     \<not> ResourceUpToDate x"
proof -
  let ?u = "claimed_demo_user\<lparr>u_params := \<lparr>up_UserName = [], up_Policies = Some []\<rparr>\<rparr>"
  let ?s = "\<lparr>world = ada_server [], cr = MUser ?u, events = [], logs = []\<rparr>"
  have "\<exists>x t. Observe_user demo_uc ?s = (Ok x, t)"
    by (simp add: user_eval claimed_demo_user_def demo_user_def ada_server_def demo_server_def GetUserName_def
      get_annotation_def SetConditions_user_def)
  then obtain x t where "Observe_user demo_uc ?s = (Ok x, t)" by blast
  with user_empty_policies_never_current [OF _ _ this, of ?u] show ?thesis by auto
qed

section \<open>What reaches the log\<close>

lemma checkCredentials_logs:
  assumes "checkCredentials uc u s = (Ok x, t)" and "ResourceUpToDate x"
  shows "\<exists>name sec w w'. WriteConnectionSecretToReference (u_spec u) = Some name \<and>
    KubeGetSecret (uc_kube uc) name (Namespace (u_meta u)) w = (Inr sec, w') \<and>
    credentialsLine (map_get sec AccessKeyName) (map_get sec SecretKeyName) \<in> set (logs t)"
proof -
  from assms(1) obtain name sec s1 where
    name: "WriteConnectionSecretToReference (u_spec u) = Some name" and
    k: "call (KubeGetSecret (uc_kube uc) name (Namespace (u_meta u))) s = (Ok sec, s1)" and
    rest: "(case uc_NewS3 uc (url_Host (uc_url uc))
              \<lparr>opt_AccessKey = map_get sec AccessKeyName, opt_SecretKey = map_get sec SecretKeyName,
               opt_Secure = uc_tlsSettings uc, opt_Transport = None\<rparr> of
         Inl err \<Rightarrow> ret \<lparr>ResourceExists = True, ResourceUpToDate = False\<rparr>
       | Inr mclient \<Rightarrow>
           check (if_err (call (uc_ListBuckets uc mclient))
                    (\<lambda>err. ret (error_text err = ''Access Denied.'')) (\<lambda>_. ret True))
             (\<lambda>works.
                if \<not> works then ret \<lparr>ResourceExists = True, ResourceUpToDate = False\<rparr>
                else seq (log_line (credentialsLine (map_get sec AccessKeyName) (map_get sec SecretKeyName)))
                  (ret \<lparr>ResourceExists = True, ResourceUpToDate = True\<rparr>))) s1 = (Ok x, t)"
    unfolding checkCredentials_def by (auto simp: check_Ok_iff deref_Ok_iff)
  from k obtain w' where "KubeGetSecret (uc_kube uc) name (Namespace (u_meta u)) (world s) = (Inr sec, w')"
    by (auto simp: call_Ok_iff)
  moreover from rest assms(2)
  have "credentialsLine (map_get sec AccessKeyName) (map_get sec SecretKeyName) \<in> set (logs t)"
    by (auto simp: check_Ok_iff seq_Ok_iff split: sum.split_asm if_split_asm)
  ultimately show ?thesis using name by blast
qed

text \<open>
  Whenever Observe of a user that is not being deleted reports it up to date, it has
  written the secret key of the connection secret in plain text to the log, at the default
  verbosity.
\<close>

theorem user_observe_logs_secret_key:
  assumes "cr s = MUser u" and "DeletionTimestamp (u_meta u) = None"
    and "Observe_user uc s = (Ok x, t)" and "ResourceUpToDate x"
  shows "\<exists>name sec w w' l. WriteConnectionSecretToReference (u_spec u) = Some name \<and>
    KubeGetSecret (uc_kube uc) name (Namespace (u_meta u)) w = (Inr sec, w') \<and>
    l \<in> set (logs t) \<and> str_contains l (map_get sec SecretKeyName)"
proof -
  let ?u1 = "u\<lparr>u_status := (u_status u)\<lparr>us_UserName := GetUserName u\<rparr>\<rparr>"
  from assms(1,3,4) user_observe_unclaimed [of u s uc] have c: "user_claimed (MUser u)"
    by (cases "user_claimed (MUser u)") (auto simp: NoObservation_def)
  from observe_user_listed [OF assms(1) c assms(3)] assms(4)
  obtain i s' where o1: "observeMinioUser uc ?u1 i s' = (Ok x, t)"
    by (auto simp: NoObservation_def split: option.splits)
  let ?v = "SetConditions_user (?u1\<lparr>u_status := (u_status ?u1)\<lparr>us_Status := ui_Status i, us_Policies := ui_PolicyName i\<rparr>\<rparr>)
        (if ui_Status i = AccountEnabled then XpAvailable else Disabled)"
  from o1 assms(2,4) have "\<exists>s''. checkCredentials uc ?v s'' = (Ok x, t)"
    unfolding observeMinioUser_def Let_def by (auto simp: seq_Ok_iff split: if_split_asm)
  moreover have "u_spec ?v = u_spec u" "u_meta ?v = u_meta u" by (simp_all add: SetConditions_user_def)
  ultimately obtain v s'' where v: "u_spec v = u_spec u" "u_meta v = u_meta u" "checkCredentials uc v s'' = (Ok x, t)" by blast
  from checkCredentials_logs [OF v(3) assms(4)] obtain name sec w w' where
    n: "WriteConnectionSecretToReference (u_spec v) = Some name"
      "KubeGetSecret (uc_kube uc) name (Namespace (u_meta v)) w = (Inr sec, w')" and
    l: "credentialsLine (map_get sec AccessKeyName) (map_get sec SecretKeyName) \<in> set (logs t)" by blast
  have "str_contains (credentialsLine (map_get sec AccessKeyName) (map_get sec SecretKeyName)) (map_get sec SecretKeyName)"
    unfolding str_contains_sublist credentialsLine_def 
    by (rule suffix_imp_sublist) (simp only: append_assoc [symmetric] suffixI)
  with n l v show ?thesis by auto
qed

theorem user_observe_logs_secret_key_witness:
  "\<exists>x t l. Observe_user demo_uc \<lparr>world = ada_server [''readonly''], cr = MUser claimed_demo_user, events = [], logs = []\<rparr> = (Ok x, t) \<and>
     l \<in> set (logs t) \<and> str_contains l ''pa55word''"
proof -
  let ?s = "\<lparr>world = ada_server [''readonly''], cr = MUser claimed_demo_user, events = [], logs = []\<rparr>"
  from demo_user_observe obtain x t where t: "Observe_user demo_uc ?s = (Ok x, t)" "ResourceUpToDate x" by blast
  have "DeletionTimestamp (u_meta claimed_demo_user) = None" by (simp add: claimed_demo_user_def demo_user_def)
  from user_observe_logs_secret_key [OF _ this t] obtain name sec w w' l where
    "KubeGetSecret (uc_kube demo_uc) name (Namespace (u_meta claimed_demo_user)) w = (Inr sec, w')"
    "l \<in> set (logs t)" "str_contains l (map_get sec SecretKeyName)" by auto
  moreover from this(1) have "map_get sec SecretKeyName = ''pa55word''"
    by (auto simp: demo_uc_def one_secret_def SecretKeyName_def map_get_def)
  ultimately show ?thesis using t(1) by auto
qed

section \<open>The webhook\<close>

lemma for_each_guard:
  "for_each (\<lambda>x. if P x then fail (f x) else ret ()) xs s = (Ok (), t) \<longleftrightarrow> t = s \<and> (\<forall>x \<in> set xs. \<not> P x)"
  by (induction xs) (auto simp: seq_Ok_iff)

definition policies_listed :: "('c, 'w admin_client) minio_lib \<Rightarrow> 'w kube_client \<Rightarrow> user \<Rightarrow> bool" where
  "policies_listed lib kube u \<longleftrightarrow>
     slice (up_Policies (u_params u)) = [] \<or>
     (\<exists>config ma w w' w'' canned. NewMinioAdmin lib kube config w = (Ok ma, w') \<and>
        ListCannedPolicies ma w' = (Inr canned, w'') \<and>
        (\<forall>p \<in> set (slice (up_Policies (u_params u))). canned p \<noteq> None))"

lemma doesPolicyExist_listed: "doesPolicyExist lib kube u w = (Ok (), w') \<Longrightarrow> policies_listed lib kube u"
proof (cases "slice (up_Policies (u_params u)) = []")
  case False
  assume "doesPolicyExist lib kube u w = (Ok (), w')"
  with False obtain config ma w1 w2 w3 canned where
    "NewMinioAdmin lib kube config w1 = (Ok ma, w2)" "ListCannedPolicies ma w2 = (Inr canned, w3)"
    "\<forall>p \<in> set (slice (up_Policies (u_params u))). canned p \<noteq> None"
    unfolding doesPolicyExist_def by (auto simp: check_Ok_iff for_each_guard api_call_Ok_iff)
  then show ?thesis unfolding policies_listed_def by blast
qed (simp add: policies_listed_def)

text \<open>
  Every user object the API server stores names a provider config; unless it is being deleted, its last admitted version asks only for
  policies the server behind a provider config listed when it was admitted.
\<close>

lemma user_admitted:
  assumes "stored (userValidator lib kube) u"
  shows "has_provider_config (u_spec u) \<and> (DeletionTimestamp (u_meta u) = None \<longrightarrow> policies_listed lib kube u)"
proof
  show "has_provider_config (u_spec u)" using user_webhook.stored_configured [OF assms] by simp
  show "DeletionTimestamp (u_meta u) = None \<longrightarrow> policies_listed lib kube u"
    using assms
  proof (cases rule: stored.cases)
    case (admitted a w w')
    from admitted(2) show ?thesis
    proof (cases rule: evolves.cases)
      case same
      with admitted(1) show ?thesis
        by (auto simp: userValidator_def ValidateCreate_user_def if_err_fail_Ok_iff dest: doesPolicyExist_listed split: if_split_asm)
    next
      case (replaced b v v')
      then show ?thesis
        by (auto simp: userValidator_def ValidateUpdate_user_def if_err_fail_Ok_iff dest: doesPolicyExist_listed split: if_split_asm)
    qed
  qed
qed

text \<open>A Kubernetes API that knows the provider config and a server whose client is the in-memory one.\<close>

definition mem_lib :: "(unit, mem_server admin_client) minio_lib" where
  "mem_lib = \<lparr>ParseURL = (\<lambda>u. Inr \<lparr>url_Scheme = ''https'', url_Host = u\<rparr>),
     AppendCertsFromPEM = (\<lambda>_. True), X509KeyPair = (\<lambda>_ _. None),
     NewS3 = (\<lambda>_ _. Inr ()), NewAdmin = (\<lambda>_ _. Inr mem_admin), SetCustomTransport = (\<lambda>a _. a)\<rparr>"

lemma demo_user_created:
  "ValidateCreate_user mem_lib (one_secret Map.empty tls_demo) demo_user demo_server = (Ok (), demo_server)"
  by (simp add: ValidateCreate_user_def has_provider_config_def demo_user_def doesPolicyExist_def getProviderConfig_def
      NewMinioAdmin_def api_secret_def buildTLSConfig_def getTLSData_def rootCAs_def keyPairs_def mem_lib_def
      one_secret_def tls_demo_def demo_server_def mem_admin_def go_defs)

end
