(* ===== verification/Policy.thy ===== *)
theory Policy
  imports Contracts MinioUtil
begin

text \<open>
  The policy controller and its webhook (\<^verbatim>\<open>operator/policy\<close>): canned policies, either a raw
  JSON document or the grant of everything on one bucket, compared with the server's through
  the IAM policy library. The controller is interpreted as a \<open>marking_external\<close>, the webhook
  as an \<open>admission\<close>.
\<close>

section \<open>The policy documents\<close>

text \<open>
  The policy of an allowed bucket is built here; validating, marshalling, parsing and
  comparing policies is library code, as are the two constants.
\<close>

record iam_statement =
  st_SID :: string
  st_Effect :: string
  st_Actions :: "string set"
  st_Resources :: "(string \<times> string) set"

record iam_policy =
  iam_Version :: string
  iam_Statements :: "iam_statement list"

record iam_lib =
  AllActions :: string
  Allow :: string
  ValidatePolicy :: "iam_policy \<Rightarrow> api_error option"
  MarshalPolicy :: "iam_policy \<Rightarrow> api_error + string"
  UnmarshalPolicy :: "string \<Rightarrow> api_error + iam_policy"
  EqualsPolicy :: "iam_policy \<Rightarrow> iam_policy \<Rightarrow> bool"

definition allowBucketPolicy :: "iam_lib \<Rightarrow> string \<Rightarrow> iam_policy" where
  "allowBucketPolicy lib bucket =
     \<lparr>iam_Version = ''2012-10-17'',
      iam_Statements = [\<lparr>st_SID = ''addPerm'', st_Effect = Allow lib, st_Actions = {AllActions lib},
        st_Resources = {(bucket, ''/''), (bucket, ''*'')}\<rparr>]\<rparr>"

definition getAllowBucketPolicy :: "iam_lib \<Rightarrow> string \<Rightarrow> ('w, string) go" where [ctl_defs]:
  "getAllowBucketPolicy lib bucket =
     (case ValidatePolicy lib (allowBucketPolicy lib bucket) of
        Some err \<Rightarrow> fail (ErrApi err)
      | None \<Rightarrow> lib_call (MarshalPolicy lib (allowBucketPolicy lib bucket)))"

definition sameObject :: "iam_lib \<Rightarrow> string \<Rightarrow> string \<Rightarrow> ('w, bool) go" where [ctl_defs]:
  "sameObject lib a b =
     check (lib_call (UnmarshalPolicy lib a)) (\<lambda>aPol.
     check (lib_call (UnmarshalPolicy lib b)) (\<lambda>bPol.
       ret (EqualsPolicy lib aPol bPol)))"

section \<open>The controller\<close>

definition errNotPolicy :: go_error where
  "errNotPolicy = ErrNew ''managed resource is not a policy''"

definition PolicyCreatedAnnotationKey :: string where
  "PolicyCreatedAnnotationKey = ''minio.crossplane.io/policy-created''"

definition as_policy :: "(policy \<Rightarrow> ('w, 'a) ctl) \<Rightarrow> ('w, 'a) ctl" where [prim_defs]:
  "as_policy k s = (case cr s of MPolicy p \<Rightarrow> k p s | _ \<Rightarrow> (Err errNotPolicy, s))"

definition SetConditions_policy :: "policy \<Rightarrow> condition \<Rightarrow> policy" where
  "SetConditions_policy p c = p\<lparr>p_status := (p_status p)\<lparr>ps_Conditions := ps_Conditions (p_status p) @ [c]\<rparr>\<rparr>"

definition policyName :: "policy \<Rightarrow> string" where
  "policyName p = Name (p_meta p)"

text \<open>The comparison of the desired with the observed policy; each kind is compared if it is given.\<close>

definition matchesAllowBucket :: "iam_lib \<Rightarrow> policy \<Rightarrow> string \<Rightarrow> ('w, bool) ctl" where [ctl_defs]:
  "matchesAllowBucket lib p observedPolicy =
     (if pp_AllowBucket (p_params p) \<noteq> [] then
        check (getAllowBucketPolicy lib (pp_AllowBucket (p_params p))) (\<lambda>bucketPolicy.
          sameObject lib bucketPolicy observedPolicy)
      else ret True)"

definition matchesRawPolicy :: "iam_lib \<Rightarrow> policy \<Rightarrow> string \<Rightarrow> ('w, bool) ctl" where [ctl_defs]:
  "matchesRawPolicy lib p observedPolicy =
     (if pp_RawPolicy (p_params p) \<noteq> [] then sameObject lib (pp_RawPolicy (p_params p)) observedPolicy
      else ret True)"

definition outdated :: "policy \<Rightarrow> ('w, observation) ctl" where [ctl_defs]:
  "outdated p = seq (put_cr (MPolicy (SetConditions_policy p Updating)))
     (ret \<lparr>ResourceExists = True, ResourceUpToDate = False\<rparr>)"

definition Observe_policy :: "iam_lib \<Rightarrow> 'w admin_client \<Rightarrow> ('w, observation) ctl" where [ctl_defs]:
  "Observe_policy lib ma = as_policy (\<lambda>p.
     if get_annotation (p_meta p) PolicyCreatedAnnotationKey = None then ret NoObservation
     else
       check (call (ListCannedPolicies ma)) (\<lambda>policies.
         case policies (policyName p) of
           None \<Rightarrow> ret \<lparr>ResourceExists = False, ResourceUpToDate = False\<rparr>
         | Some observedPolicy \<Rightarrow>
             check (matchesAllowBucket lib p observedPolicy) (\<lambda>equal.
               if \<not> equal then outdated p
               else
                 check (matchesRawPolicy lib p observedPolicy) (\<lambda>equal.
                   if \<not> equal then outdated p
                   else
                     seq (put_cr (MPolicy (SetConditions_policy
                            (p\<lparr>p_status := (p_status p)\<lparr>ps_Policy := observedPolicy\<rparr>\<rparr>) XpAvailable)))
                       (ret \<lparr>ResourceExists = True, ResourceUpToDate = True\<rparr>)))))"

text \<open>
  The creation event and the mark, also used by Update. The annotations map is written to as it
  is: a nil map panics, after the policy has been added.
\<close>

definition setLock_policy :: "policy \<Rightarrow> ('w, unit) ctl" where [ctl_defs]:
  "setLock_policy p =
     (case Annotations (p_meta p) of
        None \<Rightarrow> go_panic ''assignment to entry in nil map''
      | Some annotations \<Rightarrow>
          put_cr (MPolicy (p\<lparr>p_meta := (p_meta p)\<lparr>Annotations := Some (annotations(PolicyCreatedAnnotationKey \<mapsto> ''claimed''))\<rparr>\<rparr>)))"

definition emitCreationEvent_policy :: "('w, unit) ctl" where [simp, ctl_defs]:
  "emitCreationEvent_policy = emit ''Created'' ''User successfully created''"

definition createBucketPolicy :: "iam_lib \<Rightarrow> 'w admin_client \<Rightarrow> policy \<Rightarrow> ('w, unit) ctl" where [ctl_defs]:
  "createBucketPolicy lib ma p =
     check (getAllowBucketPolicy lib (pp_AllowBucket (p_params p))) (\<lambda>parsedPolicy.
     seq (call (AddCannedPolicy ma (policyName p) parsedPolicy))
     (seq emitCreationEvent_policy
       (setLock_policy p)))"

definition createRawPolicy :: "'w admin_client \<Rightarrow> policy \<Rightarrow> ('w, unit) ctl" where [ctl_defs]:
  "createRawPolicy ma p =
     seq (call (AddCannedPolicy ma (policyName p) (pp_RawPolicy (p_params p))))
     (seq emitCreationEvent_policy
       (setLock_policy p))"

definition Create_policy :: "iam_lib \<Rightarrow> 'w admin_client \<Rightarrow> ('w, creation) ctl" where [ctl_defs]:
  "Create_policy lib ma = as_policy (\<lambda>p.
     check (call (ListCannedPolicies ma)) (\<lambda>policies.
       if policies (policyName p) \<noteq> None then fail (ErrNew ''policy already exists'')
       else if pp_AllowBucket (p_params p) \<noteq> [] then seq (createBucketPolicy lib ma p) (ret None)
       else if pp_RawPolicy (p_params p) \<noteq> [] then seq (createRawPolicy ma p) (ret None)
       else fail (ErrNew ''no policy specified'')))"

definition emitUpdateEvent_policy :: "('w, unit) ctl" where [simp, ctl_defs]:
  "emitUpdateEvent_policy = emit ''Updated'' ''Policy successfully updated''"

definition Update_policy :: "iam_lib \<Rightarrow> 'w admin_client \<Rightarrow> ('w, unit) ctl" where [ctl_defs]:
  "Update_policy lib ma = as_policy (\<lambda>p.
     check (call (ListCannedPolicies ma)) (\<lambda>policies.
       if policies (policyName p) = None then fail (ErrNew ''policy does not exist'')
       else if pp_AllowBucket (p_params p) \<noteq> [] then
         seq emitUpdateEvent_policy (createBucketPolicy lib ma p)
       else if pp_RawPolicy (p_params p) \<noteq> [] then
         seq emitUpdateEvent_policy (createRawPolicy ma p)
       else ret ()))"

definition emitDeletionEvent_policy :: "('w, unit) ctl" where [simp, ctl_defs]:
  "emitDeletionEvent_policy = emit ''Deleted'' ''Policy successfully deleted''"

definition Delete_policy :: "'w admin_client \<Rightarrow> ('w, unit) ctl" where [ctl_defs]:
  "Delete_policy ma = as_policy (\<lambda>p.
     seq (put_cr (MPolicy (SetConditions_policy p XpDeleting)))
     (seq emitDeletionEvent_policy
       (call (RemoveCannedPolicy ma (policyName p)))))"

definition Disconnect_policy :: "('w, unit) ctl" where [simp, ctl_defs]:
  "Disconnect_policy = ret ()"

definition policyClient :: "iam_lib \<Rightarrow> 'w admin_client \<Rightarrow> 'w external_client" where
  "policyClient lib ma = \<lparr>Observe = Observe_policy lib ma, Create = Create_policy lib ma,
     Update = Update_policy lib ma, Delete = Delete_policy ma, Disconnect = Disconnect_policy\<rparr>"

section \<open>The contract with the reconciler\<close>

definition is_policy :: "managed \<Rightarrow> bool" where
  "is_policy m \<longleftrightarrow> (case m of MPolicy _ \<Rightarrow> True | _ \<Rightarrow> False)"

definition policy_claimed :: "managed \<Rightarrow> bool" where
  "policy_claimed m \<longleftrightarrow> (case m of
     MPolicy p \<Rightarrow> get_annotation (p_meta p) PolicyCreatedAnnotationKey \<noteq> None | _ \<Rightarrow> False)"

lemma keeps_as_policy [keeps_intros]:
  "(\<And>p s. I s \<Longrightarrow> cr s = MPolicy p \<Longrightarrow> keeps I (k p)) \<Longrightarrow> keeps I (as_policy k)"
  by (auto simp: keeps_def as_policy_def split: managed.split)

lemma returns_as_policy [returns_intros]: "(\<And>p. returns P (k p)) \<Longrightarrow> returns P (as_policy k)"
  by (auto simp: returns_def as_policy_def split: managed.splits)

lemma failing_as_policy: "(\<And>p. failing_keeps I (k p)) \<Longrightarrow> failing_keeps I (as_policy k)"
  by (auto simp: failing_keeps_def as_policy_def split: managed.splits)

lemma keeps_lib_call [keeps_intros]: "keeps I (lib_call r)"
  by (simp add: keeps_def lib_call_def go_defs split: sum.split)

lemma as_policy_foreign: "\<not> is_policy (cr s) \<Longrightarrow> as_policy k s = (Err errNotPolicy, s)"
  by (simp add: is_policy_def as_policy_def split: managed.splits)

lemma same_desired_policy:
  "same_desired m (MPolicy p) \<Longrightarrow> same_desired m (MPolicy (p\<lparr>p_status := st\<rparr>))"
  "same_desired m (MPolicy p) \<Longrightarrow> same_desired m (MPolicy (p\<lparr>p_meta := (p_meta p)\<lparr>Annotations := a\<rparr>\<rparr>))"
  by (cases m; auto simp: same_identity_def)+

lemma policy_keeps_desires:
  "keeps (desires m) (Observe_policy lib ma)" "keeps (desires m) (Create_policy lib ma)"
  "keeps (desires m) (Update_policy lib ma)" "keeps (desires m) (Delete_policy ma)"
  unfolding ctl_defs
  by (intro keeps_intros; auto simp: same_desired_policy desires_def SetConditions_policy_def)+

lemma policy_observe_no_event: "keeps (has_events es) (Observe_policy lib ma)"
  unfolding ctl_defs by (intro keeps_intros; simp)

lemma policy_observe_no_event': "events (snd (Observe_policy lib ma s)) = events s"
  by (rule keeps_has_events) (rule policy_observe_no_event)

lemma policy_foreign:
  assumes "\<not> is_policy (cr s)"
  shows "Observe_policy lib ma s = (Err errNotPolicy, s)" "Create_policy lib ma s = (Err errNotPolicy, s)"
    "Update_policy lib ma s = (Err errNotPolicy, s)" "Delete_policy ma s = (Err errNotPolicy, s)"
  using assms
  by (simp_all add: Observe_policy_def Create_policy_def Update_policy_def Delete_policy_def as_policy_foreign)

lemma policy_observe_coherent: "returns coherent (Observe_policy lib ma)"
  unfolding ctl_defs by (intro returns_intros; simp)

lemma policy_observe_unclaimed:
  "\<not> policy_claimed (MPolicy p) \<Longrightarrow> cr s = MPolicy p \<Longrightarrow> Observe_policy lib ma s = (Ok NoObservation, s)"
  by (simp add: Observe_policy_def as_policy_def policy_claimed_def ret_def)

lemma policy_locked: "setLock_policy p s = (Ok (), t) \<Longrightarrow> policy_claimed (cr t)"
  by (auto simp: setLock_policy_def policy_claimed_def get_annotation_def split: option.splits)

lemma policy_create_claims: "Create_policy lib ma s = (Ok c, t) \<Longrightarrow> policy_claimed (cr t)"
  by (auto simp: Create_policy_def createBucketPolicy_def createRawPolicy_def as_policy_def check_Ok_iff seq_Ok_iff
      split: managed.splits if_splits dest: policy_locked)

lemma setLock_policy_stops: "failing_keeps (\<lambda>s. P (cr s)) (setLock_policy p)"
  unfolding setLock_policy_def
  by (cases "Annotations (p_meta p)")
    (auto intro: failing_keeps_keeps keeps_panic failing_keeps_succeeds succeeds_intros)

lemma create_part_stops:
  "failing_keeps (\<lambda>s. P (cr s)) (createBucketPolicy lib ma p)" "failing_keeps (\<lambda>s. P (cr s)) (createRawPolicy ma p)"
  unfolding createBucketPolicy_def createRawPolicy_def getAllowBucketPolicy_def emitCreationEvent_policy_def
  by (intro failing_keeps_check failing_keeps_seq setLock_policy_stops; intro keeps_intros; simp)+

lemma failing_keeps_then_ret: "failing_keeps I m \<Longrightarrow> failing_keeps I (seq m (ret x))"
  by (auto simp: failing_keeps_def seq_def check_def if_err_def ret_def fail_def split: prod.splits outcome.splits)

lemma policy_create_stops: "failing_keeps (\<lambda>s. P (cr s)) (Create_policy lib ma)"
  unfolding Create_policy_def
  by (intro failing_as_policy failing_keeps_check failing_keeps_If failing_keeps_then_ret create_part_stops)
    (intro failing_keeps_keeps keeps_intros; simp)+

interpretation policy: marking_external "policyClient lib ma" is_policy errNotPolicy policy_claimed
  for lib :: iam_lib and ma :: "'w admin_client"
proof (unfold_locales, goal_cases)
  case 10
  then show ?case using policy_observe_no_event' by (auto simp: policyClient_def)
next
  case 11
  then show ?case using coherentD [OF policy_observe_coherent] by (auto simp: policyClient_def)
next
  case (12 s x)
  then show ?case using policy_observe_unclaimed [of _ s lib ma]
    by (cases "cr s") (auto simp: policyClient_def policy_foreign is_policy_def NoObservation_def)
next
  case (13 s)
  then show ?case using policy_observe_unclaimed [of _ s lib ma]
    by (cases "cr s") (auto simp: policyClient_def policy_foreign is_policy_def)
next
  case 14
  then show ?case using policy_create_claims by (auto simp: policyClient_def)
next
  case (15 s r t)
  then show ?case
    by (intro failing_keepsD [OF policy_create_stops, of lib ma s r t "\<lambda>m. \<not> policy_claimed m"]) (simp_all add: policyClient_def)
qed (simp_all add: policyClient_def policy_foreign only_logged_def ret_def keeps_desires policy_keeps_desires)

section \<open>The webhook\<close>

definition validatePolicy_policy :: "policy \<Rightarrow> ('w, unit) go" where
  "validatePolicy_policy p =
     (if pp_AllowBucket (p_params p) \<noteq> [] \<and> pp_RawPolicy (p_params p) \<noteq> [] then
        fail (ErrNew ''.spec.forProvider.allowBucket and .spec.forProvider.rawPolicy are mutual exclusive, please only specify one'')
      else if \<not> has_provider_config (p_spec p) then
        fail (ErrInvalid [''spec'', ''providerConfigRef'', ''name''] (VStr ''null'') (Detail ''Provider config is required''))
      else ret ())"

definition ValidateCreate_policy :: "policy \<Rightarrow> ('w, unit) go" where
  "ValidateCreate_policy p = validatePolicy_policy p"

definition ValidateUpdate_policy :: "policy \<Rightarrow> policy \<Rightarrow> ('w, unit) go" where
  "ValidateUpdate_policy oldPolicy newPolicy = validatePolicy_policy newPolicy"

definition ValidateDelete_policy :: "policy \<Rightarrow> ('w, unit) go" where
  "ValidateDelete_policy p = ret ()"

definition policyValidator :: "('w, policy) validator" where
  "policyValidator = \<lparr>ValidateCreate = ValidateCreate_policy, ValidateUpdate = ValidateUpdate_policy,
     ValidateDelete = ValidateDelete_policy\<rparr>"

lemma validatePolicy_policy_Ok_iff:
  "validatePolicy_policy p w = (Ok (), w') \<longleftrightarrow> w' = w \<and> has_provider_config (p_spec p) \<and>
     (pp_AllowBucket (p_params p) = [] \<or> pp_RawPolicy (p_params p) = [])"
  by (auto simp: validatePolicy_policy_def)

interpretation policy_webhook: admission "policyValidator :: ('w, policy) validator" p_spec "\<lambda>_. False"
  by unfold_locales
    (auto simp: policyValidator_def ValidateCreate_policy_def ValidateUpdate_policy_def ValidateDelete_policy_def
      validatePolicy_policy_Ok_iff ret_def)

section \<open>What the controller relies on from the admin API\<close>

text \<open>
  A view of the server's canned policies. The server may store a policy in its own wording, as
  long as the library takes it for the policy that was sent.
\<close>

type_synonym 'w canned_view = "'w \<Rightarrow> string \<Rightarrow> string option"

definition same_policy :: "iam_lib \<Rightarrow> string \<Rightarrow> string \<Rightarrow> bool" where
  "same_policy lib a b \<longleftrightarrow> (case (UnmarshalPolicy lib a, UnmarshalPolicy lib b) of
     (Inr x, Inr y) \<Rightarrow> EqualsPolicy lib x y | _ \<Rightarrow> False)"

definition canned_laws :: "iam_lib \<Rightarrow> 'w admin_client \<Rightarrow> 'w canned_view \<Rightarrow> bool" where
  "canned_laws lib ma view \<longleftrightarrow>
     reads view (ListCannedPolicies ma) (\<lambda>v r. case r of Inl _ \<Rightarrow> True | Inr m \<Rightarrow> m = v) \<and>
     (\<forall>n p. effects view (AddCannedPolicy ma n p) (\<lambda>v _ v'. \<exists>q. v' = v(n \<mapsto> q) \<and> same_policy lib p q)) \<and>
     (\<forall>n. effects view (RemoveCannedPolicy ma n) (\<lambda>v _ v'. v' = v(n := None)))"

lemma canned_lawsD:
  assumes "canned_laws lib ma view"
  shows "ListCannedPolicies ma w = (Inr m, w') \<Longrightarrow> view w' = view w \<and> m = view w"
    and "AddCannedPolicy ma n p w = (Inr u, w') \<Longrightarrow> \<exists>q. view w' = (view w)(n \<mapsto> q) \<and> same_policy lib p q"
    and "RemoveCannedPolicy ma n w = (Inr u, w') \<Longrightarrow> view w' = (view w)(n := None)"
proof -
  note l = assms [unfolded canned_laws_def]
  show "ListCannedPolicies ma w = (Inr m, w') \<Longrightarrow> view w' = view w \<and> m = view w"
    using readsD [OF conjunct1 [OF l], of w "Inr m" w'] by simp
  show "AddCannedPolicy ma n p w = (Inr u, w') \<Longrightarrow> \<exists>q. view w' = (view w)(n \<mapsto> q) \<and> same_policy lib p q"
    by (rule effectsD [OF spec [OF spec [OF conjunct1 [OF conjunct2 [OF l]]]]])
  show "RemoveCannedPolicy ma n w = (Inr u, w') \<Longrightarrow> view w' = (view w)(n := None)"
    by (rule effectsD [OF spec [OF conjunct2 [OF conjunct2 [OF l]]]])
qed

text \<open>The abstract specification: the text on the server stands for the policy the resource describes.\<close>

definition policy_in_sync :: "iam_lib \<Rightarrow> policy_params \<Rightarrow> string \<Rightarrow> bool" where
  "policy_in_sync lib p observed \<longleftrightarrow>
     (pp_AllowBucket p \<noteq> [] \<longrightarrow>
        (\<exists>j. MarshalPolicy lib (allowBucketPolicy lib (pp_AllowBucket p)) = Inr j \<and> same_policy lib j observed)) \<and>
     (pp_RawPolicy p \<noteq> [] \<longrightarrow> same_policy lib (pp_RawPolicy p) observed)"

lemma sameObject_Ok: "sameObject lib a b s = (Ok e, t) \<Longrightarrow> t = s \<and> e = same_policy lib a b"
  by (auto simp: sameObject_def check_Ok_iff lib_call_Ok_iff same_policy_def)

lemma matches_Ok:
  assumes "matchesAllowBucket lib p q s = (Ok e1, s1)" and "matchesRawPolicy lib p q s1 = (Ok e2, t)"
  shows "t = s \<and> (e1 \<and> e2 \<longleftrightarrow> policy_in_sync lib (p_params p) q)"
  using assms
  by (auto simp: matchesAllowBucket_def matchesRawPolicy_def getAllowBucketPolicy_def policy_in_sync_def
      check_Ok_iff lib_call_Ok_iff split: if_splits option.splits dest!: sameObject_Ok)

lemma matches_first_Ok:
  assumes "matchesAllowBucket lib p q s = (Ok e1, s1)" and "\<not> e1"
  shows "s1 = s \<and> \<not> policy_in_sync lib (p_params p) q"
  using assms
  by (auto simp: matchesAllowBucket_def getAllowBucketPolicy_def policy_in_sync_def
      check_Ok_iff lib_call_Ok_iff split: if_splits option.splits dest!: sameObject_Ok)

end
