(* ===== verification/Policy_Props.thy ===== *)
theory Policy_Props
  imports Policy Mem_Admin
begin

text \<open>
  The properties of the policy controller: what Observe reports, that what a create or an update
  has written the next Observe finds (theory \<open>Settling\<close> goes on from there), the
  events it sends, and the resources it can never create. Witnesses run on the in-memory server of
  theory \<open>Mem_Admin\<close> with a policy library whose documents are their text.
\<close>

lemma policy_observe_spec:
  assumes "canned_laws lib ma view"
    and "cr s = MPolicy p" and "policy_claimed (MPolicy p)"
    and "Observe_policy lib ma s = (Ok x, t)"
  shows "view (world t) = view (world s) \<and> (\<exists>p'. cr t = MPolicy p' \<and> p_params p' = p_params p \<and> p_meta p' = p_meta p) \<and>
    x = (case view (world s) (policyName p) of
           None \<Rightarrow> NoObservation
         | Some q \<Rightarrow> \<lparr>ResourceExists = True, ResourceUpToDate = policy_in_sync lib (p_params p) q\<rparr>)"
proof -
  from assms(2-4) obtain m u where m: "call (ListCannedPolicies ma) s = (Ok m, u)" and
    rest: "(case m (policyName p) of
           None \<Rightarrow> ret \<lparr>ResourceExists = False, ResourceUpToDate = False\<rparr>
         | Some observedPolicy \<Rightarrow>
             check (matchesAllowBucket lib p observedPolicy) (\<lambda>equal.
               if \<not> equal then outdated p
               else
                 check (matchesRawPolicy lib p observedPolicy) (\<lambda>equal.
                   if \<not> equal then outdated p
                   else
                     seq (put_cr (MPolicy (SetConditions_policy
                            (p\<lparr>p_status := (p_status p)\<lparr>ps_Policy := observedPolicy\<rparr>\<rparr>) XpAvailable)))
                       (ret \<lparr>ResourceExists = True, ResourceUpToDate = True\<rparr>)))) u = (Ok x, t)"
    by (auto simp: Observe_policy_def as_policy_def policy_claimed_def check_Ok_iff)
  from m have m': "m = view (world s)" "view (world u) = view (world s)" "cr u = MPolicy p"
    using assms(2) by (auto simp: call_Ok_iff dest!: canned_lawsD(1) [OF assms(1)])
  show ?thesis
  proof (cases "m (policyName p)")
    case None
    with rest m' show ?thesis by (simp add: NoObservation_def)
  next
    case (Some q)
    with rest obtain e1 s1 where e1: "matchesAllowBucket lib p q u = (Ok e1, s1)" by (auto simp: check_Ok_iff)
    show ?thesis
    proof (cases e1)
      case False
      with e1 matches_first_Ok [OF e1] rest Some m' show ?thesis
        by (auto simp: check_Ok_iff outdated_def seq_Ok_iff SetConditions_policy_def)
    next
      case True
      with e1 rest Some obtain e2 s2 where e2: "matchesRawPolicy lib p q s1 = (Ok e2, s2)" by (auto simp: check_Ok_iff)
      from matches_Ok [OF e1 e2] e1 e2 True rest Some m' show ?thesis
        by (auto simp: check_Ok_iff outdated_def seq_Ok_iff SetConditions_policy_def split: if_split_asm)
    qed
  qed
qed

text \<open>
  C16. Whenever Observe of a policy resource that carries the creation mark succeeds, it reports
  exactly what the server holds: the policy exists iff the server lists its name, and is up to
  date iff the listed document stands for the one the resource describes. Observing changes
  nothing on the server.
\<close>

theorem policy_observe_exact:
  assumes "canned_laws lib ma view"
    and "cr s = MPolicy p" and "policy_claimed (MPolicy p)"
    and "Observe_policy lib ma s = (Ok x, t)"
  shows "view (world t) = view (world s) \<and>
    x = (case view (world s) (policyName p) of
           None \<Rightarrow> NoObservation
         | Some q \<Rightarrow> \<lparr>ResourceExists = True, ResourceUpToDate = policy_in_sync lib (p_params p) q\<rparr>)"
  using policy_observe_spec [OF assms] by blast

text \<open>A library whose documents are their text.\<close>

definition text_lib :: iam_lib where
  "text_lib = \<lparr>AllActions = ''s3:*'', Allow = ''Allow'', ValidatePolicy = (\<lambda>_. None),
     MarshalPolicy = (\<lambda>p. Inr (iam_Version p)),
     UnmarshalPolicy = (\<lambda>t. Inr \<lparr>iam_Version = t, iam_Statements = []\<rparr>),
     EqualsPolicy = (\<lambda>a b. iam_Version a = iam_Version b)\<rparr>"

definition demo_policy :: "string \<Rightarrow> policy" where
  "demo_policy raw = \<lparr>
     p_meta = \<lparr>Name = ''readonly'', Namespace = ''prod'', Annotations = Some Map.empty, DeletionTimestamp = None\<rparr>,
     p_spec = \<lparr>ManagementPolicies = None, ProviderConfigReference = Some ''default'', WriteConnectionSecretToReference = None\<rparr>,
     p_params = \<lparr>pp_AllowBucket = [], pp_RawPolicy = raw\<rparr>,
     p_status = \<lparr>ps_Conditions = [], ps_Policy = []\<rparr>\<rparr>"

definition marked_policy :: policy where
  "marked_policy = (demo_policy ''{}'')\<lparr>p_meta := (p_meta (demo_policy ''{}''))\<lparr>Annotations := Some [PolicyCreatedAnnotationKey \<mapsto> ''claimed'']\<rparr>\<rparr>"

definition policy_state :: "(string \<Rightarrow> string option) \<Rightarrow> policy \<Rightarrow> mem_server cstate" where
  "policy_state m p = \<lparr>world = \<lparr>accounts = Map.empty, canned = m, service_accounts = Map.empty\<rparr>, cr = MPolicy p, events = [], logs = []\<rparr>"

lemma policy_state_simps [simp]: "cr (policy_state m p) = MPolicy p" "canned (world (policy_state m p)) = m"
  by (simp_all add: policy_state_def)

lemma mem_canned_laws: "canned_laws text_lib mem_admin canned"
  by (auto simp: canned_laws_def reads_def effects_def mem_admin_def same_policy_def text_lib_def)

lemmas policy_eval = Observe_policy_def Create_policy_def Update_policy_def Delete_policy_def createRawPolicy_def
  matchesAllowBucket_def matchesRawPolicy_def sameObject_def outdated_def setLock_policy_def as_policy_def
  SetConditions_policy_def policyName_def get_annotation_def mem_admin_def text_lib_def go_defs
  demo_policy_def marked_policy_def policy_state_def

theorem policy_observe_exact_witness:
  "\<exists>t. Observe_policy text_lib mem_admin (policy_state [''readonly'' \<mapsto> ''{1}''] marked_policy) =
     (Ok \<lparr>ResourceExists = True, ResourceUpToDate = False\<rparr>, t)"
proof -
  have "\<exists>x t. Observe_policy text_lib mem_admin (policy_state [''readonly'' \<mapsto> ''{1}''] marked_policy) = (Ok x, t)"
    by (simp add: policy_eval)
  then obtain x t where ob: "Observe_policy text_lib mem_admin (policy_state [''readonly'' \<mapsto> ''{1}''] marked_policy) = (Ok x, t)"
    by blast
  from policy_observe_exact [OF mem_canned_laws _ _ ob, of marked_policy] ob show ?thesis
    by (simp add: policy_claimed_def marked_policy_def get_annotation_def policyName_def demo_policy_def
        policy_in_sync_def same_policy_def text_lib_def)
qed

section \<open>Create and Update\<close>

lemma policy_write_syncs:
  assumes "canned_laws lib ma view"
    and "(if pp_AllowBucket (p_params p) \<noteq> [] then createBucketPolicy lib ma p
          else if pp_RawPolicy (p_params p) \<noteq> [] then createRawPolicy ma p else ret ()) s = (Ok (), t)"
    and "pp_AllowBucket (p_params p) \<noteq> [] \<or> pp_RawPolicy (p_params p) \<noteq> []"
    and "pp_AllowBucket (p_params p) = [] \<or> pp_RawPolicy (p_params p) = []"
  shows "\<exists>q p'. view (world t) (policyName p) = Some q \<and> policy_in_sync lib (p_params p) q \<and>
    cr t = MPolicy p' \<and> policyName p' = policyName p \<and> p_params p' = p_params p \<and> policy_claimed (cr t) \<and>
    events t = events s @ [\<lparr>ev_Reason = ''Created'', ev_Message = ''User successfully created''\<rparr>]"
proof -
  from assms(2,3) obtain doc s1 s2 s3 where
    doc: "(if pp_AllowBucket (p_params p) \<noteq> [] then MarshalPolicy lib (allowBucketPolicy lib (pp_AllowBucket (p_params p))) = Inr doc
        else doc = pp_RawPolicy (p_params p))" and
    add: "call (AddCannedPolicy ma (policyName p) doc) s = (Ok (), s2)" and
    s3: "s3 = s2\<lparr>events := events s2 @ [\<lparr>ev_Reason = ''Created'', ev_Message = ''User successfully created''\<rparr>]\<rparr>" and
    lock: "setLock_policy p s3 = (Ok (), t)"
    by (auto simp: createBucketPolicy_def createRawPolicy_def getAllowBucketPolicy_def check_Ok_iff seq_Ok_iff lib_call_Ok_iff
        split: if_split_asm option.split_asm)
  from add obtain q where q: "view (world s2) = (view (world s))(policyName p \<mapsto> q)" "same_policy lib doc q" "events s2 = events s"
    by (auto simp: call_Ok_iff dest!: canned_lawsD(2) [OF assms(1)])
  from lock have t: "world t = world s3" "events t = events s3"
    "\<exists>p'. cr t = MPolicy p' \<and> policyName p' = policyName p \<and> p_params p' = p_params p"
    by (auto simp: setLock_policy_def policyName_def split: option.splits)
  from doc q(2) assms(4) have "policy_in_sync lib (p_params p) q"
    by (auto simp: policy_in_sync_def split: if_split_asm)
  with q t s3 policy_locked [OF lock] show ?thesis by auto
qed

definition policy_written :: "iam_lib \<Rightarrow> 'w canned_view \<Rightarrow> 'w cstate \<Rightarrow> bool" where
  "policy_written lib view s \<longleftrightarrow> (\<exists>p q. cr s = MPolicy p \<and> policy_claimed (MPolicy p) \<and>
     view (world s) (policyName p) = Some q \<and> policy_in_sync lib (p_params p) q)"

lemma policy_observe_frame:
  "cr s = MPolicy p \<Longrightarrow> Observe_policy lib ma s = (r, t) \<Longrightarrow> \<exists>p'. cr t = MPolicy p' \<and> p_params p' = p_params p"
  using keeps_desires [OF policy_keeps_desires(1), of s lib ma] by (cases "cr t") auto

text \<open>
  Convergence of a policy: for a resource that describes one kind of policy, as the webhook
  requires, a reconcile that created or updated the policy leaves it as described.
\<close>

lemma policy_write_done:
  assumes "canned_laws lib ma view"
    and "reconcile (policyClient lib ma) False s v t" and "v \<in> {Created, Updated}"
    and "cr s = MPolicy p" and "pp_AllowBucket (p_params p) = [] \<or> pp_RawPolicy (p_params p) = []"
  shows "policy_written lib view t"
proof -
  show ?thesis
    using assms(2)
  proof (cases rule: reconcile.cases)
    case (created y s' c)
    then have ob: "Observe_policy lib ma s = (Ok y, s')" and cr: "Create_policy lib ma s' = (Ok c, t)"
      by (simp_all add: policyClient_def)
    from policy_observe_frame [OF assms(4) ob] obtain p' where p': "cr s' = MPolicy p'" "p_params p' = p_params p" by blast
    from cr p' obtain s1 where
      "(if pp_AllowBucket (p_params p') \<noteq> [] then createBucketPolicy lib ma p'
        else if pp_RawPolicy (p_params p') \<noteq> [] then createRawPolicy ma p' else ret ()) s1 = (Ok (), t)"
      "pp_AllowBucket (p_params p') \<noteq> [] \<or> pp_RawPolicy (p_params p') \<noteq> []"
      by (auto simp: Create_policy_def as_policy_def check_Ok_iff seq_Ok_iff split: if_split_asm)
    from policy_write_syncs [OF assms(1) this] assms(5) p' show ?thesis by (auto simp: policy_written_def)
  next
    case (updated y s')
    then have ob: "Observe_policy lib ma s = (Ok y, s')" and up: "Update_policy lib ma s' = (Ok (), t)"
      by (simp_all add: policyClient_def)
    from policy_observe_frame [OF assms(4) ob] obtain p' where p': "cr s' = MPolicy p'" "p_params p' = p_params p" by blast
    from policy_observe_unclaimed [of p s lib ma] assms(4) ob updated have c: "policy_claimed (MPolicy p)"
      by (cases "policy_claimed (MPolicy p)") (auto simp: NoObservation_def)
    from policy_observe_spec [OF assms(1,4) c ob] updated
    have "pp_AllowBucket (p_params p') \<noteq> [] \<or> pp_RawPolicy (p_params p') \<noteq> []"
      by (auto simp: NoObservation_def policy_in_sync_def p' split: option.splits)
    moreover from this up p' obtain s1 where
      "(if pp_AllowBucket (p_params p') \<noteq> [] then createBucketPolicy lib ma p'
        else if pp_RawPolicy (p_params p') \<noteq> [] then createRawPolicy ma p' else ret ()) s1 = (Ok (), t)"
      by (auto simp: Update_policy_def as_policy_def check_Ok_iff seq_Ok_iff split: if_split_asm)
    ultimately show ?thesis
      using policy_write_syncs [OF assms(1), of p' s1 t] assms(5) p' by (auto simp: policy_written_def)
  qed (use assms(3) in auto)
qed

lemma policy_written_observe:
  assumes "canned_laws lib ma view" and "policy_written lib view t" and "Observe_policy lib ma t = (Ok x, u)"
  shows "x = \<lparr>ResourceExists = True, ResourceUpToDate = True\<rparr> \<and> policy_written lib view u"
proof -
  from assms(2) obtain p q where p: "cr t = MPolicy p" "policy_claimed (MPolicy p)"
    "view (world t) (policyName p) = Some q" "policy_in_sync lib (p_params p) q"
    by (auto simp: policy_written_def)
  from policy_observe_spec [OF assms(1) p(1,2) assms(3)] p show ?thesis
    by (auto simp: policy_written_def policyName_def policy_claimed_def)
qed

lemma demo_policy_runs:
  "Observe_policy text_lib mem_admin (policy_state Map.empty (demo_policy ''{}'')) =
     (Ok NoObservation, policy_state Map.empty (demo_policy ''{}''))"
  "\<exists>t x u. Create_policy text_lib mem_admin (policy_state Map.empty (demo_policy ''{}'')) = (Ok None, t) \<and>
     Observe_policy text_lib mem_admin t = (Ok x, u)"
  by (simp_all add: policy_eval)

lemma demo_policy_converges:
  "\<exists>t x u. reconcile (policyClient text_lib mem_admin) False (policy_state Map.empty (demo_policy ''{}'')) Created t \<and>
     Observe_policy text_lib mem_admin t = (Ok x, u)"
proof -
  let ?s = "policy_state Map.empty (demo_policy ''{}'')"
  from demo_policy_runs(2) obtain t x u where t: "Create_policy text_lib mem_admin ?s = (Ok None, t)"
    and ob: "Observe_policy text_lib mem_admin t = (Ok x, u)" by blast
  with demo_policy_runs(1) have "reconcile (policyClient text_lib mem_admin) False ?s Created t"
    by (intro reconcile.created) (auto simp: policyClient_def NoObservation_def)
  with ob show ?thesis by blast
qed

section \<open>Events, and what can never be created\<close>

text \<open>
  The events of a policy do not match what happened: every Update that succeeds and writes a
  policy announces ``Updated'' and then ``Created: User successfully created'', and a Delete
  announces the deletion whether or not the server removed the policy.
\<close>

theorem policy_events:
  assumes "cr s = MPolicy p" and "pp_AllowBucket (p_params p) \<noteq> [] \<or> pp_RawPolicy (p_params p) \<noteq> []"
  shows "(Update_policy lib ma s = (Ok (), t) \<longrightarrow> events t = events s @
      [\<lparr>ev_Reason = ''Updated'', ev_Message = ''Policy successfully updated''\<rparr>,
       \<lparr>ev_Reason = ''Created'', ev_Message = ''User successfully created''\<rparr>]) \<and>
    events (snd (Delete_policy ma s)) = events s @
      [\<lparr>ev_Reason = ''Deleted'', ev_Message = ''Policy successfully deleted''\<rparr>]"
proof
  have lock: "setLock_policy p u = (Ok (), t) \<Longrightarrow> events t = events u" for u t
    by (auto simp: setLock_policy_def split: option.splits)
  from assms show "Update_policy lib ma s = (Ok (), t) \<longrightarrow> events t = events s @
      [\<lparr>ev_Reason = ''Updated'', ev_Message = ''Policy successfully updated''\<rparr>,
       \<lparr>ev_Reason = ''Created'', ev_Message = ''User successfully created''\<rparr>]"
    by (auto simp: Update_policy_def createBucketPolicy_def createRawPolicy_def getAllowBucketPolicy_def as_policy_def
        check_Ok_iff seq_Ok_iff call_Ok_iff lib_call_Ok_iff split: if_split_asm option.split_asm dest!: lock)
  from assms(1) show "events (snd (Delete_policy ma s)) = events s @
      [\<lparr>ev_Reason = ''Deleted'', ev_Message = ''Policy successfully deleted''\<rparr>]"
    by (simp add: Delete_policy_def as_policy_def go_defs split: prod.split sum.split)
qed

theorem policy_events_witness:
  "events (snd (Delete_policy (mem_admin\<lparr>RemoveCannedPolicy := \<lambda>n w. (Inl server_busy, w)\<rparr>)
     (policy_state [''readonly'' \<mapsto> ''{}''] marked_policy))) = [\<lparr>ev_Reason = ''Deleted'', ev_Message = ''Policy successfully deleted''\<rparr>]"
  using policy_events [OF policy_state_simps(1), of marked_policy]
  by (simp add: marked_policy_def demo_policy_def policy_state_def)

text \<open>
  A policy resource that describes no policy at all passes the webhook with a provider
  config and can never be created: every Create of it fails.
\<close>

theorem policy_without_content:
  assumes "has_provider_config (p_spec p)" and "pp_AllowBucket (p_params p) = []" and "pp_RawPolicy (p_params p) = []"
  shows "ValidateCreate_policy p w = (Ok (), w) \<and>
    (cr s = MPolicy p \<longrightarrow> fst (Create_policy lib ma s) \<noteq> Ok c)"
  using assms
  by (auto simp: fst_Ok_iff ValidateCreate_policy_def validatePolicy_policy_def ret_def Create_policy_def as_policy_def check_Ok_iff
      split: if_split_asm)

theorem policy_without_content_witness:
  "ValidateCreate_policy (demo_policy []) () = (Ok (), ()) \<and>
   fst (Create_policy text_lib mem_admin (policy_state Map.empty (demo_policy []))) \<noteq> Ok None"
proof -
  have "has_provider_config (p_spec (demo_policy []))" "pp_AllowBucket (p_params (demo_policy [])) = []"
    "pp_RawPolicy (p_params (demo_policy [])) = []"
    by (simp_all add: demo_policy_def has_provider_config_def)
  from policy_without_content [OF this, where s = "policy_state Map.empty (demo_policy [])" and w = "()"] show ?thesis by simp
qed

end
