(* ===== verification/ServiceAccount.thy ===== *)
theory ServiceAccount
  imports Contracts MinioUtil
begin

text \<open>
  The service account controller and its webhook (\<^verbatim>\<open>operator/serviceaccount\<close>). The external
  name of the resource is the access key on the server and marks the resource as created; it is
  read and written with the Crossplane library's \<^verbatim>\<open>meta\<close> functions on the annotations, which
  are parameters. An error counts as ``not there'' by words in its text.

  The controller is interpreted as a \<open>claimed_external\<close>, the webhook as a \<open>fixed_identity\<close>.
\<close>

section \<open>The controller\<close>

definition errNotServiceAccount :: go_error where
  "errNotServiceAccount = ErrNew ''managed resource is not a service account''"

definition sa_AccessKeyName :: string where "sa_AccessKeyName = ''AWS_ACCESS_KEY_ID''"

definition sa_SecretKeyName :: string where "sa_SecretKeyName = ''AWS_SECRET_ACCESS_KEY''"

record meta_lib =
  GetExternalName :: "(string \<rightharpoonup> string) option \<Rightarrow> string"
  SetExternalName :: "(string \<rightharpoonup> string) option \<Rightarrow> string \<Rightarrow> (string \<rightharpoonup> string) option"

text \<open>The parts of \<^verbatim>\<open>serviceAccountClient\<close> its operations read.\<close>

record 'w sa_client =
  sac_ma :: "'w admin_client"
  sac_kube :: "'w kube_client"
  sac_meta :: meta_lib

definition as_service_account :: "(service_account \<Rightarrow> ('w, 'a) ctl) \<Rightarrow> ('w, 'a) ctl" where [prim_defs]:
  "as_service_account k s = (case cr s of MServiceAccount a \<Rightarrow> k a s | _ \<Rightarrow> (Err errNotServiceAccount, s))"

definition external_name :: "'w sa_client \<Rightarrow> service_account \<Rightarrow> string" where
  "external_name c a = GetExternalName (sac_meta c) (Annotations (s_meta a))"

definition SetConditions_sa :: "service_account \<Rightarrow> condition \<Rightarrow> service_account" where
  "SetConditions_sa a c = a\<lparr>s_status := (s_status a)\<lparr>ss_Conditions := ss_Conditions (s_status a) @ [c]\<rparr>\<rparr>"

definition is_missing :: "go_error \<Rightarrow> bool" where
  "is_missing err \<longleftrightarrow> str_contains (error_text err) ''does not exist'' \<or> str_contains (error_text err) ''not found''"

subsection \<open>Observe\<close>

definition isUpToDate :: "service_account \<Rightarrow> sa_info \<Rightarrow> bool" where
  "isUpToDate a info =
     (if sp_Policy (s_params a) \<noteq> [] \<and> sp_Policy (s_params a) \<noteq> si_Policy info then False
      else if (sp_Expiration (s_params a) = None) \<noteq> (si_Expiration info = None) then False
      else case (sp_Expiration (s_params a), si_Expiration info) of
        (Some e, Some i) \<Rightarrow> e = i
      | _ \<Rightarrow> True)"

definition observed_status :: "service_account \<Rightarrow> string \<Rightarrow> sa_info \<Rightarrow> service_account" where
  "observed_status a accessKey info =
     (let st = (s_status a)\<lparr>ss_AccessKey := accessKey, ss_AccountStatus := si_AccountStatus info,
            ss_ParentUser := si_ParentUser info, ss_ImpliedPolicy := si_ImpliedPolicy info, ss_Policy := si_Policy info\<rparr> in
      a\<lparr>s_status := (case si_Expiration info of None \<Rightarrow> st | Some t \<Rightarrow> st\<lparr>ss_Expiration := Some t\<rparr>)\<rparr>)"

definition Observe_sa :: "'w sa_client \<Rightarrow> ('w, observation) ctl" where [ctl_defs]:
  "Observe_sa c = as_service_account (\<lambda>a.
     if external_name c a = [] then ret NoObservation
     else
       if_err (call (InfoServiceAccount (sac_ma c) (external_name c a)))
         (\<lambda>err. if is_missing err then ret \<lparr>ResourceExists = False, ResourceUpToDate = False\<rparr> else fail err)
         (\<lambda>info.
            let a1 = observed_status a (external_name c a) info in
            if \<not> isUpToDate a1 info then
              seq (put_cr (MServiceAccount (SetConditions_sa a1 Updating)))
                (ret \<lparr>ResourceExists = True, ResourceUpToDate = False\<rparr>)
            else
              seq (put_cr (MServiceAccount (SetConditions_sa a1
                     (if si_AccountStatus info = ''enabled'' then XpAvailable else Disabled))))
              (seq (case (DeletionTimestamp (s_meta a1), WriteConnectionSecretToReference (s_spec a1)) of
                      (None, Some name) \<Rightarrow>
                        if_err (call (KubeGetSecret (sac_kube c) name (Namespace (s_meta a1)))) (\<lambda>_. ret ()) (\<lambda>_. ret ())
                    | _ \<Rightarrow> ret ())
                (ret \<lparr>ResourceExists = True, ResourceUpToDate = True\<rparr>))))"

subsection \<open>Create\<close>

definition serviceAccountExists :: "'w admin_client \<Rightarrow> string \<Rightarrow> ('w, bool) ctl" where [ctl_defs]:
  "serviceAccountExists ma accessKey =
     if_err (call (InfoServiceAccount ma accessKey))
       (\<lambda>err. if is_missing err then ret False else fail err)
       (\<lambda>_. ret True)"

definition create_request :: "service_account \<Rightarrow> string \<Rightarrow> add_sa_req" where
  "create_request a secretKey =
     \<lparr>req_AccessKey = sp_AccessKey (s_params a), req_SecretKey = secretKey,
      req_TargetUser = sp_TargetUser (s_params a), req_Name = sp_Name (s_params a),
      req_Description = sp_Description (s_params a),
      req_Policy = (if sp_Policy (s_params a) \<noteq> [] then Some (sp_Policy (s_params a)) else None),
      req_Expiration = sp_Expiration (s_params a)\<rparr>"

text \<open>The secret key is generated only for a given access key; an existing account is looked for only then.\<close>

definition chooseSecretKey :: "'w password_gen \<Rightarrow> service_account \<Rightarrow> ('w, string) ctl" where [ctl_defs]:
  "chooseSecretKey generate a =
     (if sp_SecretKey (s_params a) = [] \<and> sp_AccessKey (s_params a) \<noteq> [] then call (generate 64 5 0 False True)
      else ret (sp_SecretKey (s_params a)))"

definition accessKeyTaken :: "'w sa_client \<Rightarrow> service_account \<Rightarrow> ('w, bool) ctl" where [ctl_defs]:
  "accessKeyTaken c a =
     (if sp_AccessKey (s_params a) \<noteq> [] then serviceAccountExists (sac_ma c) (sp_AccessKey (s_params a)) else ret False)"

definition emitCreationEvent_sa :: "('w, unit) ctl" where [simp, ctl_defs]:
  "emitCreationEvent_sa = emit ''Created'' ''Service Account successfully created''"

definition Create_sa :: "'w password_gen \<Rightarrow> 'w sa_client \<Rightarrow> ('w, creation) ctl" where [ctl_defs]:
  "Create_sa generate c = as_service_account (\<lambda>a.
     if sp_AccessKey (s_params a) = [] \<and> sp_SecretKey (s_params a) \<noteq> []
     then fail (ErrNew ''access key must be specified if secret key is specified'')
     else
       check (chooseSecretKey generate a) (\<lambda>secretKey.
       check (accessKeyTaken c a) (\<lambda>exists.
         if exists then fail (ErrNew ''service account already exists'')
         else
           check (call (AddServiceAccount (sac_ma c) (create_request a secretKey))) (\<lambda>credentials.
           seq emitCreationEvent_sa
           (seq (put_cr (MServiceAccount (a\<lparr>
                   s_meta := (s_meta a)\<lparr>Annotations := SetExternalName (sac_meta c) (Annotations (s_meta a)) (sac_AccessKey credentials)\<rparr>,
                   s_status := (s_status a)\<lparr>ss_AccessKey := sac_AccessKey credentials\<rparr>\<rparr>)))
             (ret (Some [sa_AccessKeyName \<mapsto> sac_AccessKey credentials, sa_SecretKeyName \<mapsto> sac_SecretKey credentials])))))))"

subsection \<open>Update and Delete\<close>

definition update_request :: "service_account \<Rightarrow> update_sa_req" where
  "update_request a =
     \<lparr>upd_NewPolicy = (if sp_Policy (s_params a) \<noteq> [] then Some (sp_Policy (s_params a)) else None),
      upd_NewName = sp_Name (s_params a), upd_NewDescription = sp_Description (s_params a),
      upd_NewExpiration = sp_Expiration (s_params a), upd_NewSecretKey = sp_SecretKey (s_params a)\<rparr>"

definition emitUpdateEvent_sa :: "('w, unit) ctl" where [simp, ctl_defs]:
  "emitUpdateEvent_sa = emit ''Updated'' ''Service Account successfully updated''"

definition Update_sa :: "'w sa_client \<Rightarrow> ('w, unit) ctl" where [ctl_defs]:
  "Update_sa c = as_service_account (\<lambda>a.
     if external_name c a = [] then fail (ErrNew ''service account has not been created yet (no external-name)'')
     else
       seq (call (UpdateServiceAccount (sac_ma c) (external_name c a) (update_request a)))
         emitUpdateEvent_sa)"

definition emitDeleteEvent_sa :: "('w, unit) ctl" where [ctl_defs]:
  "emitDeleteEvent_sa = emit ''Deleted'' ''Service Account successfully deleted''"

definition Delete_sa :: "'w sa_client \<Rightarrow> ('w, unit) ctl" where [ctl_defs]:
  "Delete_sa c = as_service_account (\<lambda>a.
     if external_name c a = [] then emitDeleteEvent_sa
     else
       check (if_err (serviceAccountExists (sac_ma c) (external_name c a)) (\<lambda>_. ret False) ret) (\<lambda>exists.
         if \<not> exists then emitDeleteEvent_sa
         else seq (call (DeleteServiceAccount (sac_ma c) (external_name c a))) emitDeleteEvent_sa))"

definition Disconnect_sa :: "('w, unit) ctl" where [simp, ctl_defs]:
  "Disconnect_sa = ret ()"

definition serviceAccountClient :: "'w password_gen \<Rightarrow> 'w sa_client \<Rightarrow> 'w external_client" where
  "serviceAccountClient generate c = \<lparr>Observe = Observe_sa c, Create = Create_sa generate c,
     Update = Update_sa c, Delete = Delete_sa c, Disconnect = Disconnect_sa\<rparr>"

section \<open>The contract with the reconciler\<close>

definition is_service_account :: "managed \<Rightarrow> bool" where
  "is_service_account m \<longleftrightarrow> (case m of MServiceAccount _ \<Rightarrow> True | _ \<Rightarrow> False)"

definition sa_claimed :: "'w sa_client \<Rightarrow> managed \<Rightarrow> bool" where
  "sa_claimed c m \<longleftrightarrow> (case m of MServiceAccount a \<Rightarrow> external_name c a \<noteq> [] | _ \<Rightarrow> False)"

lemma keeps_as_service_account [keeps_intros]:
  "(\<And>a s. I s \<Longrightarrow> cr s = MServiceAccount a \<Longrightarrow> keeps I (k a)) \<Longrightarrow> keeps I (as_service_account k)"
  by (auto simp: keeps_def as_service_account_def split: managed.split)

lemma returns_as_service_account [returns_intros]: "(\<And>a. returns P (k a)) \<Longrightarrow> returns P (as_service_account k)"
  by (auto simp: returns_def as_service_account_def split: managed.splits)

lemma as_service_account_foreign:
  "\<not> is_service_account (cr s) \<Longrightarrow> as_service_account k s = (Err errNotServiceAccount, s)"
  by (simp add: is_service_account_def as_service_account_def split: managed.splits)

lemma observed_status_simps [simp]:
  "s_meta (observed_status a k i) = s_meta a" "s_params (observed_status a k i) = s_params a"
  "s_spec (observed_status a k i) = s_spec a" "external_name c (observed_status a k i) = external_name c a"
  by (simp_all add: observed_status_def Let_def external_name_def)

lemma SetConditions_sa_simps [simp]:
  "s_meta (SetConditions_sa a x) = s_meta a" "s_params (SetConditions_sa a x) = s_params a"
  "s_spec (SetConditions_sa a x) = s_spec a" "external_name c (SetConditions_sa a x) = external_name c a"
  by (simp_all add: SetConditions_sa_def external_name_def)

lemma same_desired_sa:
  "same_desired m (MServiceAccount a) \<Longrightarrow> s_meta b = (s_meta a)\<lparr>Annotations := an\<rparr> \<Longrightarrow> s_spec b = s_spec a \<Longrightarrow>
   s_params b = s_params a \<Longrightarrow> same_desired m (MServiceAccount b)"
  "same_desired m (MServiceAccount a) \<Longrightarrow> same_desired m (MServiceAccount (SetConditions_sa (observed_status a k i) x))"
  by (cases m; auto simp: same_identity_def)+

lemma sa_keeps_desires:
  "keeps (desires m) (Observe_sa c)" "keeps (desires m) (Create_sa g c)"
  "keeps (desires m) (Update_sa c)" "keeps (desires m) (Delete_sa c)"
  unfolding ctl_defs
  by (intro keeps_intros; (simp add: same_desired_sa desires_def; fail) | (simp add: desires_def, erule same_desired_sa(1); simp))+

lemma sa_observe_no_event: "keeps (has_events es) (Observe_sa c)"
  unfolding ctl_defs by (intro keeps_intros; simp)

lemma sa_observe_no_event': "events (snd (Observe_sa c s)) = events s"
  by (rule keeps_has_events) (rule sa_observe_no_event)

lemma sa_foreign:
  assumes "\<not> is_service_account (cr s)"
  shows "Observe_sa c s = (Err errNotServiceAccount, s)" "Create_sa g c s = (Err errNotServiceAccount, s)"
    "Update_sa c s = (Err errNotServiceAccount, s)" "Delete_sa c s = (Err errNotServiceAccount, s)"
  using assms
  by (simp_all add: Observe_sa_def Create_sa_def Update_sa_def Delete_sa_def as_service_account_foreign)

lemma sa_observe_coherent: "returns coherent (Observe_sa c)"
  unfolding ctl_defs by (intro returns_intros; simp)

lemma sa_observe_unclaimed:
  "\<not> sa_claimed c (MServiceAccount a) \<Longrightarrow> cr s = MServiceAccount a \<Longrightarrow> Observe_sa c s = (Ok NoObservation, s)"
  by (simp add: Observe_sa_def as_service_account_def sa_claimed_def ret_def)

interpretation sa: claimed_external "serviceAccountClient g c" is_service_account errNotServiceAccount "sa_claimed c"
  for g :: "'w password_gen" and c :: "'w sa_client"
proof (unfold_locales, goal_cases)
  case 10
  then show ?case using sa_observe_no_event' by (auto simp: serviceAccountClient_def)
next
  case 11
  then show ?case using coherentD [OF sa_observe_coherent] by (auto simp: serviceAccountClient_def)
next
  case (12 s x)
  then show ?case using sa_observe_unclaimed [of c _ s]
    by (cases "cr s") (auto simp: serviceAccountClient_def sa_foreign is_service_account_def NoObservation_def)
next
  case (13 s)
  then show ?case using sa_observe_unclaimed [of c _ s]
    by (cases "cr s") (auto simp: serviceAccountClient_def sa_foreign is_service_account_def)
qed (simp_all add: serviceAccountClient_def sa_foreign only_logged_def ret_def keeps_desires sa_keeps_desires)

section \<open>The webhook\<close>

text \<open>\<open>jsonError\<close> is \<^verbatim>\<open>json.Unmarshal\<close> into an interface: an error for a text that is not JSON.\<close>

definition validatePolicy_sa :: "(string \<Rightarrow> api_error option) \<Rightarrow> string \<Rightarrow> ('w, unit) go" where
  "validatePolicy_sa jsonError policy =
     (if policy = [] then ret ()
      else case jsonError policy of
        Some err \<Rightarrow> fail (ErrWrap ''policy must be valid JSON'' [] (ErrApi err))
      | None \<Rightarrow> ret ())"

definition policyCheck_sa :: "(string \<Rightarrow> api_error option) \<Rightarrow> service_account \<Rightarrow> ('w, unit) go" where
  "policyCheck_sa jsonError a =
     (if sp_Policy (s_params a) \<noteq> [] then
        if_err (validatePolicy_sa jsonError (sp_Policy (s_params a)))
          (\<lambda>err. fail (ErrInvalid [''spec'', ''forProvider'', ''policy''] (VStr (sp_Policy (s_params a))) (DetailErr err)))
          ret
      else ret ())"

definition ValidateCreate_sa :: "(string \<Rightarrow> api_error option) \<Rightarrow> service_account \<Rightarrow> ('w, unit) go" where
  "ValidateCreate_sa jsonError a =
     (if \<not> has_provider_config (s_spec a) then
        fail (ErrInvalid [''spec'', ''providerConfigRef'', ''name''] (VStr ''null'') (Detail ''Provider config is required''))
      else
        seq (policyCheck_sa jsonError a)
        (if sp_AccessKey (s_params a) \<noteq> [] \<and>
            (length (sp_AccessKey (s_params a)) < 3 \<or> 128 < length (sp_AccessKey (s_params a)))
         then fail (ErrInvalid [''spec'', ''forProvider'', ''accessKey''] (VStr (sp_AccessKey (s_params a)))
                (Detail ''Access key must be between 3 and 128 characters''))
         else if sp_SecretKey (s_params a) \<noteq> [] \<and> length (sp_SecretKey (s_params a)) < 8
         then fail (ErrInvalid [''spec'', ''forProvider'', ''secretKey''] (VStr ''***'')
                (Detail ''Secret key must be at least 8 characters''))
         else ret ()))"

definition ValidateUpdate_sa :: "(string \<Rightarrow> api_error option) \<Rightarrow> service_account \<Rightarrow> service_account \<Rightarrow> ('w, unit) go" where
  "ValidateUpdate_sa jsonError old new =
     (if GetAccessKey new \<noteq> GetAccessKey old then
        fail (ErrInvalid [''spec'', ''forProvider'', ''accessKey''] (VStr (GetAccessKey new)) (Detail ''Changing the access key is not allowed''))
      else if sp_TargetUser (s_params new) \<noteq> sp_TargetUser (s_params old) then
        fail (ErrInvalid [''spec'', ''forProvider'', ''targetUser''] (VStr (sp_TargetUser (s_params new))) (Detail ''Changing the target user is not allowed''))
      else if DeletionTimestamp (s_meta new) \<noteq> None then ret ()
      else if \<not> has_provider_config (s_spec new) then
        fail (ErrInvalid [''spec'', ''providerConfigRef'', ''name''] (VStr ''null'') (Detail ''Provider config is required''))
      else policyCheck_sa jsonError new)"

definition ValidateDelete_sa :: "service_account \<Rightarrow> ('w, unit) go" where
  "ValidateDelete_sa a = ret ()"

definition serviceAccountValidator :: "(string \<Rightarrow> api_error option) \<Rightarrow> ('w, service_account) validator" where
  "serviceAccountValidator jsonError = \<lparr>ValidateCreate = ValidateCreate_sa jsonError,
     ValidateUpdate = ValidateUpdate_sa jsonError, ValidateDelete = ValidateDelete_sa\<rparr>"

interpretation sa_webhook: fixed_identity "serviceAccountValidator jsonError :: ('w, service_account) validator" s_spec
  "\<lambda>a. DeletionTimestamp (s_meta a) \<noteq> None" "\<lambda>a. (GetAccessKey a, sp_TargetUser (s_params a))"
  for jsonError :: "string \<Rightarrow> api_error option"
  by unfold_locales
    (auto simp: serviceAccountValidator_def ValidateCreate_sa_def ValidateUpdate_sa_def ValidateDelete_sa_def ret_def
      split: if_split_asm)

end
