(* ===== verification/ServiceAccount_Props.thy ===== *)
theory ServiceAccount_Props
  imports ServiceAccount Mem_Admin
begin

text \<open>
  The properties of the service account controller: what Observe reports, when an update
  converges, what a create sends and keeps, the deletions that do not happen, and what neither
  Observe nor the webhook looks at. Witnesses run on the in-memory server of theory
  \<open>Mem_Admin\<close>.
\<close>

section \<open>What the controller relies on from the admin API\<close>

type_synonym 'w sa_view = "'w \<Rightarrow> string \<Rightarrow> sa_info option"

definition sa_laws :: "'w admin_client \<Rightarrow> 'w sa_view \<Rightarrow> bool" where
  "sa_laws ma view \<longleftrightarrow>
     (\<forall>k. reads view (InfoServiceAccount ma k)
        (\<lambda>v r. case r of Inl e \<Rightarrow> is_missing (ErrApi e) \<longrightarrow> v k = None | Inr i \<Rightarrow> v k = Some i)) \<and>
     (\<forall>r. effects view (AddServiceAccount ma r)
        (\<lambda>v cred v'. v' (sac_AccessKey cred) \<noteq> None \<and> (req_AccessKey r \<noteq> [] \<longrightarrow> sac_AccessKey cred = req_AccessKey r)))"

text \<open>
  An update replaces what it names and keeps the rest. The server gives a policy back in a form of
  its own, which need not be the text it was sent.
\<close>

definition sa_update_laws :: "(string \<Rightarrow> string) \<Rightarrow> 'w admin_client \<Rightarrow> 'w sa_view \<Rightarrow> bool" where
  "sa_update_laws form ma view \<longleftrightarrow>
     (\<forall>k r. effects view (UpdateServiceAccount ma k r)
        (\<lambda>v _ v'. \<exists>i i'. v k = Some i \<and> v' k = Some i' \<and>
           si_Policy i' = (case upd_NewPolicy r of None \<Rightarrow> si_Policy i | Some p \<Rightarrow> form p) \<and>
           si_Expiration i' = (case upd_NewExpiration r of None \<Rightarrow> si_Expiration i | Some t \<Rightarrow> Some t)))"

lemma sa_lawsD:
  assumes "sa_laws ma view"
  shows "InfoServiceAccount ma k w = (r, w') \<Longrightarrow> view w' = view w \<and>
      (case r of Inl e \<Rightarrow> is_missing (ErrApi e) \<longrightarrow> view w k = None | Inr i \<Rightarrow> view w k = Some i)"
    and "AddServiceAccount ma a w = (Inr cred, w') \<Longrightarrow> view w' (sac_AccessKey cred) \<noteq> None \<and>
      (req_AccessKey a \<noteq> [] \<longrightarrow> sac_AccessKey cred = req_AccessKey a)"
proof -
  note l = assms [unfolded sa_laws_def]
  show "InfoServiceAccount ma k w = (r, w') \<Longrightarrow> view w' = view w \<and>
      (case r of Inl e \<Rightarrow> is_missing (ErrApi e) \<longrightarrow> view w k = None | Inr i \<Rightarrow> view w k = Some i)"
    by (rule readsD [OF spec [OF conjunct1 [OF l]]])
  show "AddServiceAccount ma a w = (Inr cred, w') \<Longrightarrow> view w' (sac_AccessKey cred) \<noteq> None \<and>
      (req_AccessKey a \<noteq> [] \<longrightarrow> sac_AccessKey cred = req_AccessKey a)"
    by (rule effectsD [OF spec [OF conjunct2 [OF l]]])
qed

lemma sa_updatesD:
  assumes "sa_update_laws form ma view" and "UpdateServiceAccount ma k q w = (Inr u, w')"
  shows "\<exists>i i'. view w k = Some i \<and> view w' k = Some i' \<and>
           si_Policy i' = (case upd_NewPolicy q of None \<Rightarrow> si_Policy i | Some p \<Rightarrow> form p) \<and>
           si_Expiration i' = (case upd_NewExpiration q of None \<Rightarrow> si_Expiration i | Some t \<Rightarrow> Some t)"
  using effectsD [OF spec [OF spec [OF assms(1) [unfolded sa_update_laws_def]]] assms(2)] .

section \<open>Observe\<close>

text \<open>The abstract specification of the comparison.\<close>

definition sa_in_sync :: "service_account_params \<Rightarrow> sa_info \<Rightarrow> bool" where
  "sa_in_sync p i \<longleftrightarrow> (sp_Policy p = [] \<or> sp_Policy p = si_Policy i) \<and> sp_Expiration p = si_Expiration i"

lemma isUpToDate_in_sync: "isUpToDate a i = sa_in_sync (s_params a) i"
  by (cases "sp_Expiration (s_params a)"; cases "si_Expiration i") (auto simp: isUpToDate_def sa_in_sync_def)

lemma sa_observe_spec:
  assumes "sa_laws (sac_ma c) view"
    and "cr s = MServiceAccount a" and "external_name c a \<noteq> []"
    and "Observe_sa c s = (Ok x, t)"
  shows "(x = (case view (world s) (external_name c a) of
           None \<Rightarrow> NoObservation
         | Some i \<Rightarrow> \<lparr>ResourceExists = True, ResourceUpToDate = sa_in_sync (s_params a) i\<rparr>)) \<and>
    (\<exists>w r. InfoServiceAccount (sac_ma c) (external_name c a) (world s) = (r, w))"
proof (cases "InfoServiceAccount (sac_ma c) (external_name c a) (world s)")
  case (Pair r w)
  with sa_lawsD(1) [OF assms(1) Pair] assms(2-4) show ?thesis
    by (cases r)
      (auto simp: Observe_sa_def as_service_account_def Let_def if_err_Ok_iff call_Ok_iff call_Err_iff seq_Ok_iff
        isUpToDate_in_sync NoObservation_def split: if_split_asm)
qed

text \<open>
  C19. Whenever Observe of a service account with an external name succeeds, it reports exactly
  what the server holds under that name: the account exists iff the server has it, and is up to
  date iff a desired policy is the one in force and the expirations agree, both absent or equal.
\<close>

theorem sa_observe_exact:
  assumes "sa_laws (sac_ma c) view"
    and "cr s = MServiceAccount a" and "external_name c a \<noteq> []"
    and "Observe_sa c s = (Ok x, t)"
  shows "x = (case view (world s) (external_name c a) of
           None \<Rightarrow> NoObservation
         | Some i \<Rightarrow> \<lparr>ResourceExists = True, ResourceUpToDate = sa_in_sync (s_params a) i\<rparr>)"
  using sa_observe_spec [OF assms] by blast

text \<open>The external name kept in an annotation, as the Crossplane library keeps it, and a demo account.\<close>

definition demo_meta :: meta_lib where
  "demo_meta = \<lparr>
     GetExternalName = (\<lambda>an. case an of None \<Rightarrow> [] | Some m \<Rightarrow> map_get m ''external-name''),
     SetExternalName = (\<lambda>an n. Some ((case an of None \<Rightarrow> Map.empty | Some m \<Rightarrow> m)(''external-name'' \<mapsto> n)))\<rparr>"

definition demo_sac :: "mem_server sa_client" where
  "demo_sac = \<lparr>sac_ma = mem_admin, sac_kube = one_secret Map.empty tls_demo, sac_meta = demo_meta\<rparr>"

definition demo_sa :: service_account where
  "demo_sa = \<lparr>
     s_meta = \<lparr>Name = ''backup'', Namespace = ''prod'', Annotations = Some [''external-name'' \<mapsto> ''AK1''], DeletionTimestamp = None\<rparr>,
     s_spec = \<lparr>ManagementPolicies = None, ProviderConfigReference = Some ''default'', WriteConnectionSecretToReference = None\<rparr>,
     s_params = \<lparr>sp_TargetUser = ''ada'', sp_AccessKey = [], sp_SecretKey = [], sp_Name = [], sp_Description = [],
       sp_Policy = [], sp_Expiration = None, sp_WriteConnectionSecretsToRef = None\<rparr>,
     s_status = \<lparr>ss_Conditions = [], ss_AccessKey = [], ss_AccountStatus = [], ss_ParentUser = [],
       ss_ImpliedPolicy = False, ss_Policy = [], ss_Expiration = None\<rparr>\<rparr>"

definition demo_info :: "instant option \<Rightarrow> sa_info" where
  "demo_info e = \<lparr>si_ParentUser = ''ada'', si_AccountStatus = ''enabled'', si_ImpliedPolicy = True, si_Policy = [], si_Expiration = e\<rparr>"

definition sa_state :: "(string \<Rightarrow> sa_info option) \<Rightarrow> service_account \<Rightarrow> mem_server cstate" where
  "sa_state m a = \<lparr>world = \<lparr>accounts = Map.empty, canned = Map.empty, service_accounts = m\<rparr>, cr = MServiceAccount a, events = [], logs = []\<rparr>"

lemma sa_state_simps [simp]: "cr (sa_state m a) = MServiceAccount a" "service_accounts (world (sa_state m a)) = m"
  by (simp_all add: sa_state_def)

lemma demo_sa_simps [simp]:
  "external_name demo_sac demo_sa = ''AK1''" "sp_Expiration (s_params demo_sa) = None" "sp_Policy (s_params demo_sa) = []"
  by (simp_all add: external_name_def demo_sac_def demo_meta_def demo_sa_def)

lemma missing_not_found: "is_missing (ErrApi not_found)"
  by (simp add: is_missing_def not_found_def)

lemma mem_sa_laws: "sa_laws mem_admin service_accounts"
  by (auto simp: sa_laws_def reads_def effects_def mem_admin_def split: option.splits)

lemma mem_sa_update_laws: "sa_update_laws (\<lambda>p. p) mem_admin service_accounts"
  by (auto simp: sa_update_laws_def effects_def mem_admin_def split: option.splits)

lemma demo_sac_laws: "sa_laws (sac_ma demo_sac) service_accounts" "sa_update_laws (\<lambda>p. p) (sac_ma demo_sac) service_accounts"
  by (simp_all add: demo_sac_def mem_sa_laws mem_sa_update_laws)

lemmas sa_eval = Observe_sa_def Update_sa_def Create_sa_def Delete_sa_def as_service_account_def Let_def go_defs
  isUpToDate_in_sync sa_in_sync_def update_request_def mem_admin_def

lemma demo_sa_observe:
  "\<exists>x t. Observe_sa demo_sac (sa_state [''AK1'' \<mapsto> demo_info e] demo_sa) = (Ok x, t)"
  by (simp add: sa_eval demo_sac_def external_name_def demo_meta_def demo_sa_def sa_state_def)

theorem sa_observe_exact_witness:
  "\<exists>t. Observe_sa demo_sac (sa_state [''AK1'' \<mapsto> demo_info (Some 5)] demo_sa) =
     (Ok \<lparr>ResourceExists = True, ResourceUpToDate = False\<rparr>, t)"
proof -
  obtain x t where ob: "Observe_sa demo_sac (sa_state [''AK1'' \<mapsto> demo_info (Some 5)] demo_sa) = (Ok x, t)"
    using demo_sa_observe by blast
  from sa_observe_exact [OF demo_sac_laws(1) _ _ ob, of demo_sa] ob show ?thesis
    by (simp add: sa_in_sync_def demo_info_def)
qed

section \<open>Update\<close>

lemma sa_update_frame: "Update_sa c s = (r, t) \<Longrightarrow> cr t = cr s"
proof -
  have "keeps (\<lambda>x. cr x = cr s) (Update_sa c)"
    unfolding ctl_defs by (intro keeps_intros; simp)
  then show "Update_sa c s = (r, t) \<Longrightarrow> cr t = cr s" using keeps_result by fastforce
qed

lemma sa_update_effect:
  assumes "sa_update_laws form (sac_ma c) view" and "cr s = MServiceAccount a" and "Update_sa c s = (Ok (), t)"
  shows "\<exists>i i'. view (world s) (external_name c a) = Some i \<and> view (world t) (external_name c a) = Some i' \<and>
    si_Policy i' = (if sp_Policy (s_params a) = [] then si_Policy i else form (sp_Policy (s_params a))) \<and>
    si_Expiration i' = (case sp_Expiration (s_params a) of None \<Rightarrow> si_Expiration i | Some e \<Rightarrow> Some e)"
proof -
  from assms(2,3) obtain s1 where "call (UpdateServiceAccount (sac_ma c) (external_name c a) (update_request a)) s = (Ok (), s1)"
    and "world t = world s1"
    by (auto simp: Update_sa_def as_service_account_def seq_Ok_iff split: if_split_asm)
  then show ?thesis
    by (auto simp: call_Ok_iff update_request_def dest!: sa_updatesD [OF assms(1)] split: if_split_asm)
qed

text \<open>What an update can bring in line: a policy in the server's form, and no missing expiration.\<close>

definition sa_reachable :: "(string \<Rightarrow> string) \<Rightarrow> service_account_params \<Rightarrow> sa_info \<Rightarrow> bool" where
  "sa_reachable form p i \<longleftrightarrow> (sp_Policy p = [] \<or> form (sp_Policy p) = sp_Policy p) \<and>
     (sp_Expiration p = None \<longrightarrow> si_Expiration i = None)"

lemma sa_updated_in_sync:
  assumes "si_Policy i' = (if sp_Policy p = [] then si_Policy i else form (sp_Policy p))"
    and "si_Expiration i' = (case sp_Expiration p of None \<Rightarrow> si_Expiration i | Some e \<Rightarrow> Some e)"
  shows "sa_in_sync p i' \<longleftrightarrow> sa_reachable form p i"
  using assms by (auto simp: sa_in_sync_def sa_reachable_def split: option.splits)

text \<open>
  When an update of a service account converges: after an Update that succeeded, the next Observe
  that succeeds reports it up to date, except when the desired policy is not in the form in which
  the server gives it back, or when the resource asks for no expiration and the server has one:
  an update never clears an expiration.
\<close>

theorem sa_update_converges:
  assumes "sa_laws (sac_ma c) view" and "sa_update_laws form (sac_ma c) view"
    and "cr s = MServiceAccount a" and "external_name c a \<noteq> []"
    and "view (world s) (external_name c a) = Some i"
    and "Update_sa c s = (Ok (), t)" and "Observe_sa c t = (Ok x, u)"
  shows "ResourceExists x \<and> (ResourceUpToDate x \<longleftrightarrow> sa_reachable form (s_params a) i)"
proof -
  from sa_update_effect [OF assms(2,3,6)] assms(5) obtain i' where
    i': "view (world t) (external_name c a) = Some i'"
    "si_Policy i' = (if sp_Policy (s_params a) = [] then si_Policy i else form (sp_Policy (s_params a)))"
    "si_Expiration i' = (case sp_Expiration (s_params a) of None \<Rightarrow> si_Expiration i | Some e \<Rightarrow> Some e)" by auto
  from sa_update_frame [OF assms(6)] assms(3) have "cr t = MServiceAccount a" by simp
  from sa_observe_spec [OF assms(1) this assms(4,7)] i'(1)
    sa_updated_in_sync [where form = form and p = "s_params a" and i = i and i' = i', OF i'(2,3)] show ?thesis
    by simp
qed

lemma demo_sa_update:
  "\<exists>t x u. Update_sa demo_sac (sa_state [''AK1'' \<mapsto> demo_info (Some 5)] demo_sa) = (Ok (), t) \<and> Observe_sa demo_sac t = (Ok x, u)"
  by (simp add: sa_eval demo_sac_def external_name_def demo_meta_def demo_sa_def sa_state_def demo_info_def)

theorem sa_update_converges_witness:
  "\<exists>t x u. Update_sa demo_sac (sa_state [''AK1'' \<mapsto> demo_info (Some 5)] demo_sa) = (Ok (), t) \<and>
     Observe_sa demo_sac t = (Ok x, u) \<and> \<not> ResourceUpToDate x"
proof -
  from demo_sa_update obtain t x u where r:
    "Update_sa demo_sac (sa_state [''AK1'' \<mapsto> demo_info (Some 5)] demo_sa) = (Ok (), t)" "Observe_sa demo_sac t = (Ok x, u)" by blast
  from sa_update_converges [OF demo_sac_laws _ _ _ r, of demo_sa "demo_info (Some 5)"] r show ?thesis
    by (simp add: demo_info_def sa_reachable_def)
qed

section \<open>Create\<close>

lemma exists_step:
  assumes "sa_laws ma view" and "serviceAccountExists ma k s = (Ok b, t)"
  shows "view (world t) = view (world s) \<and> cr t = cr s \<and> (b \<longleftrightarrow> view (world s) k \<noteq> None)"
  using assms(2)
  by (auto simp: serviceAccountExists_def if_err_Ok_iff call_Ok_iff call_Err_iff split: if_split_asm
      dest!: sa_lawsD(1) [OF assms(1)])

text \<open>
  C18. A Create of a service account that succeeds made one the server did not have when its
  access key was asked for, keeps the server's access key as the external name, and returns the
  server's credentials; the server then has an account under that key.
\<close>

theorem sa_create_fresh:
  assumes "sa_laws (sac_ma c) view" and "unnoticed view (generate 64 5 0 False True)"
    and "cr s = MServiceAccount a" and "Create_sa generate c s = (Ok d, t)"
  shows "\<exists>cred :: sa_credentials. d = Some [sa_AccessKeyName \<mapsto> sac_AccessKey cred, sa_SecretKeyName \<mapsto> sac_SecretKey cred] \<and>
    (sp_AccessKey (s_params a) \<noteq> [] \<longrightarrow>
       sac_AccessKey cred = sp_AccessKey (s_params a) \<and> view (world s) (sp_AccessKey (s_params a)) = None) \<and>
    view (world t) (sac_AccessKey cred) \<noteq> None \<and>
    (\<exists>a'. cr t = MServiceAccount a' \<and> ss_AccessKey (s_status a') = sac_AccessKey cred \<and>
       Annotations (s_meta a') = SetExternalName (sac_meta c) (Annotations (s_meta a)) (sac_AccessKey cred))"
proof -
  let ?k = "sp_AccessKey (s_params a)"
  from assms(3,4) obtain sk s1 s2 s3 cred where
    sk: "chooseSecretKey generate a s = (Ok sk, s1)" and
    ex: "accessKeyTaken c a s1 = (Ok False, s2)" and
    add: "call (AddServiceAccount (sac_ma c) (create_request a sk)) s2 = (Ok cred, s3)" and
    d: "d = Some [sa_AccessKeyName \<mapsto> sac_AccessKey cred, sa_SecretKeyName \<mapsto> sac_SecretKey cred]" and
    t: "world t = world s3" "\<exists>a'. cr t = MServiceAccount a' \<and> ss_AccessKey (s_status a') = sac_AccessKey cred \<and>
       Annotations (s_meta a') = SetExternalName (sac_meta c) (Annotations (s_meta a)) (sac_AccessKey cred)"
    by (auto simp: Create_sa_def as_service_account_def check_Ok_iff seq_Ok_iff split: if_split_asm)
  from sk have v1: "view (world s1) = view (world s)"
    by (auto simp: chooseSecretKey_def call_Ok_iff dest: unnoticedD [OF assms(2)] split: if_split_asm)
  from ex have "?k \<noteq> [] \<longrightarrow> view (world s1) ?k = None"
    by (auto simp: accessKeyTaken_def split: if_split_asm dest!: exists_step [OF assms(1)])
  moreover from add sa_lawsD(2) [OF assms(1)] have "view (world s3) (sac_AccessKey cred) \<noteq> None"
    "?k \<noteq> [] \<longrightarrow> sac_AccessKey cred = ?k"
    by (auto simp: call_Ok_iff create_request_def)
  ultimately show ?thesis using d t v1 by - (rule exI [of _ cred], simp)
qed

definition keyed_sa :: service_account where
  "keyed_sa = demo_sa\<lparr>s_params := (s_params demo_sa)\<lparr>sp_AccessKey := ''AK2''\<rparr>\<rparr>"

definition sa_password :: "'w password_gen" where
  "sa_password l d y u rep w = (Inr ''pa55word'', w)"

theorem sa_create_fresh_witness:
  "\<exists>d t. Create_sa sa_password demo_sac (sa_state Map.empty keyed_sa) = (Ok d, t) \<and>
     service_accounts (world t) ''AK2'' \<noteq> None"
proof -
  have "\<exists>d t. Create_sa sa_password demo_sac (sa_state Map.empty keyed_sa) = (Ok d, t)"
    by (simp add: sa_eval chooseSecretKey_def accessKeyTaken_def serviceAccountExists_def missing_not_found create_request_def
        demo_sac_def sa_state_def keyed_sa_def demo_sa_def sa_password_def)
  then obtain d t where r: "Create_sa sa_password demo_sac (sa_state Map.empty keyed_sa) = (Ok d, t)" by blast
  have "unnoticed service_accounts (sa_password 64 5 0 False True)" by (simp add: unnoticed_def sa_password_def)
  from sa_create_fresh [where generate = sa_password, OF demo_sac_laws(1) this sa_state_simps(1) r]
  have "service_accounts (world t) ''AK2'' \<noteq> None"
    unfolding keyed_sa_def by force
  with r show ?thesis by blast
qed

text \<open>
  The webhook and Create disagree: a service account with a secret key and no access key
  passes \<open>ValidateCreate\<close> (with a provider config, no policy and a secret key of eight
  characters or more), and every Create of it fails without a call to the server.
\<close>

theorem sa_secret_without_access_key:
  assumes "has_provider_config (s_spec a)" and "sp_Policy (s_params a) = []"
    and "sp_AccessKey (s_params a) = []" and "8 \<le> length (sp_SecretKey (s_params a))"
    and "cr s = MServiceAccount a"
  shows "ValidateCreate_sa jsonError a w = (Ok (), w) \<and>
    Create_sa generate c s = (Err (ErrNew ''access key must be specified if secret key is specified''), s)"
  using assms
  by (auto simp: ValidateCreate_sa_def policyCheck_sa_def Create_sa_def as_service_account_def fail_def ret_def
      split: if_split_asm)

theorem sa_secret_without_access_key_witness:
  "\<exists>a. ValidateCreate_sa (\<lambda>_. None) a () = (Ok (), ()) \<and>
     Create_sa sa_password demo_sac (sa_state Map.empty a) =
       (Err (ErrNew ''access key must be specified if secret key is specified''), sa_state Map.empty a)"
proof -
  let ?a = "demo_sa\<lparr>s_params := (s_params demo_sa)\<lparr>sp_SecretKey := ''pa55word''\<rparr>\<rparr>"
  have "has_provider_config (s_spec ?a)" "sp_Policy (s_params ?a) = []" "sp_AccessKey (s_params ?a) = []"
    "8 \<le> length (sp_SecretKey (s_params ?a))"
    by (simp_all add: demo_sa_def has_provider_config_def)
  from sa_secret_without_access_key [OF this sa_state_simps(1), of "\<lambda>_. None" "()" sa_password demo_sac Map.empty]
  show ?thesis by blast
qed

section \<open>Delete\<close>

text \<open>
  A deletion that does not happen: when the existence check of Delete fails for whatever
  reason, a server that is busy or refuses the credentials as well as a missing account, Delete
  reports success and announces the deletion without having called the server again.
\<close>

theorem sa_delete_swallows_errors:
  assumes "cr s = MServiceAccount a" and "external_name c a \<noteq> []"
    and "InfoServiceAccount (sac_ma c) (external_name c a) (world s) = (Inl e, w)"
  shows "Delete_sa c s = (Ok (), s\<lparr>world := w,
    events := events s @ [\<lparr>ev_Reason = ''Deleted'', ev_Message = ''Service Account successfully deleted''\<rparr>]\<rparr>)"
  using assms
  by (simp add: Delete_sa_def serviceAccountExists_def emitDeleteEvent_sa_def as_service_account_def go_defs)

definition busy_sac :: "mem_server sa_client" where
  "busy_sac = demo_sac\<lparr>sac_ma := mem_admin\<lparr>InfoServiceAccount := \<lambda>k w. (Inl server_busy, w)\<rparr>\<rparr>"

theorem sa_delete_swallows_errors_witness:
  "\<exists>t. Delete_sa busy_sac (sa_state [''AK1'' \<mapsto> demo_info None] demo_sa) = (Ok (), t) \<and>
     service_accounts (world t) ''AK1'' = Some (demo_info None)"
proof -
  let ?s = "sa_state [''AK1'' \<mapsto> demo_info None] demo_sa"
  have n: "external_name busy_sac demo_sa = ''AK1''"
    by (simp add: external_name_def busy_sac_def demo_sac_def demo_meta_def demo_sa_def)
  have "InfoServiceAccount (sac_ma busy_sac) (external_name busy_sac demo_sa) (world ?s) = (Inl server_busy, world ?s)"
    by (simp add: busy_sac_def)
  from sa_delete_swallows_errors [OF sa_state_simps(1) _ this] n show ?thesis by simp
qed

section \<open>What Observe does not look at\<close>

text \<open>
  A change of the name, the description or the secret key of a service account is never
  seen: Observe reports the same, so that the change alone never leads to an Update.
\<close>

theorem sa_observe_ignores:
  assumes "cr s = MServiceAccount a"
  shows "fst (Observe_sa c (s\<lparr>cr := MServiceAccount (a\<lparr>s_params := (s_params a)\<lparr>sp_Name := n, sp_Description := d, sp_SecretKey := k\<rparr>\<rparr>)\<rparr>)) =
    fst (Observe_sa c s)"
proof -
  let ?a = "a\<lparr>s_params := (s_params a)\<lparr>sp_Name := n, sp_Description := d, sp_SecretKey := k\<rparr>\<rparr>"
  have e: "external_name c ?a = external_name c a" by (simp add: external_name_def)
  have o: "isUpToDate (observed_status ?a x i) i = isUpToDate (observed_status a x i) i" for x i
    by (simp add: isUpToDate_in_sync sa_in_sync_def)
  show ?thesis
    using assms
    by (auto simp: Observe_sa_def as_service_account_def e o Let_def go_defs split: sum.split prod.split option.split)
qed

theorem sa_observe_ignores_witness:
  "fst (Observe_sa demo_sac ((sa_state [''AK1'' \<mapsto> demo_info None] demo_sa)\<lparr>cr :=
     MServiceAccount (demo_sa\<lparr>s_params := (s_params demo_sa)\<lparr>sp_Name := ''new'', sp_Description := [], sp_SecretKey := ''rotated!''\<rparr>\<rparr>)\<rparr>)) =
   fst (Observe_sa demo_sac (sa_state [''AK1'' \<mapsto> demo_info None] demo_sa))"
  by (rule sa_observe_ignores) (rule sa_state_simps(1))

section \<open>The webhook\<close>

text \<open>
  The identity of a service account is fixed: every version of a stored object has the
  access key and the target user of the first; and unless it is being deleted it names a
  provider config.
\<close>

lemma sa_identity_fixed:
  assumes "evolves (serviceAccountValidator jsonError) a b" and "has_provider_config (s_spec a)"
  shows "GetAccessKey b = GetAccessKey a \<and> sp_TargetUser (s_params b) = sp_TargetUser (s_params a) \<and>
    (DeletionTimestamp (s_meta b) = None \<longrightarrow> has_provider_config (s_spec b))"
  using sa_webhook.evolves_identity [OF assms(1)] sa_webhook.evolves_configured [OF assms] by auto


end
