(* ===== verification/Notification.thy ===== *)
theory Notification
  imports Contracts
begin

text \<open>
  The notification controller, its validation functions and its webhook
  (\<^verbatim>\<open>operator/notificationconfiguration\<close>): one webhook entry among the lambda configurations
  of a bucket's notification, found by its ARN and its endpoint. Building an entry, the text of
  an ARN and the queue and topic parts of a notification are the S3 library's.

  There is no mark of ownership: the controller is interpreted as a \<open>managed_external\<close>, the
  webhook as a \<open>fixed_identity\<close>.
\<close>

section \<open>Validation\<close>

definition validS3Events :: "string list" where
  "validS3Events = [
     ''s3:ObjectCreated:*'', ''s3:ObjectCreated:Put'', ''s3:ObjectCreated:Post'', ''s3:ObjectCreated:Copy'',
     ''s3:ObjectCreated:CompleteMultipartUpload'',
     ''s3:ObjectRemoved:*'', ''s3:ObjectRemoved:Delete'', ''s3:ObjectRemoved:DeleteMarkerCreated'',
     ''s3:ObjectRestore:*'', ''s3:ObjectRestore:Post'', ''s3:ObjectRestore:Completed'',
     ''s3:ObjectTagging:*'', ''s3:ObjectTagging:Put'', ''s3:ObjectTagging:Delete'',
     ''s3:ObjectAcl:*'', ''s3:ObjectAcl:Put'',
     ''s3:Replication:*'', ''s3:Replication:OperationFailedReplication'', ''s3:Replication:OperationNotTracked'',
     ''s3:Replication:OperationMissedThreshold'', ''s3:Replication:OperationReplicatedAfterThreshold'']"

definition ValidateS3Event :: "string \<Rightarrow> ('w, unit) go" where
  "ValidateS3Event event =
     (if event = [] then fail (ErrNew ''event cannot be empty'')
      else if trim_space event \<notin> set validS3Events then fail (ErrFmt ''invalid S3 event: %s'' [trim_space event])
      else ret ())"

definition ValidateEvents :: "string list \<Rightarrow> ('w, unit) go" where
  "ValidateEvents evs =
     (if evs = [] then fail (ErrNew ''at least one event is required'') else for_each ValidateS3Event evs)"

definition ValidateFilterRules :: "string list \<Rightarrow> ('w, unit) go" where
  "ValidateFilterRules rules =
     for_each (\<lambda>rule. if rule \<notin> {''prefix'', ''suffix''}
       then fail (ErrFmt ''invalid filter rule name: %s (must be 'prefix' or 'suffix')'' [rule]) else ret ()) rules"

section \<open>The controller\<close>

definition errNotNotificationConfiguration :: go_error where
  "errNotNotificationConfiguration = ErrNew ''managed resource is not a NotificationConfiguration''"

record ('w, 't, 'n) notif_client =
  nc_mc :: "('w, 't, 'n) s3_client"
  nc_lib :: "'n notif_lib"

definition as_notification :: "(notification_configuration \<Rightarrow> ('w, 'a) ctl) \<Rightarrow> ('w, 'a) ctl" where [prim_defs]:
  "as_notification k s = (case cr s of MNotification n \<Rightarrow> k n s | _ \<Rightarrow> (Err errNotNotificationConfiguration, s))"

definition SetConditions_nc :: "notification_configuration \<Rightarrow> condition \<Rightarrow> notification_configuration" where
  "SetConditions_nc n c = n\<lparr>n_status := (n_status n)\<lparr>ns_Conditions := ns_Conditions (n_status n) @ [c]\<rparr>\<rparr>"

definition set_conditions :: "notification_configuration \<Rightarrow> condition list \<Rightarrow> ('w, unit) ctl" where [ctl_defs]:
  "set_conditions n cs = put_cr (MNotification (foldl SetConditions_nc n cs))"

definition expectedARN :: "string \<Rightarrow> string" where
  "expectedARN webhookID = ''arn:minio:sqs::'' @ webhookID @ '':webhook''"

definition lambda_arn :: "'n notif_lib \<Rightarrow> lambda_config \<Rightarrow> string" where
  "lambda_arn lib l = ArnString lib (cfg_Arn (lc_Config l))"

definition webhook_entry :: "'n notif_lib \<Rightarrow> webhook_configuration \<Rightarrow> lambda_config \<Rightarrow> bool" where
  "webhook_entry lib wh l \<longleftrightarrow> lambda_arn lib l = expectedARN (wh_ID wh) \<and> lc_Lambda l = wh_Endpoint wh"

text \<open>The entry Create and Update build; a key filter replaces what the library put there.\<close>

definition key_rules :: "notification_params \<Rightarrow> filter_rule list option" where
  "key_rules p = (case np_Filter p of None \<Rightarrow> None | Some f \<Rightarrow> nf_Key f)"

definition lambdaConfig :: "'n notif_lib \<Rightarrow> notification_params \<Rightarrow> webhook_configuration \<Rightarrow> lambda_config" where
  "lambdaConfig lib p wh =
     (let cfg = NewConfig lib (NewArn ''minio'' ''sqs'' [] (wh_ID wh) ''webhook'');
          cfg = cfg\<lparr>cfg_Events := cfg_Events cfg @ np_Events p\<rparr> in
      \<lparr>lc_Config = (case key_rules p of None \<Rightarrow> cfg | Some rules \<Rightarrow> cfg\<lparr>cfg_Filter := Some (Some rules)\<rparr>),
       lc_Lambda = wh_Endpoint wh\<rparr>)"

subsection \<open>Observe\<close>

definition findWebhookConfiguration :: "'n notif_lib \<Rightarrow> notification_params \<Rightarrow> 'n bucket_notification \<Rightarrow> lambda_config option" where
  "findWebhookConfiguration lib p config =
     (case np_WebhookConfiguration p of
        None \<Rightarrow> None
      | Some wh \<Rightarrow> List.find (webhook_entry lib wh) (LambdaConfigs config))"

definition filterUpToDate :: "notification_params \<Rightarrow> lambda_config \<Rightarrow> bool" where
  "filterUpToDate p l =
     (case key_rules p of
        Some rules \<Rightarrow>
          (case cfg_Filter (lc_Config l) of
             Some (Some rs) \<Rightarrow> length rs = length rules \<and>
               list_all2 (\<lambda>r rule. fr_Name r = fr_Name rule \<and> fr_Value r = fr_Value rule) rs rules
           | _ \<Rightarrow> False)
      | None \<Rightarrow> cfg_Filter (lc_Config l) = None)"

definition isConfigurationUpToDate :: "notification_params \<Rightarrow> lambda_config \<Rightarrow> bool" where
  "isConfigurationUpToDate p l =
     (case np_WebhookConfiguration p of
        None \<Rightarrow> False
      | Some wh \<Rightarrow>
          if lc_Lambda l \<noteq> wh_Endpoint wh then False
          else
            let specEvents = set (np_Events p) in
            if length (cfg_Events (lc_Config l)) \<noteq> card specEvents then False
            else if \<exists>event \<in> set (cfg_Events (lc_Config l)). event \<notin> specEvents then False
            else filterUpToDate p l)"

definition Observe_nc :: "('w, 't, 'n) notif_client \<Rightarrow> ('w, observation) ctl" where [ctl_defs]:
  "Observe_nc c = as_notification (\<lambda>n.
     let p = n_params n; bucketName = np_BucketName p in
     if_err (call (GetBucketNotification (nc_mc c) bucketName))
       (\<lambda>err. if str_contains (error_text err) ''does not exist'' then
                seq (set_conditions n [XpCreating]) (ret \<lparr>ResourceExists = False, ResourceUpToDate = False\<rparr>)
              else seq (set_conditions n [XpReconcileError err]) (fail err))
       (\<lambda>config.
          case findWebhookConfiguration (nc_lib c) p config of
            None \<Rightarrow> seq (set_conditions n [XpCreating]) (ret \<lparr>ResourceExists = False, ResourceUpToDate = False\<rparr>)
          | Some l \<Rightarrow>
              let upToDate = isConfigurationUpToDate p l;
                  st = (n_status n)\<lparr>ns_BucketName := bucketName\<rparr>;
                  st = (case np_WebhookConfiguration p of None \<Rightarrow> st | Some wh \<Rightarrow> st\<lparr>ns_ConfigurationID := wh_ID wh\<rparr>) in
              seq (set_conditions (n\<lparr>n_status := st\<rparr>) [if upToDate then XpAvailable else XpCreating])
                (ret \<lparr>ResourceExists = True, ResourceUpToDate = upToDate\<rparr>)))"

subsection \<open>Events\<close>

definition emitCreationEvent_nc :: "('w, unit) ctl" where [simp, ctl_defs]:
  "emitCreationEvent_nc = emit ''Created'' ''Webhook notification configuration successfully created''"

definition emitUpdateEvent_nc :: "('w, unit) ctl" where [simp, ctl_defs]:
  "emitUpdateEvent_nc = emit ''Updated'' ''Webhook notification configuration successfully updated''"

definition emitDeletionEvent_nc :: "('w, unit) ctl" where [simp, ctl_defs]:
  "emitDeletionEvent_nc = emit ''Deleted'' ''Webhook notification configuration successfully deleted''"

subsection \<open>Create, Update and Delete\<close>

text \<open>Any error of the read makes Create start from an empty notification.\<close>

definition Create_nc :: "('w, 't, 'n) notif_client \<Rightarrow> ('w, creation) ctl" where [ctl_defs]:
  "Create_nc c = as_notification (\<lambda>n.
     let p = n_params n in
     seq (set_conditions n [XpCreating])
     (case np_WebhookConfiguration p of
        None \<Rightarrow>
          let err = ErrNew ''webhook configuration is required'' in
          seq (set_conditions n [XpCreating, XpReconcileError err]) (fail err)
      | Some wh \<Rightarrow>
          check (if_err (call (GetBucketNotification (nc_mc c) (np_BucketName p)))
                   (\<lambda>_. ret \<lparr>LambdaConfigs = [], OtherConfigs = NoConfigs (nc_lib c)\<rparr>) ret)
            (\<lambda>config.
               if \<exists>l \<in> set (LambdaConfigs config). webhook_entry (nc_lib c) wh l then
                 seq (set_conditions n [XpCreating, XpAvailable]) (ret None)
               else
                 if_err (call (SetBucketNotification (nc_mc c) (np_BucketName p)
                      (config\<lparr>LambdaConfigs := LambdaConfigs config @ [lambdaConfig (nc_lib c) p wh]\<rparr>)))
                   (\<lambda>err. seq (set_conditions n [XpCreating, XpReconcileError err]) (fail err))
                   (\<lambda>_. seq (set_conditions n [XpCreating, XpAvailable])
                      (seq emitCreationEvent_nc (ret None))))))"

definition Update_nc :: "('w, 't, 'n) notif_client \<Rightarrow> ('w, unit) ctl" where [ctl_defs]:
  "Update_nc c = as_notification (\<lambda>n.
     let p = n_params n in
     seq (set_conditions n [XpCreating])
     (case np_WebhookConfiguration p of
        None \<Rightarrow> ret ()
      | Some wh \<Rightarrow>
          if_err (call (GetBucketNotification (nc_mc c) (np_BucketName p)))
            (\<lambda>err. seq (set_conditions n [XpCreating, XpReconcileError err]) (fail err))
            (\<lambda>config.
               let filtered = filter (\<lambda>l. lambda_arn (nc_lib c) l \<noteq> expectedARN (wh_ID wh)) (LambdaConfigs config) in
               if_err (call (SetBucketNotification (nc_mc c) (np_BucketName p)
                    (config\<lparr>LambdaConfigs := filtered @ [lambdaConfig (nc_lib c) p wh]\<rparr>)))
                 (\<lambda>err. seq (set_conditions n [XpCreating, XpReconcileError err]) (fail err))
                 (\<lambda>_. seq (set_conditions n [XpCreating, XpAvailable])
                    emitUpdateEvent_nc))))"

definition Delete_nc :: "('w, 't, 'n) notif_client \<Rightarrow> ('w, unit) ctl" where [ctl_defs]:
  "Delete_nc c = as_notification (\<lambda>n.
     let p = n_params n in
     seq (set_conditions n [XpDeleting])
     (case np_WebhookConfiguration p of
        None \<Rightarrow> ret ()
      | Some wh \<Rightarrow>
          if_err (call (GetBucketNotification (nc_mc c) (np_BucketName p)))
            (\<lambda>err. if str_contains (error_text err) ''does not exist'' then ret ()
                   else seq (set_conditions n [XpDeleting, XpReconcileError err]) (fail err))
            (\<lambda>config.
               let filtered = filter (\<lambda>l. \<not> webhook_entry (nc_lib c) wh l) (LambdaConfigs config) in
               if_err (call (SetBucketNotification (nc_mc c) (np_BucketName p) (config\<lparr>LambdaConfigs := filtered\<rparr>)))
                 (\<lambda>err. if \<not> str_contains (error_text err) ''does not exist''
                        then seq (set_conditions n [XpDeleting, XpReconcileError err]) (fail err)
                        else emitDeletionEvent_nc)
                 (\<lambda>_. emitDeletionEvent_nc))))"

definition Disconnect_nc :: "('w, unit) ctl" where [simp, ctl_defs]:
  "Disconnect_nc = ret ()"

definition notificationClient :: "('w, 't, 'n) notif_client \<Rightarrow> 'w external_client" where
  "notificationClient c = \<lparr>Observe = Observe_nc c, Create = Create_nc c, Update = Update_nc c,
     Delete = Delete_nc c, Disconnect = Disconnect_nc\<rparr>"

section \<open>The contract with the reconciler\<close>

definition is_notification :: "managed \<Rightarrow> bool" where
  "is_notification m \<longleftrightarrow> (case m of MNotification _ \<Rightarrow> True | _ \<Rightarrow> False)"

lemma keeps_as_notification [keeps_intros]:
  "(\<And>n s. I s \<Longrightarrow> cr s = MNotification n \<Longrightarrow> keeps I (k n)) \<Longrightarrow> keeps I (as_notification k)"
  by (auto simp: keeps_def as_notification_def split: managed.split)

lemma returns_as_notification [returns_intros]: "(\<And>n. returns P (k n)) \<Longrightarrow> returns P (as_notification k)"
  by (auto simp: returns_def as_notification_def split: managed.splits)

lemma as_notification_foreign:
  "\<not> is_notification (cr s) \<Longrightarrow> as_notification k s = (Err errNotNotificationConfiguration, s)"
  by (simp add: is_notification_def as_notification_def split: managed.splits)

lemma SetConditions_nc_simps [simp]:
  "n_meta (foldl SetConditions_nc n cs) = n_meta n" "n_spec (foldl SetConditions_nc n cs) = n_spec n"
  "n_params (foldl SetConditions_nc n cs) = n_params n"
  by (induction cs arbitrary: n) (auto simp: SetConditions_nc_def)

lemma same_desired_nc:
  "same_desired m (MNotification n) \<Longrightarrow> same_desired m (MNotification (foldl SetConditions_nc n cs))"
  "same_desired m (MNotification n) \<Longrightarrow> same_desired m (MNotification (foldl SetConditions_nc (n\<lparr>n_status := st\<rparr>) cs))"
  by (cases m; auto)+

lemma nc_keeps_desires:
  "keeps (desires m) (Observe_nc c)" "keeps (desires m) (Create_nc c)"
  "keeps (desires m) (Update_nc c)" "keeps (desires m) (Delete_nc c)"
  unfolding ctl_defs
  by (intro keeps_intros; simp add: desires_def same_desired_nc del: foldl_Cons)+

lemma nc_observe_no_event: "keeps (has_events es) (Observe_nc c)"
  unfolding ctl_defs by (intro keeps_intros; simp)

lemma nc_observe_no_event': "events (snd (Observe_nc c s)) = events s"
  by (rule keeps_has_events) (rule nc_observe_no_event)

lemma nc_foreign:
  assumes "\<not> is_notification (cr s)"
  shows "Observe_nc c s = (Err errNotNotificationConfiguration, s)" "Create_nc c s = (Err errNotNotificationConfiguration, s)"
    "Update_nc c s = (Err errNotNotificationConfiguration, s)" "Delete_nc c s = (Err errNotNotificationConfiguration, s)"
  using assms by (simp_all add: Observe_nc_def Create_nc_def Update_nc_def Delete_nc_def as_notification_foreign)

lemma nc_observe_coherent: "returns coherent (Observe_nc c)"
  unfolding ctl_defs by (intro returns_intros; simp)

interpretation notification: managed_external "notificationClient c" is_notification errNotNotificationConfiguration
  for c :: "('w, 't, 'n) notif_client"
proof (unfold_locales, goal_cases)
  case 10
  then show ?case using nc_observe_no_event' by (auto simp: notificationClient_def)
next
  case 11
  then show ?case using coherentD [OF nc_observe_coherent] by (auto simp: notificationClient_def)
qed (simp_all add: notificationClient_def nc_foreign only_logged_def ret_def keeps_desires nc_keeps_desires)

section \<open>The webhook\<close>

definition invalid_field :: "string list \<Rightarrow> field_value \<Rightarrow> detail \<Rightarrow> ('w, unit) go" where
  "invalid_field path v d = fail (ErrInvalid ([''spec'', ''forProvider''] @ path) v d)"

definition ValidateCreate_nc :: "notification_configuration \<Rightarrow> ('w, unit) go" where
  "ValidateCreate_nc n =
     (let p = n_params n in
      if \<not> has_provider_config (n_spec n) then
        fail (ErrInvalid [''spec'', ''providerConfigRef'', ''name''] (VStr ''null'') (Detail ''Provider config is required''))
      else if np_BucketName p = [] then invalid_field [''bucketName''] (VStr []) (Detail ''Bucket name is required'')
      else if np_Events p = [] then invalid_field [''events''] VNil (Detail ''At least one event is required'')
      else if_err (ValidateEvents (np_Events p))
        (\<lambda>err. invalid_field [''events''] (VList (Some (np_Events p))) (DetailErr err))
        (\<lambda>_. case np_WebhookConfiguration p of
           None \<Rightarrow> invalid_field [''webhookConfiguration''] VNil (Detail ''Webhook configuration is required'')
         | Some wh \<Rightarrow>
             if wh_Endpoint wh = [] then invalid_field [''webhookConfiguration'', ''endpoint''] (VStr []) (Detail ''Endpoint is required'')
             else if wh_ID wh = [] then invalid_field [''webhookConfiguration'', ''id''] (VStr []) (Detail ''ID is required'')
             else ret ()))"

definition ValidateUpdate_nc :: "notification_configuration \<Rightarrow> notification_configuration \<Rightarrow> ('w, unit) go" where
  "ValidateUpdate_nc oldNC newNC =
     (if np_BucketName (n_params newNC) \<noteq> np_BucketName (n_params oldNC) then
        invalid_field [''bucketName''] (VStr (np_BucketName (n_params newNC))) (Detail ''Changing the bucket name is not allowed'')
      else if \<not> has_provider_config (n_spec newNC) then
        fail (ErrInvalid [''spec'', ''providerConfigRef'', ''name''] (VStr ''null'') (Detail ''Provider config is required''))
      else if DeletionTimestamp (n_meta newNC) \<noteq> None then ret ()
      else if np_Events (n_params newNC) = [] then invalid_field [''events''] VNil (Detail ''At least one event is required'')
      else ret ())"

definition ValidateDelete_nc :: "notification_configuration \<Rightarrow> ('w, unit) go" where
  "ValidateDelete_nc n = ret ()"

definition notificationValidator :: "('w, notification_configuration) validator" where
  "notificationValidator = \<lparr>ValidateCreate = ValidateCreate_nc, ValidateUpdate = ValidateUpdate_nc,
     ValidateDelete = ValidateDelete_nc\<rparr>"

interpretation notification_webhook: fixed_identity "notificationValidator :: ('w, notification_configuration) validator" n_spec
  "\<lambda>_. False" "\<lambda>n. np_BucketName (n_params n)"
  by unfold_locales
    (auto simp: notificationValidator_def ValidateCreate_nc_def ValidateUpdate_nc_def ValidateDelete_nc_def invalid_field_def ret_def
      Let_def split: if_split_asm)

end
