(* ===== verification/Notification_Props.thy ===== *)
theory Notification_Props
  imports Notification Mem_S3
begin

text \<open>
  The properties of the notification controller: which other entries of a bucket its writes
  keep, when an update converges, and what a failed read, a changed endpoint and an edit can
  leave behind. Witnesses run on a store that holds one notification per bucket.
\<close>

section \<open>What the controller relies on from the S3 server\<close>

text \<open>
  The notification of a bucket is read back as it was written, and a write that is refused
  changes nothing; the text of a webhook's ARN is
  the one the controller expects.
\<close>

type_synonym ('w, 'n) notif_view = "'w \<Rightarrow> string \<Rightarrow> 'n bucket_notification"

definition notif_laws :: "('w, 't, 'n) notif_client \<Rightarrow> ('w, 'n) notif_view \<Rightarrow> bool" where
  "notif_laws c view \<longleftrightarrow>
     (\<forall>b. reads view (GetBucketNotification (nc_mc c) b) (\<lambda>v r. case r of Inl _ \<Rightarrow> True | Inr x \<Rightarrow> x = v b)) \<and>
     (\<forall>b n w. view (snd (SetBucketNotification (nc_mc c) b n w)) =
        (case fst (SetBucketNotification (nc_mc c) b n w) of Inl _ \<Rightarrow> view w | Inr _ \<Rightarrow> (view w)(b := n))) \<and>
     (\<forall>i. ArnString (nc_lib c) (NewArn ''minio'' ''sqs'' [] i ''webhook'') = expectedARN i) \<and>
     (\<forall>a. cfg_Arn (NewConfig (nc_lib c) a) = a \<and> cfg_Events (NewConfig (nc_lib c) a) = [])"

lemma notif_lawsD:
  assumes "notif_laws c view"
  shows "GetBucketNotification (nc_mc c) b w = (r, w') \<Longrightarrow> view w' = view w \<and> (case r of Inl _ \<Rightarrow> True | Inr x \<Rightarrow> x = view w b)"
    and "SetBucketNotification (nc_mc c) b n w = (q, w') \<Longrightarrow> view w' = (case q of Inl _ \<Rightarrow> view w | Inr _ \<Rightarrow> (view w)(b := n))"
    and "ArnString (nc_lib c) (NewArn ''minio'' ''sqs'' [] i ''webhook'') = expectedARN i"
    and "cfg_Arn (NewConfig (nc_lib c) a) = a" and "cfg_Events (NewConfig (nc_lib c) a) = []"
proof -
  note l = assms [unfolded notif_laws_def]
  show "GetBucketNotification (nc_mc c) b w = (r, w') \<Longrightarrow> view w' = view w \<and> (case r of Inl _ \<Rightarrow> True | Inr x \<Rightarrow> x = view w b)"
    by (rule readsD [OF spec [OF conjunct1 [OF l]]])
  show "SetBucketNotification (nc_mc c) b n w = (q, w') \<Longrightarrow> view w' = (case q of Inl _ \<Rightarrow> view w | Inr _ \<Rightarrow> (view w)(b := n))"
    using spec [OF spec [OF spec [OF conjunct1 [OF conjunct2 [OF l]], of b], of n], of w] by simp
  show "ArnString (nc_lib c) (NewArn ''minio'' ''sqs'' [] i ''webhook'') = expectedARN i"
    "cfg_Arn (NewConfig (nc_lib c) a) = a" "cfg_Events (NewConfig (nc_lib c) a) = []"
    using conjunct2 [OF conjunct2 [OF l]] by blast+
qed

lemma lambdaConfig_entry:
  assumes "notif_laws c view"
  shows "lambda_arn (nc_lib c) (lambdaConfig (nc_lib c) p wh) = expectedARN (wh_ID wh)"
    and "lc_Lambda (lambdaConfig (nc_lib c) p wh) = wh_Endpoint wh"
    and "webhook_entry (nc_lib c) wh (lambdaConfig (nc_lib c) p wh)"
    and "cfg_Events (lc_Config (lambdaConfig (nc_lib c) p wh)) = np_Events p"
  using notif_lawsD(3-5) [OF assms]
  by (auto simp: lambda_arn_def lambdaConfig_def webhook_entry_def Let_def split: option.split)

section \<open>Writes keep the entries of others\<close>

lemma update_effect:
  assumes "notif_laws c view" and "cr s = MNotification n" and "np_WebhookConfiguration (n_params n) = Some wh"
    and "Update_nc c s = (Ok (), t)"
  shows "view (world t) = (view (world s))(np_BucketName (n_params n) :=
    (view (world s) (np_BucketName (n_params n)))\<lparr>LambdaConfigs :=
      filter (\<lambda>l. lambda_arn (nc_lib c) l \<noteq> expectedARN (wh_ID wh)) (LambdaConfigs (view (world s) (np_BucketName (n_params n)))) @
      [lambdaConfig (nc_lib c) (n_params n) wh]\<rparr>) \<and>
    (\<exists>n'. cr t = MNotification n' \<and> n_params n' = n_params n)"
  using assms(2-4)
  by (auto simp: Update_nc_def as_notification_def Let_def seq_Ok_iff if_err_Ok_iff call_Ok_iff set_conditions_def
      simp del: foldl_Cons dest!: notif_lawsD(1,2) [OF assms(1)])

lemma delete_effect:
  assumes "notif_laws c view" and "cr s = MNotification n" and "np_WebhookConfiguration (n_params n) = Some wh"
    and "Delete_nc c s = (Ok (), t)"
  shows "view (world t) = view (world s) \<or>
    view (world t) = (view (world s))(np_BucketName (n_params n) :=
    (view (world s) (np_BucketName (n_params n)))\<lparr>LambdaConfigs :=
      filter (\<lambda>l. \<not> webhook_entry (nc_lib c) wh l) (LambdaConfigs (view (world s) (np_BucketName (n_params n))))\<rparr>)"
  using assms(2-4)
  by (auto simp: Delete_nc_def as_notification_def Let_def seq_Ok_iff if_err_Ok_iff call_Ok_iff call_Err_iff set_conditions_def
      simp del: foldl_Cons split: if_split_asm dest!: notif_lawsD(1,2) [OF assms(1)])

text \<open>The entries of a notification that belong to other webhooks, in order.\<close>

definition other_entries :: "'n notif_lib \<Rightarrow> string \<Rightarrow> 'n bucket_notification \<Rightarrow> lambda_config list" where
  "other_entries lib webhookID config = filter (\<lambda>l. lambda_arn lib l \<noteq> expectedARN webhookID) (LambdaConfigs config)"


text \<open>A store with one notification per bucket, for the witnesses.\<close>

type_synonym notif_store = "string \<Rightarrow> unit bucket_notification"

definition arn_text :: "arn \<Rightarrow> string" where
  "arn_text a = (case a of NewArn part service region accountID resource \<Rightarrow>
     ''arn:'' @ part @ '':'' @ service @ '':'' @ region @ '':'' @ accountID @ '':'' @ resource)"

definition store_lib :: "filter_rule list option option \<Rightarrow> unit notif_lib" where
  "store_lib f = \<lparr>ArnString = arn_text, NewConfig = (\<lambda>a. \<lparr>cfg_ID = [], cfg_Arn = a, cfg_Events = [], cfg_Filter = f\<rparr>), NoConfigs = ()\<rparr>"

definition store_s3 :: "(notif_store, unit, unit) s3_client" where
  "store_s3 = \<lparr>MakeBucket = (\<lambda>_ _ w. (Inr (), w)), BucketExists = (\<lambda>_ w. (Inr True, w)), RemoveBucket = (\<lambda>_ w. (Inr (), w)),
     GetBucketPolicy = (\<lambda>_ w. (Inr [], w)), SetBucketPolicy = (\<lambda>_ _ w. (Inr (), w)),
     GetBucketTagging = (\<lambda>_ w. (Inr None, w)), SetBucketTagging = (\<lambda>_ _ w. (Inr (), w)),
     RemoveBucketTagging = (\<lambda>_ w. (Inr (), w)), NewTags = (\<lambda>_ _. Inr ()), TagsToMap = (\<lambda>_. fmempty),
     ListObjects = (\<lambda>_ w. ([], w)), RemoveObjects = (\<lambda>_ _ _ w. ([], w)), GetObjectLockConfig = (\<lambda>_ w. (Inr None, w)),
     GetBucketNotification = (\<lambda>b w. (Inr (w b), w)), SetBucketNotification = (\<lambda>b n w. (Inr (), w(b := n)))\<rparr>"

definition store_client :: "filter_rule list option option \<Rightarrow> (notif_store, unit, unit) notif_client" where
  "store_client f = \<lparr>nc_mc = store_s3, nc_lib = store_lib f\<rparr>"

lemma store_laws: "notif_laws (store_client f) (\<lambda>w. w)"
  by (simp add: notif_laws_def reads_def store_client_def store_s3_def store_lib_def arn_text_def expectedARN_def)

definition hook :: webhook_configuration where
  "hook = \<lparr>wh_ID = ''1'', wh_Endpoint = ''http://new'', wh_AuthToken = None, wh_UserAgent = None\<rparr>"

definition demo_nc :: notification_configuration where
  "demo_nc = \<lparr>
     n_meta = \<lparr>Name = ''notify'', Namespace = ''prod'', Annotations = None, DeletionTimestamp = None\<rparr>,
     n_spec = \<lparr>ManagementPolicies = None, ProviderConfigReference = Some ''default'', WriteConnectionSecretToReference = None\<rparr>,
     n_params = \<lparr>np_BucketName = ''photos'', np_WebhookConfiguration = Some hook, np_QueueConfiguration = None,
       np_TopicConfiguration = None, np_Events = [''s3:ObjectCreated:*''], np_Filter = None\<rparr>,
     n_status = \<lparr>ns_Conditions = [], ns_ConfigurationID = [], ns_BucketName = [], ns_LastUpdated = None\<rparr>\<rparr>"

definition entry :: "string \<Rightarrow> string \<Rightarrow> lambda_config" where
  "entry i e = \<lparr>lc_Config = \<lparr>cfg_ID = [], cfg_Arn = NewArn ''minio'' ''sqs'' [] i ''webhook'', cfg_Events = [], cfg_Filter = None\<rparr>, lc_Lambda = e\<rparr>"

definition nc_state :: "lambda_config list \<Rightarrow> notif_store cstate" where
  "nc_state ls = \<lparr>world = (\<lambda>_. \<lparr>LambdaConfigs = ls, OtherConfigs = ()\<rparr>), cr = MNotification demo_nc, events = [], logs = []\<rparr>"

lemma nc_state_simps [simp]:
  "cr (nc_state ls) = MNotification demo_nc" "world (nc_state ls) b = \<lparr>LambdaConfigs = ls, OtherConfigs = ()\<rparr>"
  "np_WebhookConfiguration (n_params demo_nc) = Some hook" "np_BucketName (n_params demo_nc) = ''photos''"
  "np_Events (n_params demo_nc) = [''s3:ObjectCreated:*'']" "wh_ID hook = ''1''" "wh_Endpoint hook = ''http://new''"
  "key_rules (n_params demo_nc) = None"
  by (simp_all add: nc_state_def demo_nc_def hook_def key_rules_def)

lemma entry_simps [simp]:
  "lambda_arn (nc_lib (store_client f)) (entry i e) = expectedARN i" "lc_Lambda (entry i e) = e"
  by (simp_all add: lambda_arn_def entry_def store_client_def store_lib_def arn_text_def expectedARN_def)

lemmas nc_eval = Observe_nc_def Create_nc_def Update_nc_def Delete_nc_def as_notification_def Let_def set_conditions_def go_defs

lemma store_update_run:
  "\<exists>t. Update_nc (store_client f) (nc_state ls) = (Ok (), t)"
  by (simp add: nc_eval store_client_def store_s3_def)


section \<open>When an update converges\<close>

lemma find_append_none: "\<forall>x \<in> set xs. \<not> P x \<Longrightarrow> List.find P (xs @ ys) = List.find P ys"
  by (induction xs) auto

lemma observe_nc_found:
  assumes "notif_laws c view" and "cr s = MNotification n" and "np_WebhookConfiguration (n_params n) = Some wh"
    and "Observe_nc c s = (Ok x, t)"
    and "List.find (webhook_entry (nc_lib c) wh) (LambdaConfigs (view (world s) (np_BucketName (n_params n)))) = Some l"
    and "\<And>e w. GetBucketNotification (nc_mc c) (np_BucketName (n_params n)) (world s) \<noteq> (Inl e, w)"
  shows "x = \<lparr>ResourceExists = True, ResourceUpToDate = isConfigurationUpToDate (n_params n) l\<rparr>"
  using assms(2-6)
  by (auto simp: Observe_nc_def as_notification_def Let_def findWebhookConfiguration_def if_err_Ok_iff call_Ok_iff call_Err_iff
      seq_Ok_iff set_conditions_def simp del: foldl_Cons dest!: notif_lawsD(1) [OF assms(1)])

lemma own_entry_current:
  assumes "notif_laws c view" and "np_WebhookConfiguration p = Some wh"
  shows "isConfigurationUpToDate p (lambdaConfig (nc_lib c) p wh) \<longleftrightarrow> distinct (np_Events p) \<and>
    (key_rules p = None \<longrightarrow> cfg_Filter (NewConfig (nc_lib c) (NewArn ''minio'' ''sqs'' [] (wh_ID wh) ''webhook'')) = None)"
proof -
  have "length (np_Events p) = card (set (np_Events p)) \<longleftrightarrow> distinct (np_Events p)"
    by (metis card_distinct distinct_card)
  moreover have "filterUpToDate p (lambdaConfig (nc_lib c) p wh) \<longleftrightarrow>
    (key_rules p = None \<longrightarrow> cfg_Filter (NewConfig (nc_lib c) (NewArn ''minio'' ''sqs'' [] (wh_ID wh) ''webhook'')) = None)"
    by (cases "key_rules p") (auto simp: filterUpToDate_def lambdaConfig_def Let_def list_all2_same)
  ultimately show ?thesis
    using lambdaConfig_entry(2,4) [OF assms(1)] assms(2) by (simp add: isConfigurationUpToDate_def Let_def)
qed

text \<open>
  When an update of a notification converges: after an Update that succeeded, an Observe
  whose read succeeds reports the configuration existing, and up to date iff the desired events
  are listed without repetition and, when no key filter is desired, the entries the S3 library
  builds have no filter of their own.
\<close>

theorem nc_update_converges:
  assumes "notif_laws c view"
    and "cr s = MNotification n" and "np_WebhookConfiguration (n_params n) = Some wh"
    and "Update_nc c s = (Ok (), t)" and "Observe_nc c t = (Ok x, u)"
    and "\<And>e w. GetBucketNotification (nc_mc c) (np_BucketName (n_params n)) (world t) \<noteq> (Inl e, w)"
  shows "ResourceExists x \<and> (ResourceUpToDate x \<longleftrightarrow> distinct (np_Events (n_params n)) \<and>
    (key_rules (n_params n) = None \<longrightarrow>
       cfg_Filter (NewConfig (nc_lib c) (NewArn ''minio'' ''sqs'' [] (wh_ID wh) ''webhook'')) = None))"
proof -
  from update_effect [OF assms(1-4)] obtain n' where n': "cr t = MNotification n'" "n_params n' = n_params n" and
    v: "LambdaConfigs (view (world t) (np_BucketName (n_params n))) =
      filter (\<lambda>l. lambda_arn (nc_lib c) l \<noteq> expectedARN (wh_ID wh)) (LambdaConfigs (view (world s) (np_BucketName (n_params n)))) @
      [lambdaConfig (nc_lib c) (n_params n) wh]" by auto
  have "List.find (webhook_entry (nc_lib c) wh) (LambdaConfigs (view (world t) (np_BucketName (n_params n)))) =
      Some (lambdaConfig (nc_lib c) (n_params n) wh)"
    unfolding v by (subst find_append_none) (use lambdaConfig_entry(3) [OF assms(1)] in \<open>auto simp: webhook_entry_def\<close>)
  with observe_nc_found [OF assms(1) n'(1) _ assms(5)] n'(2) assms(3,6) own_entry_current [OF assms(1,3)]
  show ?thesis by auto
qed

lemma store_update_observe:
  "\<exists>t x u. Update_nc (store_client f) (nc_state ls) = (Ok (), t) \<and> Observe_nc (store_client f) t = (Ok x, u)"
  by (simp add: nc_eval store_client_def store_s3_def SetConditions_nc_def split: option.split)

theorem nc_update_converges_witness:
  "\<exists>t x u. Update_nc (store_client (Some None)) (nc_state []) = (Ok (), t) \<and>
     Observe_nc (store_client (Some None)) t = (Ok x, u) \<and> \<not> ResourceUpToDate x"
proof -
  from store_update_observe obtain t x u where r: "Update_nc (store_client (Some None)) (nc_state []) = (Ok (), t)"
    "Observe_nc (store_client (Some None)) t = (Ok x, u)" by blast
  have "GetBucketNotification (nc_mc (store_client (Some None))) b w \<noteq> (Inl e, w')" for b w w' e
    by (simp add: store_client_def store_s3_def)
  from nc_update_converges [OF store_laws nc_state_simps(1,3) r this] r show ?thesis
    by (auto simp: store_client_def store_lib_def)
qed

section \<open>What writes leave behind\<close>


definition timeout :: api_error where
  "timeout = \<lparr>err_text = ''i/o timeout'', err_code = [], err_status = 0\<rparr>"

definition flaky_client :: "(notif_store, unit, unit) notif_client" where
  "flaky_client = \<lparr>nc_mc = store_s3\<lparr>GetBucketNotification := \<lambda>b w. (Inl timeout, w)\<rparr>, nc_lib = store_lib None\<rparr>"

lemma flaky_laws: "notif_laws flaky_client (\<lambda>w. w)"
  by (simp add: notif_laws_def reads_def flaky_client_def store_s3_def store_lib_def arn_text_def expectedARN_def)


lemma observe_nc_absent:
  assumes "notif_laws c view" and "cr s = MNotification n" and "np_WebhookConfiguration (n_params n) = Some wh"
    and "Observe_nc c s = (Ok x, t)"
    and "List.find (webhook_entry (nc_lib c) wh) (LambdaConfigs (view (world s) (np_BucketName (n_params n)))) = None"
  shows "\<not> ResourceExists x \<and> view (world t) = view (world s) \<and> (\<exists>n'. cr t = MNotification n' \<and> n_params n' = n_params n)"
  using assms(2-5)
  by (auto simp: Observe_nc_def as_notification_def Let_def findWebhookConfiguration_def if_err_Ok_iff call_Ok_iff call_Err_iff
      seq_Ok_iff set_conditions_def simp del: foldl_Cons split: if_split_asm dest!: notif_lawsD(1) [OF assms(1)])

lemma create_effect:
  assumes "notif_laws c view" and "cr s = MNotification n" and "np_WebhookConfiguration (n_params n) = Some wh"
    and "\<And>w e w'. GetBucketNotification (nc_mc c) (np_BucketName (n_params n)) w \<noteq> (Inl e, w')"
    and "\<And>l. l \<in> set (LambdaConfigs (view (world s) (np_BucketName (n_params n)))) \<Longrightarrow> \<not> webhook_entry (nc_lib c) wh l"
    and "Create_nc c s = (Ok d, t)"
  shows "LambdaConfigs (view (world t) (np_BucketName (n_params n))) =
      LambdaConfigs (view (world s) (np_BucketName (n_params n))) @ [lambdaConfig (nc_lib c) (n_params n) wh] \<and>
    (\<exists>n'. cr t = MNotification n' \<and> n_params n' = n_params n)"
  using assms(2-6)
  by (auto simp: Create_nc_def as_notification_def Let_def seq_Ok_iff check_Ok_iff if_err_Ok_iff call_Ok_iff call_Err_iff
      set_conditions_def simp del: foldl_Cons split: if_split_asm dest!: notif_lawsD(1,2) [OF assms(1)])

text \<open>
  Changing the endpoint of a webhook leaves its old entry behind: when the bucket has an
  entry for the webhook's ARN with another endpoint and none with the new one, a reconcile that
  succeeds takes the configuration for absent, creates a second entry with the same ARN, and
  keeps the first; a later Delete that succeeds still keeps it.
\<close>

theorem nc_endpoint_change_duplicates:
  assumes "notif_laws c view"
    and "cr s = MNotification n" and "np_WebhookConfiguration (n_params n) = Some wh"
    and "old \<in> set (LambdaConfigs (view (world s) (np_BucketName (n_params n))))"
    and "lambda_arn (nc_lib c) old = expectedARN (wh_ID wh)" and "lc_Lambda old \<noteq> wh_Endpoint wh"
    and "\<And>l. l \<in> set (LambdaConfigs (view (world s) (np_BucketName (n_params n)))) \<Longrightarrow> \<not> webhook_entry (nc_lib c) wh l"
    and "\<And>w e w'. GetBucketNotification (nc_mc c) (np_BucketName (n_params n)) w \<noteq> (Inl e, w')"
    and "reconcile (notificationClient c) False s v t" and "v \<notin> {ObserveFailed, CreateFailed}"
  shows "v = Created \<and>
    LambdaConfigs (view (world t) (np_BucketName (n_params n))) =
      LambdaConfigs (view (world s) (np_BucketName (n_params n))) @ [lambdaConfig (nc_lib c) (n_params n) wh] \<and>
    (\<forall>u. Delete_nc c t = (Ok (), u) \<longrightarrow> old \<in> set (LambdaConfigs (view (world u) (np_BucketName (n_params n)))))"
proof -
  let ?b = "np_BucketName (n_params n)"
  have none: "List.find (webhook_entry (nc_lib c) wh) (LambdaConfigs (view (world s) ?b)) = None"
    using assms(7) by (simp add: find_None_iff)
  from assms(9,10) obtain x o' where o': "Observe_nc c s = (Ok x, o')"
    by (cases rule: reconcile.cases) (auto simp: notificationClient_def)
  from observe_nc_absent [OF assms(1-3) o' none] obtain n' where
    abs: "\<not> ResourceExists x" "view (world o') = view (world s)" "cr o' = MNotification n'" "n_params n' = n_params n" by blast
  from assms(9,10) o' abs(1) obtain d where d: "Create_nc c o' = (Ok d, t)" "v = Created"
    by (cases rule: reconcile.cases) (auto simp: notificationClient_def)
  from create_effect [OF assms(1) abs(3) _ _ _ d(1), of wh] abs(2,4) assms(3,7,8) obtain n'' where
    t: "LambdaConfigs (view (world t) ?b) = LambdaConfigs (view (world s) ?b) @ [lambdaConfig (nc_lib c) (n_params n) wh]"
    "cr t = MNotification n''" "n_params n'' = n_params n" by auto
  have "old \<in> set (LambdaConfigs (view (world u) ?b))" if u: "Delete_nc c t = (Ok (), u)" for u
    using delete_effect [OF assms(1) t(2) _ u, of wh] t assms(3-7) by auto
  with d(2) t(1) show ?thesis by blast
qed

theorem nc_endpoint_change_duplicates_witness:
  "\<exists>t. reconcile (notificationClient (store_client None)) False (nc_state [entry ''1'' ''http://old'']) Created t \<and>
     length (LambdaConfigs (world t ''photos'')) = 2"
proof -
  let ?s = "nc_state [entry ''1'' ''http://old'']" and ?c = "store_client None"
  have "\<exists>x o'. Observe_nc ?c ?s = (Ok x, o') \<and> \<not> ResourceExists x \<and> (\<exists>d t. Create_nc ?c o' = (Ok d, t))"
    using entry_simps(1) [of None "''1''" "''http://old''"]
    by (simp add: nc_eval store_client_def store_s3_def findWebhookConfiguration_def webhook_entry_def SetConditions_nc_def)
  then obtain x o' d t where r: "Observe_nc ?c ?s = (Ok x, o')" "\<not> ResourceExists x" "Create_nc ?c o' = (Ok d, t)" by blast
  have rec: "reconcile (notificationClient ?c) False ?s Created t"
    by (rule reconcile.created [OF _ r(2)]) (use r in \<open>simp_all add: notificationClient_def\<close>)
  have g: "GetBucketNotification (nc_mc ?c) b w \<noteq> (Inl e, w')" for b w w' e
    by (simp add: store_client_def store_s3_def)
  have "\<not> webhook_entry (nc_lib ?c) hook l" if "l \<in> set (LambdaConfigs (world ?s ''photos''))" for l
    using that by (auto simp: webhook_entry_def)
  with nc_endpoint_change_duplicates [OF store_laws nc_state_simps(1,3) _ _ _ _ g rec, of "entry ''1'' ''http://old''"]
  have "length (LambdaConfigs (world t ''photos'')) = 2" by simp
  with rec show ?thesis by blast
qed

text \<open>
  Admission pins the bucket but not the rest: every stored notification of one resource is
  for the bucket it was created with and names a provider config, while an edit of its events
  to any non-empty list whatever is admitted, valid S3 events or not.
\<close>

lemma nc_admission:
  assumes "evolves (notificationValidator :: ('w, notification_configuration) validator) a b"
    and "ValidateCreate_nc a (w :: 'w) = (Ok (), w)"
  shows "np_BucketName (n_params b) = np_BucketName (n_params a) \<and> has_provider_config (n_spec b) \<and>
    (\<forall>evs. evs \<noteq> [] \<longrightarrow> evolves (notificationValidator :: ('w, notification_configuration) validator) a (b\<lparr>n_params := (n_params b)\<lparr>np_Events := evs\<rparr>\<rparr>))"
proof -
  have cfg: "has_provider_config (n_spec b)"
    using notification_webhook.stored_configured [OF stored.admitted [OF _ assms(1)]] assms(2)
    by (auto simp: notificationValidator_def)
  moreover have "evolves (notificationValidator :: ('w, notification_configuration) validator) a (b\<lparr>n_params := (n_params b)\<lparr>np_Events := evs\<rparr>\<rparr>)" if "evs \<noteq> []" for evs
    by (rule evolves.replaced [OF assms(1), of _ w w]) (use that cfg in \<open>simp add: notificationValidator_def ValidateUpdate_nc_def ret_def\<close>)
  ultimately show ?thesis using notification_webhook.evolves_identity [OF assms(1)] by blast
qed


end
