(* ===== verification/Panics.thy ===== *)
theory Panics
  imports Bucket User_Props Policy_Props ServiceAccount Notification
begin

text \<open>
  Where the controllers can panic. \<open>steady m\<close> says that \<open>m\<close> ends with a value or an error
  from every state; one rule per combinator, collected in \<open>steady_intros\<close>, takes a method
  apart as \<open>keeps_intros\<close> does. The bucket, service account and notification controllers are
  steady; the user and policy controllers panic only for a resource without annotations or
  without a reference to its connection secret.
\<close>

definition steady :: "('s, 'a) go \<Rightarrow> bool" where
  "steady m \<longleftrightarrow> (\<forall>s p. fst (m s) \<noteq> Panic p)"

named_theorems steady_intros \<open>introduction rules for steady\<close>

lemma steadyD: "steady m \<Longrightarrow> fst (m s) \<noteq> Panic p"
  by (simp add: steady_def)

lemma steady_ret [steady_intros]: "steady (ret x)"
  by (simp add: steady_def ret_def)

lemma steady_fail [steady_intros]: "steady (fail e)"
  by (simp add: steady_def fail_def)

lemma steady_deref [steady_intros]: "x \<noteq> None \<Longrightarrow> steady (deref x)"
  by (auto simp: steady_def deref_def ret_def)

lemma steady_if_err [steady_intros]:
  "steady m \<Longrightarrow> (\<And>e. steady (h e)) \<Longrightarrow> (\<And>x. steady (k x)) \<Longrightarrow> steady (if_err m h k)"
  by (simp add: steady_def if_err_def split: prod.split outcome.split) (metis fst_conv)

lemma steady_check [steady_intros]: "steady m \<Longrightarrow> (\<And>x. steady (k x)) \<Longrightarrow> steady (check m k)"
  by (simp add: check_def steady_if_err steady_fail)

lemma steady_seq [steady_intros]: "steady m \<Longrightarrow> steady n \<Longrightarrow> steady (seq m n)"
  by (simp add: seq_def steady_check)

lemma steady_api_call [steady_intros]: "steady (api_call f)"
  by (simp add: steady_def api_call_def split: prod.splits sum.splits)

lemma steady_call [steady_intros]: "steady (call f)"
  by (simp add: steady_def call_def on_world_def api_call_def split: prod.splits sum.splits)

lemma steady_lib_call [steady_intros]: "steady (lib_call r)"
  by (simp add: lib_call_def steady_ret steady_fail split: sum.split)

lemma steady_effects [steady_intros]: "steady (emit r m)" "steady (log_line l)" "steady (put_cr c)"
  by (simp_all add: steady_def emit_def log_line_def put_cr_def)

lemma steady_If [steady_intros]: "(b \<Longrightarrow> steady m) \<Longrightarrow> (\<not> b \<Longrightarrow> steady n) \<Longrightarrow> steady (if b then m else n)"
  by simp

lemma steady_option [steady_intros]:
  "(x = None \<Longrightarrow> steady m) \<Longrightarrow> (\<And>y. x = Some y \<Longrightarrow> steady (f y)) \<Longrightarrow> steady (case x of None \<Rightarrow> m | Some y \<Rightarrow> f y)"
  by (cases x) auto

lemma steady_list [steady_intros]:
  "(x = [] \<Longrightarrow> steady m) \<Longrightarrow> (\<And>y ys. x = y # ys \<Longrightarrow> steady (f y ys)) \<Longrightarrow> steady (case x of [] \<Rightarrow> m | y # ys \<Rightarrow> f y ys)"
  by (cases x) auto

lemma steady_sum [steady_intros]:
  "(\<And>y. x = Inl y \<Longrightarrow> steady (f y)) \<Longrightarrow> (\<And>y. x = Inr y \<Longrightarrow> steady (g y)) \<Longrightarrow>
   steady (case x of Inl y \<Rightarrow> f y | Inr y \<Rightarrow> g y)"
  by (cases x) auto

lemma steady_prod [steady_intros]: "(\<And>y z. x = (y, z) \<Longrightarrow> steady (f y z)) \<Longrightarrow> steady (case x of (y, z) \<Rightarrow> f y z)"
  by (cases x) auto

lemma steady_Let [steady_intros]: "(\<And>y. y = x \<Longrightarrow> steady (f y)) \<Longrightarrow> steady (let y = x in f y)"
  by simp

lemma steady_for_each [steady_intros]: "(\<And>x. x \<in> set xs \<Longrightarrow> steady (f x)) \<Longrightarrow> steady (for_each f xs)"
  by (induction xs) (auto intro: steady_intros)

text \<open>The type assertions of the controllers end in an error for another kind.\<close>

lemma steady_as [steady_intros]:
  "(\<And>b. steady (kb b)) \<Longrightarrow> steady (as_bucket kb)"
  "(\<And>u. steady (ku u)) \<Longrightarrow> steady (as_user ku)"
  "(\<And>p. steady (kp p)) \<Longrightarrow> steady (as_policy kp)"
  "(\<And>a. steady (ka a)) \<Longrightarrow> steady (as_service_account ka)"
  "(\<And>n. steady (kn n)) \<Longrightarrow> steady (as_notification kn)"
  by (auto simp: steady_def as_bucket_def as_user_def as_policy_def as_service_account_def as_notification_def
      split: managed.splits)

lemma steady_objects [steady_intros]: "steady (list_objects mc n)" "steady (remove_objects mc n os g)"
  by (simp_all add: steady_def list_objects_def remove_objects_def split: prod.split)

lemma policy_steady:
  "steady (Observe_policy lib ma)" "steady (Delete_policy ma)"
  unfolding ctl_defs by (intro steady_intros)+

lemma user_steady: "steady (Delete_user uc)"
  unfolding ctl_defs by (intro steady_intros)

text \<open>
  No operation of the bucket, the service account and the notification controller ever
  panics, whatever resource it is handed, whatever state that resource is in and however the
  libraries answer.
\<close>

theorem controllers_steady:
  "fst (Observe_bucket mc s) \<noteq> Panic p \<and> fst (Create_bucket mc s) \<noteq> Panic p \<and>
   fst (Update_bucket mc s) \<noteq> Panic p \<and> fst (Delete_bucket l mc s) \<noteq> Panic p \<and>
   fst (Observe_sa c s) \<noteq> Panic p \<and> fst (Create_sa g c s) \<noteq> Panic p \<and>
   fst (Update_sa c s) \<noteq> Panic p \<and> fst (Delete_sa c s) \<noteq> Panic p \<and>
   fst (Observe_nc n s) \<noteq> Panic p \<and> fst (Create_nc n s) \<noteq> Panic p \<and>
   fst (Update_nc n s) \<noteq> Panic p \<and> fst (Delete_nc n s) \<noteq> Panic p"
proof -
  have "steady (Observe_bucket mc)" "steady (Create_bucket mc)" "steady (Update_bucket mc)" "steady (Delete_bucket l mc)"
    unfolding ctl_defs by (intro steady_intros)+
  moreover have "steady (Observe_sa c)" "steady (Create_sa g c)" "steady (Update_sa c)" "steady (Delete_sa c)"
    unfolding ctl_defs by (intro steady_intros)+
  moreover have "steady (Observe_nc n)" "steady (Create_nc n)" "steady (Update_nc n)" "steady (Delete_nc n)"
    unfolding ctl_defs by (intro steady_intros)+
  ultimately show ?thesis by (intro conjI steadyD)
qed

lemma steady_as_user: "(\<And>u. cr s = MUser u \<Longrightarrow> steady (k u)) \<Longrightarrow> fst (as_user k s) \<noteq> Panic p"
  by (auto simp: as_user_def steady_def split: managed.split)

lemma steady_as_policy: "(\<And>u. cr s = MPolicy u \<Longrightarrow> steady (k u)) \<Longrightarrow> fst (as_policy k s) \<noteq> Panic p"
  by (auto simp: as_policy_def steady_def split: managed.split)

text \<open>What the user controller dereferences: the annotations map and the connection secret reference.\<close>

definition user_pointers :: "managed \<Rightarrow> bool" where
  "user_pointers m \<longleftrightarrow> (case m of MUser u \<Rightarrow> Annotations (u_meta u) \<noteq> None \<and>
     (DeletionTimestamp (u_meta u) = None \<longrightarrow> WriteConnectionSecretToReference (u_spec u) \<noteq> None) | _ \<Rightarrow> True)"

definition policy_pointers :: "managed \<Rightarrow> bool" where
  "policy_pointers m \<longleftrightarrow> (case m of MPolicy p \<Rightarrow> Annotations (p_meta p) \<noteq> None | _ \<Rightarrow> True)"

lemma SetConditions_user_simps [simp]:
  "u_meta (SetConditions_user u c) = u_meta u" "u_spec (SetConditions_user u c) = u_spec u"
  by (simp_all add: SetConditions_user_def)

text \<open>
  The user and the policy controller panic only on a missing pointer: no operation of
  theirs panics on a resource that has an annotations map and, for a user that is not being
  deleted, a reference to a connection secret.
\<close>

theorem user_and_policy_panics:
  "user_pointers (cr s) \<Longrightarrow> policy_pointers (cr s) \<Longrightarrow>
   fst (Observe_user uc s) \<noteq> Panic p \<and> fst (Create_user g uc s) \<noteq> Panic p \<and>
   fst (Update_user uc s) \<noteq> Panic p \<and> fst (Delete_user uc s) \<noteq> Panic p \<and>
   fst (Observe_policy lib ma s) \<noteq> Panic p \<and> fst (Create_policy lib ma s) \<noteq> Panic p \<and>
   fst (Update_policy lib ma s) \<noteq> Panic p \<and> fst (Delete_policy ma s) \<noteq> Panic p"
proof (intro conjI)
  assume u: "user_pointers (cr s)" and q: "policy_pointers (cr s)"
  show "fst (Observe_user uc s) \<noteq> Panic p" "fst (Create_user g uc s) \<noteq> Panic p" "fst (Update_user uc s) \<noteq> Panic p"
    unfolding ctl_defs using u by (intro steady_as_user steady_intros; auto simp: user_pointers_def)+
  show "fst (Create_policy lib ma s) \<noteq> Panic p" "fst (Update_policy lib ma s) \<noteq> Panic p"
    unfolding ctl_defs using q by (intro steady_as_policy steady_intros; auto simp: policy_pointers_def)+
qed (intro steadyD user_steady policy_steady)+



text \<open>
  How a Create ends that never succeeds: in an error, with nothing announced, or in a panic
  after the creation was announced (and so after the server did its part).
\<close>

definition announced_or_failed :: "event list \<Rightarrow> 'a outcome \<times> 'w cstate \<Rightarrow> bool" where
  "announced_or_failed es x \<longleftrightarrow>
     (case x of
        (Ok _, _) \<Rightarrow> False
      | (Err _, t) \<Rightarrow> events t = es
      | (Panic _, t) \<Rightarrow> events t = es @ [\<lparr>ev_Reason = ''Created'', ev_Message = ''User successfully created''\<rparr>])"

definition late :: "('w, 'a) ctl \<Rightarrow> bool" where
  "late m \<longleftrightarrow> (\<forall>s. announced_or_failed (events s) (m s))"

definition silent :: "('w, 'a) ctl \<Rightarrow> bool" where
  "silent m \<longleftrightarrow> steady m \<and> (\<forall>es. keeps (has_events es) m)"

lemma silent_intros:
  "silent (ret x)" "silent (fail e)" "silent (call f)" "silent (lib_call y)"
  "(b \<Longrightarrow> silent m) \<Longrightarrow> (\<not> b \<Longrightarrow> silent n) \<Longrightarrow> silent (if b then m else n)"
  by (auto simp: silent_def intro!: steady_intros keeps_intros)

lemma silent_check: "silent m \<Longrightarrow> (\<And>x. silent (k x)) \<Longrightarrow> silent (check m k)"
  by (auto simp: silent_def intro!: steady_intros keeps_intros)

lemma late_fail: "late (fail e)"
  by (simp add: late_def announced_or_failed_def fail_def)

lemma late_announced: "late (seq (emit ''Created'' ''User successfully created'') (go_panic p))"
  by (simp add: late_def announced_or_failed_def go_defs)

lemma late_check:
  assumes "silent m" and "\<And>x. late (k x)"
  shows "late (check m k)"
  unfolding late_def
proof
  fix s
  obtain r t where m: "m s = (r, t)" by (cases "m s")
  have t: "events t = events s"
    using assms(1) keepsD [of "has_events (events s)" m s] m by (simp add: silent_def has_events_def)
  show "announced_or_failed (events s) (check m k s)"
  proof (cases r)
    case (Ok x)
    with assms(2) [of x] t m show ?thesis by (simp add: late_def check_def if_err_def) (metis t)
  next
    case (Err e)
    with m t show ?thesis by (simp add: check_def if_err_def fail_def announced_or_failed_def)
  next
    case (Panic p)
    with assms(1) m steadyD [of m s p] show ?thesis by (simp add: silent_def)
  qed
qed

lemma late_seq: "silent m \<Longrightarrow> late n \<Longrightarrow> late (seq m n)"
  by (simp add: seq_def late_check)

lemma late_then_ret: "late m \<Longrightarrow> late (seq m (ret x))"
  unfolding late_def
proof
  fix s
  assume "\<forall>s. announced_or_failed (events s) (m s)"
  then have "announced_or_failed (events s) (m s)" by blast
  then show "announced_or_failed (events s) (seq m (ret x) s)"
    by (auto simp: announced_or_failed_def seq_def check_def if_err_def fail_def split: prod.splits outcome.splits)
qed

lemma late_If: "(b \<Longrightarrow> late m) \<Longrightarrow> (\<not> b \<Longrightarrow> late n) \<Longrightarrow> late (if b then m else n)"
  by simp

lemma late_as:
  "cr s = MUser u \<Longrightarrow> late (ku u) \<Longrightarrow> announced_or_failed (events s) (as_user ku s)"
  "cr s = MPolicy q \<Longrightarrow> late (kp q) \<Longrightarrow> announced_or_failed (events s) (as_policy kp s)"
  by (simp_all add: late_def as_user_def as_policy_def)

text \<open>
  A resource without annotations is created and then the process panics: when a user or a
  policy has no annotations at all, Create never succeeds, and unless a library call or a check
  stopped it with an error, it panics after the user or policy is on the server and its
  creation has been announced.
\<close>

theorem create_without_annotations:
  "(\<forall>u. cr s = MUser u \<longrightarrow> Annotations (u_meta u) = None \<longrightarrow>
      announced_or_failed (events s) (Create_user g uc s)) \<and>
   (\<forall>q. cr s = MPolicy q \<longrightarrow> Annotations (p_meta q) = None \<longrightarrow>
      announced_or_failed (events s) (Create_policy lib ma s))"
proof (intro conjI allI impI)
  fix u assume u: "cr s = MUser u" and n: "Annotations (u_meta u) = None"
  show "announced_or_failed (events s) (Create_user g uc s)"
    unfolding Create_user_def userExists_def setUserPolicies_def emitCreationEvent_user_def
    by (rule late_as(1) [OF u], simp only: n option.case)
      (rule late_announced late_fail | rule late_If late_check | rule late_seq | rule silent_intros | rule silent_check)+
next
  fix q assume q: "cr s = MPolicy q" and n: "Annotations (p_meta q) = None"
  have "silent (getAllowBucketPolicy lib b)" for b
    unfolding getAllowBucketPolicy_def by (simp add: silent_intros split: option.split)
  note part = createBucketPolicy_def createRawPolicy_def setLock_policy_def emitCreationEvent_policy_def
  have "late (createBucketPolicy lib ma q)" "late (createRawPolicy ma q)"
    unfolding part by (simp_all only: n option.case)
     ((rule late_announced | rule late_check | rule late_seq | rule silent_intros | fact)+)
  then show "announced_or_failed (events s) (Create_policy lib ma s)"
    unfolding Create_policy_def
    by (intro late_as(2) [OF q]) (rule late_fail | rule late_If late_check | rule late_then_ret | rule silent_intros | assumption)+
qed

theorem create_without_annotations_witness:
  "\<exists>p t. Create_user demo_password demo_uc \<lparr>world = demo_server, cr = MUser (demo_user\<lparr>u_meta := (u_meta demo_user)\<lparr>Annotations := None\<rparr>\<rparr>),
     events = [], logs = []\<rparr> = (Panic p, t) \<and> events t \<noteq> []"
proof -
  let ?u = "demo_user\<lparr>u_meta := (u_meta demo_user)\<lparr>Annotations := None\<rparr>\<rparr>"
  let ?s = "\<lparr>world = demo_server, cr = MUser ?u, events = [], logs = []\<rparr>"
  have "\<exists>p t. Create_user demo_password demo_uc ?s = (Panic p, t)"
    by (simp add: Create_user_def userExists_def setUserPolicies_def user_eval demo_user_def demo_server_def demo_password_def
      GetUserName_def proper_def)
  then obtain p t where r: "Create_user demo_password demo_uc ?s = (Panic p, t)" by blast
  from create_without_annotations [of ?s demo_password demo_uc] have "announced_or_failed [] (Create_user demo_password demo_uc ?s)"
    by simp
  with r show ?thesis by (auto simp: announced_or_failed_def)
qed

end
