(* ===== verification/Connectors.thy ===== *)
theory Connectors
  imports Panics
begin

text \<open>
  The connectors of the five controller packages (\<^verbatim>\<open>operator/*/connector.go\<close>): each records
  the use of the provider config, asserts the kind of the resource, fetches its provider config
  and builds the client its operations run on. Recording the use is library code, a parameter.
  The tracker takes a \<^verbatim>\<open>resource.ModernManaged\<close>, so the first step is a type assertion that
  panics; the reference to the provider config is dereferenced without a check.

  What all five promise is the locale \<open>connecting\<close>; each \<open>Connect\<close> is interpreted as one, and
  with the webhook of its kind tells for which stored resources connecting can panic.
\<close>

record 'w connector =
  con_kube :: "'w kube_client"
  con_Track :: "managed \<Rightarrow> ('w, unit) api"

definition track :: "'w connector \<Rightarrow> managed \<Rightarrow> ('w, unit) go" where
  "track c mg = (if is_modern mg then api_call (con_Track c mg) else go_panic ''interface conversion: not a ModernManaged'')"

text \<open>Every package has its own copy of \<^verbatim>\<open>getProviderConfig\<close>.\<close>

definition getProviderConfig_bucket :: "'w connector \<Rightarrow> bucket \<Rightarrow> ('w, provider_config) go" where [simp]:
  "getProviderConfig_bucket c b = getProviderConfig (con_kube c) (b_spec b)"

definition getProviderConfig_user :: "'w connector \<Rightarrow> user \<Rightarrow> ('w, provider_config) go" where [simp]:
  "getProviderConfig_user c u = getProviderConfig (con_kube c) (u_spec u)"

definition getProviderConfig_policy :: "'w connector \<Rightarrow> policy \<Rightarrow> ('w, provider_config) go" where [simp]:
  "getProviderConfig_policy c p = getProviderConfig (con_kube c) (p_spec p)"

definition getProviderConfig_sa :: "'w connector \<Rightarrow> service_account \<Rightarrow> ('w, provider_config) go" where [simp]:
  "getProviderConfig_sa c a = getProviderConfig (con_kube c) (s_spec a)"

definition getProviderConfig_nc :: "'w connector \<Rightarrow> notification_configuration \<Rightarrow> ('w, provider_config) go" where [simp]:
  "getProviderConfig_nc c n = getProviderConfig (con_kube c) (n_spec n)"

definition Connect_bucket ::
  "bool \<Rightarrow> (('w, 't, 'n) s3_client, 'a) minio_lib \<Rightarrow> 'w connector \<Rightarrow> managed \<Rightarrow> ('w, 'w external_client) go" where
  "Connect_bucket listed_first lib c mg =
     seq (track c mg)
       (case mg of
          MBucket b \<Rightarrow>
            check (getProviderConfig_bucket c b) (\<lambda>config.
            check (NewMinioClient lib (con_kube c) config) (\<lambda>mc.
              ret (bucketClient listed_first mc)))
        | _ \<Rightarrow> fail errNotBucket)"

text \<open>The user client keeps the parsed URL and whether its scheme asks for TLS.\<close>

definition user_client_of ::
  "('c, 'w admin_client) minio_lib \<Rightarrow> ('c \<Rightarrow> ('w, unit) api) \<Rightarrow> 'w connector \<Rightarrow> provider_config \<Rightarrow> ('w, ('w, 'c) user_client) go" where
  "user_client_of lib list_buckets c config =
     check (NewMinioAdmin lib (con_kube c) config) (\<lambda>ma.
     check (lib_call (ParseURL lib (pc_MinioURL config))) (\<lambda>parsed.
       ret \<lparr>uc_ma = ma, uc_kube = con_kube c, uc_url = parsed, uc_tlsSettings = IsTLSEnabled parsed,
            uc_NewS3 = NewS3 lib, uc_ListBuckets = list_buckets\<rparr>))"

definition Connect_user ::
  "'w password_gen \<Rightarrow> ('c, 'w admin_client) minio_lib \<Rightarrow> ('c \<Rightarrow> ('w, unit) api) \<Rightarrow> 'w connector \<Rightarrow> managed \<Rightarrow>
   ('w, 'w external_client) go" where
  "Connect_user generate lib list_buckets c mg =
     seq (track c mg)
       (case mg of
          MUser u \<Rightarrow>
            check (getProviderConfig_user c u) (\<lambda>config.
            check (user_client_of lib list_buckets c config) (\<lambda>uc.
              ret (userClient generate uc)))
        | _ \<Rightarrow> fail errNotUser)"

definition Connect_policy ::
  "iam_lib \<Rightarrow> ('c, 'w admin_client) minio_lib \<Rightarrow> 'w connector \<Rightarrow> managed \<Rightarrow> ('w, 'w external_client) go" where
  "Connect_policy iam lib c mg =
     seq (track c mg)
       (case mg of
          MPolicy p \<Rightarrow>
            check (getProviderConfig_policy c p) (\<lambda>config.
            check (NewMinioAdmin lib (con_kube c) config) (\<lambda>ma.
              ret (policyClient iam ma)))
        | _ \<Rightarrow> fail errNotPolicy)"

text \<open>The URL is parsed again; what comes of it is never read.\<close>

definition Connect_sa ::
  "'w password_gen \<Rightarrow> meta_lib \<Rightarrow> ('c, 'w admin_client) minio_lib \<Rightarrow> 'w connector \<Rightarrow> managed \<Rightarrow>
   ('w, 'w external_client) go" where
  "Connect_sa generate meta lib c mg =
     seq (track c mg)
       (case mg of
          MServiceAccount a \<Rightarrow>
            check (getProviderConfig_sa c a) (\<lambda>config.
            check (NewMinioAdmin lib (con_kube c) config) (\<lambda>ma.
            check (lib_call (ParseURL lib (pc_MinioURL config))) (\<lambda>parsed.
              ret (serviceAccountClient generate \<lparr>sac_ma = ma, sac_kube = con_kube c, sac_meta = meta\<rparr>))))
        | _ \<Rightarrow> fail errNotServiceAccount)"

definition Connect_nc ::
  "'n notif_lib \<Rightarrow> (('w, 't, 'n) s3_client, 'a) minio_lib \<Rightarrow> 'w connector \<Rightarrow> managed \<Rightarrow> ('w, 'w external_client) go" where
  "Connect_nc nlib lib c mg =
     seq (track c mg)
       (case mg of
          MNotification n \<Rightarrow>
            check (getProviderConfig_nc c n) (\<lambda>config.
            check (NewMinioAdmin lib (con_kube c) config) (\<lambda>_.
            check (NewMinioClient lib (con_kube c) config) (\<lambda>mc.
              ret (notificationClient \<lparr>nc_mc = mc, nc_lib = nlib\<rparr>))))
        | _ \<Rightarrow> fail errNotNotificationConfiguration)"

section \<open>What every connector promises\<close>

fun spec_of :: "managed \<Rightarrow> managed_spec option" where
  "spec_of (MBucket b) = Some (b_spec b)"
| "spec_of (MUser u) = Some (u_spec u)"
| "spec_of (MPolicy p) = Some (p_spec p)"
| "spec_of (MServiceAccount a) = Some (s_spec a)"
| "spec_of (MNotification n) = Some (n_spec n)"
| "spec_of (MOther m) = None"

definition referenced :: "managed \<Rightarrow> string option" where
  "referenced m = (case spec_of m of None \<Rightarrow> None | Some sp \<Rightarrow> ProviderConfigReference sp)"

locale connecting =
  fixes connect :: "'w connector \<Rightarrow> managed \<Rightarrow> ('w, 'w external_client) go"
    and mine :: "managed \<Rightarrow> bool"
    and wrong_kind :: go_error
    and build :: "'w connector \<Rightarrow> provider_config \<Rightarrow> ('w, 'w external_client) go"
  assumes connect_mine: "mine m \<Longrightarrow> connect c m = seq (track c m) (check (deref (referenced m)) (\<lambda>n.
      check (api_call (KubeGetProviderConfig (con_kube c) n)) (build c)))"
    and connect_foreign: "\<not> mine m \<Longrightarrow> connect c m = seq (track c m) (fail wrong_kind)"
    and build_steady: "steady (build c config)"
    and mine_modern: "mine m \<Longrightarrow> is_modern m"
begin

lemma steady_referenced: "mine m \<Longrightarrow> referenced m \<noteq> None \<Longrightarrow> steady (connect c m)"
  by (simp only: connect_mine track_def mine_modern if_True) (intro steady_intros build_steady)

lemma unreferenced_panics:
  assumes "mine m" and "referenced m = None" and "con_Track c m w = (Inr (), w')"
  shows "connect c m w = (Panic ''nil pointer dereference'', w')"
  using assms by (simp add: connect_mine track_def mine_modern deref_def go_defs)

lemma foreign_connect:
  "\<not> mine m \<Longrightarrow> fst (connect c m w) = (if is_modern m then case con_Track c m w of (Inl e, _) \<Rightarrow> Err (ErrApi e) | (Inr _, _) \<Rightarrow> Err wrong_kind
     else Panic ''interface conversion: not a ModernManaged'')"
  by (simp add: connect_foreign track_def go_defs split: prod.split sum.split)

lemma unlisted_not_connected:
  "connect c m w = (Ok x, w') \<Longrightarrow> mine m \<and> referenced m \<noteq> None"
  by (cases "mine m") (auto simp: connect_mine connect_foreign seq_Ok_iff check_Ok_iff deref_Ok_iff)

end

lemma steady_clients [steady_intros]:
  "steady (getTLSData kube ns d r m)" "steady (buildTLSConfig lib kube t ns)"
  "steady (NewMinioClient lib kube config)" "steady (NewMinioAdmin lib kube config)"
proof -
  show d: "steady (getTLSData kube ns d r m)" for ns d r m
    unfolding getTLSData_def by (intro steady_intros)
  show t: "steady (buildTLSConfig lib kube t ns)" for t ns
    unfolding buildTLSConfig_def rootCAs_def keyPairs_def by (intro steady_intros d)
  show "steady (NewMinioClient lib kube config)" "steady (NewMinioAdmin lib kube config)"
    unfolding NewMinioClient_def NewMinioAdmin_def api_secret_def by (intro steady_intros t)+
qed

lemmas connect_defs = Connect_bucket_def Connect_user_def Connect_policy_def Connect_sa_def Connect_nc_def
  getProviderConfig_def referenced_def user_client_of_def
  is_bucket_def is_user_def is_policy_def is_service_account_def is_notification_def

interpretation bucket_con: connecting "Connect_bucket l lib" is_bucket errNotBucket
  "\<lambda>c config. check (NewMinioClient lib (con_kube c) config) (\<lambda>mc. ret (bucketClient l mc))"
  for l :: bool and lib :: "(('w, 't, 'n) s3_client, 'a) minio_lib"
  by unfold_locales (auto simp: connect_defs check_assoc intro!: steady_intros split: managed.splits)

interpretation user_con: connecting "Connect_user g lib lb" is_user errNotUser
  "\<lambda>c config. check (user_client_of lib lb c config) (\<lambda>uc. ret (userClient g uc))"
  for g :: "'w password_gen" and lib :: "('c, 'w admin_client) minio_lib" and lb :: "'c \<Rightarrow> ('w, unit) api"
  by unfold_locales (auto simp: connect_defs check_assoc intro!: steady_intros split: managed.splits)

interpretation policy_con: connecting "Connect_policy iam lib" is_policy errNotPolicy
  "\<lambda>c config. check (NewMinioAdmin lib (con_kube c) config) (\<lambda>ma. ret (policyClient iam ma))"
  for iam :: iam_lib and lib :: "('c, 'w admin_client) minio_lib"
  by unfold_locales (auto simp: connect_defs check_assoc intro!: steady_intros split: managed.splits)

interpretation sa_con: connecting "Connect_sa g meta lib" is_service_account errNotServiceAccount
  "\<lambda>c config. check (NewMinioAdmin lib (con_kube c) config) (\<lambda>ma.
     check (lib_call (ParseURL lib (pc_MinioURL config))) (\<lambda>parsed.
       ret (serviceAccountClient g \<lparr>sac_ma = ma, sac_kube = con_kube c, sac_meta = meta\<rparr>)))"
  for g :: "'w password_gen" and meta :: meta_lib and lib :: "('c, 'w admin_client) minio_lib"
  by unfold_locales (auto simp: connect_defs check_assoc intro!: steady_intros split: managed.splits)

interpretation nc_con: connecting "Connect_nc nlib lib" is_notification errNotNotificationConfiguration
  "\<lambda>c config. check (NewMinioAdmin lib (con_kube c) config) (\<lambda>_.
     check (NewMinioClient lib (con_kube c) config) (\<lambda>mc. ret (notificationClient \<lparr>nc_mc = mc, nc_lib = nlib\<rparr>)))"
  for nlib :: "'n notif_lib" and lib :: "(('w, 't, 'n) s3_client, 'a) minio_lib"
  by unfold_locales (auto simp: connect_defs check_assoc intro!: steady_intros split: managed.splits)

section \<open>Which stored resources can be connected\<close>

lemma referenced_configured: "has_provider_config sp \<Longrightarrow> ProviderConfigReference sp \<noteq> None"
  by (auto simp: has_provider_config_def split: option.splits)

text \<open>
  C22. Connecting a resource that passed admission never panics: a stored bucket, user, policy
  or notification names a provider config, so its connector never dereferences a nil reference.
  For a service account this holds until it is being deleted, because its webhook skips the
  check from then on.
\<close>

theorem stored_connect_steady:
  "(stored (bucketValidator :: ('v, bucket) validator) b \<longrightarrow> fst (Connect_bucket l blib c (MBucket b) w) \<noteq> Panic p) \<and>
   (stored (userValidator ulib kube) u \<longrightarrow> fst (Connect_user g alib lb c (MUser u) w) \<noteq> Panic p) \<and>
   (stored (policyValidator :: ('v, policy) validator) q \<longrightarrow> fst (Connect_policy iam alib c (MPolicy q) w) \<noteq> Panic p) \<and>
   (stored (serviceAccountValidator jsonError :: ('v, service_account) validator) a \<and> DeletionTimestamp (s_meta a) = None \<longrightarrow>
      fst (Connect_sa g meta alib c (MServiceAccount a) w) \<noteq> Panic p) \<and>
   (stored (notificationValidator :: ('v, notification_configuration) validator) n \<longrightarrow>
      fst (Connect_nc nlib blib c (MNotification n) w) \<noteq> Panic p)"
proof (intro conjI impI)
  assume "stored (bucketValidator :: ('v, bucket) validator) b"
  from referenced_configured [of "b_spec b"] bucket_webhook.stored_configured [OF this]
  show "fst (Connect_bucket l blib c (MBucket b) w) \<noteq> Panic p"
    by (intro steadyD bucket_con.steady_referenced) (simp_all add: is_bucket_def referenced_def)
next
  assume "stored (userValidator ulib kube) u"
  from referenced_configured [of "u_spec u"] user_webhook.stored_configured [OF this]
  show "fst (Connect_user g alib lb c (MUser u) w) \<noteq> Panic p"
    by (intro steadyD user_con.steady_referenced) (simp_all add: is_user_def referenced_def)
next
  assume "stored (policyValidator :: ('v, policy) validator) q"
  from referenced_configured [of "p_spec q"] policy_webhook.stored_configured [OF this]
  show "fst (Connect_policy iam alib c (MPolicy q) w) \<noteq> Panic p"
    by (intro steadyD policy_con.steady_referenced) (simp_all add: is_policy_def referenced_def)
next
  assume a: "stored (serviceAccountValidator jsonError :: ('v, service_account) validator) a \<and> DeletionTimestamp (s_meta a) = None"
  from referenced_configured [of "s_spec a"] sa_webhook.stored_configured [OF conjunct1 [OF a]] a
  show "fst (Connect_sa g meta alib c (MServiceAccount a) w) \<noteq> Panic p"
    by (intro steadyD sa_con.steady_referenced) (simp_all add: is_service_account_def referenced_def)
next
  assume "stored (notificationValidator :: ('v, notification_configuration) validator) n"
  from referenced_configured [of "n_spec n"] notification_webhook.stored_configured [OF this]
  show "fst (Connect_nc nlib blib c (MNotification n) w) \<noteq> Panic p"
    by (intro steadyD nc_con.steady_referenced) (simp_all add: is_notification_def referenced_def)
qed

text \<open>A connector that finds one provider config and tracks nothing.\<close>

definition demo_connector :: "'w connector" where
  "demo_connector = \<lparr>con_kube = one_secret [''AWS_ACCESS_KEY_ID'' \<mapsto> ''root''] tls_demo, con_Track = (\<lambda>_ w. (Inr (), w))\<rparr>"

definition admin_lib :: "(unit, mem_server admin_client) minio_lib" where
  "admin_lib = \<lparr>ParseURL = (\<lambda>u. Inr \<lparr>url_Scheme = ''https'', url_Host = u\<rparr>), AppendCertsFromPEM = (\<lambda>_. True),
     X509KeyPair = (\<lambda>_ _. None), NewS3 = (\<lambda>_ _. Inr ()), NewAdmin = (\<lambda>_ _. Inr mem_admin), SetCustomTransport = (\<lambda>a _. a)\<rparr>"

lemma demo_policy_stored: "stored (policyValidator :: (unit, policy) validator) (demo_policy ''{}'')"
  by (rule stored.admitted [OF _ evolves.same, of _ _ "()" "()"])
    (simp add: policyValidator_def ValidateCreate_policy_def validatePolicy_policy_Ok_iff demo_policy_def has_provider_config_def)

theorem stored_connect_steady_witness:
  "stored (policyValidator :: (unit, policy) validator) (demo_policy ''{}'') \<and>
   (\<forall>p. fst (Connect_policy text_lib admin_lib demo_connector (MPolicy (demo_policy ''{}'')) demo_server) \<noteq> Panic p)"
proof -
  have "fst (Connect_policy text_lib admin_lib demo_connector (MPolicy (demo_policy ''{}'')) demo_server) \<noteq> Panic p" for p
    using stored_connect_steady [where q = "demo_policy ''{}''" and iam = text_lib and alib = admin_lib and c = demo_connector and
        w = demo_server and p = p and 'v = unit] demo_policy_stored by blast
  with demo_policy_stored show ?thesis by blast
qed

section \<open>The credential check and the TLS settings\<close>

lemma user_client_of_connection:
  assumes "kube_reads (con_kube c)" and "user_client_of lib lb c config w = (Ok uc, w')"
  shows "w' = w \<and> uc_NewS3 uc = NewS3 lib \<and> (\<exists>host opts a0. connection lib (con_kube c) w config host opts \<and>
    NewAdmin lib host (opts\<lparr>opt_Transport := None\<rparr>) = Inr a0 \<and>
    uc_ma uc = (case opt_Transport opts of None \<Rightarrow> a0 | Some t \<Rightarrow> SetCustomTransport lib a0 t) \<and>
    url_Host (uc_url uc) = host \<and> uc_tlsSettings uc = opt_Secure opts)"
proof -
  from assms(2) obtain ma u where m: "NewMinioAdmin lib (con_kube c) config w = (Ok ma, w')" and
    u: "ParseURL lib (pc_MinioURL config) = Inr u" and
    uc: "uc = \<lparr>uc_ma = ma, uc_kube = con_kube c, uc_url = u, uc_tlsSettings = IsTLSEnabled u, uc_NewS3 = NewS3 lib, uc_ListBuckets = lb\<rparr>"
    by (auto simp: user_client_of_def check_Ok_iff lib_call_Ok_iff)
  from NewMinioAdmin_connection [OF assms(1) m] obtain host opts a0 where
    n: "w' = w" "connection lib (con_kube c) w config host opts" "NewAdmin lib host (opts\<lparr>opt_Transport := None\<rparr>) = Inr a0"
      "ma = (case opt_Transport opts of None \<Rightarrow> a0 | Some t \<Rightarrow> SetCustomTransport lib a0 t)" by blast
  from n(2) u have "host = url_Host u" "opt_Secure opts = IsTLSEnabled u"
    by (auto simp: connection_def Let_def IsTLSEnabled_def)
  with n uc show ?thesis by auto
qed

lemma observe_without_transport:
  assumes "\<And>h o'. opt_Transport o' = None \<Longrightarrow> f h o' = uc_NewS3 uc h o'"
  shows "Observe_user (uc\<lparr>uc_NewS3 := f\<rparr>) = Observe_user uc"
  using assms by (simp add: Observe_user_def observeMinioUser_def checkCredentials_def cong: if_cong option.case_cong sum.case_cong)

text \<open>
  C34. The user controller talks to one server in two ways: when its connector succeeds with a
  provider config that has TLS settings, the admin client uses the TLS configuration those
  settings describe, while the credential check of Observe goes to the same host with the same
  TLS switch but never with that configuration: what the S3 library does with any transport of
  ours cannot influence an Observe.
\<close>

theorem user_check_ignores_tls:
  assumes "kube_reads (con_kube c)" and "user_client_of lib lb c config w = (Ok uc, w')"
    and "pc_TLS config = Some cfg"
    and "\<And>h o'. opt_Transport o' = None \<Longrightarrow> f h o' = NewS3 lib h o'"
  shows "(\<exists>host opts a0 t. connection lib (con_kube c) w config host opts \<and> opt_Transport opts = Some t \<and>
      tls_allowed lib (con_kube c) w (sr_Namespace (cred_APISecretRef (pc_Credentials config))) cfg t \<and>
      NewAdmin lib host (opts\<lparr>opt_Transport := None\<rparr>) = Inr a0 \<and> uc_ma uc = SetCustomTransport lib a0 t \<and>
      url_Host (uc_url uc) = host \<and> uc_tlsSettings uc = opt_Secure opts) \<and>
    Observe_user (uc\<lparr>uc_NewS3 := f\<rparr>) = Observe_user uc"
proof -
  from user_client_of_connection [OF assms(1,2)] obtain host opts a0 where
    u: "uc_NewS3 uc = NewS3 lib" "connection lib (con_kube c) w config host opts" "NewAdmin lib host (opts\<lparr>opt_Transport := None\<rparr>) = Inr a0"
      "uc_ma uc = (case opt_Transport opts of None \<Rightarrow> a0 | Some t \<Rightarrow> SetCustomTransport lib a0 t)"
      "url_Host (uc_url uc) = host" "uc_tlsSettings uc = opt_Secure opts" by blast
  from u(2) assms(3) obtain t where
    t: "opt_Transport opts = Some t" "tls_allowed lib (con_kube c) w (sr_Namespace (cred_APISecretRef (pc_Credentials config))) cfg t"
    by (auto simp: connection_def Let_def)
  have "Observe_user (uc\<lparr>uc_NewS3 := f\<rparr>) = Observe_user uc"
    by (rule observe_without_transport) (simp add: assms(4) u(1))
  moreover from u(4) t(1) have "uc_ma uc = SetCustomTransport lib a0 t" by simp
  ultimately show ?thesis using u(2,3,5,6) t by blast
qed

text \<open>A client that refuses any transport: the admin client of the demo configuration has one.\<close>

definition picky_lib :: "(unit, mem_server admin_client) minio_lib" where
  "picky_lib = admin_lib\<lparr>NewS3 := \<lambda>_ o'. if opt_Transport o' = None then Inr () else Inl server_busy\<rparr>"

theorem user_check_ignores_tls_witness:
  "\<exists>uc. user_client_of admin_lib (\<lambda>_ w. (Inr (), w)) demo_connector tls_demo demo_server = (Ok uc, demo_server) \<and>
     Observe_user (uc\<lparr>uc_NewS3 := NewS3 picky_lib\<rparr>) = Observe_user uc"
proof -
  have "\<exists>uc. user_client_of admin_lib (\<lambda>_ w. (Inr (), w)) demo_connector tls_demo demo_server = (Ok uc, demo_server)"
    by (simp add: user_client_of_def NewMinioAdmin_def api_secret_def buildTLSConfig_def getTLSData_def rootCAs_def keyPairs_def
        admin_lib_def demo_connector_def one_secret_def tls_demo_def go_defs)
  then obtain uc where uc: "user_client_of admin_lib (\<lambda>_ w. (Inr (), w)) demo_connector tls_demo demo_server = (Ok uc, demo_server)"
    by blast
  obtain cfg where cfg: "pc_TLS tls_demo = Some cfg" by (simp add: tls_demo_def)
  have k: "kube_reads (con_kube demo_connector)" by (simp add: demo_connector_def one_secret_reads)
  have "NewS3 picky_lib h o' = NewS3 admin_lib h o'" if "opt_Transport o' = None" for h o'
    using that by (simp add: picky_lib_def admin_lib_def)
  from user_check_ignores_tls [OF k uc cfg this] uc show ?thesis by blast
qed

end
