(* ===== verification/Store.thy ===== *)
theory Store
  imports Main "HOL-Library.Finite_Map"
begin

text \<open>
  Go memory for the code that is about sharing: a store of cells with an allocation counter,
  and what it means to copy a value deeply. A value of a struct type is a record whose pointer,
  slice and map fields are addresses; the record is read against a store as the tree of values
  it stands for (\<open>View\<close>), and \<open>Reach\<close> is the set of addresses that reading visits. The store
  is polymorphic in its cells; theory \<open>DeepCopy\<close> fixes them.
\<close>

section \<open>Stores\<close>

type_synonym addr = nat

record 'c store =
  cells :: "addr \<rightharpoonup> 'c"
  next_addr :: addr

definition wf_store :: "'c store \<Rightarrow> bool" where
  "wf_store s \<longleftrightarrow> dom (cells s) \<subseteq> {..<next_addr s}"

definition alloc :: "'c \<Rightarrow> 'c store \<Rightarrow> addr \<times> 'c store" where
  "alloc x s = (next_addr s, s\<lparr>cells := (cells s)(next_addr s \<mapsto> x), next_addr := Suc (next_addr s)\<rparr>)"

definition write_cell :: "addr \<Rightarrow> 'c \<Rightarrow> 'c store \<Rightarrow> 'c store" where
  "write_cell a x s = s\<lparr>cells := (cells s)(a \<mapsto> x)\<rparr>"

text \<open>\<open>t\<close> has everything of \<open>s\<close>, unchanged, and perhaps more.\<close>

definition extends :: "'c store \<Rightarrow> 'c store \<Rightarrow> bool" where
  "extends s t \<longleftrightarrow> wf_store t \<and> next_addr s \<le> next_addr t \<and> (\<forall>a < next_addr s. cells t a = cells s a)"

definition agree_on :: "addr set \<Rightarrow> 'c store \<Rightarrow> 'c store \<Rightarrow> bool" where
  "agree_on A s t \<longleftrightarrow> (\<forall>a \<in> A. cells t a = cells s a)"

lemma extends_refl: "wf_store s \<Longrightarrow> extends s s"
  by (simp add: extends_def)

lemma extends_trans: "extends s t \<Longrightarrow> extends t u \<Longrightarrow> extends s u"
  by (auto simp: extends_def)

lemma extends_wf: "extends s t \<Longrightarrow> wf_store t"
  by (simp add: extends_def)

lemma extends_next: "extends s t \<Longrightarrow> next_addr s \<le> next_addr t"
  by (simp add: extends_def)

lemma extends_agree: "extends s t \<Longrightarrow> A \<subseteq> {..<next_addr s} \<Longrightarrow> agree_on A s t"
  by (auto simp: extends_def agree_on_def)

lemma agree_on_Un [simp]: "agree_on (A \<union> B) s t \<longleftrightarrow> agree_on A s t \<and> agree_on B s t"
  by (auto simp: agree_on_def)

lemma agree_on_insert [simp]: "agree_on (insert a A) s t \<longleftrightarrow> cells t a = cells s a \<and> agree_on A s t"
  by (auto simp: agree_on_def)

lemma agree_on_empty [simp]: "agree_on {} s t"
  by (simp add: agree_on_def)

lemma agree_on_write: "a \<notin> A \<Longrightarrow> agree_on A s (write_cell a x s)"
  by (auto simp: agree_on_def write_cell_def)

lemma alloc_extends: "wf_store s \<Longrightarrow> alloc x s = (a, t) \<Longrightarrow> extends s t \<and> a = next_addr s \<and> next_addr t = Suc a \<and> cells t a = Some x"
  unfolding alloc_def extends_def wf_store_def by (force simp: less_Suc_eq)

lemma write_fresh_extends:
  "extends s t \<Longrightarrow> next_addr s \<le> a \<Longrightarrow> a < next_addr t \<Longrightarrow> extends s (write_cell a x t)"
  by (auto simp: extends_def write_cell_def wf_store_def)

lemma write_cell_simps [simp]:
  "next_addr (write_cell a x s) = next_addr s" "cells (write_cell a x s) a = Some x"
  "b \<noteq> a \<Longrightarrow> cells (write_cell a x s) b = cells s b"
  by (simp_all add: write_cell_def)

section \<open>Deep copies\<close>

record ('x, 'v, 'c) copier =
  Copy :: "'x \<Rightarrow> 'c store \<Rightarrow> 'x \<times> 'c store"
  View :: "'c store \<Rightarrow> 'x \<Rightarrow> 'v option"
  Reach :: "'c store \<Rightarrow> 'x \<Rightarrow> addr set"

text \<open>
  What is promised of a copier: what is read depends on the reached cells only, which are
  allocated; and a copy of a value that can be read only adds cells, reads as the same tree,
  and reaches new cells only.
\<close>

locale deep_copier =
  fixes c :: "('x, 'v, 'c) copier"
  assumes copied: "wf_store s \<Longrightarrow> View c s x = Some v \<Longrightarrow> Copy c x s = (y, t) \<Longrightarrow>
      extends s t \<and> View c t y = Some v \<and> Reach c t y \<subseteq> {next_addr s..<next_addr t}"
    and allocated: "wf_store s \<Longrightarrow> View c s x = Some v \<Longrightarrow> Reach c s x \<subseteq> {..<next_addr s}"
    and framed: "View c s x = Some v \<Longrightarrow> agree_on (Reach c s x) s t \<Longrightarrow> View c t x = Some v \<and> Reach c t x = Reach c s x"
begin

lemma kept: "wf_store s \<Longrightarrow> View c s x = Some v \<Longrightarrow> extends s t \<Longrightarrow> View c t x = Some v \<and> Reach c t x = Reach c s x"
  by (rule framed) (auto intro: extends_agree dest: allocated)

lemma disjoint:
  assumes "wf_store s" and "View c s x = Some v" and "Copy c x s = (y, t)"
  shows "Reach c t y \<inter> Reach c t x = {}"
proof -
  from copied [OF assms] have e: "extends s t" and y: "Reach c t y \<subseteq> {next_addr s..<next_addr t}" by auto
  from kept [OF assms(1,2) e] allocated [OF assms(1,2)] have "Reach c t x \<subseteq> {..<next_addr s}" by simp
  with y show ?thesis by fastforce
qed

end

text \<open>Any number of writes to cells of a set.\<close>

inductive writes :: "addr set \<Rightarrow> 'c store \<Rightarrow> 'c store \<Rightarrow> bool" for A :: "addr set" where
  no_write: "writes A s s"
| one_write: "writes A s t \<Longrightarrow> a \<in> A \<Longrightarrow> writes A s (write_cell a x t)"

lemma writes_agree: "writes A s t \<Longrightarrow> A \<inter> B = {} \<Longrightarrow> agree_on B s t"
  by (induction rule: writes.induct) (auto simp: agree_on_def write_cell_def)

context deep_copier
begin

text \<open>Whatever is then written to the cells of the copy, the original reads as before; and conversely.\<close>

lemma isolated:
  assumes "wf_store s" and "View c s x = Some v" and "Copy c x s = (y, t)"
  shows "writes (Reach c t y) t u \<Longrightarrow> View c u x = Some v" and "writes (Reach c t x) t u \<Longrightarrow> View c u y = Some v"
proof -
  from copied [OF assms] have e: "extends s t" and y: "View c t y = Some v" by auto
  from kept [OF assms(1,2) e] have x: "View c t x = Some v" by simp
  note d = disjoint [OF assms]
  show "writes (Reach c t y) t u \<Longrightarrow> View c u x = Some v"
    using framed [OF x writes_agree [OF _ d]] by blast
  show "writes (Reach c t x) t u \<Longrightarrow> View c u y = Some v"
    using framed [OF y writes_agree, of "Reach c t x" u] d by blast
qed

end

section \<open>Copiers for Go types\<close>

text \<open>A type without pointers: \<^verbatim>\<open>*out = *in\<close> copies all of it.\<close>

definition plain :: "('x \<Rightarrow> 'v option) \<Rightarrow> ('x, 'v, 'c) copier" where
  "plain f = \<lparr>Copy = Pair, View = (\<lambda>_. f), Reach = (\<lambda>_ _. {})\<rparr>"

definition flat :: "('x, 'x, 'c) copier" where
  "flat = plain Some"

lemma flat_simps [simp]: "Copy flat = Pair" "View flat s x = Some x" "Reach flat s x = {}"
  by (simp_all add: flat_def plain_def)

lemma deep_plain: "deep_copier (plain f)"
  by unfold_locales (simp_all add: plain_def extends_refl)

lemma deep_flat: "deep_copier flat"
  unfolding flat_def by (rule deep_plain)

text \<open>The cells of one Go type among all cells.\<close>

record ('x, 'c) cell_type =
  Inj :: "'x \<Rightarrow> 'c"
  Proj :: "'c \<Rightarrow> 'x option"

definition proper_cell :: "('x, 'c) cell_type \<Rightarrow> bool" where
  "proper_cell k \<longleftrightarrow> (\<forall>x. Proj k (Inj k x) = Some x)"

definition get_cell :: "('x, 'c) cell_type \<Rightarrow> 'c store \<Rightarrow> addr \<Rightarrow> 'x option" where
  "get_cell k s a = (case cells s a of None \<Rightarrow> None | Some x \<Rightarrow> Proj k x)"

lemma get_cell_dom: "wf_store s \<Longrightarrow> get_cell k s a = Some x \<Longrightarrow> a < next_addr s"
  by (auto simp: get_cell_def wf_store_def split: option.splits)

text \<open>
  A pointer, slice or map field: nil stays nil; otherwise a new cell is allocated with the
  contents of the old one (\<^verbatim>\<open>*out = new(T)\<close> and the \<^verbatim>\<open>*out = *in\<close> the callee starts with),
  its inside is copied, and the cell gets the result. The second branch of a dangling address
  does not occur in Go.
\<close>

definition copy_ptr :: "('x, 'c) cell_type \<Rightarrow> ('x \<Rightarrow> 'c store \<Rightarrow> 'x \<times> 'c store) \<Rightarrow> addr option \<Rightarrow> 'c store \<Rightarrow> addr option \<times> 'c store" where
  "copy_ptr k cp p s =
     (case p of
        None \<Rightarrow> (None, s)
      | Some a \<Rightarrow>
          (case get_cell k s a of
             None \<Rightarrow> (Some a, s)
           | Some x \<Rightarrow>
               let (b, s1) = alloc (Inj k x) s; (y, s2) = cp x s1 in (Some b, write_cell b (Inj k y) s2)))"

definition ptr_of :: "('x, 'c) cell_type \<Rightarrow> ('x, 'v, 'c) copier \<Rightarrow> (addr option, 'v option, 'c) copier" where
  "ptr_of k c = \<lparr>Copy = copy_ptr k (Copy c),
     View = (\<lambda>s p. case p of None \<Rightarrow> Some None
       | Some a \<Rightarrow> (case get_cell k s a of None \<Rightarrow> None | Some x \<Rightarrow> map_option Some (View c s x))),
     Reach = (\<lambda>s p. case p of None \<Rightarrow> {}
       | Some a \<Rightarrow> insert a (case get_cell k s a of None \<Rightarrow> {} | Some x \<Rightarrow> Reach c s x))\<rparr>"

lemma ptr_of_simps [simp]:
  "View (ptr_of k c) s None = Some None" "Reach (ptr_of k c) s None = {}" "Copy (ptr_of k c) = copy_ptr k (Copy c)"
  "View (ptr_of k c) s (Some a) = (case get_cell k s a of None \<Rightarrow> None | Some x \<Rightarrow> map_option Some (View c s x))"
  "Reach (ptr_of k c) s (Some a) = insert a (case get_cell k s a of None \<Rightarrow> {} | Some x \<Rightarrow> Reach c s x)"
  by (simp_all add: ptr_of_def)

lemma get_cell_cong: "cells t a = cells s a \<Longrightarrow> get_cell k t a = get_cell k s a"
  by (simp add: get_cell_def)

lemma copy_ptr_deep:
  assumes c: "deep_copier c" and k: "proper_cell k" and s: "wf_store s"
    and x: "get_cell k s a = Some x" "View c s x = Some v" and y: "copy_ptr k (Copy c) (Some a) s = (q, u)"
  shows "extends s u \<and> View (ptr_of k c) u q = Some (Some v) \<and> Reach (ptr_of k c) u q \<subseteq> {next_addr s..<next_addr u}"
proof -
  obtain b s1 where al: "alloc (Inj k x) s = (b, s1)" by (cases "alloc (Inj k x) s")
  obtain z s2 where cp: "Copy c x s1 = (z, s2)" by (cases "Copy c x s1")
  from y x(1) al cp have q: "q = Some b" and u: "u = write_cell b (Inj k z) s2" by (simp_all add: copy_ptr_def)
  from alloc_extends [OF s al] have e1: "extends s s1" and b: "b = next_addr s" "next_addr s1 = Suc b" by auto
  from deep_copier.kept [OF c s x(2) e1] have "View c s1 x = Some v" by simp
  from deep_copier.copied [OF c extends_wf [OF e1] this cp]
  have e2: "extends s1 s2" and z: "View c s2 z = Some v" "Reach c s2 z \<subseteq> {next_addr s1..<next_addr s2}" by auto
  from z(2) b have "b \<notin> Reach c s2 z" by auto
  from deep_copier.framed [OF c z(1) agree_on_write [OF this]]
  have zu: "View c u z = Some v" "Reach c u z = Reach c s2 z" by (simp_all add: u)
  have g: "get_cell k u b = Some z" using k by (simp add: u get_cell_def proper_cell_def)
  have "b < next_addr s2" using extends_next [OF e2] b by simp
  then have "extends s u" unfolding u
    using b by (intro write_fresh_extends extends_trans [OF e1 e2]) simp_all
  moreover from zu g z(2) b \<open>b < next_addr s2\<close> have "Reach (ptr_of k c) u q \<subseteq> {next_addr s..<next_addr u}"
    by (auto simp: q u)
  ultimately show ?thesis using zu g by (simp add: q)
qed

lemma deep_ptr:
  assumes c: "deep_copier c" and k: "proper_cell k"
  shows "deep_copier (ptr_of k c)"
proof
  fix s p v q u
  assume s: "wf_store s" and v: "View (ptr_of k c) s p = Some v" and cp: "Copy (ptr_of k c) p s = (q, u)"
  show "extends s u \<and> View (ptr_of k c) u q = Some v \<and> Reach (ptr_of k c) u q \<subseteq> {next_addr s..<next_addr u}"
  proof (cases p)
    case None
    with s v cp show ?thesis by (simp add: copy_ptr_def extends_refl)
  next
    case (Some a)
    with v obtain x w where x: "get_cell k s a = Some x" "View c s x = Some w" "v = Some w"
      by (auto split: option.splits)
    from copy_ptr_deep [OF c k s x(1,2), of q u] cp x(3) Some show ?thesis by simp
  qed
next
  fix s p v
  assume s: "wf_store s" and v: "View (ptr_of k c) s p = Some v"
  then show "Reach (ptr_of k c) s p \<subseteq> {..<next_addr s}"
    using deep_copier.allocated [OF c s] get_cell_dom [OF s]
    by (cases p) (auto split: option.splits, fastforce+)
next
  fix s p v t
  assume v: "View (ptr_of k c) s p = Some v" and a: "agree_on (Reach (ptr_of k c) s p) s t"
  show "View (ptr_of k c) t p = Some v \<and> Reach (ptr_of k c) t p = Reach (ptr_of k c) s p"
  proof (cases p)
    case None
    with v show ?thesis by simp
  next
    case (Some b)
    with v obtain x w where x: "get_cell k s b = Some x" "View c s x = Some w" "v = Some w"
      by (auto split: option.splits)
    from a Some x(1) have "cells t b = cells s b" "agree_on (Reach c s x) s t" by simp_all
    with get_cell_cong [of t b s k] deep_copier.framed [OF c x(2)] Some x show ?thesis by simp
  qed
qed

text \<open>Two copies in sequence, as the fields of a struct are copied.\<close>

definition pair_of :: "('x, 'v, 'c) copier \<Rightarrow> ('y, 'u, 'c) copier \<Rightarrow> ('x \<times> 'y, 'v \<times> 'u, 'c) copier" where
  "pair_of c d = \<lparr>Copy = (\<lambda>(x, y) s. let (x', s1) = Copy c x s; (y', s2) = Copy d y s1 in ((x', y'), s2)),
     View = (\<lambda>s (x, y). case (View c s x, View d s y) of (Some v, Some u) \<Rightarrow> Some (v, u) | _ \<Rightarrow> None),
     Reach = (\<lambda>s (x, y). Reach c s x \<union> Reach d s y)\<rparr>"

lemma pair_of_simps [simp]:
  "Copy (pair_of c d) (x, y) s = (let (x', s1) = Copy c x s; (y', s2) = Copy d y s1 in ((x', y'), s2))"
  "View (pair_of c d) s (x, y) = (case (View c s x, View d s y) of (Some v, Some u) \<Rightarrow> Some (v, u) | _ \<Rightarrow> None)"
  "Reach (pair_of c d) s (x, y) = Reach c s x \<union> Reach d s y"
  by (simp_all add: pair_of_def)

lemma pair_view_Some:
  "View (pair_of c d) s p = Some w \<longleftrightarrow> View c s (fst p) = Some (fst w) \<and> View d s (snd p) = Some (snd w)"
  by (cases p; cases w) (auto split: option.splits)

lemma pair_reach: "Reach (pair_of c d) s p = Reach c s (fst p) \<union> Reach d s (snd p)"
  by (cases p) simp

lemma pair_copied:
  assumes c: "deep_copier c" and d: "deep_copier d" and s: "wf_store s"
    and v: "View c s x = Some v" "View d s y = Some u"
    and cp: "Copy c x s = (x', s1)" "Copy d y s1 = (y', s2)"
  shows "extends s s2 \<and> View c s2 x' = Some v \<and> View d s2 y' = Some u \<and>
    Reach c s2 x' \<union> Reach d s2 y' \<subseteq> {next_addr s..<next_addr s2}"
proof -
  from deep_copier.copied [OF c s v(1) cp(1)] have e1: "extends s s1" and
    x': "View c s1 x' = Some v" "Reach c s1 x' \<subseteq> {next_addr s..<next_addr s1}" by auto
  from deep_copier.kept [OF d s v(2) e1] have "View d s1 y = Some u" by simp
  from deep_copier.copied [OF d extends_wf [OF e1] this cp(2)] have e2: "extends s1 s2" and
    y': "View d s2 y' = Some u" "Reach d s2 y' \<subseteq> {next_addr s1..<next_addr s2}" by auto
  from deep_copier.kept [OF c extends_wf [OF e1] x'(1) e2] have "View c s2 x' = Some v" "Reach c s2 x' = Reach c s1 x'" by auto
  with x'(2) y' extends_trans [OF e1 e2] extends_next [OF e1] extends_next [OF e2] show ?thesis by auto
qed

lemma deep_pair:
  assumes c: "deep_copier c" and d: "deep_copier d"
  shows "deep_copier (pair_of c d)"
proof
  fix s p w q t
  assume s: "wf_store s" and v: "View (pair_of c d) s p = Some w" and cp: "Copy (pair_of c d) p s = (q, t)"
  obtain x y where p: "p = (x, y)" by (cases p)
  obtain x' s1 where 1: "Copy c x s = (x', s1)" by (cases "Copy c x s")
  obtain y' s2 where 2: "Copy d y s1 = (y', s2)" by (cases "Copy d y s1")
  from v p have "View c s x = Some (fst w)" "View d s y = Some (snd w)"
    by (simp_all add: pair_view_Some del: pair_of_simps)
  note r = pair_copied [OF c d s this 1 2]
  from cp p 1 2 have q: "q = (x', y')" "t = s2" by simp_all
  from r show "extends s t \<and> View (pair_of c d) t q = Some w \<and> Reach (pair_of c d) t q \<subseteq> {next_addr s..<next_addr t}"
    by (simp add: q pair_view_Some pair_reach del: pair_of_simps)
next
  fix s p w
  assume s: "wf_store s" and "View (pair_of c d) s p = Some w"
  then have v: "View c s (fst p) = Some (fst w)" "View d s (snd p) = Some (snd w)" by (simp_all add: pair_view_Some)
  show "Reach (pair_of c d) s p \<subseteq> {..<next_addr s}"
    unfolding pair_reach by (intro Un_least deep_copier.allocated [OF c s v(1)] deep_copier.allocated [OF d s v(2)])
next
  fix s p w t
  assume "View (pair_of c d) s p = Some w" and "agree_on (Reach (pair_of c d) s p) s t"
  then have v: "View c s (fst p) = Some (fst w)" "View d s (snd p) = Some (snd w)"
    and a: "agree_on (Reach c s (fst p)) s t" "agree_on (Reach d s (snd p)) s t"
    by (simp_all add: pair_view_Some pair_reach)
  from deep_copier.framed [OF c v(1) a(1)] deep_copier.framed [OF d v(2) a(2)]
  show "View (pair_of c d) t p = Some w \<and> Reach (pair_of c d) t p = Reach (pair_of c d) s p"
    by (simp add: pair_view_Some pair_reach)
qed

text \<open>
  A struct: \<open>to\<close> are its fields that need copying, \<open>mk\<close> rebuilds the tree it stands for from
  their trees and from its other fields.
\<close>

definition struct_of :: "('x \<Rightarrow> 'c store \<Rightarrow> 'x \<times> 'c store) \<Rightarrow> ('x \<Rightarrow> 'y) \<Rightarrow> ('x \<Rightarrow> 'u \<Rightarrow> 'v) \<Rightarrow> ('y, 'u, 'c) copier \<Rightarrow> ('x, 'v, 'c) copier" where
  "struct_of cp to mk c = \<lparr>Copy = cp, View = (\<lambda>s x. map_option (mk x) (View c s (to x))), Reach = (\<lambda>s x. Reach c s (to x))\<rparr>"

lemma struct_of_simps [simp]:
  "Copy (struct_of cp to mk c) = cp" "View (struct_of cp to mk c) s x = map_option (mk x) (View c s (to x))"
  "Reach (struct_of cp to mk c) s x = Reach c s (to x)"
  by (simp_all add: struct_of_def)

lemma deep_struct:
  assumes c: "deep_copier c" and cp: "\<And>x s y t. cp x s = (y, t) \<Longrightarrow> Copy c (to x) s = (to y, t) \<and> mk y = mk x"
  shows "deep_copier (struct_of cp to mk c)"
proof
  fix s x v y t
  assume s: "wf_store s" and v: "View (struct_of cp to mk c) s x = Some v" and y: "Copy (struct_of cp to mk c) x s = (y, t)"
  from v obtain u where u: "View c s (to x) = Some u" "v = mk x u" by auto
  from cp [of x s y t] y have "Copy c (to x) s = (to y, t)" "mk y = mk x" by simp_all
  with deep_copier.copied [OF c s u(1)] u(2)
  show "extends s t \<and> View (struct_of cp to mk c) t y = Some v \<and> Reach (struct_of cp to mk c) t y \<subseteq> {next_addr s..<next_addr t}"
    by simp
next
  fix s x v
  assume s: "wf_store s" and "View (struct_of cp to mk c) s x = Some v"
  then obtain u where "View c s (to x) = Some u" by auto
  from deep_copier.allocated [OF c s this] show "Reach (struct_of cp to mk c) s x \<subseteq> {..<next_addr s}" by simp
next
  fix s x v t
  assume v: "View (struct_of cp to mk c) s x = Some v" and "agree_on (Reach (struct_of cp to mk c) s x) s t"
  then have a: "agree_on (Reach c s (to x)) s t" by simp
  from v obtain u where u: "View c s (to x) = Some u" "v = mk x u" by auto
  from deep_copier.framed [OF c u(1) a] u(2)
  show "View (struct_of cp to mk c) t x = Some v \<and> Reach (struct_of cp to mk c) t x = Reach (struct_of cp to mk c) s x" by simp
qed

text \<open>The elements of a slice, copied one after the other.\<close>

fun copy_list :: "('x \<Rightarrow> 'c store \<Rightarrow> 'x \<times> 'c store) \<Rightarrow> 'x list \<Rightarrow> 'c store \<Rightarrow> 'x list \<times> 'c store" where
  "copy_list cp [] s = ([], s)"
| "copy_list cp (x # xs) s = (let (y, s1) = cp x s; (ys, s2) = copy_list cp xs s1 in (y # ys, s2))"

fun view_list :: "('x \<Rightarrow> 'v option) \<Rightarrow> 'x list \<Rightarrow> 'v list option" where
  "view_list f [] = Some []"
| "view_list f (x # xs) = (case (f x, view_list f xs) of (Some v, Some vs) \<Rightarrow> Some (v # vs) | _ \<Rightarrow> None)"

definition list_of :: "('x, 'v, 'c) copier \<Rightarrow> ('x list, 'v list, 'c) copier" where
  "list_of c = \<lparr>Copy = copy_list (Copy c), View = (\<lambda>s xs. view_list (View c s) xs), Reach = (\<lambda>s xs. \<Union> (Reach c s ` set xs))\<rparr>"

lemma list_of_simps [simp]:
  "Copy (list_of c) = copy_list (Copy c)" "View (list_of c) s xs = view_list (View c s) xs"
  "Reach (list_of c) s xs = \<Union> (Reach c s ` set xs)"
  by (simp_all add: list_of_def)

lemma view_list_all2: "view_list f xs = Some vs \<longleftrightarrow> list_all2 (\<lambda>x v. f x = Some v) xs vs"
proof (induction xs arbitrary: vs)
  case (Cons x xs)
  have "view_list f (x # xs) = Some vs \<longleftrightarrow> (\<exists>v ws. f x = Some v \<and> view_list f xs = Some ws \<and> vs = v # ws)"
    by (auto split: option.splits)
  then show ?case by (auto simp: Cons.IH list_all2_Cons1)
qed auto

lemma view_list_Some: "view_list f xs = Some vs \<longleftrightarrow> length vs = length xs \<and> (\<forall>i < length xs. f (xs ! i) = Some (vs ! i))"
  by (auto simp: view_list_all2 list_all2_conv_all_nth)

lemma copy_list_deep:
  assumes c: "deep_copier c"
  shows "wf_store s \<Longrightarrow> list_all2 (\<lambda>x v. View c s x = Some v) xs vs \<Longrightarrow> copy_list (Copy c) xs s = (ys, t) \<Longrightarrow>
    extends s t \<and> list_all2 (\<lambda>x v. View c t x = Some v) ys vs \<and> \<Union> (Reach c t ` set ys) \<subseteq> {next_addr s..<next_addr t}"
proof (induction xs arbitrary: s vs ys t)
  case Nil
  then show ?case by (auto simp: extends_refl)
next
  case (Cons x xs)
  then obtain v vs' where vs: "vs = v # vs'" "View c s x = Some v" "list_all2 (\<lambda>x v. View c s x = Some v) xs vs'"
    by (auto simp: list_all2_Cons1)
  obtain y s1 where 1: "Copy c x s = (y, s1)" by (cases "Copy c x s")
  obtain ys' s2 where 2: "copy_list (Copy c) xs s1 = (ys', s2)" by (cases "copy_list (Copy c) xs s1")
  from deep_copier.copied [OF c Cons.prems(1) vs(2) 1] have e1: "extends s s1" and
    y: "View c s1 y = Some v" "Reach c s1 y \<subseteq> {next_addr s..<next_addr s1}" by auto
  from vs(3) have "list_all2 (\<lambda>x v. View c s1 x = Some v) xs vs'"
    by (rule list_all2_mono) (use deep_copier.kept [OF c Cons.prems(1) _ e1] in auto)
  from Cons.IH [OF extends_wf [OF e1] this 2] have e2: "extends s1 s2" and
    ys: "list_all2 (\<lambda>x v. View c s2 x = Some v) ys' vs'" "\<Union> (Reach c s2 ` set ys') \<subseteq> {next_addr s1..<next_addr s2}" by auto
  from deep_copier.kept [OF c extends_wf [OF e1] y(1) e2] have y2: "View c s2 y = Some v" "Reach c s2 y = Reach c s1 y" by auto
  have "{next_addr s..<next_addr s1} \<subseteq> {next_addr s..<next_addr s2}" "{next_addr s1..<next_addr s2} \<subseteq> {next_addr s..<next_addr s2}"
    using extends_next [OF e1] extends_next [OF e2] by auto
  moreover from Cons.prems(3) 1 2 have "ys = y # ys'" "t = s2" by simp_all
  ultimately show ?case using extends_trans [OF e1 e2] ys y2 y(2) vs(1) by (simp add: subset_trans)
qed

lemma deep_list:
  assumes c: "deep_copier c"
  shows "deep_copier (list_of c)"
proof
  fix s xs vs ys t
  assume "wf_store s" and "View (list_of c) s xs = Some vs" and "Copy (list_of c) xs s = (ys, t)"
  with copy_list_deep [OF c] show "extends s t \<and> View (list_of c) t ys = Some vs \<and> Reach (list_of c) t ys \<subseteq> {next_addr s..<next_addr t}"
    by (simp add: view_list_all2)
next
  fix s xs vs
  assume s: "wf_store s" and v: "View (list_of c) s xs = Some vs"
  show "Reach (list_of c) s xs \<subseteq> {..<next_addr s}"
  proof
    fix a assume "a \<in> Reach (list_of c) s xs"
    then obtain i where i: "i < length xs" "a \<in> Reach c s (xs ! i)" by (auto simp: in_set_conv_nth)
    from v i(1) have "View c s (xs ! i) = Some (vs ! i)" by (simp add: view_list_Some)
    from deep_copier.allocated [OF c s this] i(2) show "a \<in> {..<next_addr s}" by blast
  qed
next
  fix s xs vs t
  assume v: "View (list_of c) s xs = Some vs" and a: "agree_on (Reach (list_of c) s xs) s t"
  have "View c t (xs ! i) = Some (vs ! i) \<and> Reach c t (xs ! i) = Reach c s (xs ! i)" if "i < length xs" for i
  proof (rule deep_copier.framed [OF c])
    from v that show "View c s (xs ! i) = Some (vs ! i)" by (simp add: view_list_Some)
    from a nth_mem [OF that] show "agree_on (Reach c s (xs ! i)) s t" by (auto simp: agree_on_def)
  qed
  moreover from this have "\<forall>x \<in> set xs. Reach c t x = Reach c s x" by (metis in_set_conv_nth)
  ultimately show "View (list_of c) t xs = Some vs \<and> Reach (list_of c) t xs = Reach (list_of c) s xs"
    using v by (simp add: view_list_Some)
qed

end
