(* ===== verification/DeepCopy.thy ===== *)
theory DeepCopy
  imports Store Resources
begin

text \<open>
  The generated deep copies of the API types, function by function: \<^verbatim>\<open>DeepCopyInto\<close>,
  \<^verbatim>\<open>DeepCopy\<close> and \<^verbatim>\<open>DeepCopyObject\<close> of \<^verbatim>\<open>apis/common\<close>, \<^verbatim>\<open>apis/minio/v1beta1\<close> and
  \<^verbatim>\<open>apis/provider/v1\<close>, over the memory of theory \<open>Store\<close>.

  A struct as it lies in memory is a record whose pointer, slice and map fields are addresses
  (\<open>None\<close> is nil). \<open>DeepCopyInto_T\<close> takes the struct \<^verbatim>\<open>*in\<close> and returns what \<^verbatim>\<open>*out\<close> holds
  afterwards, with the memory after the call; \<open>DeepCopy_T\<close> takes and returns a pointer. A slice
  is a cell with its elements, a map a cell with its entries. The structs of the Kubernetes and
  Crossplane libraries are values of an opaque type \<open>'l\<close>; their \<^verbatim>\<open>DeepCopyInto\<close> methods, what
  their values read as, and the order in which \<^verbatim>\<open>range\<close> visits a map come from a record
  \<open>golib\<close>, of which \<open>deep_golib\<close> states what their documentation promises.

  \<open>X_tree\<close> is the copier of type \<open>X\<close>: the function above with what a value of the type reads as,
  one of the resources of theory \<open>Resources\<close>.
\<close>

section \<open>Types in memory\<close>

record type_meta =
  tm_Kind :: string
  tm_APIVersion :: string

text \<open>The four parts every API object has, the two of a specification, of a status, and the list types.\<close>

record ('l, 's, 't) mem_object =
  mo_TypeMeta :: type_meta
  mo_ObjectMeta :: 'l
  mo_Spec :: 's
  mo_Status :: 't

record ('l, 'p) mem_spec =
  mo_ManagedResourceSpec :: 'l
  mo_ForProvider :: 'p

record ('l, 'a) mem_status =
  mo_ConditionedStatus :: 'l
  mo_AtProvider :: 'a

record 'l mem_list =
  mo_ListTypeMeta :: type_meta
  mo_ListMeta :: 'l
  mo_Items :: "addr option"

record mem_tls =
  mt_CAData :: string
  mt_CASecretRef :: "addr option"
  mt_CAConfigMapRef :: "addr option"
  mt_ClientCertData :: string
  mt_ClientCertSecretRef :: "addr option"
  mt_ClientKeyData :: string
  mt_ClientKeySecretRef :: "addr option"
  mt_InsecureSkipVerify :: bool

record mem_bucket_params =
  mb_BucketName :: string
  mb_Region :: string
  mb_BucketDeletionPolicy :: string
  mb_Policy :: "addr option"
  mb_Tags :: "addr option"

record bucket_provider_status =
  bps_BucketName :: string

record 'l mem_bucket_status = "('l, bucket_provider_status) mem_status" +
  mb_Endpoint :: string
  mb_EndpointURL :: string

type_synonym 'l mem_bucket_spec = "('l, mem_bucket_params) mem_spec"
type_synonym 'l mem_bucket = "('l, 'l mem_bucket_spec, 'l mem_bucket_status) mem_object"

record mem_key_filter =
  mk_FilterRules :: "addr option"

record mem_notification_filter =
  mf_Key :: "addr option"

record mem_webhook_configuration =
  mw_ID :: string
  mw_Endpoint :: string
  mw_AuthToken :: "addr option"
  mw_UserAgent :: "addr option"

record mem_notification_params =
  mn_BucketName :: string
  mn_WebhookConfiguration :: "addr option"
  mn_QueueConfiguration :: "addr option"
  mn_TopicConfiguration :: "addr option"
  mn_Events :: "addr option"
  mn_Filter :: "addr option"

record mem_notification_provider_status =
  mn_ConfigurationID :: string
  mn_StatusBucketName :: string
  mn_LastUpdated :: "addr option"

type_synonym 'l mem_notification_spec = "('l, mem_notification_params) mem_spec"
type_synonym 'l mem_notification_status = "('l, mem_notification_provider_status) mem_status"
type_synonym 'l mem_notification = "('l, 'l mem_notification_spec, 'l mem_notification_status) mem_object"

record policy_provider_status =
  pps_Policy :: string

type_synonym 'l mem_policy_spec = "('l, policy_params) mem_spec"
type_synonym 'l mem_policy_status = "('l, policy_provider_status) mem_status"
type_synonym 'l mem_policy = "('l, 'l mem_policy_spec, 'l mem_policy_status) mem_object"

record mem_service_account_params =
  ms_TargetUser :: string
  ms_AccessKey :: string
  ms_SecretKey :: string
  ms_Name :: string
  ms_Description :: string
  ms_Policy :: string
  ms_Expiration :: "addr option"
  ms_WriteConnectionSecretsToRef :: "addr option"

record mem_service_account_provider_status =
  ms_StatusAccessKey :: string
  ms_AccountStatus :: string
  ms_ParentUser :: string
  ms_ImpliedPolicy :: bool
  ms_StatusPolicy :: string
  ms_StatusExpiration :: "addr option"

type_synonym 'l mem_service_account_spec = "('l, mem_service_account_params) mem_spec"
type_synonym 'l mem_service_account_status = "('l, mem_service_account_provider_status) mem_status"
type_synonym 'l mem_service_account = "('l, 'l mem_service_account_spec, 'l mem_service_account_status) mem_object"

record mem_user_params =
  mu_UserName :: string
  mu_Policies :: "addr option"

record user_provider_status =
  ups_UserName :: string
  ups_Status :: string
  ups_Policies :: string

type_synonym 'l mem_user_spec = "('l, mem_user_params) mem_spec"
type_synonym 'l mem_user_status = "('l, user_provider_status) mem_status"
type_synonym 'l mem_user = "('l, 'l mem_user_spec, 'l mem_user_status) mem_object"

record 'l mem_provider_credentials =
  mc_Source :: string
  mc_APISecretRef :: secret_reference
  mc_CommonCredentialSelectors :: 'l

record 'l mem_provider_config_spec =
  mc_Credentials :: "'l mem_provider_credentials"
  mc_MinioURL :: string
  mc_TLS :: "addr option"

record 'l mem_provider_config_status =
  mc_ProviderConfigStatus :: 'l

type_synonym 'l mem_provider_config = "('l, 'l mem_provider_config_spec, 'l mem_provider_config_status) mem_object"

text \<open>
  \<^verbatim>\<open>TypedProviderConfigUsage\<close> holds two plain references: the generated code assigns it.
\<close>

record 'l mem_provider_config_usage =
  mpu_TypeMeta :: type_meta
  mpu_ObjectMeta :: 'l
  mpu_ProviderConfigReference :: 'l
  mpu_ResourceReference :: 'l

section \<open>Cells\<close>

text \<open>What the memory holds: one constructor per type some pointer, slice or map of the code refers to.\<close>

datatype 'l bucket_cell =
    CBucket "'l mem_bucket"
  | CBucketList "'l mem_list"
  | CBucketItems "'l mem_bucket list"
  | CBucketParameters mem_bucket_params
  | CBucketProviderStatus bucket_provider_status
  | CBucketSpec "'l mem_bucket_spec"
  | CBucketStatus "'l mem_bucket_status"

datatype 'l notification_cell =
    CNotificationConfiguration "'l mem_notification"
  | CNotificationConfigurationList "'l mem_list"
  | CNotificationConfigurationItems "'l mem_notification list"
  | CNotificationConfigurationParameters mem_notification_params
  | CNotificationConfigurationProviderStatus mem_notification_provider_status
  | CNotificationConfigurationSpec "'l mem_notification_spec"
  | CNotificationConfigurationStatus "'l mem_notification_status"
  | CNotificationFilter mem_notification_filter
  | CKeyFilter mem_key_filter
  | CFilterRule filter_rule
  | CFilterRules "filter_rule list"
  | CQueueConfiguration target_configuration
  | CTopicConfiguration target_configuration
  | CWebhookConfiguration mem_webhook_configuration

datatype 'l policy_cell =
    CPolicy "'l mem_policy"
  | CPolicyList "'l mem_list"
  | CPolicyItems "'l mem_policy list"
  | CPolicyParameters policy_params
  | CPolicyProviderStatus policy_provider_status
  | CPolicySpec "'l mem_policy_spec"
  | CPolicyStatus "'l mem_policy_status"

datatype 'l service_account_cell =
    CServiceAccount "'l mem_service_account"
  | CServiceAccountList "'l mem_list"
  | CServiceAccountItems "'l mem_service_account list"
  | CServiceAccountParameters mem_service_account_params
  | CServiceAccountProviderStatus mem_service_account_provider_status
  | CServiceAccountSpec "'l mem_service_account_spec"
  | CServiceAccountStatus "'l mem_service_account_status"

datatype 'l user_cell =
    CUser "'l mem_user"
  | CUserList "'l mem_list"
  | CUserItems "'l mem_user list"
  | CUserParameters mem_user_params
  | CUserProviderStatus user_provider_status
  | CUserSpec "'l mem_user_spec"
  | CUserStatus "'l mem_user_status"

datatype 'l provider_cell =
    CProviderConfig "'l mem_provider_config"
  | CProviderConfigList "'l mem_list"
  | CProviderConfigItems "'l mem_provider_config list"
  | CProviderConfigSpec "'l mem_provider_config_spec"
  | CProviderConfigStatus "'l mem_provider_config_status"
  | CProviderConfigUsage "'l mem_provider_config_usage"
  | CProviderConfigUsageList "'l mem_list"
  | CProviderConfigUsageItems "'l mem_provider_config_usage list"
  | CProviderCredentials "'l mem_provider_credentials"
  | CTLSConfig mem_tls

datatype 'l cell =
    CLib 'l
  | CStr string
  | CStrs "string list"
  | CStrMap "(string, string) fmap"
  | CSecretRef secret_reference
  | InBucket "'l bucket_cell"
  | InNotification "'l notification_cell"
  | InPolicy "'l policy_cell"
  | InServiceAccount "'l service_account_cell"
  | InUser "'l user_cell"
  | InProvider "'l provider_cell"

definition Lib_c :: "('l, 'l cell) cell_type" where
  "Lib_c = \<lparr>Inj = CLib, Proj = (\<lambda>c. case c of CLib x \<Rightarrow> Some x | _ \<Rightarrow> None)\<rparr>"

definition Str_c :: "(string, 'l cell) cell_type" where
  "Str_c = \<lparr>Inj = CStr, Proj = (\<lambda>c. case c of CStr x \<Rightarrow> Some x | _ \<Rightarrow> None)\<rparr>"

definition Strs_c :: "(string list, 'l cell) cell_type" where
  "Strs_c = \<lparr>Inj = CStrs, Proj = (\<lambda>c. case c of CStrs x \<Rightarrow> Some x | _ \<Rightarrow> None)\<rparr>"

definition StrMap_c :: "((string, string) fmap, 'l cell) cell_type" where
  "StrMap_c = \<lparr>Inj = CStrMap, Proj = (\<lambda>c. case c of CStrMap x \<Rightarrow> Some x | _ \<Rightarrow> None)\<rparr>"

definition SecretRef_c :: "(secret_reference, 'l cell) cell_type" where
  "SecretRef_c = \<lparr>Inj = CSecretRef, Proj = (\<lambda>c. case c of CSecretRef x \<Rightarrow> Some x | _ \<Rightarrow> None)\<rparr>"

definition Bucket_c :: "('l mem_bucket, 'l cell) cell_type" where
  "Bucket_c = \<lparr>Inj = (\<lambda>x. InBucket (CBucket x)), Proj = (\<lambda>c. case c of InBucket (CBucket x) \<Rightarrow> Some x | _ \<Rightarrow> None)\<rparr>"

definition BucketList_c :: "('l mem_list, 'l cell) cell_type" where
  "BucketList_c = \<lparr>Inj = (\<lambda>x. InBucket (CBucketList x)), Proj = (\<lambda>c. case c of InBucket (CBucketList x) \<Rightarrow> Some x | _ \<Rightarrow> None)\<rparr>"

definition BucketItems_c :: "('l mem_bucket list, 'l cell) cell_type" where
  "BucketItems_c = \<lparr>Inj = (\<lambda>x. InBucket (CBucketItems x)), Proj = (\<lambda>c. case c of InBucket (CBucketItems x) \<Rightarrow> Some x | _ \<Rightarrow> None)\<rparr>"

definition BucketParameters_c :: "(mem_bucket_params, 'l cell) cell_type" where
  "BucketParameters_c = \<lparr>Inj = (\<lambda>x. InBucket (CBucketParameters x)), Proj = (\<lambda>c. case c of InBucket (CBucketParameters x) \<Rightarrow> Some x | _ \<Rightarrow> None)\<rparr>"

definition BucketProviderStatus_c :: "(bucket_provider_status, 'l cell) cell_type" where
  "BucketProviderStatus_c = \<lparr>Inj = (\<lambda>x. InBucket (CBucketProviderStatus x)), Proj = (\<lambda>c. case c of InBucket (CBucketProviderStatus x) \<Rightarrow> Some x | _ \<Rightarrow> None)\<rparr>"

definition BucketSpec_c :: "('l mem_bucket_spec, 'l cell) cell_type" where
  "BucketSpec_c = \<lparr>Inj = (\<lambda>x. InBucket (CBucketSpec x)), Proj = (\<lambda>c. case c of InBucket (CBucketSpec x) \<Rightarrow> Some x | _ \<Rightarrow> None)\<rparr>"

definition BucketStatus_c :: "('l mem_bucket_status, 'l cell) cell_type" where
  "BucketStatus_c = \<lparr>Inj = (\<lambda>x. InBucket (CBucketStatus x)), Proj = (\<lambda>c. case c of InBucket (CBucketStatus x) \<Rightarrow> Some x | _ \<Rightarrow> None)\<rparr>"

definition NotificationConfiguration_c :: "('l mem_notification, 'l cell) cell_type" where
  "NotificationConfiguration_c = \<lparr>Inj = (\<lambda>x. InNotification (CNotificationConfiguration x)), Proj = (\<lambda>c. case c of InNotification (CNotificationConfiguration x) \<Rightarrow> Some x | _ \<Rightarrow> None)\<rparr>"

definition NotificationConfigurationList_c :: "('l mem_list, 'l cell) cell_type" where
  "NotificationConfigurationList_c = \<lparr>Inj = (\<lambda>x. InNotification (CNotificationConfigurationList x)), Proj = (\<lambda>c. case c of InNotification (CNotificationConfigurationList x) \<Rightarrow> Some x | _ \<Rightarrow> None)\<rparr>"

definition NotificationConfigurationItems_c :: "('l mem_notification list, 'l cell) cell_type" where
  "NotificationConfigurationItems_c = \<lparr>Inj = (\<lambda>x. InNotification (CNotificationConfigurationItems x)), Proj = (\<lambda>c. case c of InNotification (CNotificationConfigurationItems x) \<Rightarrow> Some x | _ \<Rightarrow> None)\<rparr>"

definition NotificationConfigurationParameters_c :: "(mem_notification_params, 'l cell) cell_type" where
  "NotificationConfigurationParameters_c = \<lparr>Inj = (\<lambda>x. InNotification (CNotificationConfigurationParameters x)), Proj = (\<lambda>c. case c of InNotification (CNotificationConfigurationParameters x) \<Rightarrow> Some x | _ \<Rightarrow> None)\<rparr>"

definition NotificationConfigurationProviderStatus_c :: "(mem_notification_provider_status, 'l cell) cell_type" where
  "NotificationConfigurationProviderStatus_c = \<lparr>Inj = (\<lambda>x. InNotification (CNotificationConfigurationProviderStatus x)), Proj = (\<lambda>c. case c of InNotification (CNotificationConfigurationProviderStatus x) \<Rightarrow> Some x | _ \<Rightarrow> None)\<rparr>"

definition NotificationConfigurationSpec_c :: "('l mem_notification_spec, 'l cell) cell_type" where
  "NotificationConfigurationSpec_c = \<lparr>Inj = (\<lambda>x. InNotification (CNotificationConfigurationSpec x)), Proj = (\<lambda>c. case c of InNotification (CNotificationConfigurationSpec x) \<Rightarrow> Some x | _ \<Rightarrow> None)\<rparr>"

definition NotificationConfigurationStatus_c :: "('l mem_notification_status, 'l cell) cell_type" where
  "NotificationConfigurationStatus_c = \<lparr>Inj = (\<lambda>x. InNotification (CNotificationConfigurationStatus x)), Proj = (\<lambda>c. case c of InNotification (CNotificationConfigurationStatus x) \<Rightarrow> Some x | _ \<Rightarrow> None)\<rparr>"

definition NotificationFilter_c :: "(mem_notification_filter, 'l cell) cell_type" where
  "NotificationFilter_c = \<lparr>Inj = (\<lambda>x. InNotification (CNotificationFilter x)), Proj = (\<lambda>c. case c of InNotification (CNotificationFilter x) \<Rightarrow> Some x | _ \<Rightarrow> None)\<rparr>"

definition KeyFilter_c :: "(mem_key_filter, 'l cell) cell_type" where
  "KeyFilter_c = \<lparr>Inj = (\<lambda>x. InNotification (CKeyFilter x)), Proj = (\<lambda>c. case c of InNotification (CKeyFilter x) \<Rightarrow> Some x | _ \<Rightarrow> None)\<rparr>"

definition FilterRule_c :: "(filter_rule, 'l cell) cell_type" where
  "FilterRule_c = \<lparr>Inj = (\<lambda>x. InNotification (CFilterRule x)), Proj = (\<lambda>c. case c of InNotification (CFilterRule x) \<Rightarrow> Some x | _ \<Rightarrow> None)\<rparr>"

definition FilterRules_c :: "(filter_rule list, 'l cell) cell_type" where
  "FilterRules_c = \<lparr>Inj = (\<lambda>x. InNotification (CFilterRules x)), Proj = (\<lambda>c. case c of InNotification (CFilterRules x) \<Rightarrow> Some x | _ \<Rightarrow> None)\<rparr>"

definition QueueConfiguration_c :: "(target_configuration, 'l cell) cell_type" where
  "QueueConfiguration_c = \<lparr>Inj = (\<lambda>x. InNotification (CQueueConfiguration x)), Proj = (\<lambda>c. case c of InNotification (CQueueConfiguration x) \<Rightarrow> Some x | _ \<Rightarrow> None)\<rparr>"

definition TopicConfiguration_c :: "(target_configuration, 'l cell) cell_type" where
  "TopicConfiguration_c = \<lparr>Inj = (\<lambda>x. InNotification (CTopicConfiguration x)), Proj = (\<lambda>c. case c of InNotification (CTopicConfiguration x) \<Rightarrow> Some x | _ \<Rightarrow> None)\<rparr>"

definition WebhookConfiguration_c :: "(mem_webhook_configuration, 'l cell) cell_type" where
  "WebhookConfiguration_c = \<lparr>Inj = (\<lambda>x. InNotification (CWebhookConfiguration x)), Proj = (\<lambda>c. case c of InNotification (CWebhookConfiguration x) \<Rightarrow> Some x | _ \<Rightarrow> None)\<rparr>"

definition Policy_c :: "('l mem_policy, 'l cell) cell_type" where
  "Policy_c = \<lparr>Inj = (\<lambda>x. InPolicy (CPolicy x)), Proj = (\<lambda>c. case c of InPolicy (CPolicy x) \<Rightarrow> Some x | _ \<Rightarrow> None)\<rparr>"

definition PolicyList_c :: "('l mem_list, 'l cell) cell_type" where
  "PolicyList_c = \<lparr>Inj = (\<lambda>x. InPolicy (CPolicyList x)), Proj = (\<lambda>c. case c of InPolicy (CPolicyList x) \<Rightarrow> Some x | _ \<Rightarrow> None)\<rparr>"

definition PolicyItems_c :: "('l mem_policy list, 'l cell) cell_type" where
  "PolicyItems_c = \<lparr>Inj = (\<lambda>x. InPolicy (CPolicyItems x)), Proj = (\<lambda>c. case c of InPolicy (CPolicyItems x) \<Rightarrow> Some x | _ \<Rightarrow> None)\<rparr>"

definition PolicyParameters_c :: "(policy_params, 'l cell) cell_type" where
  "PolicyParameters_c = \<lparr>Inj = (\<lambda>x. InPolicy (CPolicyParameters x)), Proj = (\<lambda>c. case c of InPolicy (CPolicyParameters x) \<Rightarrow> Some x | _ \<Rightarrow> None)\<rparr>"

definition PolicyProviderStatus_c :: "(policy_provider_status, 'l cell) cell_type" where
  "PolicyProviderStatus_c = \<lparr>Inj = (\<lambda>x. InPolicy (CPolicyProviderStatus x)), Proj = (\<lambda>c. case c of InPolicy (CPolicyProviderStatus x) \<Rightarrow> Some x | _ \<Rightarrow> None)\<rparr>"

definition PolicySpec_c :: "('l mem_policy_spec, 'l cell) cell_type" where
  "PolicySpec_c = \<lparr>Inj = (\<lambda>x. InPolicy (CPolicySpec x)), Proj = (\<lambda>c. case c of InPolicy (CPolicySpec x) \<Rightarrow> Some x | _ \<Rightarrow> None)\<rparr>"

definition PolicyStatus_c :: "('l mem_policy_status, 'l cell) cell_type" where
  "PolicyStatus_c = \<lparr>Inj = (\<lambda>x. InPolicy (CPolicyStatus x)), Proj = (\<lambda>c. case c of InPolicy (CPolicyStatus x) \<Rightarrow> Some x | _ \<Rightarrow> None)\<rparr>"

definition ServiceAccount_c :: "('l mem_service_account, 'l cell) cell_type" where
  "ServiceAccount_c = \<lparr>Inj = (\<lambda>x. InServiceAccount (CServiceAccount x)), Proj = (\<lambda>c. case c of InServiceAccount (CServiceAccount x) \<Rightarrow> Some x | _ \<Rightarrow> None)\<rparr>"

definition ServiceAccountList_c :: "('l mem_list, 'l cell) cell_type" where
  "ServiceAccountList_c = \<lparr>Inj = (\<lambda>x. InServiceAccount (CServiceAccountList x)), Proj = (\<lambda>c. case c of InServiceAccount (CServiceAccountList x) \<Rightarrow> Some x | _ \<Rightarrow> None)\<rparr>"

definition ServiceAccountItems_c :: "('l mem_service_account list, 'l cell) cell_type" where
  "ServiceAccountItems_c = \<lparr>Inj = (\<lambda>x. InServiceAccount (CServiceAccountItems x)), Proj = (\<lambda>c. case c of InServiceAccount (CServiceAccountItems x) \<Rightarrow> Some x | _ \<Rightarrow> None)\<rparr>"

definition ServiceAccountParameters_c :: "(mem_service_account_params, 'l cell) cell_type" where
  "ServiceAccountParameters_c = \<lparr>Inj = (\<lambda>x. InServiceAccount (CServiceAccountParameters x)), Proj = (\<lambda>c. case c of InServiceAccount (CServiceAccountParameters x) \<Rightarrow> Some x | _ \<Rightarrow> None)\<rparr>"

definition ServiceAccountProviderStatus_c :: "(mem_service_account_provider_status, 'l cell) cell_type" where
  "ServiceAccountProviderStatus_c = \<lparr>Inj = (\<lambda>x. InServiceAccount (CServiceAccountProviderStatus x)), Proj = (\<lambda>c. case c of InServiceAccount (CServiceAccountProviderStatus x) \<Rightarrow> Some x | _ \<Rightarrow> None)\<rparr>"

definition ServiceAccountSpec_c :: "('l mem_service_account_spec, 'l cell) cell_type" where
  "ServiceAccountSpec_c = \<lparr>Inj = (\<lambda>x. InServiceAccount (CServiceAccountSpec x)), Proj = (\<lambda>c. case c of InServiceAccount (CServiceAccountSpec x) \<Rightarrow> Some x | _ \<Rightarrow> None)\<rparr>"

definition ServiceAccountStatus_c :: "('l mem_service_account_status, 'l cell) cell_type" where
  "ServiceAccountStatus_c = \<lparr>Inj = (\<lambda>x. InServiceAccount (CServiceAccountStatus x)), Proj = (\<lambda>c. case c of InServiceAccount (CServiceAccountStatus x) \<Rightarrow> Some x | _ \<Rightarrow> None)\<rparr>"

definition User_c :: "('l mem_user, 'l cell) cell_type" where
  "User_c = \<lparr>Inj = (\<lambda>x. InUser (CUser x)), Proj = (\<lambda>c. case c of InUser (CUser x) \<Rightarrow> Some x | _ \<Rightarrow> None)\<rparr>"

definition UserList_c :: "('l mem_list, 'l cell) cell_type" where
  "UserList_c = \<lparr>Inj = (\<lambda>x. InUser (CUserList x)), Proj = (\<lambda>c. case c of InUser (CUserList x) \<Rightarrow> Some x | _ \<Rightarrow> None)\<rparr>"

definition UserItems_c :: "('l mem_user list, 'l cell) cell_type" where
  "UserItems_c = \<lparr>Inj = (\<lambda>x. InUser (CUserItems x)), Proj = (\<lambda>c. case c of InUser (CUserItems x) \<Rightarrow> Some x | _ \<Rightarrow> None)\<rparr>"

definition UserParameters_c :: "(mem_user_params, 'l cell) cell_type" where
  "UserParameters_c = \<lparr>Inj = (\<lambda>x. InUser (CUserParameters x)), Proj = (\<lambda>c. case c of InUser (CUserParameters x) \<Rightarrow> Some x | _ \<Rightarrow> None)\<rparr>"

definition UserProviderStatus_c :: "(user_provider_status, 'l cell) cell_type" where
  "UserProviderStatus_c = \<lparr>Inj = (\<lambda>x. InUser (CUserProviderStatus x)), Proj = (\<lambda>c. case c of InUser (CUserProviderStatus x) \<Rightarrow> Some x | _ \<Rightarrow> None)\<rparr>"

definition UserSpec_c :: "('l mem_user_spec, 'l cell) cell_type" where
  "UserSpec_c = \<lparr>Inj = (\<lambda>x. InUser (CUserSpec x)), Proj = (\<lambda>c. case c of InUser (CUserSpec x) \<Rightarrow> Some x | _ \<Rightarrow> None)\<rparr>"

definition UserStatus_c :: "('l mem_user_status, 'l cell) cell_type" where
  "UserStatus_c = \<lparr>Inj = (\<lambda>x. InUser (CUserStatus x)), Proj = (\<lambda>c. case c of InUser (CUserStatus x) \<Rightarrow> Some x | _ \<Rightarrow> None)\<rparr>"

definition ProviderConfig_c :: "('l mem_provider_config, 'l cell) cell_type" where
  "ProviderConfig_c = \<lparr>Inj = (\<lambda>x. InProvider (CProviderConfig x)), Proj = (\<lambda>c. case c of InProvider (CProviderConfig x) \<Rightarrow> Some x | _ \<Rightarrow> None)\<rparr>"

definition ProviderConfigList_c :: "('l mem_list, 'l cell) cell_type" where
  "ProviderConfigList_c = \<lparr>Inj = (\<lambda>x. InProvider (CProviderConfigList x)), Proj = (\<lambda>c. case c of InProvider (CProviderConfigList x) \<Rightarrow> Some x | _ \<Rightarrow> None)\<rparr>"

definition ProviderConfigItems_c :: "('l mem_provider_config list, 'l cell) cell_type" where
  "ProviderConfigItems_c = \<lparr>Inj = (\<lambda>x. InProvider (CProviderConfigItems x)), Proj = (\<lambda>c. case c of InProvider (CProviderConfigItems x) \<Rightarrow> Some x | _ \<Rightarrow> None)\<rparr>"

definition ProviderConfigSpec_c :: "('l mem_provider_config_spec, 'l cell) cell_type" where
  "ProviderConfigSpec_c = \<lparr>Inj = (\<lambda>x. InProvider (CProviderConfigSpec x)), Proj = (\<lambda>c. case c of InProvider (CProviderConfigSpec x) \<Rightarrow> Some x | _ \<Rightarrow> None)\<rparr>"

definition ProviderConfigStatus_c :: "('l mem_provider_config_status, 'l cell) cell_type" where
  "ProviderConfigStatus_c = \<lparr>Inj = (\<lambda>x. InProvider (CProviderConfigStatus x)), Proj = (\<lambda>c. case c of InProvider (CProviderConfigStatus x) \<Rightarrow> Some x | _ \<Rightarrow> None)\<rparr>"

definition ProviderConfigUsage_c :: "('l mem_provider_config_usage, 'l cell) cell_type" where
  "ProviderConfigUsage_c = \<lparr>Inj = (\<lambda>x. InProvider (CProviderConfigUsage x)), Proj = (\<lambda>c. case c of InProvider (CProviderConfigUsage x) \<Rightarrow> Some x | _ \<Rightarrow> None)\<rparr>"

definition ProviderConfigUsageList_c :: "('l mem_list, 'l cell) cell_type" where
  "ProviderConfigUsageList_c = \<lparr>Inj = (\<lambda>x. InProvider (CProviderConfigUsageList x)), Proj = (\<lambda>c. case c of InProvider (CProviderConfigUsageList x) \<Rightarrow> Some x | _ \<Rightarrow> None)\<rparr>"

definition ProviderConfigUsageItems_c :: "('l mem_provider_config_usage list, 'l cell) cell_type" where
  "ProviderConfigUsageItems_c = \<lparr>Inj = (\<lambda>x. InProvider (CProviderConfigUsageItems x)), Proj = (\<lambda>c. case c of InProvider (CProviderConfigUsageItems x) \<Rightarrow> Some x | _ \<Rightarrow> None)\<rparr>"

definition ProviderCredentials_c :: "('l mem_provider_credentials, 'l cell) cell_type" where
  "ProviderCredentials_c = \<lparr>Inj = (\<lambda>x. InProvider (CProviderCredentials x)), Proj = (\<lambda>c. case c of InProvider (CProviderCredentials x) \<Rightarrow> Some x | _ \<Rightarrow> None)\<rparr>"

definition TLSConfig_c :: "(mem_tls, 'l cell) cell_type" where
  "TLSConfig_c = \<lparr>Inj = (\<lambda>x. InProvider (CTLSConfig x)), Proj = (\<lambda>c. case c of InProvider (CTLSConfig x) \<Rightarrow> Some x | _ \<Rightarrow> None)\<rparr>"

lemmas cell_type_defs =
  Lib_c_def Str_c_def Strs_c_def StrMap_c_def SecretRef_c_def Bucket_c_def
  BucketList_c_def BucketItems_c_def BucketParameters_c_def BucketProviderStatus_c_def BucketSpec_c_def BucketStatus_c_def
  NotificationConfiguration_c_def NotificationConfigurationList_c_def NotificationConfigurationItems_c_def NotificationConfigurationParameters_c_def NotificationConfigurationProviderStatus_c_def NotificationConfigurationSpec_c_def
  NotificationConfigurationStatus_c_def NotificationFilter_c_def KeyFilter_c_def FilterRule_c_def FilterRules_c_def QueueConfiguration_c_def
  TopicConfiguration_c_def WebhookConfiguration_c_def Policy_c_def PolicyList_c_def PolicyItems_c_def PolicyParameters_c_def
  PolicyProviderStatus_c_def PolicySpec_c_def PolicyStatus_c_def ServiceAccount_c_def ServiceAccountList_c_def ServiceAccountItems_c_def
  ServiceAccountParameters_c_def ServiceAccountProviderStatus_c_def ServiceAccountSpec_c_def ServiceAccountStatus_c_def User_c_def UserList_c_def
  UserItems_c_def UserParameters_c_def UserProviderStatus_c_def UserSpec_c_def UserStatus_c_def ProviderConfig_c_def
  ProviderConfigList_c_def ProviderConfigItems_c_def ProviderConfigSpec_c_def ProviderConfigStatus_c_def ProviderConfigUsage_c_def ProviderConfigUsageList_c_def
  ProviderConfigUsageItems_c_def ProviderCredentials_c_def TLSConfig_c_def

lemma proper_cells:
  "proper_cell Lib_c" "proper_cell Str_c" "proper_cell Strs_c" "proper_cell StrMap_c"
  "proper_cell SecretRef_c" "proper_cell Bucket_c" "proper_cell BucketList_c" "proper_cell BucketItems_c"
  "proper_cell BucketParameters_c" "proper_cell BucketProviderStatus_c" "proper_cell BucketSpec_c" "proper_cell BucketStatus_c"
  "proper_cell NotificationConfiguration_c" "proper_cell NotificationConfigurationList_c" "proper_cell NotificationConfigurationItems_c" "proper_cell NotificationConfigurationParameters_c"
  "proper_cell NotificationConfigurationProviderStatus_c" "proper_cell NotificationConfigurationSpec_c" "proper_cell NotificationConfigurationStatus_c" "proper_cell NotificationFilter_c"
  "proper_cell KeyFilter_c" "proper_cell FilterRule_c" "proper_cell FilterRules_c" "proper_cell QueueConfiguration_c"
  "proper_cell TopicConfiguration_c" "proper_cell WebhookConfiguration_c" "proper_cell Policy_c" "proper_cell PolicyList_c"
  "proper_cell PolicyItems_c" "proper_cell PolicyParameters_c" "proper_cell PolicyProviderStatus_c" "proper_cell PolicySpec_c"
  "proper_cell PolicyStatus_c" "proper_cell ServiceAccount_c" "proper_cell ServiceAccountList_c" "proper_cell ServiceAccountItems_c"
  "proper_cell ServiceAccountParameters_c" "proper_cell ServiceAccountProviderStatus_c" "proper_cell ServiceAccountSpec_c" "proper_cell ServiceAccountStatus_c"
  "proper_cell User_c" "proper_cell UserList_c" "proper_cell UserItems_c" "proper_cell UserParameters_c"
  "proper_cell UserProviderStatus_c" "proper_cell UserSpec_c" "proper_cell UserStatus_c" "proper_cell ProviderConfig_c"
  "proper_cell ProviderConfigList_c" "proper_cell ProviderConfigItems_c" "proper_cell ProviderConfigSpec_c" "proper_cell ProviderConfigStatus_c"
  "proper_cell ProviderConfigUsage_c" "proper_cell ProviderConfigUsageList_c" "proper_cell ProviderConfigUsageItems_c" "proper_cell ProviderCredentials_c"
  "proper_cell TLSConfig_c"
  by (simp_all add: proper_cell_def cell_type_defs)

section \<open>The libraries\<close>

text \<open>
  What an embedded library struct reads as is fixed by the resources of theory \<open>Resources\<close>; the
  metadata of a list is read as its text.
\<close>

record 'l golib =
  ObjectMeta_lib :: "('l, object_meta, 'l cell) copier"
  ListMeta_lib :: "('l, string, 'l cell) copier"
  ManagedResourceSpec_lib :: "('l, managed_spec, 'l cell) copier"
  ConditionedStatus_lib :: "('l, condition list, 'l cell) copier"
  Time_lib :: "(addr option, instant option, 'l cell) copier"
  SecretKeySelector_lib :: "('l, key_selector, 'l cell) copier"
  ConfigMapKeySelector_lib :: "('l, key_selector, 'l cell) copier"
  CommonCredentialSelectors_lib :: "('l, secret_key_reference option, 'l cell) copier"
  ProviderConfigStatus_lib :: "('l, provider_config_status, 'l cell) copier"
  range_keys :: "(string, string) fmap \<Rightarrow> string list"

text \<open>
  The documented behaviour: their methods copy deeply, a nil \<^verbatim>\<open>*Time\<close> is no time, and \<^verbatim>\<open>range\<close>
  over a map visits every key.
\<close>

definition deep_golib :: "'l golib \<Rightarrow> bool" where
  "deep_golib L \<longleftrightarrow> deep_copier (ObjectMeta_lib L) \<and> deep_copier (ListMeta_lib L) \<and>
     deep_copier (ManagedResourceSpec_lib L) \<and> deep_copier (ConditionedStatus_lib L) \<and> deep_copier (Time_lib L) \<and>
     deep_copier (SecretKeySelector_lib L) \<and> deep_copier (ConfigMapKeySelector_lib L) \<and>
     deep_copier (CommonCredentialSelectors_lib L) \<and> deep_copier (ProviderConfigStatus_lib L) \<and>
     (\<forall>m. set (range_keys L m) = fset (fmdom m)) \<and>
     (\<forall>s. View (Time_lib L) s None = Some None \<and> Reach (Time_lib L) s None = {})"

lemma deep_golibD:
  assumes "deep_golib L"
  shows "deep_copier (ObjectMeta_lib L)" "deep_copier (ListMeta_lib L)" "deep_copier (ManagedResourceSpec_lib L)"
    "deep_copier (ConditionedStatus_lib L)" "deep_copier (Time_lib L)" "deep_copier (SecretKeySelector_lib L)"
    "deep_copier (ConfigMapKeySelector_lib L)" "deep_copier (CommonCredentialSelectors_lib L)"
    "deep_copier (ProviderConfigStatus_lib L)" "set (range_keys L m) = fset (fmdom m)"
    "View (Time_lib L) s None = Some None" "Reach (Time_lib L) s None = {}"
  using assms by (simp_all add: deep_golib_def)

section \<open>Shapes of the generated functions\<close>

text \<open>
  \<^verbatim>\<open>for key, val := range *in { (*out)[key] = val }\<close> into a new map, and a field of type
  \<^verbatim>\<open>*metav1.Time\<close>, which the library copies when it is not nil.
\<close>

definition copy_entries :: "'l golib \<Rightarrow> (string, string) fmap \<Rightarrow> (string, string) fmap" where
  "copy_entries L m = fold (\<lambda>key out. case fmlookup m key of None \<Rightarrow> out | Some val \<Rightarrow> fmupd key val out) (range_keys L m) fmempty"

definition copy_map :: "'l golib \<Rightarrow> (string, string) fmap \<Rightarrow> 'l cell store \<Rightarrow> (string, string) fmap \<times> 'l cell store" where
  "copy_map L m s = (copy_entries L m, s)"

definition copy_time :: "'l golib \<Rightarrow> addr option \<Rightarrow> 'l cell store \<Rightarrow> addr option \<times> 'l cell store" where
  "copy_time L p s = (if p = None then (None, s) else Copy (Time_lib L) p s)"

text \<open>
  An object, a specification, a status and a list: after \<^verbatim>\<open>*out = *in\<close> the parts are copied in the
  order of the fields. A specification or status whose second part has no pointers assigns it:
  there \<open>cp\<close> is \<open>Pair\<close>.
\<close>

definition copy_object :: "'l golib \<Rightarrow> ('s \<Rightarrow> 'l cell store \<Rightarrow> 's \<times> 'l cell store) \<Rightarrow> ('t \<Rightarrow> 'l cell store \<Rightarrow> 't \<times> 'l cell store) \<Rightarrow>
    ('l, 's, 't) mem_object \<Rightarrow> 'l cell store \<Rightarrow> ('l, 's, 't) mem_object \<times> 'l cell store" where
  "copy_object L cp_spec cp_status x s =
     (let (m, s1) = Copy (ObjectMeta_lib L) (mo_ObjectMeta x) s;
          (sp, s2) = cp_spec (mo_Spec x) s1;
          (st, s3) = cp_status (mo_Status x) s2
      in (x\<lparr>mo_TypeMeta := mo_TypeMeta x, mo_ObjectMeta := m, mo_Spec := sp, mo_Status := st\<rparr>, s3))"

definition copy_spec :: "'l golib \<Rightarrow> ('p \<Rightarrow> 'l cell store \<Rightarrow> 'p \<times> 'l cell store) \<Rightarrow>
    ('l, 'p) mem_spec \<Rightarrow> 'l cell store \<Rightarrow> ('l, 'p) mem_spec \<times> 'l cell store" where
  "copy_spec L cp x s =
     (let (m, s1) = Copy (ManagedResourceSpec_lib L) (mo_ManagedResourceSpec x) s;
          (p, s2) = cp (mo_ForProvider x) s1
      in (x\<lparr>mo_ManagedResourceSpec := m, mo_ForProvider := p\<rparr>, s2))"

definition copy_status :: "'l golib \<Rightarrow> ('a \<Rightarrow> 'l cell store \<Rightarrow> 'a \<times> 'l cell store) \<Rightarrow>
    ('l, 'a, 'z) mem_status_scheme \<Rightarrow> 'l cell store \<Rightarrow> ('l, 'a, 'z) mem_status_scheme \<times> 'l cell store" where
  "copy_status L cp x s =
     (let (c, s1) = Copy (ConditionedStatus_lib L) (mo_ConditionedStatus x) s;
          (a, s2) = cp (mo_AtProvider x) s1
      in (x\<lparr>mo_ConditionedStatus := c, mo_AtProvider := a\<rparr>, s2))"

definition copy_items :: "'l golib \<Rightarrow> ('x list, 'l cell) cell_type \<Rightarrow> ('x \<Rightarrow> 'l cell store \<Rightarrow> 'x \<times> 'l cell store) \<Rightarrow>
    'l mem_list \<Rightarrow> 'l cell store \<Rightarrow> 'l mem_list \<times> 'l cell store" where
  "copy_items L k cp x s =
     (let (m, s1) = Copy (ListMeta_lib L) (mo_ListMeta x) s;
          (items, s2) = copy_ptr k (copy_list cp) (mo_Items x) s1
      in (x\<lparr>mo_ListTypeMeta := mo_ListTypeMeta x, mo_ListMeta := m, mo_Items := items\<rparr>, s2))"

text \<open>
  A value of the interface type \<^verbatim>\<open>runtime.Object\<close>: its dynamic type with a pointer, which may be
  nil; the nil interface is \<open>None\<close> of the option type.
\<close>

datatype runtime_object =
    Bucket_o "addr option"
  | BucketList_o "addr option"
  | NotificationConfiguration_o "addr option"
  | NotificationConfigurationList_o "addr option"
  | Policy_o "addr option"
  | PolicyList_o "addr option"
  | ServiceAccount_o "addr option"
  | ServiceAccountList_o "addr option"
  | User_o "addr option"
  | UserList_o "addr option"
  | ProviderConfig_o "addr option"
  | ProviderConfigList_o "addr option"
  | ProviderConfigUsage_o "addr option"
  | ProviderConfigUsageList_o "addr option"

section \<open>apis/common\<close>

definition DeepCopyInto_TLSConfig :: "'l golib \<Rightarrow> mem_tls \<Rightarrow> 'l cell store \<Rightarrow> mem_tls \<times> 'l cell store" where
  "DeepCopyInto_TLSConfig L x s =
     (let (ca, s1) = copy_ptr Lib_c (Copy (SecretKeySelector_lib L)) (mt_CASecretRef x) s;
          (cm, s2) = copy_ptr Lib_c (Copy (ConfigMapKeySelector_lib L)) (mt_CAConfigMapRef x) s1;
          (cert, s3) = copy_ptr Lib_c (Copy (SecretKeySelector_lib L)) (mt_ClientCertSecretRef x) s2;
          (key, s4) = copy_ptr Lib_c (Copy (SecretKeySelector_lib L)) (mt_ClientKeySecretRef x) s3
      in (x\<lparr>mt_CASecretRef := ca, mt_CAConfigMapRef := cm, mt_ClientCertSecretRef := cert, mt_ClientKeySecretRef := key\<rparr>, s4))"

definition DeepCopy_TLSConfig :: "'l golib \<Rightarrow> addr option \<Rightarrow> 'l cell store \<Rightarrow> addr option \<times> 'l cell store" where
  "DeepCopy_TLSConfig L = copy_ptr TLSConfig_c (DeepCopyInto_TLSConfig L)"

section \<open>apis/minio/v1beta1\<close>

definition DeepCopyInto_BucketParameters :: "'l golib \<Rightarrow> mem_bucket_params \<Rightarrow> 'l cell store \<Rightarrow> mem_bucket_params \<times> 'l cell store" where
  "DeepCopyInto_BucketParameters L x s =
     (let (policy, s1) = copy_ptr Str_c Pair (mb_Policy x) s;
          (tags, s2) = copy_ptr StrMap_c (copy_map L) (mb_Tags x) s1
      in (x\<lparr>mb_Policy := policy, mb_Tags := tags\<rparr>, s2))"

definition DeepCopy_BucketParameters :: "'l golib \<Rightarrow> addr option \<Rightarrow> 'l cell store \<Rightarrow> addr option \<times> 'l cell store" where
  "DeepCopy_BucketParameters L = copy_ptr BucketParameters_c (DeepCopyInto_BucketParameters L)"

definition DeepCopyInto_BucketProviderStatus :: "'l golib \<Rightarrow> bucket_provider_status \<Rightarrow> 'l cell store \<Rightarrow> bucket_provider_status \<times> 'l cell store" where
  "DeepCopyInto_BucketProviderStatus L x s = (x, s)"

definition DeepCopy_BucketProviderStatus :: "'l golib \<Rightarrow> addr option \<Rightarrow> 'l cell store \<Rightarrow> addr option \<times> 'l cell store" where
  "DeepCopy_BucketProviderStatus L = copy_ptr BucketProviderStatus_c (DeepCopyInto_BucketProviderStatus L)"

definition DeepCopyInto_BucketSpec :: "'l golib \<Rightarrow> 'l mem_bucket_spec \<Rightarrow> 'l cell store \<Rightarrow> ('l mem_bucket_spec) \<times> 'l cell store" where
  "DeepCopyInto_BucketSpec L = copy_spec L (DeepCopyInto_BucketParameters L)"

definition DeepCopy_BucketSpec :: "'l golib \<Rightarrow> addr option \<Rightarrow> 'l cell store \<Rightarrow> addr option \<times> 'l cell store" where
  "DeepCopy_BucketSpec L = copy_ptr BucketSpec_c (DeepCopyInto_BucketSpec L)"

definition DeepCopyInto_BucketStatus :: "'l golib \<Rightarrow> 'l mem_bucket_status \<Rightarrow> 'l cell store \<Rightarrow> ('l mem_bucket_status) \<times> 'l cell store" where
  "DeepCopyInto_BucketStatus L = copy_status L Pair"

definition DeepCopy_BucketStatus :: "'l golib \<Rightarrow> addr option \<Rightarrow> 'l cell store \<Rightarrow> addr option \<times> 'l cell store" where
  "DeepCopy_BucketStatus L = copy_ptr BucketStatus_c (DeepCopyInto_BucketStatus L)"

definition DeepCopyInto_Bucket :: "'l golib \<Rightarrow> 'l mem_bucket \<Rightarrow> 'l cell store \<Rightarrow> ('l mem_bucket) \<times> 'l cell store" where
  "DeepCopyInto_Bucket L = copy_object L (DeepCopyInto_BucketSpec L) (DeepCopyInto_BucketStatus L)"

definition DeepCopy_Bucket :: "'l golib \<Rightarrow> addr option \<Rightarrow> 'l cell store \<Rightarrow> addr option \<times> 'l cell store" where
  "DeepCopy_Bucket L = copy_ptr Bucket_c (DeepCopyInto_Bucket L)"

definition DeepCopyObject_Bucket :: "'l golib \<Rightarrow> addr option \<Rightarrow> 'l cell store \<Rightarrow> runtime_object option \<times> 'l cell store" where
  "DeepCopyObject_Bucket L p s = (case DeepCopy_Bucket L p s of (None, t) \<Rightarrow> (None, t) | (Some c, t) \<Rightarrow> (Some (Bucket_o (Some c)), t))"

definition DeepCopyInto_BucketList :: "'l golib \<Rightarrow> 'l mem_list \<Rightarrow> 'l cell store \<Rightarrow> ('l mem_list) \<times> 'l cell store" where
  "DeepCopyInto_BucketList L = copy_items L BucketItems_c (DeepCopyInto_Bucket L)"

definition DeepCopy_BucketList :: "'l golib \<Rightarrow> addr option \<Rightarrow> 'l cell store \<Rightarrow> addr option \<times> 'l cell store" where
  "DeepCopy_BucketList L = copy_ptr BucketList_c (DeepCopyInto_BucketList L)"

definition DeepCopyObject_BucketList :: "'l golib \<Rightarrow> addr option \<Rightarrow> 'l cell store \<Rightarrow> runtime_object option \<times> 'l cell store" where
  "DeepCopyObject_BucketList L p s = (case DeepCopy_BucketList L p s of (None, t) \<Rightarrow> (None, t) | (Some c, t) \<Rightarrow> (Some (BucketList_o (Some c)), t))"

definition DeepCopyInto_FilterRule :: "'l golib \<Rightarrow> filter_rule \<Rightarrow> 'l cell store \<Rightarrow> filter_rule \<times> 'l cell store" where
  "DeepCopyInto_FilterRule L x s = (x, s)"

definition DeepCopy_FilterRule :: "'l golib \<Rightarrow> addr option \<Rightarrow> 'l cell store \<Rightarrow> addr option \<times> 'l cell store" where
  "DeepCopy_FilterRule L = copy_ptr FilterRule_c (DeepCopyInto_FilterRule L)"

definition DeepCopyInto_KeyFilter :: "'l golib \<Rightarrow> mem_key_filter \<Rightarrow> 'l cell store \<Rightarrow> mem_key_filter \<times> 'l cell store" where
  "DeepCopyInto_KeyFilter L x s =
     (let (rules, s1) = copy_ptr FilterRules_c Pair (mk_FilterRules x) s
      in (x\<lparr>mk_FilterRules := rules\<rparr>, s1))"

definition DeepCopy_KeyFilter :: "'l golib \<Rightarrow> addr option \<Rightarrow> 'l cell store \<Rightarrow> addr option \<times> 'l cell store" where
  "DeepCopy_KeyFilter L = copy_ptr KeyFilter_c (DeepCopyInto_KeyFilter L)"

definition DeepCopyInto_NotificationFilter :: "'l golib \<Rightarrow> mem_notification_filter \<Rightarrow> 'l cell store \<Rightarrow> mem_notification_filter \<times> 'l cell store" where
  "DeepCopyInto_NotificationFilter L x s =
     (let (key, s1) = copy_ptr KeyFilter_c (DeepCopyInto_KeyFilter L) (mf_Key x) s
      in (x\<lparr>mf_Key := key\<rparr>, s1))"

definition DeepCopy_NotificationFilter :: "'l golib \<Rightarrow> addr option \<Rightarrow> 'l cell store \<Rightarrow> addr option \<times> 'l cell store" where
  "DeepCopy_NotificationFilter L = copy_ptr NotificationFilter_c (DeepCopyInto_NotificationFilter L)"

definition DeepCopyInto_QueueConfiguration :: "'l golib \<Rightarrow> target_configuration \<Rightarrow> 'l cell store \<Rightarrow> target_configuration \<times> 'l cell store" where
  "DeepCopyInto_QueueConfiguration L x s = (x, s)"

definition DeepCopy_QueueConfiguration :: "'l golib \<Rightarrow> addr option \<Rightarrow> 'l cell store \<Rightarrow> addr option \<times> 'l cell store" where
  "DeepCopy_QueueConfiguration L = copy_ptr QueueConfiguration_c (DeepCopyInto_QueueConfiguration L)"

definition DeepCopyInto_TopicConfiguration :: "'l golib \<Rightarrow> target_configuration \<Rightarrow> 'l cell store \<Rightarrow> target_configuration \<times> 'l cell store" where
  "DeepCopyInto_TopicConfiguration L x s = (x, s)"

definition DeepCopy_TopicConfiguration :: "'l golib \<Rightarrow> addr option \<Rightarrow> 'l cell store \<Rightarrow> addr option \<times> 'l cell store" where
  "DeepCopy_TopicConfiguration L = copy_ptr TopicConfiguration_c (DeepCopyInto_TopicConfiguration L)"

definition DeepCopyInto_WebhookConfiguration :: "'l golib \<Rightarrow> mem_webhook_configuration \<Rightarrow> 'l cell store \<Rightarrow> mem_webhook_configuration \<times> 'l cell store" where
  "DeepCopyInto_WebhookConfiguration L x s =
     (let (token, s1) = copy_ptr Str_c Pair (mw_AuthToken x) s;
          (agent, s2) = copy_ptr Str_c Pair (mw_UserAgent x) s1
      in (x\<lparr>mw_AuthToken := token, mw_UserAgent := agent\<rparr>, s2))"

definition DeepCopy_WebhookConfiguration :: "'l golib \<Rightarrow> addr option \<Rightarrow> 'l cell store \<Rightarrow> addr option \<times> 'l cell store" where
  "DeepCopy_WebhookConfiguration L = copy_ptr WebhookConfiguration_c (DeepCopyInto_WebhookConfiguration L)"

definition DeepCopyInto_NotificationConfigurationParameters :: "'l golib \<Rightarrow> mem_notification_params \<Rightarrow> 'l cell store \<Rightarrow> mem_notification_params \<times> 'l cell store" where
  "DeepCopyInto_NotificationConfigurationParameters L x s =
     (let (webhook, s1) = copy_ptr WebhookConfiguration_c (DeepCopyInto_WebhookConfiguration L) (mn_WebhookConfiguration x) s;
          (queue, s2) = copy_ptr QueueConfiguration_c Pair (mn_QueueConfiguration x) s1;
          (topic, s3) = copy_ptr TopicConfiguration_c Pair (mn_TopicConfiguration x) s2;
          (events, s4) = copy_ptr Strs_c Pair (mn_Events x) s3;
          (flt, s5) = copy_ptr NotificationFilter_c (DeepCopyInto_NotificationFilter L) (mn_Filter x) s4
      in (x\<lparr>mn_WebhookConfiguration := webhook, mn_QueueConfiguration := queue, mn_TopicConfiguration := topic, mn_Events := events, mn_Filter := flt\<rparr>, s5))"

definition DeepCopy_NotificationConfigurationParameters :: "'l golib \<Rightarrow> addr option \<Rightarrow> 'l cell store \<Rightarrow> addr option \<times> 'l cell store" where
  "DeepCopy_NotificationConfigurationParameters L = copy_ptr NotificationConfigurationParameters_c (DeepCopyInto_NotificationConfigurationParameters L)"

definition DeepCopyInto_NotificationConfigurationProviderStatus :: "'l golib \<Rightarrow> mem_notification_provider_status \<Rightarrow> 'l cell store \<Rightarrow> mem_notification_provider_status \<times> 'l cell store" where
  "DeepCopyInto_NotificationConfigurationProviderStatus L x s =
     (let (time, s1) = copy_time L (mn_LastUpdated x) s
      in (x\<lparr>mn_LastUpdated := time\<rparr>, s1))"

definition DeepCopy_NotificationConfigurationProviderStatus :: "'l golib \<Rightarrow> addr option \<Rightarrow> 'l cell store \<Rightarrow> addr option \<times> 'l cell store" where
  "DeepCopy_NotificationConfigurationProviderStatus L = copy_ptr NotificationConfigurationProviderStatus_c (DeepCopyInto_NotificationConfigurationProviderStatus L)"

definition DeepCopyInto_NotificationConfigurationSpec :: "'l golib \<Rightarrow> 'l mem_notification_spec \<Rightarrow> 'l cell store \<Rightarrow> ('l mem_notification_spec) \<times> 'l cell store" where
  "DeepCopyInto_NotificationConfigurationSpec L = copy_spec L (DeepCopyInto_NotificationConfigurationParameters L)"

definition DeepCopy_NotificationConfigurationSpec :: "'l golib \<Rightarrow> addr option \<Rightarrow> 'l cell store \<Rightarrow> addr option \<times> 'l cell store" where
  "DeepCopy_NotificationConfigurationSpec L = copy_ptr NotificationConfigurationSpec_c (DeepCopyInto_NotificationConfigurationSpec L)"

definition DeepCopyInto_NotificationConfigurationStatus :: "'l golib \<Rightarrow> 'l mem_notification_status \<Rightarrow> 'l cell store \<Rightarrow> ('l mem_notification_status) \<times> 'l cell store" where
  "DeepCopyInto_NotificationConfigurationStatus L = copy_status L (DeepCopyInto_NotificationConfigurationProviderStatus L)"

definition DeepCopy_NotificationConfigurationStatus :: "'l golib \<Rightarrow> addr option \<Rightarrow> 'l cell store \<Rightarrow> addr option \<times> 'l cell store" where
  "DeepCopy_NotificationConfigurationStatus L = copy_ptr NotificationConfigurationStatus_c (DeepCopyInto_NotificationConfigurationStatus L)"

definition DeepCopyInto_NotificationConfiguration :: "'l golib \<Rightarrow> 'l mem_notification \<Rightarrow> 'l cell store \<Rightarrow> ('l mem_notification) \<times> 'l cell store" where
  "DeepCopyInto_NotificationConfiguration L = copy_object L (DeepCopyInto_NotificationConfigurationSpec L) (DeepCopyInto_NotificationConfigurationStatus L)"

definition DeepCopy_NotificationConfiguration :: "'l golib \<Rightarrow> addr option \<Rightarrow> 'l cell store \<Rightarrow> addr option \<times> 'l cell store" where
  "DeepCopy_NotificationConfiguration L = copy_ptr NotificationConfiguration_c (DeepCopyInto_NotificationConfiguration L)"

definition DeepCopyObject_NotificationConfiguration :: "'l golib \<Rightarrow> addr option \<Rightarrow> 'l cell store \<Rightarrow> runtime_object option \<times> 'l cell store" where
  "DeepCopyObject_NotificationConfiguration L p s = (case DeepCopy_NotificationConfiguration L p s of (None, t) \<Rightarrow> (None, t) | (Some c, t) \<Rightarrow> (Some (NotificationConfiguration_o (Some c)), t))"

definition DeepCopyInto_NotificationConfigurationList :: "'l golib \<Rightarrow> 'l mem_list \<Rightarrow> 'l cell store \<Rightarrow> ('l mem_list) \<times> 'l cell store" where
  "DeepCopyInto_NotificationConfigurationList L = copy_items L NotificationConfigurationItems_c (DeepCopyInto_NotificationConfiguration L)"

definition DeepCopy_NotificationConfigurationList :: "'l golib \<Rightarrow> addr option \<Rightarrow> 'l cell store \<Rightarrow> addr option \<times> 'l cell store" where
  "DeepCopy_NotificationConfigurationList L = copy_ptr NotificationConfigurationList_c (DeepCopyInto_NotificationConfigurationList L)"

definition DeepCopyObject_NotificationConfigurationList :: "'l golib \<Rightarrow> addr option \<Rightarrow> 'l cell store \<Rightarrow> runtime_object option \<times> 'l cell store" where
  "DeepCopyObject_NotificationConfigurationList L p s = (case DeepCopy_NotificationConfigurationList L p s of (None, t) \<Rightarrow> (None, t) | (Some c, t) \<Rightarrow> (Some (NotificationConfigurationList_o (Some c)), t))"

definition DeepCopyInto_PolicyParameters :: "'l golib \<Rightarrow> policy_params \<Rightarrow> 'l cell store \<Rightarrow> policy_params \<times> 'l cell store" where
  "DeepCopyInto_PolicyParameters L x s = (x, s)"

definition DeepCopy_PolicyParameters :: "'l golib \<Rightarrow> addr option \<Rightarrow> 'l cell store \<Rightarrow> addr option \<times> 'l cell store" where
  "DeepCopy_PolicyParameters L = copy_ptr PolicyParameters_c (DeepCopyInto_PolicyParameters L)"

definition DeepCopyInto_PolicyProviderStatus :: "'l golib \<Rightarrow> policy_provider_status \<Rightarrow> 'l cell store \<Rightarrow> policy_provider_status \<times> 'l cell store" where
  "DeepCopyInto_PolicyProviderStatus L x s = (x, s)"

definition DeepCopy_PolicyProviderStatus :: "'l golib \<Rightarrow> addr option \<Rightarrow> 'l cell store \<Rightarrow> addr option \<times> 'l cell store" where
  "DeepCopy_PolicyProviderStatus L = copy_ptr PolicyProviderStatus_c (DeepCopyInto_PolicyProviderStatus L)"

definition DeepCopyInto_PolicySpec :: "'l golib \<Rightarrow> 'l mem_policy_spec \<Rightarrow> 'l cell store \<Rightarrow> ('l mem_policy_spec) \<times> 'l cell store" where
  "DeepCopyInto_PolicySpec L = copy_spec L Pair"

definition DeepCopy_PolicySpec :: "'l golib \<Rightarrow> addr option \<Rightarrow> 'l cell store \<Rightarrow> addr option \<times> 'l cell store" where
  "DeepCopy_PolicySpec L = copy_ptr PolicySpec_c (DeepCopyInto_PolicySpec L)"

definition DeepCopyInto_PolicyStatus :: "'l golib \<Rightarrow> 'l mem_policy_status \<Rightarrow> 'l cell store \<Rightarrow> ('l mem_policy_status) \<times> 'l cell store" where
  "DeepCopyInto_PolicyStatus L = copy_status L Pair"

definition DeepCopy_PolicyStatus :: "'l golib \<Rightarrow> addr option \<Rightarrow> 'l cell store \<Rightarrow> addr option \<times> 'l cell store" where
  "DeepCopy_PolicyStatus L = copy_ptr PolicyStatus_c (DeepCopyInto_PolicyStatus L)"

definition DeepCopyInto_Policy :: "'l golib \<Rightarrow> 'l mem_policy \<Rightarrow> 'l cell store \<Rightarrow> ('l mem_policy) \<times> 'l cell store" where
  "DeepCopyInto_Policy L = copy_object L (DeepCopyInto_PolicySpec L) (DeepCopyInto_PolicyStatus L)"

definition DeepCopy_Policy :: "'l golib \<Rightarrow> addr option \<Rightarrow> 'l cell store \<Rightarrow> addr option \<times> 'l cell store" where
  "DeepCopy_Policy L = copy_ptr Policy_c (DeepCopyInto_Policy L)"

definition DeepCopyObject_Policy :: "'l golib \<Rightarrow> addr option \<Rightarrow> 'l cell store \<Rightarrow> runtime_object option \<times> 'l cell store" where
  "DeepCopyObject_Policy L p s = (case DeepCopy_Policy L p s of (None, t) \<Rightarrow> (None, t) | (Some c, t) \<Rightarrow> (Some (Policy_o (Some c)), t))"

definition DeepCopyInto_PolicyList :: "'l golib \<Rightarrow> 'l mem_list \<Rightarrow> 'l cell store \<Rightarrow> ('l mem_list) \<times> 'l cell store" where
  "DeepCopyInto_PolicyList L = copy_items L PolicyItems_c (DeepCopyInto_Policy L)"

definition DeepCopy_PolicyList :: "'l golib \<Rightarrow> addr option \<Rightarrow> 'l cell store \<Rightarrow> addr option \<times> 'l cell store" where
  "DeepCopy_PolicyList L = copy_ptr PolicyList_c (DeepCopyInto_PolicyList L)"

definition DeepCopyObject_PolicyList :: "'l golib \<Rightarrow> addr option \<Rightarrow> 'l cell store \<Rightarrow> runtime_object option \<times> 'l cell store" where
  "DeepCopyObject_PolicyList L p s = (case DeepCopy_PolicyList L p s of (None, t) \<Rightarrow> (None, t) | (Some c, t) \<Rightarrow> (Some (PolicyList_o (Some c)), t))"

definition DeepCopyInto_ServiceAccountParameters :: "'l golib \<Rightarrow> mem_service_account_params \<Rightarrow> 'l cell store \<Rightarrow> mem_service_account_params \<times> 'l cell store" where
  "DeepCopyInto_ServiceAccountParameters L x s =
     (let (time, s1) = copy_time L (ms_Expiration x) s;
          (ref, s2) = copy_ptr SecretRef_c Pair (ms_WriteConnectionSecretsToRef x) s1
      in (x\<lparr>ms_Expiration := time, ms_WriteConnectionSecretsToRef := ref\<rparr>, s2))"

definition DeepCopy_ServiceAccountParameters :: "'l golib \<Rightarrow> addr option \<Rightarrow> 'l cell store \<Rightarrow> addr option \<times> 'l cell store" where
  "DeepCopy_ServiceAccountParameters L = copy_ptr ServiceAccountParameters_c (DeepCopyInto_ServiceAccountParameters L)"

definition DeepCopyInto_ServiceAccountProviderStatus :: "'l golib \<Rightarrow> mem_service_account_provider_status \<Rightarrow> 'l cell store \<Rightarrow> mem_service_account_provider_status \<times> 'l cell store" where
  "DeepCopyInto_ServiceAccountProviderStatus L x s =
     (let (time, s1) = copy_time L (ms_StatusExpiration x) s
      in (x\<lparr>ms_StatusExpiration := time\<rparr>, s1))"

definition DeepCopy_ServiceAccountProviderStatus :: "'l golib \<Rightarrow> addr option \<Rightarrow> 'l cell store \<Rightarrow> addr option \<times> 'l cell store" where
  "DeepCopy_ServiceAccountProviderStatus L = copy_ptr ServiceAccountProviderStatus_c (DeepCopyInto_ServiceAccountProviderStatus L)"

definition DeepCopyInto_ServiceAccountSpec :: "'l golib \<Rightarrow> 'l mem_service_account_spec \<Rightarrow> 'l cell store \<Rightarrow> ('l mem_service_account_spec) \<times> 'l cell store" where
  "DeepCopyInto_ServiceAccountSpec L = copy_spec L (DeepCopyInto_ServiceAccountParameters L)"

definition DeepCopy_ServiceAccountSpec :: "'l golib \<Rightarrow> addr option \<Rightarrow> 'l cell store \<Rightarrow> addr option \<times> 'l cell store" where
  "DeepCopy_ServiceAccountSpec L = copy_ptr ServiceAccountSpec_c (DeepCopyInto_ServiceAccountSpec L)"

definition DeepCopyInto_ServiceAccountStatus :: "'l golib \<Rightarrow> 'l mem_service_account_status \<Rightarrow> 'l cell store \<Rightarrow> ('l mem_service_account_status) \<times> 'l cell store" where
  "DeepCopyInto_ServiceAccountStatus L = copy_status L (DeepCopyInto_ServiceAccountProviderStatus L)"

definition DeepCopy_ServiceAccountStatus :: "'l golib \<Rightarrow> addr option \<Rightarrow> 'l cell store \<Rightarrow> addr option \<times> 'l cell store" where
  "DeepCopy_ServiceAccountStatus L = copy_ptr ServiceAccountStatus_c (DeepCopyInto_ServiceAccountStatus L)"

definition DeepCopyInto_ServiceAccount :: "'l golib \<Rightarrow> 'l mem_service_account \<Rightarrow> 'l cell store \<Rightarrow> ('l mem_service_account) \<times> 'l cell store" where
  "DeepCopyInto_ServiceAccount L = copy_object L (DeepCopyInto_ServiceAccountSpec L) (DeepCopyInto_ServiceAccountStatus L)"

definition DeepCopy_ServiceAccount :: "'l golib \<Rightarrow> addr option \<Rightarrow> 'l cell store \<Rightarrow> addr option \<times> 'l cell store" where
  "DeepCopy_ServiceAccount L = copy_ptr ServiceAccount_c (DeepCopyInto_ServiceAccount L)"

definition DeepCopyObject_ServiceAccount :: "'l golib \<Rightarrow> addr option \<Rightarrow> 'l cell store \<Rightarrow> runtime_object option \<times> 'l cell store" where
  "DeepCopyObject_ServiceAccount L p s = (case DeepCopy_ServiceAccount L p s of (None, t) \<Rightarrow> (None, t) | (Some c, t) \<Rightarrow> (Some (ServiceAccount_o (Some c)), t))"

definition DeepCopyInto_ServiceAccountList :: "'l golib \<Rightarrow> 'l mem_list \<Rightarrow> 'l cell store \<Rightarrow> ('l mem_list) \<times> 'l cell store" where
  "DeepCopyInto_ServiceAccountList L = copy_items L ServiceAccountItems_c (DeepCopyInto_ServiceAccount L)"

definition DeepCopy_ServiceAccountList :: "'l golib \<Rightarrow> addr option \<Rightarrow> 'l cell store \<Rightarrow> addr option \<times> 'l cell store" where
  "DeepCopy_ServiceAccountList L = copy_ptr ServiceAccountList_c (DeepCopyInto_ServiceAccountList L)"

definition DeepCopyObject_ServiceAccountList :: "'l golib \<Rightarrow> addr option \<Rightarrow> 'l cell store \<Rightarrow> runtime_object option \<times> 'l cell store" where
  "DeepCopyObject_ServiceAccountList L p s = (case DeepCopy_ServiceAccountList L p s of (None, t) \<Rightarrow> (None, t) | (Some c, t) \<Rightarrow> (Some (ServiceAccountList_o (Some c)), t))"

definition DeepCopyInto_UserParameters :: "'l golib \<Rightarrow> mem_user_params \<Rightarrow> 'l cell store \<Rightarrow> mem_user_params \<times> 'l cell store" where
  "DeepCopyInto_UserParameters L x s =
     (let (policies, s1) = copy_ptr Strs_c Pair (mu_Policies x) s
      in (x\<lparr>mu_Policies := policies\<rparr>, s1))"

definition DeepCopy_UserParameters :: "'l golib \<Rightarrow> addr option \<Rightarrow> 'l cell store \<Rightarrow> addr option \<times> 'l cell store" where
  "DeepCopy_UserParameters L = copy_ptr UserParameters_c (DeepCopyInto_UserParameters L)"

definition DeepCopyInto_UserProviderStatus :: "'l golib \<Rightarrow> user_provider_status \<Rightarrow> 'l cell store \<Rightarrow> user_provider_status \<times> 'l cell store" where
  "DeepCopyInto_UserProviderStatus L x s = (x, s)"

definition DeepCopy_UserProviderStatus :: "'l golib \<Rightarrow> addr option \<Rightarrow> 'l cell store \<Rightarrow> addr option \<times> 'l cell store" where
  "DeepCopy_UserProviderStatus L = copy_ptr UserProviderStatus_c (DeepCopyInto_UserProviderStatus L)"

definition DeepCopyInto_UserSpec :: "'l golib \<Rightarrow> 'l mem_user_spec \<Rightarrow> 'l cell store \<Rightarrow> ('l mem_user_spec) \<times> 'l cell store" where
  "DeepCopyInto_UserSpec L = copy_spec L (DeepCopyInto_UserParameters L)"

definition DeepCopy_UserSpec :: "'l golib \<Rightarrow> addr option \<Rightarrow> 'l cell store \<Rightarrow> addr option \<times> 'l cell store" where
  "DeepCopy_UserSpec L = copy_ptr UserSpec_c (DeepCopyInto_UserSpec L)"

definition DeepCopyInto_UserStatus :: "'l golib \<Rightarrow> 'l mem_user_status \<Rightarrow> 'l cell store \<Rightarrow> ('l mem_user_status) \<times> 'l cell store" where
  "DeepCopyInto_UserStatus L = copy_status L Pair"

definition DeepCopy_UserStatus :: "'l golib \<Rightarrow> addr option \<Rightarrow> 'l cell store \<Rightarrow> addr option \<times> 'l cell store" where
  "DeepCopy_UserStatus L = copy_ptr UserStatus_c (DeepCopyInto_UserStatus L)"

definition DeepCopyInto_User :: "'l golib \<Rightarrow> 'l mem_user \<Rightarrow> 'l cell store \<Rightarrow> ('l mem_user) \<times> 'l cell store" where
  "DeepCopyInto_User L = copy_object L (DeepCopyInto_UserSpec L) (DeepCopyInto_UserStatus L)"

definition DeepCopy_User :: "'l golib \<Rightarrow> addr option \<Rightarrow> 'l cell store \<Rightarrow> addr option \<times> 'l cell store" where
  "DeepCopy_User L = copy_ptr User_c (DeepCopyInto_User L)"

definition DeepCopyObject_User :: "'l golib \<Rightarrow> addr option \<Rightarrow> 'l cell store \<Rightarrow> runtime_object option \<times> 'l cell store" where
  "DeepCopyObject_User L p s = (case DeepCopy_User L p s of (None, t) \<Rightarrow> (None, t) | (Some c, t) \<Rightarrow> (Some (User_o (Some c)), t))"

definition DeepCopyInto_UserList :: "'l golib \<Rightarrow> 'l mem_list \<Rightarrow> 'l cell store \<Rightarrow> ('l mem_list) \<times> 'l cell store" where
  "DeepCopyInto_UserList L = copy_items L UserItems_c (DeepCopyInto_User L)"

definition DeepCopy_UserList :: "'l golib \<Rightarrow> addr option \<Rightarrow> 'l cell store \<Rightarrow> addr option \<times> 'l cell store" where
  "DeepCopy_UserList L = copy_ptr UserList_c (DeepCopyInto_UserList L)"

definition DeepCopyObject_UserList :: "'l golib \<Rightarrow> addr option \<Rightarrow> 'l cell store \<Rightarrow> runtime_object option \<times> 'l cell store" where
  "DeepCopyObject_UserList L p s = (case DeepCopy_UserList L p s of (None, t) \<Rightarrow> (None, t) | (Some c, t) \<Rightarrow> (Some (UserList_o (Some c)), t))"

section \<open>apis/provider/v1\<close>

definition DeepCopyInto_ProviderCredentials :: "'l golib \<Rightarrow> 'l mem_provider_credentials \<Rightarrow> 'l cell store \<Rightarrow> ('l mem_provider_credentials) \<times> 'l cell store" where
  "DeepCopyInto_ProviderCredentials L x s =
     (let (sel, s1) = Copy (CommonCredentialSelectors_lib L) (mc_CommonCredentialSelectors x) s
      in (x\<lparr>mc_APISecretRef := mc_APISecretRef x, mc_CommonCredentialSelectors := sel\<rparr>, s1))"

definition DeepCopy_ProviderCredentials :: "'l golib \<Rightarrow> addr option \<Rightarrow> 'l cell store \<Rightarrow> addr option \<times> 'l cell store" where
  "DeepCopy_ProviderCredentials L = copy_ptr ProviderCredentials_c (DeepCopyInto_ProviderCredentials L)"

definition DeepCopyInto_ProviderConfigSpec :: "'l golib \<Rightarrow> 'l mem_provider_config_spec \<Rightarrow> 'l cell store \<Rightarrow> ('l mem_provider_config_spec) \<times> 'l cell store" where
  "DeepCopyInto_ProviderConfigSpec L x s =
     (let (cred, s1) = DeepCopyInto_ProviderCredentials L (mc_Credentials x) s;
          (tls, s2) = copy_ptr TLSConfig_c (DeepCopyInto_TLSConfig L) (mc_TLS x) s1
      in (x\<lparr>mc_Credentials := cred, mc_TLS := tls\<rparr>, s2))"

definition DeepCopy_ProviderConfigSpec :: "'l golib \<Rightarrow> addr option \<Rightarrow> 'l cell store \<Rightarrow> addr option \<times> 'l cell store" where
  "DeepCopy_ProviderConfigSpec L = copy_ptr ProviderConfigSpec_c (DeepCopyInto_ProviderConfigSpec L)"

definition DeepCopyInto_ProviderConfigStatus :: "'l golib \<Rightarrow> 'l mem_provider_config_status \<Rightarrow> 'l cell store \<Rightarrow> ('l mem_provider_config_status) \<times> 'l cell store" where
  "DeepCopyInto_ProviderConfigStatus L x s =
     (let (st, s1) = Copy (ProviderConfigStatus_lib L) (mc_ProviderConfigStatus x) s
      in (x\<lparr>mc_ProviderConfigStatus := st\<rparr>, s1))"

definition DeepCopy_ProviderConfigStatus :: "'l golib \<Rightarrow> addr option \<Rightarrow> 'l cell store \<Rightarrow> addr option \<times> 'l cell store" where
  "DeepCopy_ProviderConfigStatus L = copy_ptr ProviderConfigStatus_c (DeepCopyInto_ProviderConfigStatus L)"

definition DeepCopyInto_ProviderConfig :: "'l golib \<Rightarrow> 'l mem_provider_config \<Rightarrow> 'l cell store \<Rightarrow> ('l mem_provider_config) \<times> 'l cell store" where
  "DeepCopyInto_ProviderConfig L = copy_object L (DeepCopyInto_ProviderConfigSpec L) (DeepCopyInto_ProviderConfigStatus L)"

definition DeepCopy_ProviderConfig :: "'l golib \<Rightarrow> addr option \<Rightarrow> 'l cell store \<Rightarrow> addr option \<times> 'l cell store" where
  "DeepCopy_ProviderConfig L = copy_ptr ProviderConfig_c (DeepCopyInto_ProviderConfig L)"

definition DeepCopyObject_ProviderConfig :: "'l golib \<Rightarrow> addr option \<Rightarrow> 'l cell store \<Rightarrow> runtime_object option \<times> 'l cell store" where
  "DeepCopyObject_ProviderConfig L p s = (case DeepCopy_ProviderConfig L p s of (None, t) \<Rightarrow> (None, t) | (Some c, t) \<Rightarrow> (Some (ProviderConfig_o (Some c)), t))"

definition DeepCopyInto_ProviderConfigList :: "'l golib \<Rightarrow> 'l mem_list \<Rightarrow> 'l cell store \<Rightarrow> ('l mem_list) \<times> 'l cell store" where
  "DeepCopyInto_ProviderConfigList L = copy_items L ProviderConfigItems_c (DeepCopyInto_ProviderConfig L)"

definition DeepCopy_ProviderConfigList :: "'l golib \<Rightarrow> addr option \<Rightarrow> 'l cell store \<Rightarrow> addr option \<times> 'l cell store" where
  "DeepCopy_ProviderConfigList L = copy_ptr ProviderConfigList_c (DeepCopyInto_ProviderConfigList L)"

definition DeepCopyObject_ProviderConfigList :: "'l golib \<Rightarrow> addr option \<Rightarrow> 'l cell store \<Rightarrow> runtime_object option \<times> 'l cell store" where
  "DeepCopyObject_ProviderConfigList L p s = (case DeepCopy_ProviderConfigList L p s of (None, t) \<Rightarrow> (None, t) | (Some c, t) \<Rightarrow> (Some (ProviderConfigList_o (Some c)), t))"

definition DeepCopyInto_ProviderConfigUsage :: "'l golib \<Rightarrow> 'l mem_provider_config_usage \<Rightarrow> 'l cell store \<Rightarrow> ('l mem_provider_config_usage) \<times> 'l cell store" where
  "DeepCopyInto_ProviderConfigUsage L x s =
     (let (m, s1) = Copy (ObjectMeta_lib L) (mpu_ObjectMeta x) s
      in (x\<lparr>mpu_TypeMeta := mpu_TypeMeta x, mpu_ObjectMeta := m,
            mpu_ProviderConfigReference := mpu_ProviderConfigReference x,
            mpu_ResourceReference := mpu_ResourceReference x\<rparr>, s1))"

definition DeepCopy_ProviderConfigUsage :: "'l golib \<Rightarrow> addr option \<Rightarrow> 'l cell store \<Rightarrow> addr option \<times> 'l cell store" where
  "DeepCopy_ProviderConfigUsage L = copy_ptr ProviderConfigUsage_c (DeepCopyInto_ProviderConfigUsage L)"

definition DeepCopyObject_ProviderConfigUsage :: "'l golib \<Rightarrow> addr option \<Rightarrow> 'l cell store \<Rightarrow> runtime_object option \<times> 'l cell store" where
  "DeepCopyObject_ProviderConfigUsage L p s = (case DeepCopy_ProviderConfigUsage L p s of (None, t) \<Rightarrow> (None, t) | (Some c, t) \<Rightarrow> (Some (ProviderConfigUsage_o (Some c)), t))"

definition DeepCopyInto_ProviderConfigUsageList :: "'l golib \<Rightarrow> 'l mem_list \<Rightarrow> 'l cell store \<Rightarrow> ('l mem_list) \<times> 'l cell store" where
  "DeepCopyInto_ProviderConfigUsageList L = copy_items L ProviderConfigUsageItems_c (DeepCopyInto_ProviderConfigUsage L)"

definition DeepCopy_ProviderConfigUsageList :: "'l golib \<Rightarrow> addr option \<Rightarrow> 'l cell store \<Rightarrow> addr option \<times> 'l cell store" where
  "DeepCopy_ProviderConfigUsageList L = copy_ptr ProviderConfigUsageList_c (DeepCopyInto_ProviderConfigUsageList L)"

definition DeepCopyObject_ProviderConfigUsageList :: "'l golib \<Rightarrow> addr option \<Rightarrow> 'l cell store \<Rightarrow> runtime_object option \<times> 'l cell store" where
  "DeepCopyObject_ProviderConfigUsageList L p s = (case DeepCopy_ProviderConfigUsageList L p s of (None, t) \<Rightarrow> (None, t) | (Some c, t) \<Rightarrow> (Some (ProviderConfigUsageList_o (Some c)), t))"

text \<open>The call \<^verbatim>\<open>obj.DeepCopyObject()\<close> through the interface.\<close>

fun DeepCopyObject :: "'l golib \<Rightarrow> runtime_object \<Rightarrow> 'l cell store \<Rightarrow> runtime_object option \<times> 'l cell store" where
  "DeepCopyObject L (Bucket_o p) s = DeepCopyObject_Bucket L p s"
| "DeepCopyObject L (BucketList_o p) s = DeepCopyObject_BucketList L p s"
| "DeepCopyObject L (NotificationConfiguration_o p) s = DeepCopyObject_NotificationConfiguration L p s"
| "DeepCopyObject L (NotificationConfigurationList_o p) s = DeepCopyObject_NotificationConfigurationList L p s"
| "DeepCopyObject L (Policy_o p) s = DeepCopyObject_Policy L p s"
| "DeepCopyObject L (PolicyList_o p) s = DeepCopyObject_PolicyList L p s"
| "DeepCopyObject L (ServiceAccount_o p) s = DeepCopyObject_ServiceAccount L p s"
| "DeepCopyObject L (ServiceAccountList_o p) s = DeepCopyObject_ServiceAccountList L p s"
| "DeepCopyObject L (User_o p) s = DeepCopyObject_User L p s"
| "DeepCopyObject L (UserList_o p) s = DeepCopyObject_UserList L p s"
| "DeepCopyObject L (ProviderConfig_o p) s = DeepCopyObject_ProviderConfig L p s"
| "DeepCopyObject L (ProviderConfigList_o p) s = DeepCopyObject_ProviderConfigList L p s"
| "DeepCopyObject L (ProviderConfigUsage_o p) s = DeepCopyObject_ProviderConfigUsage L p s"
| "DeepCopyObject L (ProviderConfigUsageList_o p) s = DeepCopyObject_ProviderConfigUsageList L p s"

end
