(* ===== verification/DeepCopy_Tree.thy ===== *)
theory DeepCopy_Tree
  imports DeepCopy
begin

text \<open>
  What the API types of theory \<open>DeepCopy\<close> read as, and that each generated function copies
  deeply: for every type a copier \<open>X_tree\<close> pairs \<open>DeepCopyInto_X\<close> with a reading of the type as
  the resource of theory \<open>Resources\<close> it stands for, and satisfies the laws of \<open>deep_copier\<close>.
  The last section does the same for the interface \<^verbatim>\<open>runtime.Object\<close>.
\<close>

section \<open>Parts\<close>

lemma copy_entries_id:
  assumes "deep_golib L"
  shows "copy_entries L m = m"
proof (rule fmap_ext)
  fix k
  let ?f = "\<lambda>key out. case fmlookup m key of None \<Rightarrow> out | Some val \<Rightarrow> fmupd key val out"
  have "fmlookup (fold ?f ks out) k = (if k \<in> set ks \<and> k |\<in>| fmdom m then fmlookup m k else fmlookup out k)" for ks out
    by (induction ks arbitrary: out) (auto split: option.splits simp: fmlookup_dom_iff)
  from this [of "range_keys L m" fmempty] show "fmlookup (copy_entries L m) k = fmlookup m k"
    using deep_golibD(10) [OF assms, of m] by (auto simp: copy_entries_def fmdom_notD)
qed

definition map_tree :: "'l golib \<Rightarrow> ((string, string) fmap, (string, string) fmap, 'l cell) copier" where
  "map_tree L = \<lparr>Copy = copy_map L, View = (\<lambda>_. Some), Reach = (\<lambda>_ _. {})\<rparr>"

lemma map_tree_simps [simp]: "Copy (map_tree L) = copy_map L" "View (map_tree L) s m = Some m"
  by (simp_all add: map_tree_def)

lemma deep_map_tree: "deep_golib L \<Longrightarrow> deep_copier (map_tree L)"
  by unfold_locales (simp_all add: map_tree_def copy_map_def copy_entries_id extends_refl)

definition time_tree :: "'l golib \<Rightarrow> (addr option, instant option, 'l cell) copier" where
  "time_tree L = \<lparr>Copy = copy_time L, View = View (Time_lib L), Reach = Reach (Time_lib L)\<rparr>"

lemma time_tree_simps [simp]: "Copy (time_tree L) = copy_time L"
  by (simp add: time_tree_def)

lemma deep_time_tree:
  assumes L: "deep_golib L"
  shows "deep_copier (time_tree L)"
proof -
  note c = deep_golibD(5) [OF L]
  show ?thesis
  proof
    fix s x v y t
    assume s: "wf_store s" and v: "View (time_tree L) s x = Some v" and cp: "Copy (time_tree L) x s = (y, t)"
    show "extends s t \<and> View (time_tree L) t y = Some v \<and> Reach (time_tree L) t y \<subseteq> {next_addr s..<next_addr t}"
    proof (cases "x = None")
      case True
      with s v cp deep_golibD(11,12) [OF L] show ?thesis by (simp add: time_tree_def copy_time_def extends_refl)
    next
      case False
      with v cp have "View (Time_lib L) s x = Some v" "Copy (Time_lib L) x s = (y, t)" by (simp_all add: time_tree_def copy_time_def)
      from deep_copier.copied [OF c s this] show ?thesis by (simp add: time_tree_def)
    qed
  next
    fix s x v
    assume s: "wf_store s" and "View (time_tree L) s x = Some v"
    then have "View (Time_lib L) s x = Some v" by (simp add: time_tree_def)
    from deep_copier.allocated [OF c s this] show "Reach (time_tree L) s x \<subseteq> {..<next_addr s}" by (simp add: time_tree_def)
  next
    fix s x v t
    assume "View (time_tree L) s x = Some v" and "agree_on (Reach (time_tree L) s x) s t"
    then have "View (Time_lib L) s x = Some v" "agree_on (Reach (Time_lib L) s x) s t" by (simp_all add: time_tree_def)
    from deep_copier.framed [OF c this] show "View (time_tree L) t x = Some v \<and> Reach (time_tree L) t x = Reach (time_tree L) s x"
      by (simp add: time_tree_def)
  qed
qed

text \<open>The shapes of objects, specifications, statuses and lists.\<close>

definition object_tree :: "'l golib \<Rightarrow> ('s, 'u, 'l cell) copier \<Rightarrow> ('t, 'w, 'l cell) copier \<Rightarrow> (object_meta \<Rightarrow> 'u \<Rightarrow> 'w \<Rightarrow> 'v) \<Rightarrow>
    (('l, 's, 't) mem_object, type_meta \<times> 'v, 'l cell) copier" where
  "object_tree L spec status mk = struct_of (copy_object L (Copy spec) (Copy status))
     (\<lambda>x. (mo_ObjectMeta x, mo_Spec x, mo_Status x)) (\<lambda>x (m, u, w). (mo_TypeMeta x, mk m u w))
     (pair_of (ObjectMeta_lib L) (pair_of spec status))"

definition spec_tree :: "'l golib \<Rightarrow> ('p, 'u, 'l cell) copier \<Rightarrow> (('l, 'p) mem_spec, managed_spec \<times> 'u, 'l cell) copier" where
  "spec_tree L c = struct_of (copy_spec L (Copy c)) (\<lambda>x. (mo_ManagedResourceSpec x, mo_ForProvider x)) (\<lambda>_ v. v)
     (pair_of (ManagedResourceSpec_lib L) c)"

definition status_tree :: "'l golib \<Rightarrow> ('a, 'u, 'l cell) copier \<Rightarrow> (('l, 'a, 'z) mem_status_scheme \<Rightarrow> condition list \<Rightarrow> 'u \<Rightarrow> 'v) \<Rightarrow>
    (('l, 'a, 'z) mem_status_scheme, 'v, 'l cell) copier" where
  "status_tree L c mk = struct_of (copy_status L (Copy c)) (\<lambda>x. (mo_ConditionedStatus x, mo_AtProvider x)) (\<lambda>x (cs, u). mk x cs u)
     (pair_of (ConditionedStatus_lib L) c)"

definition items_tree :: "'l golib \<Rightarrow> ('x list, 'l cell) cell_type \<Rightarrow> ('x, 'v, 'l cell) copier \<Rightarrow> ('l mem_list, type_meta \<times> string \<times> 'v list option, 'l cell) copier" where
  "items_tree L k c = struct_of (copy_items L k (Copy c)) (\<lambda>x. (mo_ListMeta x, mo_Items x)) (\<lambda>x v. (mo_ListTypeMeta x, v))
     (pair_of (ListMeta_lib L) (ptr_of k (list_of c)))"

lemma tree_copies [simp]:
  "Copy (object_tree L spec status mk) = copy_object L (Copy spec) (Copy status)"
  "Copy (spec_tree L c) = copy_spec L (Copy c)" "Copy (status_tree L c mk2) = copy_status L (Copy c)"
  "Copy (items_tree L k c) = copy_items L k (Copy c)"
  by (simp_all add: object_tree_def spec_tree_def status_tree_def items_tree_def)

lemma deep_object_tree:
  assumes "deep_golib L" and "deep_copier spec" and "deep_copier status"
  shows "deep_copier (object_tree L spec status mk)"
  unfolding object_tree_def
  by (rule deep_struct, intro deep_pair deep_golibD assms) (auto simp: copy_object_def Let_def split: prod.splits)

lemma deep_spec_tree:
  assumes "deep_golib L" and "deep_copier c"
  shows "deep_copier (spec_tree L c)"
  unfolding spec_tree_def
  by (rule deep_struct, intro deep_pair deep_golibD assms) (auto simp: copy_spec_def Let_def split: prod.splits)

lemma deep_status_tree:
  assumes "deep_golib L" and "deep_copier c" and "\<And>x cs a. mk (x\<lparr>mo_ConditionedStatus := cs, mo_AtProvider := a\<rparr>) = mk x"
  shows "deep_copier (status_tree L c mk)"
  unfolding status_tree_def
  by (rule deep_struct, intro deep_pair deep_golibD assms) (auto simp: copy_status_def assms(3) Let_def split: prod.splits)

lemma deep_items_tree:
  assumes "deep_golib L" and "proper_cell k" and "deep_copier c"
  shows "deep_copier (items_tree L k c)"
  unfolding items_tree_def
  by (rule deep_struct, intro deep_pair deep_ptr deep_list deep_golibD assms) (auto simp: copy_items_def Let_def split: prod.splits)

named_theorems deep_types

lemmas deep_parts = deep_flat deep_map_tree deep_time_tree deep_object_tree deep_spec_tree deep_status_tree deep_items_tree
  deep_pair deep_ptr deep_list deep_golibD proper_cells

section \<open>The types\<close>

definition TLSConfig_tree :: "'l golib \<Rightarrow> (mem_tls, TLSConfig, 'l cell) copier" where
  "TLSConfig_tree L = struct_of (DeepCopyInto_TLSConfig L) (\<lambda>x. (mt_CASecretRef x, mt_CAConfigMapRef x, mt_ClientCertSecretRef x, mt_ClientKeySecretRef x))
     (\<lambda>x (ca, cm, cert, key). \<lparr>CAData = mt_CAData x, CASecretRef = ca, CAConfigMapRef = cm, ClientCertData = mt_ClientCertData x,
       ClientCertSecretRef = cert, ClientKeyData = mt_ClientKeyData x, ClientKeySecretRef = key, InsecureSkipVerify = mt_InsecureSkipVerify x\<rparr>)
     (pair_of (ptr_of Lib_c (SecretKeySelector_lib L)) (pair_of (ptr_of Lib_c (ConfigMapKeySelector_lib L))
       (pair_of (ptr_of Lib_c (SecretKeySelector_lib L)) (ptr_of Lib_c (SecretKeySelector_lib L)))))"

lemma Copy_TLSConfig_tree [simp]: "Copy (TLSConfig_tree L) = DeepCopyInto_TLSConfig L"
  by (simp add: TLSConfig_tree_def)

lemma deep_TLSConfig [deep_types]:
  assumes "deep_golib L"
  shows "deep_copier (TLSConfig_tree L)"
  unfolding TLSConfig_tree_def
  by (rule deep_struct, intro deep_parts deep_types assms) (auto simp: DeepCopyInto_TLSConfig_def Let_def split: prod.splits)

definition BucketParameters_tree :: "'l golib \<Rightarrow> (mem_bucket_params, bucket_params, 'l cell) copier" where
  "BucketParameters_tree L = struct_of (DeepCopyInto_BucketParameters L) (\<lambda>x. (mb_Policy x, mb_Tags x))
     (\<lambda>x (policy, tags). \<lparr>bp_BucketName = mb_BucketName x, bp_Region = mb_Region x,
       bp_BucketDeletionPolicy = mb_BucketDeletionPolicy x, bp_Policy = policy, bp_Tags = tags\<rparr>)
     (pair_of (ptr_of Str_c flat) (ptr_of StrMap_c (map_tree L)))"

lemma Copy_BucketParameters_tree [simp]: "Copy (BucketParameters_tree L) = DeepCopyInto_BucketParameters L"
  by (simp add: BucketParameters_tree_def)

lemma deep_BucketParameters [deep_types]:
  assumes "deep_golib L"
  shows "deep_copier (BucketParameters_tree L)"
  unfolding BucketParameters_tree_def
  by (rule deep_struct, intro deep_parts deep_types assms) (auto simp: DeepCopyInto_BucketParameters_def Let_def split: prod.splits)

definition BucketSpec_tree :: "'l golib \<Rightarrow> ('l mem_bucket_spec, managed_spec \<times> bucket_params, 'l cell) copier" where
  "BucketSpec_tree L = spec_tree L (BucketParameters_tree L)"

lemma Copy_BucketSpec_tree [simp]: "Copy (BucketSpec_tree L) = DeepCopyInto_BucketSpec L"
  by (simp add: BucketSpec_tree_def DeepCopyInto_BucketSpec_def)

lemma deep_BucketSpec [deep_types]:
  assumes "deep_golib L"
  shows "deep_copier (BucketSpec_tree L)"
  unfolding BucketSpec_tree_def by (intro deep_parts deep_types assms; simp)

definition BucketStatus_tree :: "'l golib \<Rightarrow> ('l mem_bucket_status, bucket_status, 'l cell) copier" where
  "BucketStatus_tree L = status_tree L flat (\<lambda>x cs a.
     \<lparr>bs_Conditions = cs, bs_Endpoint = mb_Endpoint x, bs_EndpointURL = mb_EndpointURL x, bs_BucketName = bps_BucketName a\<rparr>)"

lemma Copy_BucketStatus_tree [simp]: "Copy (BucketStatus_tree L) = DeepCopyInto_BucketStatus L"
  by (simp add: BucketStatus_tree_def DeepCopyInto_BucketStatus_def)

lemma deep_BucketStatus [deep_types]:
  assumes "deep_golib L"
  shows "deep_copier (BucketStatus_tree L)"
  unfolding BucketStatus_tree_def by (intro deep_parts deep_types assms; simp)

definition Bucket_tree :: "'l golib \<Rightarrow> ('l mem_bucket, type_meta \<times> bucket, 'l cell) copier" where
  "Bucket_tree L = object_tree L (BucketSpec_tree L) (BucketStatus_tree L)
     (\<lambda>m (sp, p) st. \<lparr>b_meta = m, b_spec = sp, b_params = p, b_status = st\<rparr>)"

lemma Copy_Bucket_tree [simp]: "Copy (Bucket_tree L) = DeepCopyInto_Bucket L"
  by (simp add: Bucket_tree_def DeepCopyInto_Bucket_def)

lemma deep_Bucket [deep_types]:
  assumes "deep_golib L"
  shows "deep_copier (Bucket_tree L)"
  unfolding Bucket_tree_def by (intro deep_parts deep_types assms; simp)

definition BucketList_tree :: "'l golib \<Rightarrow> ('l mem_list, type_meta \<times> string \<times> (type_meta \<times> bucket) list option, 'l cell) copier" where
  "BucketList_tree L = items_tree L BucketItems_c (Bucket_tree L)"

lemma Copy_BucketList_tree [simp]: "Copy (BucketList_tree L) = DeepCopyInto_BucketList L"
  by (simp add: BucketList_tree_def DeepCopyInto_BucketList_def)

lemma deep_BucketList [deep_types]:
  assumes "deep_golib L"
  shows "deep_copier (BucketList_tree L)"
  unfolding BucketList_tree_def by (intro deep_parts deep_types assms; simp)

definition KeyFilter_tree :: "'l golib \<Rightarrow> (mem_key_filter, filter_rule list, 'l cell) copier" where
  "KeyFilter_tree L = struct_of (DeepCopyInto_KeyFilter L) mk_FilterRules
     (\<lambda>_ rules. case rules of None \<Rightarrow> [] | Some r \<Rightarrow> r)
     (ptr_of FilterRules_c flat)"

lemma Copy_KeyFilter_tree [simp]: "Copy (KeyFilter_tree L) = DeepCopyInto_KeyFilter L"
  by (simp add: KeyFilter_tree_def)

lemma deep_KeyFilter [deep_types]:
  shows "deep_copier (KeyFilter_tree L)"
  unfolding KeyFilter_tree_def
  by (rule deep_struct, intro deep_parts deep_types) (auto simp: DeepCopyInto_KeyFilter_def Let_def split: prod.splits)

definition NotificationFilter_tree :: "'l golib \<Rightarrow> (mem_notification_filter, notification_filter, 'l cell) copier" where
  "NotificationFilter_tree L = struct_of (DeepCopyInto_NotificationFilter L) mf_Key
     (\<lambda>_ key. \<lparr>nf_Key = key\<rparr>)
     (ptr_of KeyFilter_c (KeyFilter_tree L))"

lemma Copy_NotificationFilter_tree [simp]: "Copy (NotificationFilter_tree L) = DeepCopyInto_NotificationFilter L"
  by (simp add: NotificationFilter_tree_def)

lemma deep_NotificationFilter [deep_types]:
  shows "deep_copier (NotificationFilter_tree L)"
  unfolding NotificationFilter_tree_def
  by (rule deep_struct, intro deep_parts deep_types) (auto simp: DeepCopyInto_NotificationFilter_def Let_def split: prod.splits)

definition WebhookConfiguration_tree :: "'l golib \<Rightarrow> (mem_webhook_configuration, webhook_configuration, 'l cell) copier" where
  "WebhookConfiguration_tree L = struct_of (DeepCopyInto_WebhookConfiguration L) (\<lambda>x. (mw_AuthToken x, mw_UserAgent x))
     (\<lambda>x (token, agent). \<lparr>wh_ID = mw_ID x, wh_Endpoint = mw_Endpoint x, wh_AuthToken = token, wh_UserAgent = agent\<rparr>)
     (pair_of (ptr_of Str_c flat) (ptr_of Str_c flat))"

lemma Copy_WebhookConfiguration_tree [simp]: "Copy (WebhookConfiguration_tree L) = DeepCopyInto_WebhookConfiguration L"
  by (simp add: WebhookConfiguration_tree_def)

lemma deep_WebhookConfiguration [deep_types]:
  shows "deep_copier (WebhookConfiguration_tree L)"
  unfolding WebhookConfiguration_tree_def
  by (rule deep_struct, intro deep_parts deep_types) (auto simp: DeepCopyInto_WebhookConfiguration_def Let_def split: prod.splits)

definition NotificationConfigurationParameters_tree :: "'l golib \<Rightarrow> (mem_notification_params, notification_params, 'l cell) copier" where
  "NotificationConfigurationParameters_tree L = struct_of (DeepCopyInto_NotificationConfigurationParameters L) (\<lambda>x. (mn_WebhookConfiguration x,
       mn_QueueConfiguration x, mn_TopicConfiguration x, mn_Events x, mn_Filter x))
     (\<lambda>x (webhook, queue, topic, events, flt). \<lparr>np_BucketName = mn_BucketName x, np_WebhookConfiguration = webhook,
       np_QueueConfiguration = queue, np_TopicConfiguration = topic, np_Events = (case events of None \<Rightarrow> [] | Some es \<Rightarrow> es), np_Filter = flt\<rparr>)
     (pair_of (ptr_of WebhookConfiguration_c (WebhookConfiguration_tree L)) (pair_of (ptr_of QueueConfiguration_c flat)
       (pair_of (ptr_of TopicConfiguration_c flat) (pair_of (ptr_of Strs_c flat) (ptr_of NotificationFilter_c (NotificationFilter_tree L))))))"

lemma Copy_NotificationConfigurationParameters_tree [simp]: "Copy (NotificationConfigurationParameters_tree L) = DeepCopyInto_NotificationConfigurationParameters L"
  by (simp add: NotificationConfigurationParameters_tree_def)

lemma deep_NotificationConfigurationParameters [deep_types]:
  shows "deep_copier (NotificationConfigurationParameters_tree L)"
  unfolding NotificationConfigurationParameters_tree_def
  by (rule deep_struct, intro deep_parts deep_types) (auto simp: DeepCopyInto_NotificationConfigurationParameters_def Let_def split: prod.splits)

definition NotificationConfigurationProviderStatus_tree :: "'l golib \<Rightarrow> (mem_notification_provider_status, string \<times> string \<times> instant option, 'l cell) copier" where
  "NotificationConfigurationProviderStatus_tree L = struct_of (DeepCopyInto_NotificationConfigurationProviderStatus L) mn_LastUpdated
     (\<lambda>x time. (mn_ConfigurationID x, mn_StatusBucketName x, time))
     (time_tree L)"

lemma Copy_NotificationConfigurationProviderStatus_tree [simp]: "Copy (NotificationConfigurationProviderStatus_tree L) = DeepCopyInto_NotificationConfigurationProviderStatus L"
  by (simp add: NotificationConfigurationProviderStatus_tree_def)

lemma deep_NotificationConfigurationProviderStatus [deep_types]:
  assumes "deep_golib L"
  shows "deep_copier (NotificationConfigurationProviderStatus_tree L)"
  unfolding NotificationConfigurationProviderStatus_tree_def
  by (rule deep_struct, intro deep_parts deep_types assms) (auto simp: DeepCopyInto_NotificationConfigurationProviderStatus_def Let_def split: prod.splits)

definition NotificationConfigurationSpec_tree :: "'l golib \<Rightarrow> ('l mem_notification_spec, managed_spec \<times> notification_params, 'l cell) copier" where
  "NotificationConfigurationSpec_tree L = spec_tree L (NotificationConfigurationParameters_tree L)"

lemma Copy_NotificationConfigurationSpec_tree [simp]: "Copy (NotificationConfigurationSpec_tree L) = DeepCopyInto_NotificationConfigurationSpec L"
  by (simp add: NotificationConfigurationSpec_tree_def DeepCopyInto_NotificationConfigurationSpec_def)

lemma deep_NotificationConfigurationSpec [deep_types]:
  assumes "deep_golib L"
  shows "deep_copier (NotificationConfigurationSpec_tree L)"
  unfolding NotificationConfigurationSpec_tree_def by (intro deep_parts deep_types assms; simp)

definition NotificationConfigurationStatus_tree :: "'l golib \<Rightarrow> ('l mem_notification_status, notification_status, 'l cell) copier" where
  "NotificationConfigurationStatus_tree L = status_tree L (NotificationConfigurationProviderStatus_tree L) (\<lambda>_ cs (i, n, time).
     \<lparr>ns_Conditions = cs, ns_ConfigurationID = i, ns_BucketName = n, ns_LastUpdated = time\<rparr>)"

lemma Copy_NotificationConfigurationStatus_tree [simp]: "Copy (NotificationConfigurationStatus_tree L) = DeepCopyInto_NotificationConfigurationStatus L"
  by (simp add: NotificationConfigurationStatus_tree_def DeepCopyInto_NotificationConfigurationStatus_def)

lemma deep_NotificationConfigurationStatus [deep_types]:
  assumes "deep_golib L"
  shows "deep_copier (NotificationConfigurationStatus_tree L)"
  unfolding NotificationConfigurationStatus_tree_def by (intro deep_parts deep_types assms; simp)

definition NotificationConfiguration_tree :: "'l golib \<Rightarrow> ('l mem_notification, type_meta \<times> notification_configuration, 'l cell) copier" where
  "NotificationConfiguration_tree L = object_tree L (NotificationConfigurationSpec_tree L) (NotificationConfigurationStatus_tree L)
     (\<lambda>m (sp, p) st. \<lparr>n_meta = m, n_spec = sp, n_params = p, n_status = st\<rparr>)"

lemma Copy_NotificationConfiguration_tree [simp]: "Copy (NotificationConfiguration_tree L) = DeepCopyInto_NotificationConfiguration L"
  by (simp add: NotificationConfiguration_tree_def DeepCopyInto_NotificationConfiguration_def)

lemma deep_NotificationConfiguration [deep_types]:
  assumes "deep_golib L"
  shows "deep_copier (NotificationConfiguration_tree L)"
  unfolding NotificationConfiguration_tree_def by (intro deep_parts deep_types assms; simp)

definition NotificationConfigurationList_tree :: "'l golib \<Rightarrow> ('l mem_list, type_meta \<times> string \<times> (type_meta \<times> notification_configuration) list option, 'l cell) copier" where
  "NotificationConfigurationList_tree L = items_tree L NotificationConfigurationItems_c (NotificationConfiguration_tree L)"

lemma Copy_NotificationConfigurationList_tree [simp]: "Copy (NotificationConfigurationList_tree L) = DeepCopyInto_NotificationConfigurationList L"
  by (simp add: NotificationConfigurationList_tree_def DeepCopyInto_NotificationConfigurationList_def)

lemma deep_NotificationConfigurationList [deep_types]:
  assumes "deep_golib L"
  shows "deep_copier (NotificationConfigurationList_tree L)"
  unfolding NotificationConfigurationList_tree_def by (intro deep_parts deep_types assms; simp)

definition PolicySpec_tree :: "'l golib \<Rightarrow> ('l mem_policy_spec, managed_spec \<times> policy_params, 'l cell) copier" where
  "PolicySpec_tree L = spec_tree L flat"

lemma Copy_PolicySpec_tree [simp]: "Copy (PolicySpec_tree L) = DeepCopyInto_PolicySpec L"
  by (simp add: PolicySpec_tree_def DeepCopyInto_PolicySpec_def)

lemma deep_PolicySpec [deep_types]:
  assumes "deep_golib L"
  shows "deep_copier (PolicySpec_tree L)"
  unfolding PolicySpec_tree_def by (intro deep_parts deep_types assms; simp)

definition PolicyStatus_tree :: "'l golib \<Rightarrow> ('l mem_policy_status, policy_status, 'l cell) copier" where
  "PolicyStatus_tree L = status_tree L flat (\<lambda>_ cs a. \<lparr>ps_Conditions = cs, ps_Policy = pps_Policy a\<rparr>)"

lemma Copy_PolicyStatus_tree [simp]: "Copy (PolicyStatus_tree L) = DeepCopyInto_PolicyStatus L"
  by (simp add: PolicyStatus_tree_def DeepCopyInto_PolicyStatus_def)

lemma deep_PolicyStatus [deep_types]:
  assumes "deep_golib L"
  shows "deep_copier (PolicyStatus_tree L)"
  unfolding PolicyStatus_tree_def by (intro deep_parts deep_types assms; simp)

definition Policy_tree :: "'l golib \<Rightarrow> ('l mem_policy, type_meta \<times> policy, 'l cell) copier" where
  "Policy_tree L = object_tree L (PolicySpec_tree L) (PolicyStatus_tree L)
     (\<lambda>m (sp, p) st. \<lparr>p_meta = m, p_spec = sp, p_params = p, p_status = st\<rparr>)"

lemma Copy_Policy_tree [simp]: "Copy (Policy_tree L) = DeepCopyInto_Policy L"
  by (simp add: Policy_tree_def DeepCopyInto_Policy_def)

lemma deep_Policy [deep_types]:
  assumes "deep_golib L"
  shows "deep_copier (Policy_tree L)"
  unfolding Policy_tree_def by (intro deep_parts deep_types assms; simp)

definition PolicyList_tree :: "'l golib \<Rightarrow> ('l mem_list, type_meta \<times> string \<times> (type_meta \<times> policy) list option, 'l cell) copier" where
  "PolicyList_tree L = items_tree L PolicyItems_c (Policy_tree L)"

lemma Copy_PolicyList_tree [simp]: "Copy (PolicyList_tree L) = DeepCopyInto_PolicyList L"
  by (simp add: PolicyList_tree_def DeepCopyInto_PolicyList_def)

lemma deep_PolicyList [deep_types]:
  assumes "deep_golib L"
  shows "deep_copier (PolicyList_tree L)"
  unfolding PolicyList_tree_def by (intro deep_parts deep_types assms; simp)

definition ServiceAccountParameters_tree :: "'l golib \<Rightarrow> (mem_service_account_params, service_account_params, 'l cell) copier" where
  "ServiceAccountParameters_tree L = struct_of (DeepCopyInto_ServiceAccountParameters L) (\<lambda>x. (ms_Expiration x, ms_WriteConnectionSecretsToRef x))
     (\<lambda>x (time, ref). \<lparr>sp_TargetUser = ms_TargetUser x, sp_AccessKey = ms_AccessKey x, sp_SecretKey = ms_SecretKey x, sp_Name = ms_Name x,
       sp_Description = ms_Description x, sp_Policy = ms_Policy x, sp_Expiration = time, sp_WriteConnectionSecretsToRef = ref\<rparr>)
     (pair_of (time_tree L) (ptr_of SecretRef_c flat))"

lemma Copy_ServiceAccountParameters_tree [simp]: "Copy (ServiceAccountParameters_tree L) = DeepCopyInto_ServiceAccountParameters L"
  by (simp add: ServiceAccountParameters_tree_def)

lemma deep_ServiceAccountParameters [deep_types]:
  assumes "deep_golib L"
  shows "deep_copier (ServiceAccountParameters_tree L)"
  unfolding ServiceAccountParameters_tree_def
  by (rule deep_struct, intro deep_parts deep_types assms) (auto simp: DeepCopyInto_ServiceAccountParameters_def Let_def split: prod.splits)

definition ServiceAccountProviderStatus_tree :: "'l golib \<Rightarrow> (mem_service_account_provider_status, condition list \<Rightarrow> service_account_status, 'l cell) copier" where
  "ServiceAccountProviderStatus_tree L = struct_of (DeepCopyInto_ServiceAccountProviderStatus L) ms_StatusExpiration
     (\<lambda>x time cs. \<lparr>ss_Conditions = cs, ss_AccessKey = ms_StatusAccessKey x, ss_AccountStatus = ms_AccountStatus x, ss_ParentUser = ms_ParentUser x,
       ss_ImpliedPolicy = ms_ImpliedPolicy x, ss_Policy = ms_StatusPolicy x, ss_Expiration = time\<rparr>)
     (time_tree L)"

lemma Copy_ServiceAccountProviderStatus_tree [simp]: "Copy (ServiceAccountProviderStatus_tree L) = DeepCopyInto_ServiceAccountProviderStatus L"
  by (simp add: ServiceAccountProviderStatus_tree_def)

lemma deep_ServiceAccountProviderStatus [deep_types]:
  assumes "deep_golib L"
  shows "deep_copier (ServiceAccountProviderStatus_tree L)"
  unfolding ServiceAccountProviderStatus_tree_def
  by (rule deep_struct, intro deep_parts deep_types assms) (auto simp: DeepCopyInto_ServiceAccountProviderStatus_def Let_def split: prod.splits)

definition ServiceAccountSpec_tree :: "'l golib \<Rightarrow> ('l mem_service_account_spec, managed_spec \<times> service_account_params, 'l cell) copier" where
  "ServiceAccountSpec_tree L = spec_tree L (ServiceAccountParameters_tree L)"

lemma Copy_ServiceAccountSpec_tree [simp]: "Copy (ServiceAccountSpec_tree L) = DeepCopyInto_ServiceAccountSpec L"
  by (simp add: ServiceAccountSpec_tree_def DeepCopyInto_ServiceAccountSpec_def)

lemma deep_ServiceAccountSpec [deep_types]:
  assumes "deep_golib L"
  shows "deep_copier (ServiceAccountSpec_tree L)"
  unfolding ServiceAccountSpec_tree_def by (intro deep_parts deep_types assms; simp)

definition ServiceAccountStatus_tree :: "'l golib \<Rightarrow> ('l mem_service_account_status, service_account_status, 'l cell) copier" where
  "ServiceAccountStatus_tree L = status_tree L (ServiceAccountProviderStatus_tree L) (\<lambda>_ cs f. f cs)"

lemma Copy_ServiceAccountStatus_tree [simp]: "Copy (ServiceAccountStatus_tree L) = DeepCopyInto_ServiceAccountStatus L"
  by (simp add: ServiceAccountStatus_tree_def DeepCopyInto_ServiceAccountStatus_def)

lemma deep_ServiceAccountStatus [deep_types]:
  assumes "deep_golib L"
  shows "deep_copier (ServiceAccountStatus_tree L)"
  unfolding ServiceAccountStatus_tree_def by (intro deep_parts deep_types assms; simp)

definition ServiceAccount_tree :: "'l golib \<Rightarrow> ('l mem_service_account, type_meta \<times> service_account, 'l cell) copier" where
  "ServiceAccount_tree L = object_tree L (ServiceAccountSpec_tree L) (ServiceAccountStatus_tree L)
     (\<lambda>m (sp, p) st. \<lparr>s_meta = m, s_spec = sp, s_params = p, s_status = st\<rparr>)"

lemma Copy_ServiceAccount_tree [simp]: "Copy (ServiceAccount_tree L) = DeepCopyInto_ServiceAccount L"
  by (simp add: ServiceAccount_tree_def DeepCopyInto_ServiceAccount_def)

lemma deep_ServiceAccount [deep_types]:
  assumes "deep_golib L"
  shows "deep_copier (ServiceAccount_tree L)"
  unfolding ServiceAccount_tree_def by (intro deep_parts deep_types assms; simp)

definition ServiceAccountList_tree :: "'l golib \<Rightarrow> ('l mem_list, type_meta \<times> string \<times> (type_meta \<times> service_account) list option, 'l cell) copier" where
  "ServiceAccountList_tree L = items_tree L ServiceAccountItems_c (ServiceAccount_tree L)"

lemma Copy_ServiceAccountList_tree [simp]: "Copy (ServiceAccountList_tree L) = DeepCopyInto_ServiceAccountList L"
  by (simp add: ServiceAccountList_tree_def DeepCopyInto_ServiceAccountList_def)

lemma deep_ServiceAccountList [deep_types]:
  assumes "deep_golib L"
  shows "deep_copier (ServiceAccountList_tree L)"
  unfolding ServiceAccountList_tree_def by (intro deep_parts deep_types assms; simp)

definition UserParameters_tree :: "'l golib \<Rightarrow> (mem_user_params, user_params, 'l cell) copier" where
  "UserParameters_tree L = struct_of (DeepCopyInto_UserParameters L) mu_Policies
     (\<lambda>x policies. \<lparr>up_UserName = mu_UserName x, up_Policies = policies\<rparr>)
     (ptr_of Strs_c flat)"

lemma Copy_UserParameters_tree [simp]: "Copy (UserParameters_tree L) = DeepCopyInto_UserParameters L"
  by (simp add: UserParameters_tree_def)

lemma deep_UserParameters [deep_types]:
  shows "deep_copier (UserParameters_tree L)"
  unfolding UserParameters_tree_def
  by (rule deep_struct, intro deep_parts deep_types) (auto simp: DeepCopyInto_UserParameters_def Let_def split: prod.splits)

definition UserSpec_tree :: "'l golib \<Rightarrow> ('l mem_user_spec, managed_spec \<times> user_params, 'l cell) copier" where
  "UserSpec_tree L = spec_tree L (UserParameters_tree L)"

lemma Copy_UserSpec_tree [simp]: "Copy (UserSpec_tree L) = DeepCopyInto_UserSpec L"
  by (simp add: UserSpec_tree_def DeepCopyInto_UserSpec_def)

lemma deep_UserSpec [deep_types]:
  assumes "deep_golib L"
  shows "deep_copier (UserSpec_tree L)"
  unfolding UserSpec_tree_def by (intro deep_parts deep_types assms; simp)

definition UserStatus_tree :: "'l golib \<Rightarrow> ('l mem_user_status, user_status, 'l cell) copier" where
  "UserStatus_tree L = status_tree L flat (\<lambda>_ cs a.
     \<lparr>us_Conditions = cs, us_UserName = ups_UserName a, us_Status = ups_Status a, us_Policies = ups_Policies a\<rparr>)"

lemma Copy_UserStatus_tree [simp]: "Copy (UserStatus_tree L) = DeepCopyInto_UserStatus L"
  by (simp add: UserStatus_tree_def DeepCopyInto_UserStatus_def)

lemma deep_UserStatus [deep_types]:
  assumes "deep_golib L"
  shows "deep_copier (UserStatus_tree L)"
  unfolding UserStatus_tree_def by (intro deep_parts deep_types assms; simp)

definition User_tree :: "'l golib \<Rightarrow> ('l mem_user, type_meta \<times> user, 'l cell) copier" where
  "User_tree L = object_tree L (UserSpec_tree L) (UserStatus_tree L)
     (\<lambda>m (sp, p) st. \<lparr>u_meta = m, u_spec = sp, u_params = p, u_status = st\<rparr>)"

lemma Copy_User_tree [simp]: "Copy (User_tree L) = DeepCopyInto_User L"
  by (simp add: User_tree_def DeepCopyInto_User_def)

lemma deep_User [deep_types]:
  assumes "deep_golib L"
  shows "deep_copier (User_tree L)"
  unfolding User_tree_def by (intro deep_parts deep_types assms; simp)

definition UserList_tree :: "'l golib \<Rightarrow> ('l mem_list, type_meta \<times> string \<times> (type_meta \<times> user) list option, 'l cell) copier" where
  "UserList_tree L = items_tree L UserItems_c (User_tree L)"

lemma Copy_UserList_tree [simp]: "Copy (UserList_tree L) = DeepCopyInto_UserList L"
  by (simp add: UserList_tree_def DeepCopyInto_UserList_def)

lemma deep_UserList [deep_types]:
  assumes "deep_golib L"
  shows "deep_copier (UserList_tree L)"
  unfolding UserList_tree_def by (intro deep_parts deep_types assms; simp)

definition ProviderCredentials_tree :: "'l golib \<Rightarrow> ('l mem_provider_credentials, provider_credentials, 'l cell) copier" where
  "ProviderCredentials_tree L = struct_of (DeepCopyInto_ProviderCredentials L) mc_CommonCredentialSelectors
     (\<lambda>x sel. \<lparr>cred_Source = mc_Source x, cred_APISecretRef = mc_APISecretRef x, cred_SecretRef = sel\<rparr>)
     (CommonCredentialSelectors_lib L)"

lemma Copy_ProviderCredentials_tree [simp]: "Copy (ProviderCredentials_tree L) = DeepCopyInto_ProviderCredentials L"
  by (simp add: ProviderCredentials_tree_def)

lemma deep_ProviderCredentials [deep_types]:
  assumes "deep_golib L"
  shows "deep_copier (ProviderCredentials_tree L)"
  unfolding ProviderCredentials_tree_def
  by (rule deep_struct, intro deep_parts deep_types assms) (auto simp: DeepCopyInto_ProviderCredentials_def Let_def split: prod.splits)

definition ProviderConfigSpec_tree :: "'l golib \<Rightarrow> ('l mem_provider_config_spec, provider_config, 'l cell) copier" where
  "ProviderConfigSpec_tree L = struct_of (DeepCopyInto_ProviderConfigSpec L) (\<lambda>x. (mc_Credentials x, mc_TLS x))
     (\<lambda>x (cred, tls). \<lparr>pc_Credentials = cred, pc_MinioURL = mc_MinioURL x, pc_TLS = tls\<rparr>)
     (pair_of (ProviderCredentials_tree L) (ptr_of TLSConfig_c (TLSConfig_tree L)))"

lemma Copy_ProviderConfigSpec_tree [simp]: "Copy (ProviderConfigSpec_tree L) = DeepCopyInto_ProviderConfigSpec L"
  by (simp add: ProviderConfigSpec_tree_def)

lemma deep_ProviderConfigSpec [deep_types]:
  assumes "deep_golib L"
  shows "deep_copier (ProviderConfigSpec_tree L)"
  unfolding ProviderConfigSpec_tree_def
  by (rule deep_struct, intro deep_parts deep_types assms) (auto simp: DeepCopyInto_ProviderConfigSpec_def Let_def split: prod.splits)

definition ProviderConfigStatus_tree :: "'l golib \<Rightarrow> ('l mem_provider_config_status, provider_config_status, 'l cell) copier" where
  "ProviderConfigStatus_tree L = struct_of (DeepCopyInto_ProviderConfigStatus L) mc_ProviderConfigStatus
     (\<lambda>_ st. st)
     (ProviderConfigStatus_lib L)"

lemma Copy_ProviderConfigStatus_tree [simp]: "Copy (ProviderConfigStatus_tree L) = DeepCopyInto_ProviderConfigStatus L"
  by (simp add: ProviderConfigStatus_tree_def)

lemma deep_ProviderConfigStatus [deep_types]:
  assumes "deep_golib L"
  shows "deep_copier (ProviderConfigStatus_tree L)"
  unfolding ProviderConfigStatus_tree_def
  by (rule deep_struct, intro deep_parts deep_types assms) (auto simp: DeepCopyInto_ProviderConfigStatus_def Let_def split: prod.splits)

definition ProviderConfig_tree :: "'l golib \<Rightarrow> ('l mem_provider_config, type_meta \<times> object_meta \<times> provider_config \<times> provider_config_status, 'l cell) copier" where
  "ProviderConfig_tree L = object_tree L (ProviderConfigSpec_tree L) (ProviderConfigStatus_tree L) (\<lambda>m sp st. (m, sp, st))"

lemma Copy_ProviderConfig_tree [simp]: "Copy (ProviderConfig_tree L) = DeepCopyInto_ProviderConfig L"
  by (simp add: ProviderConfig_tree_def DeepCopyInto_ProviderConfig_def)

lemma deep_ProviderConfig [deep_types]:
  assumes "deep_golib L"
  shows "deep_copier (ProviderConfig_tree L)"
  unfolding ProviderConfig_tree_def by (intro deep_parts deep_types assms; simp)

definition ProviderConfigList_tree :: "'l golib \<Rightarrow> ('l mem_list, type_meta \<times> string \<times> (type_meta \<times> object_meta \<times> provider_config \<times> provider_config_status) list option, 'l cell) copier" where
  "ProviderConfigList_tree L = items_tree L ProviderConfigItems_c (ProviderConfig_tree L)"

lemma Copy_ProviderConfigList_tree [simp]: "Copy (ProviderConfigList_tree L) = DeepCopyInto_ProviderConfigList L"
  by (simp add: ProviderConfigList_tree_def DeepCopyInto_ProviderConfigList_def)

lemma deep_ProviderConfigList [deep_types]:
  assumes "deep_golib L"
  shows "deep_copier (ProviderConfigList_tree L)"
  unfolding ProviderConfigList_tree_def by (intro deep_parts deep_types assms; simp)

definition ProviderConfigUsage_tree :: "'l golib \<Rightarrow> ('l mem_provider_config_usage, type_meta \<times> object_meta \<times> 'l \<times> 'l, 'l cell) copier" where
  "ProviderConfigUsage_tree L = struct_of (DeepCopyInto_ProviderConfigUsage L) mpu_ObjectMeta
     (\<lambda>x m. (mpu_TypeMeta x, m, mpu_ProviderConfigReference x, mpu_ResourceReference x))
     (ObjectMeta_lib L)"

lemma Copy_ProviderConfigUsage_tree [simp]: "Copy (ProviderConfigUsage_tree L) = DeepCopyInto_ProviderConfigUsage L"
  by (simp add: ProviderConfigUsage_tree_def)

lemma deep_ProviderConfigUsage [deep_types]:
  assumes "deep_golib L"
  shows "deep_copier (ProviderConfigUsage_tree L)"
  unfolding ProviderConfigUsage_tree_def
  by (rule deep_struct, intro deep_parts deep_types assms) (auto simp: DeepCopyInto_ProviderConfigUsage_def Let_def split: prod.splits)

definition ProviderConfigUsageList_tree :: "'l golib \<Rightarrow> ('l mem_list, type_meta \<times> string \<times> (type_meta \<times> object_meta \<times> 'l \<times> 'l) list option, 'l cell) copier" where
  "ProviderConfigUsageList_tree L = items_tree L ProviderConfigUsageItems_c (ProviderConfigUsage_tree L)"

lemma Copy_ProviderConfigUsageList_tree [simp]: "Copy (ProviderConfigUsageList_tree L) = DeepCopyInto_ProviderConfigUsageList L"
  by (simp add: ProviderConfigUsageList_tree_def DeepCopyInto_ProviderConfigUsageList_def)

lemma deep_ProviderConfigUsageList [deep_types]:
  assumes "deep_golib L"
  shows "deep_copier (ProviderConfigUsageList_tree L)"
  unfolding ProviderConfigUsageList_tree_def by (intro deep_parts deep_types assms; simp)

end
