(* ===== verification/DeepCopy_Props.thy ===== *)
theory DeepCopy_Props
  imports DeepCopy_Tree "HOL-Library.List_Lexorder" "HOL-Library.Char_ord"
begin

text \<open>
  What the deep copies promise their callers, the informers and controllers that hold pointers
  to API objects: the laws of \<open>deep_copier\<close> for the interface \<^verbatim>\<open>runtime.Object\<close>, the
  isolation of the copy, the dynamic type of what \<^verbatim>\<open>DeepCopyObject\<close> returns, and the pointers
  \<^verbatim>\<open>GetItems\<close> hands out. Witnesses run on a small memory with a bucket, its policy and its tags.
\<close>

section \<open>Copiers that need nothing of the libraries\<close>

interpretation key_filter: deep_copier "KeyFilter_tree L" for L
  by (rule deep_KeyFilter)

interpretation notification_filter: deep_copier "NotificationFilter_tree L" for L
  by (rule deep_NotificationFilter)

interpretation notification_parameters: deep_copier "NotificationConfigurationParameters_tree L" for L
  by (rule deep_NotificationConfigurationParameters)

interpretation user_parameters: deep_copier "UserParameters_tree L" for L
  by (rule deep_UserParameters)

section \<open>Objects behind the interface\<close>

text \<open>What an object reads as; a typed nil pointer reads as \<open>Some None\<close>.\<close>

datatype 'l object_value =
    VBucket "type_meta \<times> bucket"
  | VBucketList "type_meta \<times> string \<times> (type_meta \<times> bucket) list option"
  | VNotificationConfiguration "type_meta \<times> notification_configuration"
  | VNotificationConfigurationList "type_meta \<times> string \<times> (type_meta \<times> notification_configuration) list option"
  | VPolicy "type_meta \<times> policy"
  | VPolicyList "type_meta \<times> string \<times> (type_meta \<times> policy) list option"
  | VServiceAccount "type_meta \<times> service_account"
  | VServiceAccountList "type_meta \<times> string \<times> (type_meta \<times> service_account) list option"
  | VUser "type_meta \<times> user"
  | VUserList "type_meta \<times> string \<times> (type_meta \<times> user) list option"
  | VProviderConfig "type_meta \<times> object_meta \<times> provider_config \<times> provider_config_status"
  | VProviderConfigList "type_meta \<times> string \<times> (type_meta \<times> object_meta \<times> provider_config \<times> provider_config_status) list option"
  | VProviderConfigUsage "type_meta \<times> object_meta \<times> 'l \<times> 'l"
  | VProviderConfigUsageList "type_meta \<times> string \<times> (type_meta \<times> object_meta \<times> 'l \<times> 'l) list option"

fun object_view :: "'l golib \<Rightarrow> 'l cell store \<Rightarrow> runtime_object \<Rightarrow> 'l object_value option option" where
  "object_view L s (Bucket_o p) = map_option (map_option VBucket) (View (ptr_of Bucket_c (Bucket_tree L)) s p)"
| "object_view L s (BucketList_o p) = map_option (map_option VBucketList) (View (ptr_of BucketList_c (BucketList_tree L)) s p)"
| "object_view L s (NotificationConfiguration_o p) = map_option (map_option VNotificationConfiguration) (View (ptr_of NotificationConfiguration_c (NotificationConfiguration_tree L)) s p)"
| "object_view L s (NotificationConfigurationList_o p) = map_option (map_option VNotificationConfigurationList) (View (ptr_of NotificationConfigurationList_c (NotificationConfigurationList_tree L)) s p)"
| "object_view L s (Policy_o p) = map_option (map_option VPolicy) (View (ptr_of Policy_c (Policy_tree L)) s p)"
| "object_view L s (PolicyList_o p) = map_option (map_option VPolicyList) (View (ptr_of PolicyList_c (PolicyList_tree L)) s p)"
| "object_view L s (ServiceAccount_o p) = map_option (map_option VServiceAccount) (View (ptr_of ServiceAccount_c (ServiceAccount_tree L)) s p)"
| "object_view L s (ServiceAccountList_o p) = map_option (map_option VServiceAccountList) (View (ptr_of ServiceAccountList_c (ServiceAccountList_tree L)) s p)"
| "object_view L s (User_o p) = map_option (map_option VUser) (View (ptr_of User_c (User_tree L)) s p)"
| "object_view L s (UserList_o p) = map_option (map_option VUserList) (View (ptr_of UserList_c (UserList_tree L)) s p)"
| "object_view L s (ProviderConfig_o p) = map_option (map_option VProviderConfig) (View (ptr_of ProviderConfig_c (ProviderConfig_tree L)) s p)"
| "object_view L s (ProviderConfigList_o p) = map_option (map_option VProviderConfigList) (View (ptr_of ProviderConfigList_c (ProviderConfigList_tree L)) s p)"
| "object_view L s (ProviderConfigUsage_o p) = map_option (map_option VProviderConfigUsage) (View (ptr_of ProviderConfigUsage_c (ProviderConfigUsage_tree L)) s p)"
| "object_view L s (ProviderConfigUsageList_o p) = map_option (map_option VProviderConfigUsageList) (View (ptr_of ProviderConfigUsageList_c (ProviderConfigUsageList_tree L)) s p)"

fun object_reach :: "'l golib \<Rightarrow> 'l cell store \<Rightarrow> runtime_object \<Rightarrow> addr set" where
  "object_reach L s (Bucket_o p) = Reach (ptr_of Bucket_c (Bucket_tree L)) s p"
| "object_reach L s (BucketList_o p) = Reach (ptr_of BucketList_c (BucketList_tree L)) s p"
| "object_reach L s (NotificationConfiguration_o p) = Reach (ptr_of NotificationConfiguration_c (NotificationConfiguration_tree L)) s p"
| "object_reach L s (NotificationConfigurationList_o p) = Reach (ptr_of NotificationConfigurationList_c (NotificationConfigurationList_tree L)) s p"
| "object_reach L s (Policy_o p) = Reach (ptr_of Policy_c (Policy_tree L)) s p"
| "object_reach L s (PolicyList_o p) = Reach (ptr_of PolicyList_c (PolicyList_tree L)) s p"
| "object_reach L s (ServiceAccount_o p) = Reach (ptr_of ServiceAccount_c (ServiceAccount_tree L)) s p"
| "object_reach L s (ServiceAccountList_o p) = Reach (ptr_of ServiceAccountList_c (ServiceAccountList_tree L)) s p"
| "object_reach L s (User_o p) = Reach (ptr_of User_c (User_tree L)) s p"
| "object_reach L s (UserList_o p) = Reach (ptr_of UserList_c (UserList_tree L)) s p"
| "object_reach L s (ProviderConfig_o p) = Reach (ptr_of ProviderConfig_c (ProviderConfig_tree L)) s p"
| "object_reach L s (ProviderConfigList_o p) = Reach (ptr_of ProviderConfigList_c (ProviderConfigList_tree L)) s p"
| "object_reach L s (ProviderConfigUsage_o p) = Reach (ptr_of ProviderConfigUsage_c (ProviderConfigUsage_tree L)) s p"
| "object_reach L s (ProviderConfigUsageList_o p) = Reach (ptr_of ProviderConfigUsageList_c (ProviderConfigUsageList_tree L)) s p"

text \<open>The dynamic type and the pointer of an interface value.\<close>

fun go_type :: "runtime_object \<Rightarrow> string" where
  "go_type (Bucket_o p) = ''*v1beta1.Bucket''"
| "go_type (BucketList_o p) = ''*v1beta1.BucketList''"
| "go_type (NotificationConfiguration_o p) = ''*v1beta1.NotificationConfiguration''"
| "go_type (NotificationConfigurationList_o p) = ''*v1beta1.NotificationConfigurationList''"
| "go_type (Policy_o p) = ''*v1beta1.Policy''"
| "go_type (PolicyList_o p) = ''*v1beta1.PolicyList''"
| "go_type (ServiceAccount_o p) = ''*v1beta1.ServiceAccount''"
| "go_type (ServiceAccountList_o p) = ''*v1beta1.ServiceAccountList''"
| "go_type (User_o p) = ''*v1beta1.User''"
| "go_type (UserList_o p) = ''*v1beta1.UserList''"
| "go_type (ProviderConfig_o p) = ''*v1.ProviderConfig''"
| "go_type (ProviderConfigList_o p) = ''*v1.ProviderConfigList''"
| "go_type (ProviderConfigUsage_o p) = ''*v1.ProviderConfigUsage''"
| "go_type (ProviderConfigUsageList_o p) = ''*v1.ProviderConfigUsageList''"

fun object_pointer :: "runtime_object \<Rightarrow> addr option" where
  "object_pointer (Bucket_o p) = p"
| "object_pointer (BucketList_o p) = p"
| "object_pointer (NotificationConfiguration_o p) = p"
| "object_pointer (NotificationConfigurationList_o p) = p"
| "object_pointer (Policy_o p) = p"
| "object_pointer (PolicyList_o p) = p"
| "object_pointer (ServiceAccount_o p) = p"
| "object_pointer (ServiceAccountList_o p) = p"
| "object_pointer (User_o p) = p"
| "object_pointer (UserList_o p) = p"
| "object_pointer (ProviderConfig_o p) = p"
| "object_pointer (ProviderConfigList_o p) = p"
| "object_pointer (ProviderConfigUsage_o p) = p"
| "object_pointer (ProviderConfigUsageList_o p) = p"

lemmas object_copy_defs =
  DeepCopyObject_Bucket_def DeepCopy_Bucket_def
  DeepCopyObject_BucketList_def DeepCopy_BucketList_def
  DeepCopyObject_NotificationConfiguration_def DeepCopy_NotificationConfiguration_def
  DeepCopyObject_NotificationConfigurationList_def DeepCopy_NotificationConfigurationList_def
  DeepCopyObject_Policy_def DeepCopy_Policy_def
  DeepCopyObject_PolicyList_def DeepCopy_PolicyList_def
  DeepCopyObject_ServiceAccount_def DeepCopy_ServiceAccount_def
  DeepCopyObject_ServiceAccountList_def DeepCopy_ServiceAccountList_def
  DeepCopyObject_User_def DeepCopy_User_def
  DeepCopyObject_UserList_def DeepCopy_UserList_def
  DeepCopyObject_ProviderConfig_def DeepCopy_ProviderConfig_def
  DeepCopyObject_ProviderConfigList_def DeepCopy_ProviderConfigList_def
  DeepCopyObject_ProviderConfigUsage_def DeepCopy_ProviderConfigUsage_def
  DeepCopyObject_ProviderConfigUsageList_def DeepCopy_ProviderConfigUsageList_def

lemma copy_ptr_nil: "copy_ptr k cp p s = (q, t) \<Longrightarrow> q = None \<longleftrightarrow> p = None"
  by (auto simp: copy_ptr_def Let_def split: option.splits prod.splits)

definition object_tree_of :: "'l golib \<Rightarrow> (runtime_object, 'l object_value option, 'l cell) copier" where
  "object_tree_of L = \<lparr>Copy = (\<lambda>obj s. case DeepCopyObject L obj s of (None, t) \<Rightarrow> (obj, t) | (Some c, t) \<Rightarrow> (c, t)),
     View = object_view L, Reach = object_reach L\<rparr>"

lemma object_tree_simps [simp]:
  "View (object_tree_of L) = object_view L" "Reach (object_tree_of L) = object_reach L"
  by (simp_all add: object_tree_of_def)

lemma object_copies:
  "Copy (object_tree_of L) (Bucket_o p) s = map_prod Bucket_o id (Copy (ptr_of Bucket_c (Bucket_tree L)) p s)"
  "Copy (object_tree_of L) (BucketList_o p) s = map_prod BucketList_o id (Copy (ptr_of BucketList_c (BucketList_tree L)) p s)"
  "Copy (object_tree_of L) (NotificationConfiguration_o p) s = map_prod NotificationConfiguration_o id (Copy (ptr_of NotificationConfiguration_c (NotificationConfiguration_tree L)) p s)"
  "Copy (object_tree_of L) (NotificationConfigurationList_o p) s = map_prod NotificationConfigurationList_o id (Copy (ptr_of NotificationConfigurationList_c (NotificationConfigurationList_tree L)) p s)"
  "Copy (object_tree_of L) (Policy_o p) s = map_prod Policy_o id (Copy (ptr_of Policy_c (Policy_tree L)) p s)"
  "Copy (object_tree_of L) (PolicyList_o p) s = map_prod PolicyList_o id (Copy (ptr_of PolicyList_c (PolicyList_tree L)) p s)"
  "Copy (object_tree_of L) (ServiceAccount_o p) s = map_prod ServiceAccount_o id (Copy (ptr_of ServiceAccount_c (ServiceAccount_tree L)) p s)"
  "Copy (object_tree_of L) (ServiceAccountList_o p) s = map_prod ServiceAccountList_o id (Copy (ptr_of ServiceAccountList_c (ServiceAccountList_tree L)) p s)"
  "Copy (object_tree_of L) (User_o p) s = map_prod User_o id (Copy (ptr_of User_c (User_tree L)) p s)"
  "Copy (object_tree_of L) (UserList_o p) s = map_prod UserList_o id (Copy (ptr_of UserList_c (UserList_tree L)) p s)"
  "Copy (object_tree_of L) (ProviderConfig_o p) s = map_prod ProviderConfig_o id (Copy (ptr_of ProviderConfig_c (ProviderConfig_tree L)) p s)"
  "Copy (object_tree_of L) (ProviderConfigList_o p) s = map_prod ProviderConfigList_o id (Copy (ptr_of ProviderConfigList_c (ProviderConfigList_tree L)) p s)"
  "Copy (object_tree_of L) (ProviderConfigUsage_o p) s = map_prod ProviderConfigUsage_o id (Copy (ptr_of ProviderConfigUsage_c (ProviderConfigUsage_tree L)) p s)"
  "Copy (object_tree_of L) (ProviderConfigUsageList_o p) s = map_prod ProviderConfigUsageList_o id (Copy (ptr_of ProviderConfigUsageList_c (ProviderConfigUsageList_tree L)) p s)"
  by (auto simp: object_tree_of_def object_copy_defs split: option.splits prod.splits dest!: copy_ptr_nil)

text \<open>The laws hold of the interface because they hold of each type: \<open>K\<close> is the constructor of one.\<close>

lemma part_copied:
  assumes "map_prod K id (Copy c p s) = (q, t)" and "map_option f (View c s p) = Some v" and "wf_store s"
    and "\<And>s p. V s (K p) = map_option f (View c s p)" and "\<And>s p. R s (K p) = Reach c s p" and "deep_copier c"
  shows "extends s t \<and> V t q = Some v \<and> R t q \<subseteq> {next_addr s..<next_addr t}"
proof -
  obtain p' u where cp: "Copy c p s = (p', u)" by (cases "Copy c p s")
  from assms(2) obtain v' where v: "View c s p = Some v'" "v = f v'" by auto
  from assms(1) cp have q: "q = K p'" "t = u" by auto
  from deep_copier.copied [OF assms(6,3) v(1) cp] v(2) show ?thesis by (simp add: q assms(4,5))
qed

lemma part_allocated:
  "deep_copier c \<Longrightarrow> wf_store s \<Longrightarrow> map_option f (View c s p) = Some v \<Longrightarrow> Reach c s p \<subseteq> {..<next_addr s}"
  by (auto dest: deep_copier.allocated)

lemma part_framed:
  assumes "deep_copier c" and "map_option f (View c s p) = Some v" and "agree_on (Reach c s p) s t"
  shows "map_option f (View c t p) = Some v \<and> Reach c t p = Reach c s p"
proof -
  from assms(2) obtain v' where "View c s p = Some v'" "v = f v'" by auto
  with deep_copier.framed [OF assms(1) this(1) assms(3)] show ?thesis by simp
qed

lemma deep_object:
  assumes L: "deep_golib L"
  shows "deep_copier (object_tree_of L)"
proof
  fix s obj v q t
  assume s: "wf_store s" and v: "View (object_tree_of L) s obj = Some v" and cp: "Copy (object_tree_of L) obj s = (q, t)"
  then show "extends s t \<and> View (object_tree_of L) t q = Some v \<and> Reach (object_tree_of L) t q \<subseteq> {next_addr s..<next_addr t}"
    by (cases obj, simp_all only: object_copies object_tree_simps object_view.simps)
       (erule part_copied [where V = "object_view L" and R = "object_reach L"], assumption, assumption,
        simp only: object_view.simps, simp only: object_reach.simps, intro deep_ptr deep_types L proper_cells)+
next
  fix s obj v
  assume "wf_store s" and "View (object_tree_of L) s obj = Some v"
  then show "Reach (object_tree_of L) s obj \<subseteq> {..<next_addr s}"
    by (cases obj, simp_all only: object_tree_simps object_view.simps object_reach.simps)
       (erule part_allocated [rotated 2], intro deep_ptr deep_types L proper_cells, assumption)+
next
  fix s obj v t
  assume "View (object_tree_of L) s obj = Some v" and "agree_on (Reach (object_tree_of L) s obj) s t"
  then show "View (object_tree_of L) t obj = Some v \<and> Reach (object_tree_of L) t obj = Reach (object_tree_of L) s obj"
    by (cases obj, simp_all only: object_tree_simps object_view.simps object_reach.simps)
       (erule part_framed [rotated 1], assumption, intro deep_ptr deep_types L proper_cells)+
qed

lemma nil_view: "object_pointer obj = None \<Longrightarrow> object_view L s obj = Some None"
  by (cases obj) auto

lemma object_copy_Some:
  assumes "object_view L s obj = Some (Some v)"
  shows "\<exists>c t. DeepCopyObject L obj s = (Some c, t) \<and> Copy (object_tree_of L) obj s = (c, t)"
proof -
  from assms nil_view [of obj L s] have "object_pointer obj \<noteq> None" by auto
  then have "\<exists>c t. DeepCopyObject L obj s = (Some c, t)"
    by (cases obj) (auto simp: object_copy_defs split: option.splits prod.splits dest!: copy_ptr_nil)
  then show ?thesis by (auto simp: object_tree_of_def)
qed

section \<open>A memory\<close>

text \<open>
  Library structs without pointers, times in cells of their own, and the keys of a map in
  increasing order.
\<close>

datatype plain_lib =
    PMeta object_meta
  | PListMeta string
  | PSpec managed_spec
  | PConditions "condition list"
  | PTime instant
  | PSelector key_selector
  | PSecretRef "secret_key_reference option"
  | PUse provider_config_status

definition plain_golib :: "plain_lib golib" where
  "plain_golib = \<lparr>
     ObjectMeta_lib = plain (\<lambda>x. case x of PMeta m \<Rightarrow> Some m | _ \<Rightarrow> None),
     ListMeta_lib = plain (\<lambda>x. case x of PListMeta m \<Rightarrow> Some m | _ \<Rightarrow> None),
     ManagedResourceSpec_lib = plain (\<lambda>x. case x of PSpec m \<Rightarrow> Some m | _ \<Rightarrow> None),
     ConditionedStatus_lib = plain (\<lambda>x. case x of PConditions m \<Rightarrow> Some m | _ \<Rightarrow> None),
     Time_lib = ptr_of Lib_c (plain (\<lambda>x. case x of PTime m \<Rightarrow> Some m | _ \<Rightarrow> None)),
     SecretKeySelector_lib = plain (\<lambda>x. case x of PSelector m \<Rightarrow> Some m | _ \<Rightarrow> None),
     ConfigMapKeySelector_lib = plain (\<lambda>x. case x of PSelector m \<Rightarrow> Some m | _ \<Rightarrow> None),
     CommonCredentialSelectors_lib = plain (\<lambda>x. case x of PSecretRef m \<Rightarrow> Some m | _ \<Rightarrow> None),
     ProviderConfigStatus_lib = plain (\<lambda>x. case x of PUse m \<Rightarrow> Some m | _ \<Rightarrow> None),
     range_keys = (\<lambda>m. sorted_list_of_set (fset (fmdom m)))\<rparr>"

lemma deep_plain_golib: "deep_golib plain_golib"
  unfolding deep_golib_def plain_golib_def golib.simps
  by (intro conjI allI deep_plain deep_ptr proper_cells) simp_all

definition sample_meta :: object_meta where
  "sample_meta = \<lparr>Name = ''logs'', Namespace = ''team'', Annotations = None, DeletionTimestamp = None\<rparr>"

definition sample_spec :: managed_spec where
  "sample_spec = \<lparr>ManagementPolicies = None, ProviderConfigReference = Some ''default'', WriteConnectionSecretToReference = None\<rparr>"

definition sample_memory :: "plain_lib cell store" where
  "sample_memory = \<lparr>cells = [
     0 \<mapsto> InBucket (CBucket \<lparr>mo_TypeMeta = \<lparr>tm_Kind = ''Bucket'', tm_APIVersion = ''v1beta1''\<rparr>, mo_ObjectMeta = PMeta sample_meta,
            mo_Spec = \<lparr>mo_ManagedResourceSpec = PSpec sample_spec, mo_ForProvider = \<lparr>mb_BucketName = '''', mb_Region = ''us-east-1'',
              mb_BucketDeletionPolicy = DeleteAll, mb_Policy = Some 1, mb_Tags = Some 2\<rparr>\<rparr>,
            mo_Status = \<lparr>mo_ConditionedStatus = PConditions [], mo_AtProvider = \<lparr>bps_BucketName = ''logs''\<rparr>,
              mb_Endpoint = '''', mb_EndpointURL = ''''\<rparr>\<rparr>),
     1 \<mapsto> CStr ''{}'',
     2 \<mapsto> CStrMap (fmap_of_list [(''tier'', ''hot'')])], next_addr = 3\<rparr>"

definition sample_bucket :: bucket where
  "sample_bucket = \<lparr>b_meta = sample_meta, b_spec = sample_spec,
     b_params = \<lparr>bp_BucketName = '''', bp_Region = ''us-east-1'', bp_BucketDeletionPolicy = DeleteAll, bp_Policy = Some ''{}'',
       bp_Tags = Some (fmap_of_list [(''tier'', ''hot'')])\<rparr>,
     b_status = \<lparr>bs_Conditions = [], bs_Endpoint = '''', bs_EndpointURL = '''', bs_BucketName = ''logs''\<rparr>\<rparr>"

definition sample_value :: "plain_lib object_value" where
  "sample_value = VBucket (\<lparr>tm_Kind = ''Bucket'', tm_APIVersion = ''v1beta1''\<rparr>, sample_bucket)"

lemma sample_wf: "wf_store sample_memory"
  by (auto simp: wf_store_def sample_memory_def)

lemma sample_view: "object_view plain_golib sample_memory (Bucket_o (Some 0)) = Some (Some sample_value)"
  by (simp add: sample_memory_def sample_value_def sample_bucket_def Bucket_tree_def object_tree_def BucketSpec_tree_def
      BucketStatus_tree_def spec_tree_def status_tree_def BucketParameters_tree_def plain_golib_def plain_def get_cell_def
      Bucket_c_def Str_c_def StrMap_c_def)

section \<open>The properties\<close>

text \<open>
  C15. For every API type of the provider, the deep copy of an object that can be read is a
  non-nil object that reads as the same resource, made of newly allocated cells only; nothing
  that existed before is changed. The two are isolated from each other: whatever is written, any number of times, to the
  memory the copy consists of, the original still reads as before, and whatever is written to
  the original leaves the copy as it was made.
\<close>
theorem deep_copy_object_is_deep:
  assumes "deep_golib L" and "wf_store s" and "object_view L s obj = Some (Some v)"
  shows "\<exists>c t. DeepCopyObject L obj s = (Some c, t) \<and> extends s t \<and> object_view L t c = Some (Some v) \<and>
    object_view L t obj = Some (Some v) \<and> object_reach L t c \<inter> object_reach L t obj = {} \<and>
    (\<forall>u. (writes (object_reach L t c) t u \<longrightarrow> object_view L u obj = Some (Some v)) \<and>
         (writes (object_reach L t obj) t u \<longrightarrow> object_view L u c = Some (Some v)))"
proof -
  note d = deep_object [OF assms(1)]
  from object_copy_Some [OF assms(3)] obtain c t where c: "DeepCopyObject L obj s = (Some c, t)" "Copy (object_tree_of L) obj s = (c, t)" by blast
  have v: "View (object_tree_of L) s obj = Some (Some v)" using assms(3) by simp
  have "\<forall>u. (writes (object_reach L t c) t u \<longrightarrow> object_view L u obj = Some (Some v)) \<and>
      (writes (object_reach L t obj) t u \<longrightarrow> object_view L u c = Some (Some v))"
    using deep_copier.isolated [OF d assms(2) v c(2)] by simp
  with deep_copier.copied [OF d assms(2) v c(2)] deep_copier.disjoint [OF d assms(2) v c(2)]
    deep_copier.kept [OF d assms(2) v, of t] c(1) show ?thesis by auto
qed

text \<open>The witness overwrites the tags of the copy, which lie at address 5.\<close>

lemma sample_copy:
  "DeepCopyObject plain_golib (Bucket_o (Some 0)) sample_memory = (Some c, t) \<Longrightarrow> c = Bucket_o (Some 3) \<and> 5 \<in> object_reach plain_golib t c"
  by (auto simp: object_copy_defs DeepCopyInto_Bucket_def DeepCopyInto_BucketSpec_def DeepCopyInto_BucketStatus_def copy_object_def
      copy_spec_def copy_status_def DeepCopyInto_BucketParameters_def copy_ptr_def copy_map_def alloc_def write_cell_def Let_def
      sample_memory_def Bucket_tree_def object_tree_def BucketSpec_tree_def
      BucketStatus_tree_def spec_tree_def status_tree_def BucketParameters_tree_def plain_golib_def plain_def get_cell_def
      Bucket_c_def Str_c_def StrMap_c_def)

theorem deep_copy_object_is_deep_witness:
  "\<exists>c t. DeepCopyObject plain_golib (Bucket_o (Some 0)) sample_memory = (Some c, t) \<and> object_view plain_golib t c = Some (Some sample_value) \<and>
    object_view plain_golib (write_cell 5 (CStrMap fmempty) t) (Bucket_o (Some 0)) = Some (Some sample_value)"
proof -
  from deep_copy_object_is_deep [OF deep_plain_golib sample_wf sample_view] obtain c t where
    c: "DeepCopyObject plain_golib (Bucket_o (Some 0)) sample_memory = (Some c, t)" "object_view plain_golib t c = Some (Some sample_value)"
    and w: "\<And>u. writes (object_reach plain_golib t c) t u \<Longrightarrow> object_view plain_golib u (Bucket_o (Some 0)) = Some (Some sample_value)" by blast
  from sample_copy [OF c(1)] have "writes (object_reach plain_golib t c) t (write_cell 5 (CStrMap fmempty) t)"
    by (auto intro: writes.intros)
  with w c show ?thesis by blast
qed

text \<open>
  C37. \<^verbatim>\<open>DeepCopyObject\<close> keeps the dynamic type and never returns a typed nil: a nil receiver
  gives the nil interface and leaves the memory alone, any other gives a non-nil pointer of the
  same type.
\<close>
theorem deep_copy_object_type:
  "case DeepCopyObject L obj s of
     (None, t) \<Rightarrow> object_pointer obj = None \<and> t = s
   | (Some c, t) \<Rightarrow> object_pointer obj \<noteq> None \<and> go_type c = go_type obj \<and> object_pointer c \<noteq> None"
proof -
  have nil: "copy_ptr k cp None s = (None, s)" for k cp by (simp add: copy_ptr_def)
  show ?thesis
    by (cases obj; cases "object_pointer obj") (auto simp: nil object_copy_defs split: option.splits prod.splits dest!: copy_ptr_nil)
qed

end
