(* ===== verification/Accessors.thy ===== *)
theory Accessors
  imports DeepCopy_Props Connectors
begin

text \<open>
  The accessors \<^verbatim>\<open>angryjet\<close> generates, by which the Crossplane runtime reads and writes a managed
  resource, a provider configuration and its usages without knowing their types
  (\<^verbatim>\<open>zz_generated.managed.go\<close>, \<^verbatim>\<open>zz_generated.pc.go\<close>, \<^verbatim>\<open>zz_generated.pcu.go\<close>), and \<^verbatim>\<open>GetItems\<close> of the
  lists (\<^verbatim>\<open>zz_generated.managedlist.go\<close>, \<^verbatim>\<open>zz_generated.pculist.go\<close>). What \<^verbatim>\<open>GetCondition\<close> of the
  embedded status computes is library code, the parameter \<open>get\<close>.

  A getter with its setter is a \<open>lens\<close>; a managed resource has three of them that do not interfere
  with each other or with the conditions (\<open>managed_accessors\<close>), and each of the five kinds is one.
\<close>

section \<open>Getters and setters\<close>

locale lens =
  fixes get :: "'m \<Rightarrow> 'v" and set :: "'m \<Rightarrow> 'v \<Rightarrow> 'm"
  assumes get_set: "get (set m v) = v"
    and set_get: "set m (get m) = m"
    and set_set: "set (set m v) u = set m u"
begin

lemma set_inject: "set m v = set m u \<longleftrightarrow> v = u"
  by (metis get_set)

lemma set_same: "set m v = m \<longleftrightarrow> get m = v"
  by (metis get_set set_get)

end

locale two_lenses = l1: lens get1 set1 + l2: lens get2 set2
  for get1 :: "'m \<Rightarrow> 'v" and set1 :: "'m \<Rightarrow> 'v \<Rightarrow> 'm" and get2 :: "'m \<Rightarrow> 'u" and set2 :: "'m \<Rightarrow> 'u \<Rightarrow> 'm" +
  assumes get1_set2: "get1 (set2 m u) = get1 m"
    and get2_set1: "get2 (set1 m v) = get2 m"
    and set_commute: "set1 (set2 m u) v = set2 (set1 m v) u"

locale managed_accessors =
  mp_pcr: two_lenses getMP setMP getPCR setPCR + mp_wcs: two_lenses getMP setMP getWCS setWCS +
  pcr_wcs: two_lenses getPCR setPCR getWCS setWCS
  for getMP :: "'m \<Rightarrow> string list option" and setMP and getPCR :: "'m \<Rightarrow> string option" and setPCR
    and getWCS :: "'m \<Rightarrow> string option" and setWCS +
  fixes setC :: "'m \<Rightarrow> condition list \<Rightarrow> 'm"
  assumes conditions_keep: "getMP (setC m cs) = getMP m" "getPCR (setC m cs) = getPCR m" "getWCS (setC m cs) = getWCS m"
    and conditions_append: "setC (setC m cs) ds = setC m (cs @ ds)"
    and conditions_commute: "setMP (setC m cs) mp = setC (setMP m mp) cs" "setPCR (setC m cs) r = setC (setPCR m r) cs"
      "setWCS (setC m cs) r = setC (setWCS m r) cs"


section \<open>Managed resources\<close>

definition GetCondition_Bucket :: "(condition list \<Rightarrow> string \<Rightarrow> 'k) \<Rightarrow> bucket \<Rightarrow> string \<Rightarrow> 'k" where
  "GetCondition_Bucket get mg ct = get (bs_Conditions (b_status mg)) ct"

definition GetManagementPolicies_Bucket :: "bucket \<Rightarrow> string list option" where
  "GetManagementPolicies_Bucket mg = ManagementPolicies (b_spec mg)"

definition GetProviderConfigReference_Bucket :: "bucket \<Rightarrow> string option" where
  "GetProviderConfigReference_Bucket mg = ProviderConfigReference (b_spec mg)"

definition GetWriteConnectionSecretToReference_Bucket :: "bucket \<Rightarrow> string option" where
  "GetWriteConnectionSecretToReference_Bucket mg = WriteConnectionSecretToReference (b_spec mg)"

definition SetConditions_Bucket :: "bucket \<Rightarrow> condition list \<Rightarrow> bucket" where
  "SetConditions_Bucket mg c = mg\<lparr>b_status := (b_status mg)\<lparr>bs_Conditions := bs_Conditions (b_status mg) @ c\<rparr>\<rparr>"

definition SetManagementPolicies_Bucket :: "bucket \<Rightarrow> string list option \<Rightarrow> bucket" where
  "SetManagementPolicies_Bucket mg r = mg\<lparr>b_spec := (b_spec mg)\<lparr>ManagementPolicies := r\<rparr>\<rparr>"

definition SetProviderConfigReference_Bucket :: "bucket \<Rightarrow> string option \<Rightarrow> bucket" where
  "SetProviderConfigReference_Bucket mg r = mg\<lparr>b_spec := (b_spec mg)\<lparr>ProviderConfigReference := r\<rparr>\<rparr>"

definition SetWriteConnectionSecretToReference_Bucket :: "bucket \<Rightarrow> string option \<Rightarrow> bucket" where
  "SetWriteConnectionSecretToReference_Bucket mg r = mg\<lparr>b_spec := (b_spec mg)\<lparr>WriteConnectionSecretToReference := r\<rparr>\<rparr>"

interpretation bucket_accessors: managed_accessors GetManagementPolicies_Bucket SetManagementPolicies_Bucket GetProviderConfigReference_Bucket SetProviderConfigReference_Bucket GetWriteConnectionSecretToReference_Bucket SetWriteConnectionSecretToReference_Bucket SetConditions_Bucket
  by unfold_locales (simp_all add: GetManagementPolicies_Bucket_def SetManagementPolicies_Bucket_def GetProviderConfigReference_Bucket_def SetProviderConfigReference_Bucket_def GetWriteConnectionSecretToReference_Bucket_def SetWriteConnectionSecretToReference_Bucket_def SetConditions_Bucket_def)

definition GetCondition_Policy :: "(condition list \<Rightarrow> string \<Rightarrow> 'k) \<Rightarrow> policy \<Rightarrow> string \<Rightarrow> 'k" where
  "GetCondition_Policy get mg ct = get (ps_Conditions (p_status mg)) ct"

definition GetManagementPolicies_Policy :: "policy \<Rightarrow> string list option" where
  "GetManagementPolicies_Policy mg = ManagementPolicies (p_spec mg)"

definition GetProviderConfigReference_Policy :: "policy \<Rightarrow> string option" where
  "GetProviderConfigReference_Policy mg = ProviderConfigReference (p_spec mg)"

definition GetWriteConnectionSecretToReference_Policy :: "policy \<Rightarrow> string option" where
  "GetWriteConnectionSecretToReference_Policy mg = WriteConnectionSecretToReference (p_spec mg)"

definition SetConditions_Policy :: "policy \<Rightarrow> condition list \<Rightarrow> policy" where
  "SetConditions_Policy mg c = mg\<lparr>p_status := (p_status mg)\<lparr>ps_Conditions := ps_Conditions (p_status mg) @ c\<rparr>\<rparr>"

definition SetManagementPolicies_Policy :: "policy \<Rightarrow> string list option \<Rightarrow> policy" where
  "SetManagementPolicies_Policy mg r = mg\<lparr>p_spec := (p_spec mg)\<lparr>ManagementPolicies := r\<rparr>\<rparr>"

definition SetProviderConfigReference_Policy :: "policy \<Rightarrow> string option \<Rightarrow> policy" where
  "SetProviderConfigReference_Policy mg r = mg\<lparr>p_spec := (p_spec mg)\<lparr>ProviderConfigReference := r\<rparr>\<rparr>"

definition SetWriteConnectionSecretToReference_Policy :: "policy \<Rightarrow> string option \<Rightarrow> policy" where
  "SetWriteConnectionSecretToReference_Policy mg r = mg\<lparr>p_spec := (p_spec mg)\<lparr>WriteConnectionSecretToReference := r\<rparr>\<rparr>"

interpretation policy_accessors: managed_accessors GetManagementPolicies_Policy SetManagementPolicies_Policy GetProviderConfigReference_Policy SetProviderConfigReference_Policy GetWriteConnectionSecretToReference_Policy SetWriteConnectionSecretToReference_Policy SetConditions_Policy
  by unfold_locales (simp_all add: GetManagementPolicies_Policy_def SetManagementPolicies_Policy_def GetProviderConfigReference_Policy_def SetProviderConfigReference_Policy_def GetWriteConnectionSecretToReference_Policy_def SetWriteConnectionSecretToReference_Policy_def SetConditions_Policy_def)

definition GetCondition_ServiceAccount :: "(condition list \<Rightarrow> string \<Rightarrow> 'k) \<Rightarrow> service_account \<Rightarrow> string \<Rightarrow> 'k" where
  "GetCondition_ServiceAccount get mg ct = get (ss_Conditions (s_status mg)) ct"

definition GetManagementPolicies_ServiceAccount :: "service_account \<Rightarrow> string list option" where
  "GetManagementPolicies_ServiceAccount mg = ManagementPolicies (s_spec mg)"

definition GetProviderConfigReference_ServiceAccount :: "service_account \<Rightarrow> string option" where
  "GetProviderConfigReference_ServiceAccount mg = ProviderConfigReference (s_spec mg)"

definition GetWriteConnectionSecretToReference_ServiceAccount :: "service_account \<Rightarrow> string option" where
  "GetWriteConnectionSecretToReference_ServiceAccount mg = WriteConnectionSecretToReference (s_spec mg)"

definition SetConditions_ServiceAccount :: "service_account \<Rightarrow> condition list \<Rightarrow> service_account" where
  "SetConditions_ServiceAccount mg c = mg\<lparr>s_status := (s_status mg)\<lparr>ss_Conditions := ss_Conditions (s_status mg) @ c\<rparr>\<rparr>"

definition SetManagementPolicies_ServiceAccount :: "service_account \<Rightarrow> string list option \<Rightarrow> service_account" where
  "SetManagementPolicies_ServiceAccount mg r = mg\<lparr>s_spec := (s_spec mg)\<lparr>ManagementPolicies := r\<rparr>\<rparr>"

definition SetProviderConfigReference_ServiceAccount :: "service_account \<Rightarrow> string option \<Rightarrow> service_account" where
  "SetProviderConfigReference_ServiceAccount mg r = mg\<lparr>s_spec := (s_spec mg)\<lparr>ProviderConfigReference := r\<rparr>\<rparr>"

definition SetWriteConnectionSecretToReference_ServiceAccount :: "service_account \<Rightarrow> string option \<Rightarrow> service_account" where
  "SetWriteConnectionSecretToReference_ServiceAccount mg r = mg\<lparr>s_spec := (s_spec mg)\<lparr>WriteConnectionSecretToReference := r\<rparr>\<rparr>"

interpretation service_account_accessors: managed_accessors GetManagementPolicies_ServiceAccount SetManagementPolicies_ServiceAccount GetProviderConfigReference_ServiceAccount SetProviderConfigReference_ServiceAccount GetWriteConnectionSecretToReference_ServiceAccount SetWriteConnectionSecretToReference_ServiceAccount SetConditions_ServiceAccount
  by unfold_locales (simp_all add: GetManagementPolicies_ServiceAccount_def SetManagementPolicies_ServiceAccount_def GetProviderConfigReference_ServiceAccount_def SetProviderConfigReference_ServiceAccount_def GetWriteConnectionSecretToReference_ServiceAccount_def SetWriteConnectionSecretToReference_ServiceAccount_def SetConditions_ServiceAccount_def)

definition GetCondition_User :: "(condition list \<Rightarrow> string \<Rightarrow> 'k) \<Rightarrow> user \<Rightarrow> string \<Rightarrow> 'k" where
  "GetCondition_User get mg ct = get (us_Conditions (u_status mg)) ct"

definition GetManagementPolicies_User :: "user \<Rightarrow> string list option" where
  "GetManagementPolicies_User mg = ManagementPolicies (u_spec mg)"

definition GetProviderConfigReference_User :: "user \<Rightarrow> string option" where
  "GetProviderConfigReference_User mg = ProviderConfigReference (u_spec mg)"

definition GetWriteConnectionSecretToReference_User :: "user \<Rightarrow> string option" where
  "GetWriteConnectionSecretToReference_User mg = WriteConnectionSecretToReference (u_spec mg)"

definition SetConditions_User :: "user \<Rightarrow> condition list \<Rightarrow> user" where
  "SetConditions_User mg c = mg\<lparr>u_status := (u_status mg)\<lparr>us_Conditions := us_Conditions (u_status mg) @ c\<rparr>\<rparr>"

definition SetManagementPolicies_User :: "user \<Rightarrow> string list option \<Rightarrow> user" where
  "SetManagementPolicies_User mg r = mg\<lparr>u_spec := (u_spec mg)\<lparr>ManagementPolicies := r\<rparr>\<rparr>"

definition SetProviderConfigReference_User :: "user \<Rightarrow> string option \<Rightarrow> user" where
  "SetProviderConfigReference_User mg r = mg\<lparr>u_spec := (u_spec mg)\<lparr>ProviderConfigReference := r\<rparr>\<rparr>"

definition SetWriteConnectionSecretToReference_User :: "user \<Rightarrow> string option \<Rightarrow> user" where
  "SetWriteConnectionSecretToReference_User mg r = mg\<lparr>u_spec := (u_spec mg)\<lparr>WriteConnectionSecretToReference := r\<rparr>\<rparr>"

interpretation user_accessors: managed_accessors GetManagementPolicies_User SetManagementPolicies_User GetProviderConfigReference_User SetProviderConfigReference_User GetWriteConnectionSecretToReference_User SetWriteConnectionSecretToReference_User SetConditions_User
  by unfold_locales (simp_all add: GetManagementPolicies_User_def SetManagementPolicies_User_def GetProviderConfigReference_User_def SetProviderConfigReference_User_def GetWriteConnectionSecretToReference_User_def SetWriteConnectionSecretToReference_User_def SetConditions_User_def)

definition GetCondition_NotificationConfiguration :: "(condition list \<Rightarrow> string \<Rightarrow> 'k) \<Rightarrow> notification_configuration \<Rightarrow> string \<Rightarrow> 'k" where
  "GetCondition_NotificationConfiguration get mg ct = get (ns_Conditions (n_status mg)) ct"

definition GetManagementPolicies_NotificationConfiguration :: "notification_configuration \<Rightarrow> string list option" where
  "GetManagementPolicies_NotificationConfiguration mg = ManagementPolicies (n_spec mg)"

definition GetProviderConfigReference_NotificationConfiguration :: "notification_configuration \<Rightarrow> string option" where
  "GetProviderConfigReference_NotificationConfiguration mg = ProviderConfigReference (n_spec mg)"

definition GetWriteConnectionSecretToReference_NotificationConfiguration :: "notification_configuration \<Rightarrow> string option" where
  "GetWriteConnectionSecretToReference_NotificationConfiguration mg = WriteConnectionSecretToReference (n_spec mg)"

definition SetConditions_NotificationConfiguration :: "notification_configuration \<Rightarrow> condition list \<Rightarrow> notification_configuration" where
  "SetConditions_NotificationConfiguration mg c = mg\<lparr>n_status := (n_status mg)\<lparr>ns_Conditions := ns_Conditions (n_status mg) @ c\<rparr>\<rparr>"

definition SetManagementPolicies_NotificationConfiguration :: "notification_configuration \<Rightarrow> string list option \<Rightarrow> notification_configuration" where
  "SetManagementPolicies_NotificationConfiguration mg r = mg\<lparr>n_spec := (n_spec mg)\<lparr>ManagementPolicies := r\<rparr>\<rparr>"

definition SetProviderConfigReference_NotificationConfiguration :: "notification_configuration \<Rightarrow> string option \<Rightarrow> notification_configuration" where
  "SetProviderConfigReference_NotificationConfiguration mg r = mg\<lparr>n_spec := (n_spec mg)\<lparr>ProviderConfigReference := r\<rparr>\<rparr>"

definition SetWriteConnectionSecretToReference_NotificationConfiguration :: "notification_configuration \<Rightarrow> string option \<Rightarrow> notification_configuration" where
  "SetWriteConnectionSecretToReference_NotificationConfiguration mg r = mg\<lparr>n_spec := (n_spec mg)\<lparr>WriteConnectionSecretToReference := r\<rparr>\<rparr>"

interpretation notification_configuration_accessors: managed_accessors GetManagementPolicies_NotificationConfiguration SetManagementPolicies_NotificationConfiguration GetProviderConfigReference_NotificationConfiguration SetProviderConfigReference_NotificationConfiguration GetWriteConnectionSecretToReference_NotificationConfiguration SetWriteConnectionSecretToReference_NotificationConfiguration SetConditions_NotificationConfiguration
  by unfold_locales (simp_all add: GetManagementPolicies_NotificationConfiguration_def SetManagementPolicies_NotificationConfiguration_def GetProviderConfigReference_NotificationConfiguration_def SetProviderConfigReference_NotificationConfiguration_def GetWriteConnectionSecretToReference_NotificationConfiguration_def SetWriteConnectionSecretToReference_NotificationConfiguration_def SetConditions_NotificationConfiguration_def)

text \<open>The condition a controller sets is set through the generated accessor.\<close>

lemma controllers_set_conditions:
  "SetConditions_user u c = SetConditions_User u [c]" "SetConditions_policy p c = SetConditions_Policy p [c]"
  "SetConditions_sa a c = SetConditions_ServiceAccount a [c]" "SetConditions_nc n c = SetConditions_NotificationConfiguration n [c]"
  by (simp_all add: SetConditions_user_def SetConditions_User_def SetConditions_policy_def SetConditions_Policy_def
      SetConditions_sa_def SetConditions_ServiceAccount_def SetConditions_nc_def SetConditions_NotificationConfiguration_def)

text \<open>The calls through the interface \<^verbatim>\<open>resource.ModernManaged\<close>; of the types of other programs nothing is known.\<close>

fun mg_GetManagementPolicies :: "managed \<Rightarrow> string list option" where
  "mg_GetManagementPolicies (MBucket mg) = GetManagementPolicies_Bucket mg"
| "mg_GetManagementPolicies (MPolicy mg) = GetManagementPolicies_Policy mg"
| "mg_GetManagementPolicies (MServiceAccount mg) = GetManagementPolicies_ServiceAccount mg"
| "mg_GetManagementPolicies (MUser mg) = GetManagementPolicies_User mg"
| "mg_GetManagementPolicies (MNotification mg) = GetManagementPolicies_NotificationConfiguration mg"
| "mg_GetManagementPolicies (MOther m) = None"

fun mg_SetManagementPolicies :: "managed \<Rightarrow> string list option \<Rightarrow> managed" where
  "mg_SetManagementPolicies (MBucket mg) r = MBucket (SetManagementPolicies_Bucket mg r)"
| "mg_SetManagementPolicies (MPolicy mg) r = MPolicy (SetManagementPolicies_Policy mg r)"
| "mg_SetManagementPolicies (MServiceAccount mg) r = MServiceAccount (SetManagementPolicies_ServiceAccount mg r)"
| "mg_SetManagementPolicies (MUser mg) r = MUser (SetManagementPolicies_User mg r)"
| "mg_SetManagementPolicies (MNotification mg) r = MNotification (SetManagementPolicies_NotificationConfiguration mg r)"
| "mg_SetManagementPolicies (MOther m) r = MOther m"

fun mg_GetProviderConfigReference :: "managed \<Rightarrow> string option" where
  "mg_GetProviderConfigReference (MBucket mg) = GetProviderConfigReference_Bucket mg"
| "mg_GetProviderConfigReference (MPolicy mg) = GetProviderConfigReference_Policy mg"
| "mg_GetProviderConfigReference (MServiceAccount mg) = GetProviderConfigReference_ServiceAccount mg"
| "mg_GetProviderConfigReference (MUser mg) = GetProviderConfigReference_User mg"
| "mg_GetProviderConfigReference (MNotification mg) = GetProviderConfigReference_NotificationConfiguration mg"
| "mg_GetProviderConfigReference (MOther m) = None"

fun mg_SetProviderConfigReference :: "managed \<Rightarrow> string option \<Rightarrow> managed" where
  "mg_SetProviderConfigReference (MBucket mg) r = MBucket (SetProviderConfigReference_Bucket mg r)"
| "mg_SetProviderConfigReference (MPolicy mg) r = MPolicy (SetProviderConfigReference_Policy mg r)"
| "mg_SetProviderConfigReference (MServiceAccount mg) r = MServiceAccount (SetProviderConfigReference_ServiceAccount mg r)"
| "mg_SetProviderConfigReference (MUser mg) r = MUser (SetProviderConfigReference_User mg r)"
| "mg_SetProviderConfigReference (MNotification mg) r = MNotification (SetProviderConfigReference_NotificationConfiguration mg r)"
| "mg_SetProviderConfigReference (MOther m) r = MOther m"

fun mg_GetWriteConnectionSecretToReference :: "managed \<Rightarrow> string option" where
  "mg_GetWriteConnectionSecretToReference (MBucket mg) = GetWriteConnectionSecretToReference_Bucket mg"
| "mg_GetWriteConnectionSecretToReference (MPolicy mg) = GetWriteConnectionSecretToReference_Policy mg"
| "mg_GetWriteConnectionSecretToReference (MServiceAccount mg) = GetWriteConnectionSecretToReference_ServiceAccount mg"
| "mg_GetWriteConnectionSecretToReference (MUser mg) = GetWriteConnectionSecretToReference_User mg"
| "mg_GetWriteConnectionSecretToReference (MNotification mg) = GetWriteConnectionSecretToReference_NotificationConfiguration mg"
| "mg_GetWriteConnectionSecretToReference (MOther m) = None"

fun mg_SetWriteConnectionSecretToReference :: "managed \<Rightarrow> string option \<Rightarrow> managed" where
  "mg_SetWriteConnectionSecretToReference (MBucket mg) r = MBucket (SetWriteConnectionSecretToReference_Bucket mg r)"
| "mg_SetWriteConnectionSecretToReference (MPolicy mg) r = MPolicy (SetWriteConnectionSecretToReference_Policy mg r)"
| "mg_SetWriteConnectionSecretToReference (MServiceAccount mg) r = MServiceAccount (SetWriteConnectionSecretToReference_ServiceAccount mg r)"
| "mg_SetWriteConnectionSecretToReference (MUser mg) r = MUser (SetWriteConnectionSecretToReference_User mg r)"
| "mg_SetWriteConnectionSecretToReference (MNotification mg) r = MNotification (SetWriteConnectionSecretToReference_NotificationConfiguration mg r)"
| "mg_SetWriteConnectionSecretToReference (MOther m) r = MOther m"

fun mg_SetConditions :: "managed \<Rightarrow> condition list \<Rightarrow> managed" where
  "mg_SetConditions (MBucket mg) c = MBucket (SetConditions_Bucket mg c)"
| "mg_SetConditions (MPolicy mg) c = MPolicy (SetConditions_Policy mg c)"
| "mg_SetConditions (MServiceAccount mg) c = MServiceAccount (SetConditions_ServiceAccount mg c)"
| "mg_SetConditions (MUser mg) c = MUser (SetConditions_User mg c)"
| "mg_SetConditions (MNotification mg) c = MNotification (SetConditions_NotificationConfiguration mg c)"
| "mg_SetConditions (MOther m) c = MOther m"

fun of_provider :: "managed \<Rightarrow> bool" where
  "of_provider (MOther m) = False"
| "of_provider _ = True"

lemma referenced_accessor: "of_provider m \<Longrightarrow> referenced m = mg_GetProviderConfigReference m"
  by (cases m) (simp_all add: referenced_def GetProviderConfigReference_Bucket_def GetProviderConfigReference_Policy_def
      GetProviderConfigReference_ServiceAccount_def GetProviderConfigReference_User_def GetProviderConfigReference_NotificationConfiguration_def)

lemmas accessor_laws =
  bucket_accessors.mp_pcr.l1.get_set
  bucket_accessors.mp_pcr.l2.get_set
  bucket_accessors.mp_wcs.l2.get_set
  bucket_accessors.mp_pcr.l1.set_get
  bucket_accessors.mp_pcr.l2.set_get
  bucket_accessors.mp_wcs.l2.set_get
  bucket_accessors.mp_pcr.l1.set_set
  bucket_accessors.mp_pcr.l2.set_set
  bucket_accessors.mp_wcs.l2.set_set
  bucket_accessors.mp_pcr.get1_set2
  bucket_accessors.mp_pcr.get2_set1
  bucket_accessors.mp_wcs.get1_set2
  bucket_accessors.mp_wcs.get2_set1
  bucket_accessors.pcr_wcs.get1_set2
  bucket_accessors.pcr_wcs.get2_set1
  bucket_accessors.conditions_keep
  bucket_accessors.conditions_append
  policy_accessors.mp_pcr.l1.get_set
  policy_accessors.mp_pcr.l2.get_set
  policy_accessors.mp_wcs.l2.get_set
  policy_accessors.mp_pcr.l1.set_get
  policy_accessors.mp_pcr.l2.set_get
  policy_accessors.mp_wcs.l2.set_get
  policy_accessors.mp_pcr.l1.set_set
  policy_accessors.mp_pcr.l2.set_set
  policy_accessors.mp_wcs.l2.set_set
  policy_accessors.mp_pcr.get1_set2
  policy_accessors.mp_pcr.get2_set1
  policy_accessors.mp_wcs.get1_set2
  policy_accessors.mp_wcs.get2_set1
  policy_accessors.pcr_wcs.get1_set2
  policy_accessors.pcr_wcs.get2_set1
  policy_accessors.conditions_keep
  policy_accessors.conditions_append
  service_account_accessors.mp_pcr.l1.get_set
  service_account_accessors.mp_pcr.l2.get_set
  service_account_accessors.mp_wcs.l2.get_set
  service_account_accessors.mp_pcr.l1.set_get
  service_account_accessors.mp_pcr.l2.set_get
  service_account_accessors.mp_wcs.l2.set_get
  service_account_accessors.mp_pcr.l1.set_set
  service_account_accessors.mp_pcr.l2.set_set
  service_account_accessors.mp_wcs.l2.set_set
  service_account_accessors.mp_pcr.get1_set2
  service_account_accessors.mp_pcr.get2_set1
  service_account_accessors.mp_wcs.get1_set2
  service_account_accessors.mp_wcs.get2_set1
  service_account_accessors.pcr_wcs.get1_set2
  service_account_accessors.pcr_wcs.get2_set1
  service_account_accessors.conditions_keep
  service_account_accessors.conditions_append
  user_accessors.mp_pcr.l1.get_set
  user_accessors.mp_pcr.l2.get_set
  user_accessors.mp_wcs.l2.get_set
  user_accessors.mp_pcr.l1.set_get
  user_accessors.mp_pcr.l2.set_get
  user_accessors.mp_wcs.l2.set_get
  user_accessors.mp_pcr.l1.set_set
  user_accessors.mp_pcr.l2.set_set
  user_accessors.mp_wcs.l2.set_set
  user_accessors.mp_pcr.get1_set2
  user_accessors.mp_pcr.get2_set1
  user_accessors.mp_wcs.get1_set2
  user_accessors.mp_wcs.get2_set1
  user_accessors.pcr_wcs.get1_set2
  user_accessors.pcr_wcs.get2_set1
  user_accessors.conditions_keep
  user_accessors.conditions_append
  notification_configuration_accessors.mp_pcr.l1.get_set
  notification_configuration_accessors.mp_pcr.l2.get_set
  notification_configuration_accessors.mp_wcs.l2.get_set
  notification_configuration_accessors.mp_pcr.l1.set_get
  notification_configuration_accessors.mp_pcr.l2.set_get
  notification_configuration_accessors.mp_wcs.l2.set_get
  notification_configuration_accessors.mp_pcr.l1.set_set
  notification_configuration_accessors.mp_pcr.l2.set_set
  notification_configuration_accessors.mp_wcs.l2.set_set
  notification_configuration_accessors.mp_pcr.get1_set2
  notification_configuration_accessors.mp_pcr.get2_set1
  notification_configuration_accessors.mp_wcs.get1_set2
  notification_configuration_accessors.mp_wcs.get2_set1
  notification_configuration_accessors.pcr_wcs.get1_set2
  notification_configuration_accessors.pcr_wcs.get2_set1
  notification_configuration_accessors.conditions_keep
  notification_configuration_accessors.conditions_append



section \<open>Provider configurations\<close>

text \<open>
  A provider configuration with its metadata and status, and a usage, whose two references are
  library values.
\<close>

record provider_config_object =
  pco_meta :: object_meta
  pco_spec :: provider_config
  pco_status :: provider_config_status

definition GetCondition_ProviderConfig :: "(condition list \<Rightarrow> string \<Rightarrow> 'k) \<Rightarrow> provider_config_object \<Rightarrow> string \<Rightarrow> 'k" where
  "GetCondition_ProviderConfig get p ct = get (pcs_Conditions (pco_status p)) ct"

definition GetUsers :: "provider_config_object \<Rightarrow> int" where
  "GetUsers p = pcs_Users (pco_status p)"

definition SetConditions_ProviderConfig :: "provider_config_object \<Rightarrow> condition list \<Rightarrow> provider_config_object" where
  "SetConditions_ProviderConfig p c = p\<lparr>pco_status := (pco_status p)\<lparr>pcs_Conditions := pcs_Conditions (pco_status p) @ c\<rparr>\<rparr>"

definition SetUsers :: "provider_config_object \<Rightarrow> int \<Rightarrow> provider_config_object" where
  "SetUsers p i = p\<lparr>pco_status := (pco_status p)\<lparr>pcs_Users := i\<rparr>\<rparr>"

interpretation users: lens GetUsers SetUsers
  by unfold_locales (simp_all add: GetUsers_def SetUsers_def)

record ('p, 'r) provider_config_usage =
  pcu_meta :: object_meta
  pcu_ProviderConfigReference :: 'p
  pcu_ResourceReference :: 'r

definition GetProviderConfigReference_ProviderConfigUsage :: "('p, 'r) provider_config_usage \<Rightarrow> 'p" where
  "GetProviderConfigReference_ProviderConfigUsage p = pcu_ProviderConfigReference p"

definition GetResourceReference :: "('p, 'r) provider_config_usage \<Rightarrow> 'r" where
  "GetResourceReference p = pcu_ResourceReference p"

definition SetProviderConfigReference_ProviderConfigUsage :: "('p, 'r) provider_config_usage \<Rightarrow> 'p \<Rightarrow> ('p, 'r) provider_config_usage" where
  "SetProviderConfigReference_ProviderConfigUsage p r = p\<lparr>pcu_ProviderConfigReference := r\<rparr>"

definition SetResourceReference :: "('p, 'r) provider_config_usage \<Rightarrow> 'r \<Rightarrow> ('p, 'r) provider_config_usage" where
  "SetResourceReference p r = p\<lparr>pcu_ResourceReference := r\<rparr>"

interpretation usage_references: two_lenses GetProviderConfigReference_ProviderConfigUsage SetProviderConfigReference_ProviderConfigUsage
    GetResourceReference SetResourceReference
  by unfold_locales (simp_all add: GetProviderConfigReference_ProviderConfigUsage_def SetProviderConfigReference_ProviderConfigUsage_def
      GetResourceReference_def SetResourceReference_def)

section \<open>The items of a list\<close>

text \<open>
  \<^verbatim>\<open>&l.Items[i]\<close> is a pointer into the slice: its address and the index. The loop fills a new
  slice of nil interfaces.
\<close>

type_synonym interior = "addr \<times> nat"

definition item_pointers :: "addr \<Rightarrow> nat \<Rightarrow> interior option list" where
  "item_pointers a n = fold (\<lambda>i items. items[i := Some (a, i)]) [0..<n] (replicate n None)"

definition get_items :: "('x list, 'l cell) cell_type \<Rightarrow> 'l mem_list \<Rightarrow> 'l cell store \<Rightarrow> interior option list" where
  "get_items k l s = (case mo_Items l of None \<Rightarrow> item_pointers 0 0
     | Some a \<Rightarrow> (case get_cell k s a of None \<Rightarrow> [] | Some xs \<Rightarrow> item_pointers a (length xs)))"

definition GetItems_BucketList :: "'l mem_list \<Rightarrow> 'l cell store \<Rightarrow> interior option list" where
  "GetItems_BucketList = get_items BucketItems_c"

definition GetItems_PolicyList :: "'l mem_list \<Rightarrow> 'l cell store \<Rightarrow> interior option list" where
  "GetItems_PolicyList = get_items PolicyItems_c"

definition GetItems_ServiceAccountList :: "'l mem_list \<Rightarrow> 'l cell store \<Rightarrow> interior option list" where
  "GetItems_ServiceAccountList = get_items ServiceAccountItems_c"

definition GetItems_UserList :: "'l mem_list \<Rightarrow> 'l cell store \<Rightarrow> interior option list" where
  "GetItems_UserList = get_items UserItems_c"

definition GetItems_ProviderConfigUsageList :: "'l mem_list \<Rightarrow> 'l cell store \<Rightarrow> interior option list" where
  "GetItems_ProviderConfigUsageList = get_items ProviderConfigUsageItems_c"

lemma item_pointers_eq: "item_pointers a n = map (\<lambda>i. Some (a, i)) [0..<n]"
proof -
  have "fold (\<lambda>i items. items[i := Some (a, i)]) [0..<k] (replicate n None) = map (\<lambda>i. if i < k then Some (a, i) else None) [0..<n]" if "k \<le> n" for k
    using that by (induction k) (auto intro!: nth_equalityI simp: nth_list_update less_Suc_eq)
  from this [of n] show ?thesis by (simp add: item_pointers_def cong: map_cong)
qed

text \<open>
  What a pointer to an element reads as, and what is said of the pointers \<open>ps\<close> to the items of a list
  that reads as \<open>vs\<close>.
\<close>

definition item_view :: "('x list, 'l cell) cell_type \<Rightarrow> ('x, 'v, 'l cell) copier \<Rightarrow> 'l cell store \<Rightarrow> interior \<Rightarrow> 'v option" where
  "item_view k c s p = (case get_cell k s (fst p) of None \<Rightarrow> None
     | Some xs \<Rightarrow> if snd p < length xs then View c s (xs ! snd p) else None)"

definition points_to_items :: "('x list, 'l cell) cell_type \<Rightarrow> ('x, 'v, 'l cell) copier \<Rightarrow> 'l cell store \<Rightarrow> interior option list \<Rightarrow> 'v list option \<Rightarrow> bool" where
  "points_to_items k c s ps items \<longleftrightarrow> (let vs = (case items of None \<Rightarrow> [] | Some vs \<Rightarrow> vs) in
     length ps = length vs \<and> list_all2 (\<lambda>p v. \<exists>q. p = Some q \<and> item_view k c s q = Some v) ps vs \<and> distinct ps)"

lemma get_items_points:
  assumes "View (items_tree L k c) s l = Some (tm, lm, items)"
  shows "points_to_items k c s (get_items k l s) items"
proof -
  from assms have v: "View (ptr_of k (list_of c)) s (mo_Items l) = Some items"
    by (auto simp: items_tree_def split: option.splits)
  show ?thesis
  proof (cases "mo_Items l")
    case None
    with v show ?thesis by (simp add: points_to_items_def get_items_def item_pointers_def)
  next
    case (Some a)
    with v obtain xs vs where xs: "get_cell k s a = Some xs" "view_list (View c s) xs = Some vs" "items = Some vs"
      by (auto split: option.splits)
    with Some show ?thesis
      by (auto simp: points_to_items_def get_items_def item_pointers_eq view_list_Some list_all2_conv_all_nth item_view_def
          distinct_map inj_on_def)
  qed
qed

text \<open>
  \<^verbatim>\<open>GetItems\<close> stays within the list and misses nothing: for each of the five list types it
  returns as many pointers as the list has items, none nil and no two equal, and the i-th reads as the i-th
  item of the list; a nil or empty list gives none.
\<close>
theorem get_items_within_bounds:
  "\<forall>tm lm. (View (BucketList_tree L) s l = Some (tm, lm, bs) \<longrightarrow> points_to_items BucketItems_c (Bucket_tree L) s (GetItems_BucketList l s) bs) \<and>
     (View (PolicyList_tree L) s l = Some (tm, lm, ps) \<longrightarrow> points_to_items PolicyItems_c (Policy_tree L) s (GetItems_PolicyList l s) ps) \<and>
     (View (ServiceAccountList_tree L) s l = Some (tm, lm, sas) \<longrightarrow>
        points_to_items ServiceAccountItems_c (ServiceAccount_tree L) s (GetItems_ServiceAccountList l s) sas) \<and>
     (View (UserList_tree L) s l = Some (tm, lm, us) \<longrightarrow> points_to_items UserItems_c (User_tree L) s (GetItems_UserList l s) us) \<and>
     (View (ProviderConfigUsageList_tree L) s l = Some (tm, lm, pus) \<longrightarrow>
        points_to_items ProviderConfigUsageItems_c (ProviderConfigUsage_tree L) s (GetItems_ProviderConfigUsageList l s) pus)"
  by (simp add: get_items_points BucketList_tree_def PolicyList_tree_def ServiceAccountList_tree_def UserList_tree_def
      ProviderConfigUsageList_tree_def GetItems_BucketList_def GetItems_PolicyList_def GetItems_ServiceAccountList_def
      GetItems_UserList_def GetItems_ProviderConfigUsageList_def)

definition sample_list_memory :: "plain_lib cell store" where
  "sample_list_memory = \<lparr>cells = [0 \<mapsto> InPolicy (CPolicyItems [\<lparr>mo_TypeMeta = \<lparr>tm_Kind = ''Policy'', tm_APIVersion = ''v1beta1''\<rparr>,
     mo_ObjectMeta = PMeta sample_meta, mo_Spec = \<lparr>mo_ManagedResourceSpec = PSpec sample_spec,
       mo_ForProvider = \<lparr>pp_AllowBucket = ''logs'', pp_RawPolicy = ''''\<rparr>\<rparr>,
     mo_Status = \<lparr>mo_ConditionedStatus = PConditions [], mo_AtProvider = \<lparr>pps_Policy = ''''\<rparr>\<rparr>\<rparr>])], next_addr = 1\<rparr>"

definition sample_list :: "plain_lib mem_list" where
  "sample_list = \<lparr>mo_ListTypeMeta = \<lparr>tm_Kind = ''PolicyList'', tm_APIVersion = ''v1beta1''\<rparr>, mo_ListMeta = PListMeta '''', mo_Items = Some 0\<rparr>"

theorem get_items_within_bounds_witness:
  "\<exists>tm lm v. View (PolicyList_tree plain_golib) sample_list_memory sample_list = Some (tm, lm, Some [v]) \<and>
    points_to_items PolicyItems_c (Policy_tree plain_golib) sample_list_memory (GetItems_PolicyList sample_list sample_list_memory) (Some [v])"
proof -
  have "\<exists>tm lm v. View (PolicyList_tree plain_golib) sample_list_memory sample_list = Some (tm, lm, Some [v])"
    by (simp add: sample_list_memory_def sample_list_def PolicyList_tree_def items_tree_def Policy_tree_def object_tree_def PolicySpec_tree_def
        PolicyStatus_tree_def spec_tree_def status_tree_def plain_golib_def plain_def get_cell_def PolicyItems_c_def)
  with get_items_within_bounds show ?thesis by blast
qed

end
