(* ===== verification/LegacyClients.thy ===== *)
theory LegacyClients
  imports MinioUtil
begin

text \<open>
  The client configuration of \<^verbatim>\<open>internal/clients\<close>: \<^verbatim>\<open>GetConfig\<close> and \<^verbatim>\<open>NewMinIOClient\<close> of
  \<^verbatim>\<open>minio.go\<close>, which the older user controller uses, and the consolidated variants of
  \<^verbatim>\<open>consolidated_client_creation.go\<close>. Decoding the JSON of a secret is a parameter \<open>unmarshal\<close>;
  the constructors of the clients and the X.509 routines come from \<open>minio_lib\<close>.
\<close>

section \<open>minio.go\<close>

record legacy_config =
  lcfg_Endpoint :: string
  lcfg_AccessKey :: string
  lcfg_SecretKey :: string
  lcfg_UseSSL :: bool

definition errGetConnectionSecret :: string where
  "errGetConnectionSecret = ''cannot get connection secret''"

definition errUnmarshalCredentials :: string where
  "errUnmarshalCredentials = ''cannot unmarshal credentials''"

definition errFmtUnsupportedCredSource :: string where
  "errFmtUnsupportedCredSource = ''credentials source %q is not currently supported''"

definition CredentialsSourceSecret :: string where "CredentialsSourceSecret = ''Secret''"

definition httpsScheme :: string where "httpsScheme = ''https://''"

lemma httpsScheme_simps [simp]: "length httpsScheme = 8" "httpsScheme \<noteq> []" "[] \<noteq> httpsScheme"
  by (simp_all add: httpsScheme_def)

text \<open>The slice expression \<^verbatim>\<open>s[:n]\<close> of a string.\<close>

definition slice_to :: "string \<Rightarrow> nat \<Rightarrow> ('w, string) go" where
  "slice_to s n = (if n \<le> length s then ret (take n s) else go_panic ''slice bounds out of range'')"

definition useSSL :: "provider_config \<Rightarrow> ('w, bool) go" where
  "useSSL pc =
     (if pc_MinioURL pc \<noteq> [] then check (slice_to (pc_MinioURL pc) 8) (\<lambda>scheme. ret (scheme = httpsScheme))
      else ret False)"

definition getConfigFromAPISecretRef :: "'w kube_client \<Rightarrow> secret_reference option \<Rightarrow> string \<Rightarrow> bool \<Rightarrow> ('w, legacy_config) go" where
  "getConfigFromAPISecretRef kube ref endpoint ssl =
     (case ref of
        None \<Rightarrow> fail (ErrNew ''no secret reference provided'')
      | Some r \<Rightarrow>
          if_err (api_call (KubeGetSecret kube (sr_Name r) (sr_Namespace r)))
            (\<lambda>err. fail (ErrWrap errGetConnectionSecret [] err))
            (\<lambda>sec. ret \<lparr>lcfg_Endpoint = endpoint, lcfg_AccessKey = map_get sec ''accessKey'',
               lcfg_SecretKey = map_get sec ''secretKey'', lcfg_UseSSL = ssl\<rparr>))"

definition getConfigFromSecret ::
  "(string \<Rightarrow> api_error + legacy_config) \<Rightarrow> 'w kube_client \<Rightarrow> secret_reference option \<Rightarrow> string \<Rightarrow> string \<Rightarrow> bool \<Rightarrow> ('w, legacy_config) go" where
  "getConfigFromSecret unmarshal kube ref key endpoint ssl =
     (case ref of
        None \<Rightarrow> fail (ErrNew ''no secret reference provided'')
      | Some r \<Rightarrow>
          if_err (api_call (KubeGetSecret kube (sr_Name r) (sr_Namespace r)))
            (\<lambda>err. fail (ErrWrap errGetConnectionSecret [] err))
            (\<lambda>sec. if_err (lib_call (unmarshal (map_get sec key)))
               (\<lambda>err. fail (ErrWrap errUnmarshalCredentials [] err))
               (\<lambda>cfg. ret (cfg\<lparr>lcfg_Endpoint := endpoint, lcfg_UseSSL := ssl\<rparr>))))"

definition GetConfig :: "(string \<Rightarrow> api_error + legacy_config) \<Rightarrow> 'w kube_client \<Rightarrow> provider_config \<Rightarrow> ('w, legacy_config) go" where
  "GetConfig unmarshal kube pc =
     check (useSSL pc) (\<lambda>ssl.
       let cred = pc_Credentials pc in
       if cred_Source cred = CredentialsSourceSecret then
         if sr_Name (cred_APISecretRef cred) \<noteq> [] then
           getConfigFromAPISecretRef kube
             (Some \<lparr>sr_Name = sr_Name (cred_APISecretRef cred), sr_Namespace = sr_Namespace (cred_APISecretRef cred)\<rparr>)
             (pc_MinioURL pc) ssl
         else (case cred_SecretRef cred of
             Some ref \<Rightarrow>
               getConfigFromSecret unmarshal kube (Some \<lparr>sr_Name = skr_Name ref, sr_Namespace = skr_Namespace ref\<rparr>)
                 (skr_Key ref) (pc_MinioURL pc) ssl
           | None \<Rightarrow> fail (ErrNew ''no secret reference provided''))
       else fail (ErrFmt errFmtUnsupportedCredSource [cred_Source cred]))"

definition NewMinIOClient :: "('c, 'a) minio_lib \<Rightarrow> legacy_config \<Rightarrow> ('w, 'a) go" where
  "NewMinIOClient lib cfg =
     lib_call (NewAdmin lib (lcfg_Endpoint cfg) \<lparr>opt_AccessKey = lcfg_AccessKey cfg, opt_SecretKey = lcfg_SecretKey cfg,
       opt_Secure = lcfg_UseSSL cfg, opt_Transport = None\<rparr>)"

section \<open>consolidated\_client\_creation.go\<close>

record consolidated_config =
  cc_Endpoint :: string
  cc_AccessKey :: string
  cc_SecretKey :: string
  cc_Region :: string
  cc_UseSSL :: bool
  cc_TLSCertData :: "string option"
  cc_TLSKeyData :: "string option"
  cc_CACertData :: "string option"
  cc_InsecureSkipVerify :: bool

text \<open>
  The field \<^verbatim>\<open>Transport\<close> is an interface: a variable of type \<^verbatim>\<open>*http.Transport\<close> assigned to it makes
  it non-nil even when the pointer is nil.
\<close>

datatype round_tripper = NilInterface | NilTransport | HTTPTransport tls_config

record consolidated_options =
  co_AccessKey :: string
  co_SecretKey :: string
  co_Secure :: bool
  co_Region :: string
  co_Transport :: round_tripper

fun to_round_tripper :: "tls_config option \<Rightarrow> round_tripper" where
  "to_round_tripper None = NilTransport"
| "to_round_tripper (Some t) = HTTPTransport t"

definition consolidatedTransport :: "('c, 'a) minio_lib \<Rightarrow> consolidated_config \<Rightarrow> ('w, tls_config option) go" where
  "consolidatedTransport lib config =
     (case (cc_TLSCertData config, cc_TLSKeyData config) of
        (Some certData, Some keyData) \<Rightarrow>
          (case X509KeyPair lib certData keyData of
             Some err \<Rightarrow> fail (ErrWrap ''failed to load TLS certificates'' [] (ErrApi err))
           | None \<Rightarrow>
               let t = \<lparr>tls_InsecureSkipVerify = cc_InsecureSkipVerify config, tls_RootCAs = None, tls_Certificates = [(certData, keyData)]\<rparr> in
               (case cc_CACertData config of
                  Some ca \<Rightarrow>
                    if \<not> AppendCertsFromPEM lib ca then fail (ErrNew ''failed to parse CA certificate'')
                    else ret (Some (t\<lparr>tls_RootCAs := Some ca\<rparr>))
                | None \<Rightarrow> ret (Some t)))
      | _ \<Rightarrow> ret None)"

definition NewConsolidatedMinioClient ::
  "('b, 'a) minio_lib \<Rightarrow> (string \<Rightarrow> consolidated_options \<Rightarrow> api_error + 'c) \<Rightarrow> consolidated_config \<Rightarrow> ('w, 'c) go" where
  "NewConsolidatedMinioClient lib new config =
     check (consolidatedTransport lib config) (\<lambda>transport.
       lib_call (new (cc_Endpoint config)
         \<lparr>co_AccessKey = cc_AccessKey config, co_SecretKey = cc_SecretKey config, co_Secure = cc_UseSSL config,
          co_Region = cc_Region config, co_Transport = to_round_tripper transport\<rparr>))"

definition config_of_secret :: "secret \<Rightarrow> consolidated_config" where
  "config_of_secret sec =
     (let config = \<lparr>cc_Endpoint = map_get sec ''endpoint'', cc_AccessKey = map_get sec ''accessKey'',
            cc_SecretKey = map_get sec ''secretKey'', cc_Region = map_get sec ''region'', cc_UseSSL = False,
            cc_TLSCertData = None, cc_TLSKeyData = None, cc_CACertData = None, cc_InsecureSkipVerify = False\<rparr>;
          config = (case sec ''caBundle'' of Some caBundle \<Rightarrow> config\<lparr>cc_CACertData := Some caBundle\<rparr> | None \<Rightarrow> config);
          config = (case sec ''clientCert'' of Some clientCert \<Rightarrow> config\<lparr>cc_TLSCertData := Some clientCert\<rparr> | None \<Rightarrow> config);
          config = (case sec ''clientKey'' of Some clientKey \<Rightarrow> config\<lparr>cc_TLSKeyData := Some clientKey\<rparr> | None \<Rightarrow> config);
          config = (if cc_Region config = [] then config\<lparr>cc_Region := ''us-east-1''\<rparr> else config)
      in config\<lparr>cc_UseSSL := True\<rparr>)"

definition GetConfigFromAPISecretRef :: "secret_reference option \<Rightarrow> 'w kube_client \<Rightarrow> ('w, consolidated_config) go" where
  "GetConfigFromAPISecretRef secretRef kube =
     check (deref secretRef) (\<lambda>ref.
       if_err (api_call (KubeGetSecret kube (sr_Name ref) (sr_Namespace ref)))
         (\<lambda>err. fail (ErrWrap ''failed to get secret %s'' [sr_Namespace ref @ ''/'' @ sr_Name ref] err))
         (\<lambda>sec. ret (config_of_secret sec)))"

section \<open>What they return\<close>

lemma slice_to_Ok_iff: "slice_to s n w = (Ok x, w') \<longleftrightarrow> n \<le> length s \<and> x = take n s \<and> w' = w"
  by (auto simp: slice_to_def)

lemma useSSL_Ok_iff:
  "useSSL pc w = (Ok b, w') \<longleftrightarrow> w' = w \<and> (pc_MinioURL pc = [] \<or> 8 \<le> length (pc_MinioURL pc)) \<and> b = prefix httpsScheme (pc_MinioURL pc)"
proof -
  have "prefix httpsScheme u \<longleftrightarrow> take (length httpsScheme) u = httpsScheme" for u
    by (metis append_take_drop_id prefixI prefixE append_eq_conv_conj)
  then show ?thesis by (auto simp: useSSL_def check_Ok_iff slice_to_Ok_iff)
qed

lemma legacy_parts_no_panic:
  "fst (getConfigFromAPISecretRef kube ref u b w) \<noteq> Panic p" "fst (getConfigFromSecret unmarshal kube ref k u b w) \<noteq> Panic p"
  by (auto simp: getConfigFromAPISecretRef_def getConfigFromSecret_def go_defs split: option.split prod.split sum.split outcome.split)

text \<open>
  C39. \<^verbatim>\<open>GetConfig\<close> reads the first eight bytes of the URL to tell whether it starts with
  \<^verbatim>\<open>https://\<close>: it panics if and only if the URL is neither empty nor eight bytes long, whatever
  the credentials are and before any secret is read.
\<close>
theorem get_config_panics_iff_short_url:
  "(\<exists>p. fst (GetConfig unmarshal kube pc w) = Panic p) \<longleftrightarrow> 0 < length (pc_MinioURL pc) \<and> length (pc_MinioURL pc) < 8"
proof (cases "0 < length (pc_MinioURL pc) \<and> length (pc_MinioURL pc) < 8")
  case True
  then show ?thesis by (simp add: GetConfig_def useSSL_def slice_to_def go_defs)
next
  case False
  then have "useSSL pc w = (Ok (prefix httpsScheme (pc_MinioURL pc)), w)" by (auto simp: useSSL_Ok_iff)
  then have "GetConfig unmarshal kube pc w = (let cred = pc_Credentials pc; ssl = prefix httpsScheme (pc_MinioURL pc) in
       if cred_Source cred = CredentialsSourceSecret then
         if sr_Name (cred_APISecretRef cred) \<noteq> [] then
           getConfigFromAPISecretRef kube
             (Some \<lparr>sr_Name = sr_Name (cred_APISecretRef cred), sr_Namespace = sr_Namespace (cred_APISecretRef cred)\<rparr>)
             (pc_MinioURL pc) ssl w
         else (case cred_SecretRef cred of
             Some ref \<Rightarrow>
               getConfigFromSecret unmarshal kube (Some \<lparr>sr_Name = skr_Name ref, sr_Namespace = skr_Namespace ref\<rparr>)
                 (skr_Key ref) (pc_MinioURL pc) ssl w
           | None \<Rightarrow> fail (ErrNew ''no secret reference provided'') w)
       else fail (ErrFmt errFmtUnsupportedCredSource [cred_Source cred]) w)"
    by (simp add: GetConfig_def check_def if_err_def Let_def split: option.split)
  then have "fst (GetConfig unmarshal kube pc w) \<noteq> Panic p" for p
    by (simp add: Let_def legacy_parts_no_panic fail_def split: option.split)
  with False show ?thesis by blast
qed

text \<open>
  A configuration that is returned connects to the URL itself, with TLS exactly when the URL
  starts with \<^verbatim>\<open>https://\<close>, and only from credentials of source \<^verbatim>\<open>Secret\<close>.
\<close>

lemma get_config_endpoint:
  assumes "GetConfig unmarshal kube pc w = (Ok cfg, w')"
  shows "lcfg_Endpoint cfg = pc_MinioURL pc \<and> lcfg_UseSSL cfg = prefix httpsScheme (pc_MinioURL pc) \<and>
    cred_Source (pc_Credentials pc) = CredentialsSourceSecret"
  using assms
  by (auto simp: GetConfig_def check_Ok_iff useSSL_Ok_iff Let_def getConfigFromAPISecretRef_def getConfigFromSecret_def
      if_err_Ok_iff lib_call_Ok_iff split: if_split_asm option.split_asm)

lemma consolidatedTransport_without_pair:
  "cc_TLSCertData config = None \<or> cc_TLSKeyData config = None \<Longrightarrow> consolidatedTransport lib config = ret None"
  by (auto simp: consolidatedTransport_def split: option.split)

text \<open>
  Without a client certificate and key the consolidated client drops the TLS settings: the CA
  certificate and \<^verbatim>\<open>InsecureSkipVerify\<close> of the configuration have no influence on the client, and the
  library is handed a transport that is not nil as an interface but holds a nil pointer.
\<close>
theorem consolidated_client_needs_key_pair:
  assumes "cc_TLSCertData config = None \<or> cc_TLSKeyData config = None"
  shows "NewConsolidatedMinioClient lib new (config\<lparr>cc_CACertData := ca, cc_InsecureSkipVerify := skip\<rparr>) = NewConsolidatedMinioClient lib new config \<and>
    NewConsolidatedMinioClient lib new config = lib_call (new (cc_Endpoint config)
      \<lparr>co_AccessKey = cc_AccessKey config, co_SecretKey = cc_SecretKey config, co_Secure = cc_UseSSL config,
       co_Region = cc_Region config, co_Transport = NilTransport\<rparr>)"
  using assms by (auto simp: NewConsolidatedMinioClient_def consolidatedTransport_without_pair)

text \<open>A secret with a CA bundle only.\<close>

definition ca_secret :: secret where
  "ca_secret = [''endpoint'' \<mapsto> ''minio:9000'', ''accessKey'' \<mapsto> ''root'', ''secretKey'' \<mapsto> ''pw'', ''caBundle'' \<mapsto> ''pem'']"

theorem consolidated_client_needs_key_pair_witness:
  "\<exists>config. GetConfigFromAPISecretRef (Some \<lparr>sr_Name = ''s'', sr_Namespace = ''n''\<rparr>) (one_secret ca_secret tls_demo) () = (Ok config, ()) \<and>
     cc_CACertData config = Some ''pem'' \<and>
     NewConsolidatedMinioClient plain_lib (\<lambda>h o'. Inr (h, co_Transport o')) config () = (Ok (''minio:9000'', NilTransport), ())"
proof -
  let ?config = "config_of_secret ca_secret"
  have c: "GetConfigFromAPISecretRef (Some \<lparr>sr_Name = ''s'', sr_Namespace = ''n''\<rparr>) (one_secret ca_secret tls_demo) () = (Ok ?config, ())"
    by (simp add: GetConfigFromAPISecretRef_def one_secret_def go_defs)
  have f: "cc_CACertData ?config = Some ''pem''" "cc_TLSCertData ?config = None" "cc_Endpoint ?config = ''minio:9000''"
    by (simp_all add: config_of_secret_def ca_secret_def map_get_def Let_def)
  have "NewConsolidatedMinioClient plain_lib (\<lambda>h o'. Inr (h, co_Transport o')) ?config () =
      lib_call (Inr (cc_Endpoint ?config, NilTransport)) ()"
    by (subst conjunct2 [OF consolidated_client_needs_key_pair [OF disjI1 [OF f(2)]]]) simp
  with c f show ?thesis by (intro exI [of _ ?config]) (simp add: lib_call_def ret_def)
qed

text \<open>
  What a secret gives: the keys as they are, SSL always, the region \<^verbatim>\<open>us-east-1\<close> unless the secret names
  another one.
\<close>

lemma consolidated_config_of_secret:
  assumes "GetConfigFromAPISecretRef (Some ref) kube w = (Ok config, w')"
  shows "\<exists>sec. KubeGetSecret kube (sr_Name ref) (sr_Namespace ref) w = (Inr sec, w') \<and> cc_UseSSL config \<and>
    cc_Region config = (if map_get sec ''region'' = [] then ''us-east-1'' else map_get sec ''region'') \<and>
    cc_AccessKey config = map_get sec ''accessKey'' \<and> cc_SecretKey config = map_get sec ''secretKey'' \<and>
    cc_CACertData config = sec ''caBundle'' \<and> cc_TLSCertData config = sec ''clientCert'' \<and> cc_TLSKeyData config = sec ''clientKey'' \<and>
    \<not> cc_InsecureSkipVerify config"
proof -
  from assms obtain sec where s: "KubeGetSecret kube (sr_Name ref) (sr_Namespace ref) w = (Inr sec, w')" "config = config_of_secret sec"
    by (auto simp: GetConfigFromAPISecretRef_def check_Ok_iff deref_Ok_iff if_err_Ok_iff api_call_def split: prod.splits sum.splits)
  have "cc_UseSSL config \<and> cc_Region config = (if map_get sec ''region'' = [] then ''us-east-1'' else map_get sec ''region'') \<and>
    cc_AccessKey config = map_get sec ''accessKey'' \<and> cc_SecretKey config = map_get sec ''secretKey'' \<and>
    cc_CACertData config = sec ''caBundle'' \<and> cc_TLSCertData config = sec ''clientCert'' \<and> cc_TLSKeyData config = sec ''clientKey'' \<and>
    \<not> cc_InsecureSkipVerify config"
    unfolding s(2) by (cases "sec ''caBundle''"; cases "sec ''clientCert''"; cases "sec ''clientKey''") (simp_all add: config_of_secret_def Let_def)
  with s(1) show ?thesis by blast
qed

end
