(* ===== verification/Tracing.thy ===== *)
theory Tracing
  imports Prelude
begin

text \<open>
  Tracing (\<^verbatim>\<open>internal/tracing\<close>): the package variables \<open>tracer\<close> and \<open>tp\<close>, what \<^verbatim>\<open>Init\<close> makes of the
  environment, and the start of a span. The OpenTelemetry SDK and \<^verbatim>\<open>strconv.ParseFloat\<close> are
  parameters; a provider is known by what it was built from, a span by its name and attributes.
\<close>

record 'f trace_provider =
  tp_Endpoint :: string
  tp_ServiceName :: string
  tp_SamplingRatio :: 'f

record 'f trace_state =
  tracer :: bool
  tp :: "'f trace_provider option"
  global_provider :: "'f trace_provider option"
  shut_down :: "'f trace_provider list"

record 'f trace_lib =
  LookupEnv :: "string \<Rightarrow> string"
  ParseFloat :: "string \<Rightarrow> api_error + 'f"
  OneTenth :: 'f
  NewResource :: "string \<Rightarrow> api_error option"
  NewExporter :: "string \<Rightarrow> api_error option"

definition getEnv :: "'f trace_lib \<Rightarrow> string \<Rightarrow> string \<Rightarrow> string" where
  "getEnv lib key def = (let v = LookupEnv lib key in if v \<noteq> [] then v else def)"

text \<open>\<^verbatim>\<open>strconv.ParseBool\<close> with its error dropped: anything else is false.\<close>

definition parse_bool :: "string \<Rightarrow> bool" where
  "parse_bool s \<longleftrightarrow> s \<in> {''1'', ''t'', ''T'', ''TRUE'', ''true'', ''True''}"

text \<open>The function \<^verbatim>\<open>Init\<close> returns, to be called when the program ends.\<close>

datatype shutdown = NoShutdown | ShutdownProvider

definition Init :: "'f trace_lib \<Rightarrow> string \<Rightarrow> 'f trace_state \<Rightarrow> shutdown \<times> 'f trace_state" where
  "Init lib serviceName s =
     (let s = s\<lparr>tracer := True\<rparr> in
      if \<not> parse_bool (getEnv lib ''OTEL_TRACING_ENABLED'' ''false'') then (NoShutdown, s)
      else
        let endpoint = getEnv lib ''OTEL_EXPORTER_OTLP_ENDPOINT'' ''localhost:4317'';
            samplingRatio = (case ParseFloat lib (getEnv lib ''OTEL_SAMPLING_RATIO'' ''0.1'') of Inl _ \<Rightarrow> OneTenth lib | Inr v \<Rightarrow> v);
            name = getEnv lib ''OTEL_SERVICE_NAME'' serviceName in
        case NewResource lib name of
          Some err \<Rightarrow> (NoShutdown, s)
        | None \<Rightarrow>
            (case NewExporter lib endpoint of
               Some err \<Rightarrow> (NoShutdown, s)
             | None \<Rightarrow>
                 let provider = \<lparr>tp_Endpoint = endpoint, tp_ServiceName = name, tp_SamplingRatio = samplingRatio\<rparr> in
                 (ShutdownProvider, s\<lparr>tp := Some provider, global_provider := Some provider\<rparr>)))"

definition run_shutdown :: "shutdown \<Rightarrow> 'f trace_state \<Rightarrow> 'f trace_state" where
  "run_shutdown f s =
     (case f of
        NoShutdown \<Rightarrow> s
      | ShutdownProvider \<Rightarrow> (case tp s of None \<Rightarrow> s | Some p \<Rightarrow> s\<lparr>shut_down := shut_down s @ [p]\<rparr>))"

type_synonym attributes = "(string \<times> string) list"

record span =
  sp_name :: string
  sp_attributes :: attributes

definition resourceTypeAttr :: string where [simp]: "resourceTypeAttr = ''crossplane.resource.type''"

definition resourceNameAttr :: string where [simp]: "resourceNameAttr = ''crossplane.resource.name''"

definition operationAttr :: string where [simp]: "operationAttr = ''crossplane.operation''"

text \<open>A call on the nil interface \<^verbatim>\<open>tracer\<close> panics.\<close>

definition StartSpan :: "string \<Rightarrow> attributes \<Rightarrow> ('f trace_state, span) go" where
  "StartSpan name attrs s =
     (if tracer s then ret \<lparr>sp_name = name, sp_attributes = attrs\<rparr> else go_panic ''nil pointer dereference'') s"

definition SpanAttrs :: "string \<Rightarrow> string \<Rightarrow> string \<Rightarrow> attributes" where
  "SpanAttrs resourceType resourceName operation =
     [(resourceTypeAttr, resourceType), (resourceNameAttr, resourceName), (operationAttr, operation)]"

definition StartSpanWithAttrs :: "string \<Rightarrow> string \<Rightarrow> string \<Rightarrow> string \<Rightarrow> ('f trace_state, span) go" where
  "StartSpanWithAttrs name resourceType resourceName operation s =
     (if tracer s
      then ret \<lparr>sp_name = name, sp_attributes = [(resourceTypeAttr, resourceType),
         (resourceNameAttr, resourceName), (operationAttr, operation)]\<rparr>
      else go_panic ''nil pointer dereference'') s"

lemma start_span_with_attrs: "StartSpanWithAttrs name rt rn op' = StartSpan name (SpanAttrs rt rn op')"
  by (simp add: StartSpanWithAttrs_def StartSpan_def SpanAttrs_def fun_eq_iff)

lemma getEnv_unset: "LookupEnv lib key = [] \<Longrightarrow> getEnv lib key def = def"
  by (simp add: getEnv_def)

text \<open>
  Whatever the environment says and whichever step of the setup fails, spans can be started once
  \<open>Init\<close> has run; before, starting one panics. Only an environment that asks for it makes a provider, and then what
  \<open>Init\<close> returns shuts that provider down.
\<close>

lemma init_traces:
  assumes "Init lib name s = (f, t)"
  shows "tracer t" and "fst (StartSpan n as t) = Ok \<lparr>sp_name = n, sp_attributes = as\<rparr>"
    and "tp t \<noteq> tp s \<Longrightarrow> parse_bool (getEnv lib ''OTEL_TRACING_ENABLED'' ''false'') \<and> f = ShutdownProvider"
    and "f = ShutdownProvider \<Longrightarrow> \<exists>p. tp t = Some p \<and> global_provider t = Some p \<and> shut_down (run_shutdown f t) = shut_down s @ [p]"
  using assms by (auto simp: Init_def Let_def StartSpan_def ret_def run_shutdown_def split: if_splits option.splits)

lemma start_span_before_init: "\<not> tracer s \<Longrightarrow> StartSpan n as s = (Panic ''nil pointer dereference'', s)"
  by (simp add: StartSpan_def go_panic_def)

end
