(* ===== verification/LegacyUser.thy ===== *)
theory LegacyUser
  imports LegacyClients Accessors Tracing
begin

text \<open>
  The older user controller of \<^verbatim>\<open>internal/controller/user\<close>, which the program does not
  register. It asserts the kind before it records the use of the provider config, connects with
  the configuration of theory \<open>LegacyClients\<close>, and takes the comma-joined \<^verbatim>\<open>PolicyName\<close> of the
  server for a single name. It opens a span around every operation, with the tracer of theory
  \<open>Tracing\<close>, whose state is an argument: what a span records is exported by the SDK and not modelled.

  The controller is interpreted as a \<open>managed_external\<close>; the properties are what it gets wrong
  by that reading, and the password it gives every user.
\<close>

section \<open>The connector\<close>

definition errLegacyNotUser :: go_error where
  "errLegacyNotUser = ErrNew ''managed resource is not a User custom resource''"

text \<open>The messages the errors of the libraries are wrapped in.\<close>

definition errTrackPCUsage :: string where [simp]: "errTrackPCUsage = ''cannot track ProviderConfig usage''"

definition errGetPC :: string where [simp]: "errGetPC = ''cannot get ProviderConfig''"

definition errGetCreds :: string where [simp]: "errGetCreds = ''cannot get credentials''"

definition errNewClient :: string where [simp]: "errNewClient = ''cannot create new MinIO client''"

definition errCreateUser :: string where [simp]: "errCreateUser = ''cannot create user''"

definition errDeleteUser :: string where [simp]: "errDeleteUser = ''cannot delete user''"

definition errGetUser :: string where [simp]: "errGetUser = ''cannot get user''"

definition Connect_legacy ::
  "(string \<Rightarrow> api_error + legacy_config) \<Rightarrow> (legacy_config \<Rightarrow> ('w, 'w admin_client) go) \<Rightarrow> ('w admin_client \<Rightarrow> 'w external_client) \<Rightarrow>
   'w connector \<Rightarrow> managed \<Rightarrow> ('w, 'w external_client) go" where
  "Connect_legacy unmarshal newServiceFn external c mg =
     (case mg of
        MUser u \<Rightarrow>
          if_err (api_call (con_Track c mg)) (\<lambda>err. fail (ErrWrap errTrackPCUsage [] err)) (\<lambda>_.
          check (deref (ProviderConfigReference (u_spec u))) (\<lambda>name.
          if_err (api_call (KubeGetProviderConfig (con_kube c) name)) (\<lambda>err. fail (ErrWrap errGetPC [] err)) (\<lambda>pc.
          if_err (GetConfig unmarshal (con_kube c) pc) (\<lambda>err. fail (ErrWrap errGetCreds [] err)) (\<lambda>cfg.
          if_err (newServiceFn cfg) (\<lambda>err. fail (ErrWrap errNewClient [] err)) (\<lambda>client.
            ret (external client))))))
      | _ \<Rightarrow> fail errLegacyNotUser)"

section \<open>The operations\<close>

definition as_legacy_user :: "(user \<Rightarrow> ('w, 'a) ctl) \<Rightarrow> ('w, 'a) ctl" where [prim_defs]:
  "as_legacy_user k s = (case cr s of MUser u \<Rightarrow> k u s | _ \<Rightarrow> (Err errLegacyNotUser, s))"

text \<open>\<^verbatim>\<open>ctx, span := tracing.StartSpanWithAttrs(ctx, name, ...)\<close> and the deferred \<^verbatim>\<open>span.End()\<close>\<close>

definition in_span :: "'f trace_state \<Rightarrow> string \<Rightarrow> string \<Rightarrow> user \<Rightarrow> ('w, 'a) ctl \<Rightarrow> ('w, 'a) ctl" where [prim_defs]:
  "in_span tr name op' u m s =
     (case fst (StartSpanWithAttrs name ''User'' (Name (u_meta u)) op' tr) of
        Ok _ \<Rightarrow> m s
      | Err err \<Rightarrow> (Err err, s)
      | Panic p \<Rightarrow> (Panic p, s))"

definition doesNotExist :: "go_error \<Rightarrow> bool" where
  "doesNotExist err \<longleftrightarrow> str_contains (error_text err) ''does not exist''"

definition policiesMatch :: "string list \<Rightarrow> user_info \<Rightarrow> bool" where
  "policiesMatch desiredPolicies userInfo \<longleftrightarrow>
     (let currentPolicies = (if ui_PolicyName userInfo \<noteq> [] then [ui_PolicyName userInfo] else []) in
      length desiredPolicies = length currentPolicies \<and>
      list_all (\<lambda>desired. list_ex (\<lambda>current. desired = current) currentPolicies) desiredPolicies)"

definition Observe_legacy :: "'f trace_state \<Rightarrow> 'w admin_client \<Rightarrow> ('w, observation) ctl" where [ctl_defs]:
  "Observe_legacy tr client = as_legacy_user (\<lambda>u. in_span tr ''user.observe'' ''observe'' u (
     if_err (call (GetUserInfo client (GetUserName u)))
       (\<lambda>err. if doesNotExist err then ret \<lparr>ResourceExists = False, ResourceUpToDate = False\<rparr>
              else fail (ErrWrap errGetUser [] err))
       (\<lambda>userInfo.
          seq (put_cr (MUser (u\<lparr>u_status := (u_status u)\<lparr>us_UserName := GetUserName u, us_Status := ui_Status userInfo,
            us_Policies := ui_PolicyName userInfo\<rparr>\<rparr>)))
          (ret \<lparr>ResourceExists = True, ResourceUpToDate = policiesMatch (slice (up_Policies (u_params u))) userInfo\<rparr>))))"

definition attachEach :: "'w admin_client \<Rightarrow> string \<Rightarrow> string list \<Rightarrow> ('w, unit) ctl" where [ctl_defs]:
  "attachEach client userName policies = for_each (\<lambda>policy.
     if_err (call (AttachPolicy client [policy] userName)) (\<lambda>err. fail (ErrWrap ''cannot attach policy %s to user'' [policy] err)) ret) policies"

definition legacyPassword :: string where "legacyPassword = ''MinIOUser2024!''"

definition Create_legacy :: "'f trace_state \<Rightarrow> 'w admin_client \<Rightarrow> ('w, creation) ctl" where [ctl_defs]:
  "Create_legacy tr client = as_legacy_user (\<lambda>u. in_span tr ''user.create'' ''create'' u (
     let userName = GetUserName u; password = legacyPassword in
     if_err (call (AddUser client userName password)) (\<lambda>err. fail (ErrWrap errCreateUser [] err)) (\<lambda>_.
     seq (if slice (up_Policies (u_params u)) \<noteq> [] then attachEach client userName (slice (up_Policies (u_params u))) else ret ())
       (ret (Some [''username'' \<mapsto> userName, ''password'' \<mapsto> password])))))"

definition Update_legacy :: "'f trace_state \<Rightarrow> 'w admin_client \<Rightarrow> ('w, unit) ctl" where [ctl_defs]:
  "Update_legacy tr client = as_legacy_user (\<lambda>u. in_span tr ''user.update'' ''update'' u (
     if slice (up_Policies (u_params u)) \<noteq> [] then
       if_err (call (GetUserInfo client (GetUserName u))) (\<lambda>err. fail (ErrWrap ''cannot get current user info'' [] err)) (\<lambda>userInfo.
       seq (if ui_PolicyName userInfo \<noteq> [] then
              if_err (call (DetachPolicy client [ui_PolicyName userInfo] (GetUserName u)))
                (\<lambda>err. fail (ErrWrap ''cannot detach policy %s from user'' [ui_PolicyName userInfo] err)) ret
            else ret ())
         (attachEach client (GetUserName u) (slice (up_Policies (u_params u)))))
     else ret ()))"

definition Delete_legacy :: "'f trace_state \<Rightarrow> 'w admin_client \<Rightarrow> ('w, unit) ctl" where [ctl_defs]:
  "Delete_legacy tr client = as_legacy_user (\<lambda>u. in_span tr ''user.delete'' ''delete'' u (
     if_err (call (RemoveUser client (GetUserName u)))
       (\<lambda>err. if \<not> doesNotExist err then fail (ErrWrap errDeleteUser [] err) else ret ()) ret))"

definition Disconnect_legacy :: "('w, unit) ctl" where [simp, ctl_defs]:
  "Disconnect_legacy = ret ()"

definition legacyClient :: "'f trace_state \<Rightarrow> 'w admin_client \<Rightarrow> 'w external_client" where
  "legacyClient tr client = \<lparr>Observe = Observe_legacy tr client, Create = Create_legacy tr client, Update = Update_legacy tr client,
     Delete = Delete_legacy tr client, Disconnect = Disconnect_legacy\<rparr>"

section \<open>The contract with the reconciler\<close>

lemma keeps_as_legacy [keeps_intros]:
  "(\<And>u s. I s \<Longrightarrow> cr s = MUser u \<Longrightarrow> keeps I (k u)) \<Longrightarrow> keeps I (as_legacy_user k)"
  by (auto simp: keeps_def as_legacy_user_def split: managed.split)

lemma steady_as_legacy [steady_intros]: "(\<And>u. steady (k u)) \<Longrightarrow> steady (as_legacy_user k)"
  by (auto simp: steady_def as_legacy_user_def split: managed.splits)

lemma returns_as_legacy [returns_intros]: "(\<And>u. returns P (k u)) \<Longrightarrow> returns P (as_legacy_user k)"
  by (auto simp: returns_def as_legacy_user_def split: managed.splits)

lemma started_span: "tracer tr \<Longrightarrow> in_span tr name op' u m = m"
  by (simp add: in_span_def StartSpanWithAttrs_def ret_def fun_eq_iff)

lemma untraced_span: "\<not> tracer tr \<Longrightarrow> in_span tr name op' u m = go_panic ''nil pointer dereference''"
  by (simp add: in_span_def StartSpanWithAttrs_def go_panic_def fun_eq_iff)

lemma keeps_in_span [keeps_intros]: "keeps I m \<Longrightarrow> keeps I (in_span tr name op' u m)"
  by (cases "tracer tr") (simp_all add: started_span untraced_span keeps_panic)

lemma returns_in_span [returns_intros]: "returns P m \<Longrightarrow> returns P (in_span tr name op' u m)"
  by (cases "tracer tr") (simp_all add: started_span untraced_span returns_def go_panic_def)

lemma in_span_Ok_iff: "in_span tr name op' u m s = (Ok x, t) \<longleftrightarrow> tracer tr \<and> m s = (Ok x, t)"
  by (cases "tracer tr") (simp_all add: started_span untraced_span go_panic_def)

lemma legacy_foreign:
  assumes "\<not> is_user (cr s)"
  shows "Observe_legacy tr ma s = (Err errLegacyNotUser, s)" "Create_legacy tr ma s = (Err errLegacyNotUser, s)"
    "Update_legacy tr ma s = (Err errLegacyNotUser, s)" "Delete_legacy tr ma s = (Err errLegacyNotUser, s)"
  using assms
  by (simp_all add: Observe_legacy_def Create_legacy_def Update_legacy_def Delete_legacy_def as_legacy_user_def is_user_def split: managed.splits)

lemma legacy_keeps_desires:
  "keeps (desires m) (Observe_legacy tr ma)" "keeps (desires m) (Create_legacy tr ma)"
  "keeps (desires m) (Update_legacy tr ma)" "keeps (desires m) (Delete_legacy tr ma)"
  unfolding ctl_defs Let_def by (intro keeps_intros; auto simp: same_desired_user desires_def)+

lemma legacy_observe_no_event: "keeps (has_events es) (Observe_legacy tr ma)"
  unfolding ctl_defs by (intro keeps_intros; simp)

lemma legacy_observe_coherent: "returns coherent (Observe_legacy tr ma)"
  unfolding ctl_defs by (intro returns_intros; simp)

text \<open>Once \<^verbatim>\<open>tracing.Init\<close> has run no operation panics; before it, every operation on a user does.\<close>

lemma legacy_steady:
  assumes "tracer tr"
  shows "steady (Observe_legacy tr ma)" "steady (Create_legacy tr ma)" "steady (Update_legacy tr ma)" "steady (Delete_legacy tr ma)"
  unfolding ctl_defs started_span [OF assms] by (intro steady_intros)+

lemma legacy_untraced:
  assumes "\<not> tracer tr" and "cr s = MUser u"
  shows "Observe_legacy tr ma s = (Panic ''nil pointer dereference'', s)" "Create_legacy tr ma s = (Panic ''nil pointer dereference'', s)"
    "Update_legacy tr ma s = (Panic ''nil pointer dereference'', s)" "Delete_legacy tr ma s = (Panic ''nil pointer dereference'', s)"
  using assms
  by (simp_all add: Observe_legacy_def Create_legacy_def Update_legacy_def Delete_legacy_def as_legacy_user_def untraced_span go_panic_def)

interpretation legacy: managed_external "legacyClient tr ma" is_user errLegacyNotUser
  for tr :: "'f trace_state" and ma :: "'w admin_client"
proof (unfold_locales, goal_cases)
  case 10
  then show ?case using keeps_has_events [OF legacy_observe_no_event] by (auto simp: legacyClient_def)
next
  case 11
  then show ?case using coherentD [OF legacy_observe_coherent] by (auto simp: legacyClient_def)
qed (simp_all add: legacyClient_def legacy_foreign only_logged_def ret_def keeps_desires legacy_keeps_desires)

section \<open>Reading PolicyName as one policy\<close>

lemma policiesMatch_iff:
  "policiesMatch ds i \<longleftrightarrow> (if ui_PolicyName i = [] then ds = [] else ds = [ui_PolicyName i])"
  by (auto simp: policiesMatch_def length_Suc_conv)

lemma observe_legacy_Ok:
  assumes "cr s = MUser u" and "Observe_legacy tr ma s = (Ok x, t)"
  shows "tracer tr \<and> (ResourceExists x \<longrightarrow> (\<exists>i w. GetUserInfo ma (GetUserName u) (world s) = (Inr i, w) \<and>
      ResourceUpToDate x = policiesMatch (slice (up_Policies (u_params u))) i)) \<and>
    (\<exists>st. cr t = MUser (u\<lparr>u_status := st\<rparr>))"
proof -
  have "\<exists>st. u = u\<lparr>u_status := st\<rparr>" by (rule exI [of _ "u_status u"]) simp
  with assms show ?thesis
    unfolding Observe_legacy_def as_legacy_user_def
    by (auto simp: in_span_Ok_iff if_err_Ok_iff seq_Ok_iff call_Ok_iff call_Err_iff split: if_split_asm)
qed


text \<open>On the in-memory server: a user with a policy and none desired is updated without effect.\<close>

definition traced :: "unit trace_state" where
  "traced = \<lparr>tracer = True, tp = None, global_provider = None, shut_down = []\<rparr>"

lemma tracer_traced [simp]: "tracer traced"
  by (simp add: traced_def)

definition legacy_user_state :: "string list option \<Rightarrow> mem_server cstate" where
  "legacy_user_state ps = \<lparr>world = ada_server [''readonly''], cr = MUser (demo_user\<lparr>u_params := \<lparr>up_UserName = [], up_Policies = ps\<rparr>\<rparr>),
     events = [], logs = []\<rparr>"


text \<open>
  The older controller gives every user one and the same password: whenever Create succeeds, the
  server was told the fixed password for the user, and the connection details publish it.
\<close>
theorem legacy_password_is_fixed:
  assumes "cr s = MUser u" and "Create_legacy tr ma s = (Ok c, t)"
  shows "(\<exists>w. AddUser ma (GetUserName u) ''MinIOUser2024!'' (world s) = (Inr (), w)) \<and>
    c = Some [''username'' \<mapsto> GetUserName u, ''password'' \<mapsto> ''MinIOUser2024!'']"
  using assms unfolding Create_legacy_def as_legacy_user_def
  by (auto simp: Let_def legacyPassword_def in_span_Ok_iff if_err_Ok_iff seq_Ok_iff call_Ok_iff)

theorem legacy_password_is_fixed_witness:
  "\<exists>c t. Create_legacy traced mem_admin \<lparr>world = demo_server, cr = MUser demo_user, events = [], logs = []\<rparr> = (Ok c, t) \<and>
     c = Some [''username'' \<mapsto> ''ada'', ''password'' \<mapsto> ''MinIOUser2024!'']"
proof -
  let ?s = "\<lparr>world = demo_server, cr = MUser demo_user, events = [], logs = []\<rparr>"
  have "\<exists>c t. Create_legacy traced mem_admin ?s = (Ok c, t)"
    by (simp add: Create_legacy_def attachEach_def as_legacy_user_def started_span Let_def go_defs mem_admin_simps demo_server_def demo_user_def GetUserName_def proper_def)
  then obtain c t where c: "Create_legacy traced mem_admin ?s = (Ok c, t)" by blast
  have "GetUserName demo_user = ''ada''" by (simp add: GetUserName_def demo_user_def)
  with legacy_password_is_fixed [OF _ c, of demo_user] c show ?thesis by simp
qed

section \<open>Connecting\<close>

text \<open>
  A resource of another kind is rejected before anything is called; a user without a provider
  config reference makes the connector panic once its use is recorded, and so does a provider
  config with a URL shorter than eight bytes.
\<close>

lemma connect_legacy_foreign: "\<not> is_user mg \<Longrightarrow> Connect_legacy unm new ext c mg = fail errLegacyNotUser"
  by (cases mg) (simp_all add: Connect_legacy_def is_user_def)

lemma connect_legacy_short_url:
  assumes "con_Track c (MUser u) w = (Inr (), w1)" and "ProviderConfigReference (u_spec u) = Some n"
    and "KubeGetProviderConfig (con_kube c) n w1 = (Inr pc, w2)" and "0 < length (pc_MinioURL pc)" and "length (pc_MinioURL pc) < 8"
  shows "\<exists>p. Connect_legacy unm new ext c (MUser u) w = (Panic p, w2)"
proof -
  have "GetConfig unm (con_kube c) pc w2 = (Panic ''slice bounds out of range'', w2)"
    using assms(4,5) by (simp add: GetConfig_def useSSL_def slice_to_def go_defs)
  with assms(1-3) show ?thesis by (simp add: Connect_legacy_def go_defs)
qed

end
