(* ===== verification/Scheme.thy ===== *)
theory Scheme
  imports Resources
begin

text \<open>
  The names the API types go by (\<^verbatim>\<open>register.go\<close>, \<^verbatim>\<open>groupversion_info.go\<close>) and their registration
  with the scheme (\<^verbatim>\<open>apis/init.go\<close>). The scheme is library code: \<open>scheme_lib\<close> has its two
  registering methods and what it recognises, \<open>scheme_laws\<close> their documented effect.
\<close>

record group_version =
  gv_Group :: string
  gv_Version :: string

record group_version_kind =
  gvk_GroupVersion :: group_version
  gvk_Kind :: string

definition MinioVersion :: string where "MinioVersion = ''v1beta1''"

definition MinioGroupVersion :: group_version where
  "MinioGroupVersion = \<lparr>gv_Group = Group, gv_Version = MinioVersion\<rparr>"

definition ProviderGroup :: string where "ProviderGroup = ''minio.crossplane.io''"

definition ProviderVersion :: string where "ProviderVersion = ''v1''"

definition ProviderGroupVersion :: group_version where
  "ProviderGroupVersion = \<lparr>gv_Group = ProviderGroup, gv_Version = ProviderVersion\<rparr>"

definition WithKind :: "group_version \<Rightarrow> string \<Rightarrow> group_version_kind" where
  "WithKind gv k = \<lparr>gvk_GroupVersion = gv, gvk_Kind = k\<rparr>"

text \<open>\<^verbatim>\<open>reflect.TypeOf(T{}).Name()\<close>\<close>

definition BucketKind :: string where "BucketKind = ''Bucket''"
definition UserKind :: string where "UserKind = ''User''"
definition ServiceAccountKind :: string where "ServiceAccountKind = ''ServiceAccount''"
definition NotificationConfigurationKind :: string where "NotificationConfigurationKind = ''NotificationConfiguration''"
definition PolicyKind :: string where "PolicyKind = ''Policy''"
definition ProviderConfigKind :: string where "ProviderConfigKind = ''ProviderConfig''"
definition ProviderConfigUsageKind :: string where "ProviderConfigUsageKind = ''ProviderConfigUsage''"
definition ProviderConfigUsageListKind :: string where "ProviderConfigUsageListKind = ''ProviderConfigUsageList''"

lemmas kind_defs = BucketKind_def UserKind_def ServiceAccountKind_def NotificationConfigurationKind_def PolicyKind_def
  ProviderConfigKind_def ProviderConfigUsageKind_def ProviderConfigUsageListKind_def

section \<open>The scheme\<close>

record 's scheme_lib =
  AddKnownTypes :: "group_version \<Rightarrow> string list \<Rightarrow> 's \<Rightarrow> 's"
  AddToGroupVersion :: "group_version \<Rightarrow> 's \<Rightarrow> 's"
  Recognizes :: "'s \<Rightarrow> group_version_kind \<Rightarrow> bool"

definition scheme_laws :: "'s scheme_lib \<Rightarrow> bool" where
  "scheme_laws lib \<longleftrightarrow>
     (\<forall>gv ks s k. Recognizes lib (AddKnownTypes lib gv ks s) k \<longleftrightarrow>
        Recognizes lib s k \<or> gvk_GroupVersion k = gv \<and> gvk_Kind k \<in> set ks) \<and>
     (\<forall>gv s k. Recognizes lib s k \<longrightarrow> Recognizes lib (AddToGroupVersion lib gv s) k)"

definition addKnownTypes_minio :: "'s scheme_lib \<Rightarrow> ('s, unit) go" where
  "addKnownTypes_minio lib s =
     (Ok (), AddToGroupVersion lib MinioGroupVersion (AddKnownTypes lib MinioGroupVersion
       [''User'', ''UserList'', ''Bucket'', ''BucketList'', ''ServiceAccount'', ''ServiceAccountList'',
        ''NotificationConfiguration'', ''NotificationConfigurationList'', ''Policy'', ''PolicyList''] s))"

definition addKnownTypes_provider :: "'s scheme_lib \<Rightarrow> ('s, unit) go" where
  "addKnownTypes_provider lib s =
     (Ok (), AddToGroupVersion lib ProviderGroupVersion (AddKnownTypes lib ProviderGroupVersion
       [''ProviderConfigUsage'', ''ProviderConfigUsageList'', ''ProviderConfig'', ''ProviderConfigList''] s))"

text \<open>\<^verbatim>\<open>init\<close> fills the list of builders; \<^verbatim>\<open>AddToScheme\<close> runs them until one fails.\<close>

definition AddToSchemes :: "'s scheme_lib \<Rightarrow> ('s, unit) go list" where
  "AddToSchemes lib = [addKnownTypes_minio lib, addKnownTypes_provider lib]"

definition AddToScheme :: "'s scheme_lib \<Rightarrow> ('s, unit) go" where
  "AddToScheme lib = for_each (\<lambda>add. add) (AddToSchemes lib)"

definition api_types :: "group_version_kind set" where
  "api_types = WithKind MinioGroupVersion ` {BucketKind, UserKind, PolicyKind, ServiceAccountKind, NotificationConfigurationKind} \<union>
     WithKind ProviderGroupVersion ` {ProviderConfigKind, ProviderConfigUsageKind, ProviderConfigUsageListKind}"

lemma schemeD:
  assumes "scheme_laws lib"
  shows "Recognizes lib (AddKnownTypes lib gv ks s) k \<longleftrightarrow> Recognizes lib s k \<or> gvk_GroupVersion k = gv \<and> gvk_Kind k \<in> set ks"
    and "Recognizes lib s k \<Longrightarrow> Recognizes lib (AddToGroupVersion lib gv s) k"
  using assms by (auto simp: scheme_laws_def)

lemma add_to_scheme_recognizes:
  assumes "scheme_laws lib"
  shows "\<exists>t. AddToScheme lib s = (Ok (), t) \<and> (\<forall>k \<in> api_types. Recognizes lib t k) \<and>
    (\<forall>k. Recognizes lib s k \<longrightarrow> Recognizes lib t k)"
proof -
  note laws = schemeD(1) [OF assms] schemeD(2) [OF assms]
  let ?m = "snd (addKnownTypes_minio lib s)"
  let ?t = "snd (addKnownTypes_provider lib ?m)"
  have "AddToScheme lib s = (Ok (), ?t)"
    by (simp add: AddToScheme_def AddToSchemes_def addKnownTypes_minio_def addKnownTypes_provider_def seq_def check_def if_err_def ret_def)
  moreover have "Recognizes lib ?m k \<Longrightarrow> Recognizes lib ?t k" and "Recognizes lib s k \<Longrightarrow> Recognizes lib ?m k" for k
    by (simp_all add: addKnownTypes_minio_def addKnownTypes_provider_def laws)
  moreover have "Recognizes lib ?m k" if "k \<in> WithKind MinioGroupVersion ` {BucketKind, UserKind, PolicyKind, ServiceAccountKind, NotificationConfigurationKind}" for k
    using that by (auto simp: addKnownTypes_minio_def laws WithKind_def kind_defs)
  moreover have "Recognizes lib ?t k" if "k \<in> WithKind ProviderGroupVersion ` {ProviderConfigKind, ProviderConfigUsageKind, ProviderConfigUsageListKind}" for k
    using that by (auto simp: addKnownTypes_provider_def laws WithKind_def kind_defs)
  ultimately show ?thesis unfolding api_types_def by blast
qed

end
