(* ===== verification/Setup.thy ===== *)
theory Setup
  imports Scheme LegacyUser
begin

text \<open>
  How the controllers and webhooks are registered with the manager (\<^verbatim>\<open>operator/*/setup.go\<close>,
  \<^verbatim>\<open>operator/operator.go\<close>, and the unused \<^verbatim>\<open>Setup\<close> of the older user controller). The builders of
  controller-runtime are library code: what a chain of them was told is a record, and completing
  it is a call of the manager. \<^verbatim>\<open>schema.GroupKind.String\<close>, \<^verbatim>\<open>providerconfig.ControllerName\<close> and
  \<^verbatim>\<open>managed.ControllerName\<close> are parameters of the manager too.
\<close>

section \<open>The manager\<close>

datatype managed_kind = KBucket | KUser | KPolicy | KServiceAccount | KNotificationConfiguration

fun kind_name :: "managed_kind \<Rightarrow> string" where
  "kind_name KBucket = BucketKind"
| "kind_name KUser = UserKind"
| "kind_name KPolicy = PolicyKind"
| "kind_name KServiceAccount = ServiceAccountKind"
| "kind_name KNotificationConfiguration = NotificationConfigurationKind"

text \<open>
  The options of a managed reconciler: the kind, the connector with the package it comes from
  (\<open>KUser\<close> with \<open>mgo_Legacy\<close> is the older controller), intervals in nanoseconds.
\<close>

record 'w managed_options =
  mgo_Kind :: group_version_kind
  mgo_Package :: managed_kind
  mgo_Legacy :: bool
  mgo_Connector :: "'w connector"
  mgo_Logger :: string
  mgo_Recorder :: string
  mgo_PollInterval :: int
  mgo_CreationGracePeriod :: "int option"

record provider_config_options =
  pco_Config :: group_version_kind
  pco_Usage :: group_version_kind
  pco_UsageList :: group_version_kind
  pco_Logger :: string
  pco_Recorder :: string

datatype 'w reconciler = ManagedReconciler "'w managed_options" | ProviderConfigReconciler provider_config_options

text \<open>The options the command line sets; only the older controller takes them.\<close>

record controller_options =
  co_MaxConcurrentReconciles :: int
  co_PollInterval :: int
  co_GlobalRateLimiter :: int
  co_ManagementPolicies :: bool

record 'w controller_setup =
  cs_Named :: string
  cs_Options :: "controller_options option"
  cs_For :: string
  cs_Watches :: "string list"
  cs_Reconciler :: "'w reconciler"

record 'w webhook_setup =
  ws_For :: string
  ws_Validator :: managed_kind
  ws_Logger :: "string list"
  ws_Kube :: "'w kube_client option"

record 'w manager =
  mgr_Client :: "'w kube_client"
  mgr_NewUsageTracker :: "'w kube_client \<Rightarrow> managed \<Rightarrow> ('w, unit) api"
  mgr_GroupKindString :: "string \<Rightarrow> string \<Rightarrow> string"
  mgr_ProviderConfigName :: "string \<Rightarrow> string"
  mgr_ManagedName :: "string \<Rightarrow> string"
  mgr_CompleteController :: "'w controller_setup \<Rightarrow> ('w, unit) api"
  mgr_CompleteWebhook :: "'w webhook_setup \<Rightarrow> ('w, unit) api"

definition second :: int where "second = 1000000000"

definition minute :: int where "minute = 60 * second"

text \<open>The connector every package makes from the manager.\<close>

definition new_connector :: "'w manager \<Rightarrow> 'w connector" where
  "new_connector mgr = \<lparr>con_kube = mgr_Client mgr, con_Track = mgr_NewUsageTracker mgr (mgr_Client mgr)\<rparr>"

section \<open>operator/bucket\<close>

definition createReconciler_bucket :: "'w manager \<Rightarrow> string \<Rightarrow> string \<Rightarrow> 'w connector \<Rightarrow> int \<Rightarrow> 'w reconciler" where
  "createReconciler_bucket mgr name recorder c creationGracePeriod = ManagedReconciler
     \<lparr>mgo_Kind = WithKind MinioGroupVersion BucketKind, mgo_Package = KBucket, mgo_Legacy = False, mgo_Connector = c, mgo_Logger = name,
      mgo_Recorder = recorder, mgo_PollInterval = 1 * minute, mgo_CreationGracePeriod = Some creationGracePeriod\<rparr>"

definition SetupControllerWithConnector_bucket ::
  "'w manager \<Rightarrow> string \<Rightarrow> string \<Rightarrow> 'w connector \<Rightarrow> int \<Rightarrow> ('w, unit) go" where
  "SetupControllerWithConnector_bucket mgr name recorder c creationGracePeriod =
     (let r = createReconciler_bucket mgr name recorder c creationGracePeriod in
      api_call (mgr_CompleteController mgr
        \<lparr>cs_Named = name, cs_Options = None, cs_For = BucketKind, cs_Watches = [], cs_Reconciler = r\<rparr>))"

definition SetupController_bucket :: "'w manager \<Rightarrow> ('w, unit) go" where
  "SetupController_bucket mgr =
     (let name = to_lower (mgr_GroupKindString mgr Group BucketKind); recorder = name in
      SetupControllerWithConnector_bucket mgr name recorder (new_connector mgr) (0 * second))"

definition SetupWebhook_bucket :: "'w manager \<Rightarrow> ('w, unit) go" where
  "SetupWebhook_bucket mgr = api_call (mgr_CompleteWebhook mgr
     \<lparr>ws_For = BucketKind, ws_Validator = KBucket, ws_Logger = [''webhook'', to_lower BucketKind], ws_Kube = None\<rparr>)"

section \<open>operator/user\<close>

definition createReconciler_user :: "'w manager \<Rightarrow> string \<Rightarrow> string \<Rightarrow> 'w connector \<Rightarrow> int \<Rightarrow> 'w reconciler" where
  "createReconciler_user mgr name recorder c creationGracePeriod = ManagedReconciler
     \<lparr>mgo_Kind = WithKind MinioGroupVersion UserKind, mgo_Package = KUser, mgo_Legacy = False, mgo_Connector = c, mgo_Logger = name,
      mgo_Recorder = recorder, mgo_PollInterval = 1 * minute, mgo_CreationGracePeriod = Some creationGracePeriod\<rparr>"

definition SetupControllerWithConnector_user ::
  "'w manager \<Rightarrow> string \<Rightarrow> string \<Rightarrow> 'w connector \<Rightarrow> int \<Rightarrow> ('w, unit) go" where
  "SetupControllerWithConnector_user mgr name recorder c creationGracePeriod =
     (let r = createReconciler_user mgr name recorder c creationGracePeriod in
      api_call (mgr_CompleteController mgr
        \<lparr>cs_Named = name, cs_Options = None, cs_For = UserKind, cs_Watches = [], cs_Reconciler = r\<rparr>))"

definition SetupController_user :: "'w manager \<Rightarrow> ('w, unit) go" where
  "SetupController_user mgr =
     (let name = to_lower (mgr_GroupKindString mgr Group UserKind); recorder = name in
      SetupControllerWithConnector_user mgr name recorder (new_connector mgr) (0 * second))"

definition SetupWebhook_user :: "'w manager \<Rightarrow> ('w, unit) go" where
  "SetupWebhook_user mgr = api_call (mgr_CompleteWebhook mgr
     \<lparr>ws_For = UserKind, ws_Validator = KUser, ws_Logger = [''webhook'', to_lower UserKind], ws_Kube = Some (mgr_Client mgr)\<rparr>)"

definition SetupV1Beta1Controller_user :: "'w manager \<Rightarrow> ('w, unit) go" where
  "SetupV1Beta1Controller_user mgr = SetupController_user mgr"

definition SetupV1Beta1Webhook_user :: "'w manager \<Rightarrow> ('w, unit) go" where
  "SetupV1Beta1Webhook_user mgr = SetupWebhook_user mgr"

section \<open>operator/policy\<close>

definition createReconciler_policy :: "'w manager \<Rightarrow> string \<Rightarrow> string \<Rightarrow> 'w connector \<Rightarrow> int \<Rightarrow> 'w reconciler" where
  "createReconciler_policy mgr name recorder c creationGracePeriod = ManagedReconciler
     \<lparr>mgo_Kind = WithKind MinioGroupVersion PolicyKind, mgo_Package = KPolicy, mgo_Legacy = False, mgo_Connector = c, mgo_Logger = name,
      mgo_Recorder = recorder, mgo_PollInterval = 1 * minute, mgo_CreationGracePeriod = Some creationGracePeriod\<rparr>"

definition SetupControllerWithConnector_policy ::
  "'w manager \<Rightarrow> string \<Rightarrow> string \<Rightarrow> 'w connector \<Rightarrow> int \<Rightarrow> ('w, unit) go" where
  "SetupControllerWithConnector_policy mgr name recorder c creationGracePeriod =
     (let r = createReconciler_policy mgr name recorder c creationGracePeriod in
      api_call (mgr_CompleteController mgr
        \<lparr>cs_Named = name, cs_Options = None, cs_For = PolicyKind, cs_Watches = [], cs_Reconciler = r\<rparr>))"

definition SetupController_policy :: "'w manager \<Rightarrow> ('w, unit) go" where
  "SetupController_policy mgr =
     (let name = to_lower (mgr_GroupKindString mgr Group PolicyKind); recorder = name in
      SetupControllerWithConnector_policy mgr name recorder (new_connector mgr) (0 * second))"

definition SetupWebhook_policy :: "'w manager \<Rightarrow> ('w, unit) go" where
  "SetupWebhook_policy mgr = api_call (mgr_CompleteWebhook mgr
     \<lparr>ws_For = PolicyKind, ws_Validator = KPolicy, ws_Logger = [''webhook'', to_lower PolicyKind], ws_Kube = None\<rparr>)"

section \<open>operator/serviceaccount\<close>

definition createReconciler_sa :: "'w manager \<Rightarrow> string \<Rightarrow> string \<Rightarrow> 'w connector \<Rightarrow> int \<Rightarrow> 'w reconciler" where
  "createReconciler_sa mgr name recorder c creationGracePeriod = ManagedReconciler
     \<lparr>mgo_Kind = WithKind MinioGroupVersion ServiceAccountKind, mgo_Package = KServiceAccount, mgo_Legacy = False, mgo_Connector = c, mgo_Logger = name,
      mgo_Recorder = recorder, mgo_PollInterval = 1 * minute, mgo_CreationGracePeriod = Some creationGracePeriod\<rparr>"

definition SetupControllerWithConnector_sa ::
  "'w manager \<Rightarrow> string \<Rightarrow> string \<Rightarrow> 'w connector \<Rightarrow> int \<Rightarrow> ('w, unit) go" where
  "SetupControllerWithConnector_sa mgr name recorder c creationGracePeriod =
     (let r = createReconciler_sa mgr name recorder c creationGracePeriod in
      api_call (mgr_CompleteController mgr
        \<lparr>cs_Named = name, cs_Options = None, cs_For = ServiceAccountKind, cs_Watches = [], cs_Reconciler = r\<rparr>))"

definition SetupController_sa :: "'w manager \<Rightarrow> ('w, unit) go" where
  "SetupController_sa mgr =
     (let name = to_lower (mgr_GroupKindString mgr Group ServiceAccountKind); recorder = name in
      SetupControllerWithConnector_sa mgr name recorder (new_connector mgr) (0 * second))"

definition SetupWebhook_sa :: "'w manager \<Rightarrow> ('w, unit) go" where
  "SetupWebhook_sa mgr = api_call (mgr_CompleteWebhook mgr
     \<lparr>ws_For = ServiceAccountKind, ws_Validator = KServiceAccount, ws_Logger = [''webhook'', to_lower ServiceAccountKind], ws_Kube = Some (mgr_Client mgr)\<rparr>)"

definition createV1Beta1Reconciler_sa :: "'w manager \<Rightarrow> string \<Rightarrow> string \<Rightarrow> 'w connector \<Rightarrow> int \<Rightarrow> 'w reconciler" where
  "createV1Beta1Reconciler_sa mgr name recorder c creationGracePeriod = ManagedReconciler
     \<lparr>mgo_Kind = WithKind MinioGroupVersion ServiceAccountKind, mgo_Package = KServiceAccount, mgo_Legacy = False, mgo_Connector = c, mgo_Logger = name,
      mgo_Recorder = recorder, mgo_PollInterval = 1 * minute, mgo_CreationGracePeriod = Some creationGracePeriod\<rparr>"

definition SetupV1Beta1ControllerWithConnector_sa ::
  "'w manager \<Rightarrow> string \<Rightarrow> string \<Rightarrow> 'w connector \<Rightarrow> int \<Rightarrow> ('w, unit) go" where
  "SetupV1Beta1ControllerWithConnector_sa mgr name recorder c creationGracePeriod =
     (let r = createV1Beta1Reconciler_sa mgr name recorder c creationGracePeriod in
      api_call (mgr_CompleteController mgr
        \<lparr>cs_Named = name, cs_Options = None, cs_For = ServiceAccountKind, cs_Watches = [], cs_Reconciler = r\<rparr>))"

definition SetupV1Beta1Controller_sa :: "'w manager \<Rightarrow> ('w, unit) go" where
  "SetupV1Beta1Controller_sa mgr =
     (let name = to_lower (mgr_GroupKindString mgr Group ServiceAccountKind); recorder = name in
      SetupV1Beta1ControllerWithConnector_sa mgr name recorder (new_connector mgr) (0 * second))"

definition SetupV1Beta1Webhook_sa :: "'w manager \<Rightarrow> ('w, unit) go" where
  "SetupV1Beta1Webhook_sa mgr = api_call (mgr_CompleteWebhook mgr
     \<lparr>ws_For = ServiceAccountKind, ws_Validator = KServiceAccount, ws_Logger = [''webhook'', to_lower ServiceAccountKind], ws_Kube = Some (mgr_Client mgr)\<rparr>)"

section \<open>operator/notificationconfiguration\<close>

definition createReconciler_nc :: "'w manager \<Rightarrow> string \<Rightarrow> string \<Rightarrow> 'w connector \<Rightarrow> int \<Rightarrow> 'w reconciler" where
  "createReconciler_nc mgr name recorder c creationGracePeriod = ManagedReconciler
     \<lparr>mgo_Kind = WithKind MinioGroupVersion NotificationConfigurationKind, mgo_Package = KNotificationConfiguration, mgo_Legacy = False, mgo_Connector = c, mgo_Logger = name,
      mgo_Recorder = recorder, mgo_PollInterval = 1 * minute, mgo_CreationGracePeriod = Some creationGracePeriod\<rparr>"

definition SetupControllerWithConnector_nc ::
  "'w manager \<Rightarrow> string \<Rightarrow> string \<Rightarrow> 'w connector \<Rightarrow> int \<Rightarrow> ('w, unit) go" where
  "SetupControllerWithConnector_nc mgr name recorder c creationGracePeriod =
     (let r = createReconciler_nc mgr name recorder c creationGracePeriod in
      api_call (mgr_CompleteController mgr
        \<lparr>cs_Named = name, cs_Options = None, cs_For = NotificationConfigurationKind, cs_Watches = [], cs_Reconciler = r\<rparr>))"

definition SetupController_nc :: "'w manager \<Rightarrow> ('w, unit) go" where
  "SetupController_nc mgr =
     (let name = to_lower (mgr_GroupKindString mgr Group NotificationConfigurationKind); recorder = name in
      SetupControllerWithConnector_nc mgr name recorder (new_connector mgr) (0 * second))"

definition SetupWebhook_nc :: "'w manager \<Rightarrow> ('w, unit) go" where
  "SetupWebhook_nc mgr = api_call (mgr_CompleteWebhook mgr
     \<lparr>ws_For = NotificationConfigurationKind, ws_Validator = KNotificationConfiguration, ws_Logger = [''webhook'', to_lower NotificationConfigurationKind], ws_Kube = Some (mgr_Client mgr)\<rparr>)"

definition SetupV1Beta1Controller_nc :: "'w manager \<Rightarrow> ('w, unit) go" where
  "SetupV1Beta1Controller_nc mgr = SetupController_nc mgr"

definition SetupV1Beta1Webhook_nc :: "'w manager \<Rightarrow> ('w, unit) go" where
  "SetupV1Beta1Webhook_nc mgr = SetupWebhook_nc mgr"

section \<open>operator/config and operator.go\<close>

definition SetupController_config :: "'w manager \<Rightarrow> ('w, unit) go" where
  "SetupController_config mgr =
     (let name = mgr_ProviderConfigName mgr (mgr_GroupKindString mgr ProviderGroup ProviderConfigKind);
          recorder = name;
          r = ProviderConfigReconciler
            \<lparr>pco_Config = WithKind ProviderGroupVersion ProviderConfigKind, pco_Usage = WithKind ProviderGroupVersion ProviderConfigUsageKind,
             pco_UsageList = WithKind ProviderGroupVersion ProviderConfigUsageListKind, pco_Logger = name, pco_Recorder = recorder\<rparr>
      in api_call (mgr_CompleteController mgr
        \<lparr>cs_Named = name, cs_Options = None, cs_For = ProviderConfigKind, cs_Watches = [ProviderConfigUsageKind], cs_Reconciler = r\<rparr>))"

definition SetupControllers :: "'w manager \<Rightarrow> ('w, unit) go" where
  "SetupControllers mgr = for_each (\<lambda>setup. setup mgr)
     [SetupController_config, SetupController_bucket, SetupController_user, SetupController_policy, SetupController_sa, SetupController_nc]"

definition SetupWebhooks :: "'w manager \<Rightarrow> ('w, unit) go" where
  "SetupWebhooks mgr = for_each (\<lambda>setup. setup mgr)
     [SetupWebhook_bucket, SetupWebhook_user, SetupWebhook_policy, SetupWebhook_sa, SetupWebhook_nc]"

text \<open>\<^verbatim>\<open>internal/controller/user\<close>: this one does take the options of the command line.\<close>

definition Setup_legacy :: "'w manager \<Rightarrow> controller_options \<Rightarrow> ('w, unit) go" where
  "Setup_legacy mgr o' =
     (let name = mgr_ManagedName mgr (mgr_GroupKindString mgr Group UserKind) in
      api_call (mgr_CompleteController mgr
        \<lparr>cs_Named = name, cs_Options = Some o', cs_For = UserKind, cs_Watches = [],
         cs_Reconciler = ManagedReconciler \<lparr>mgo_Kind = WithKind MinioGroupVersion UserKind, mgo_Package = KUser, mgo_Legacy = True,
           mgo_Connector = new_connector mgr, mgo_Logger = name, mgo_Recorder = name, mgo_PollInterval = co_PollInterval o',
           mgo_CreationGracePeriod = None\<rparr>\<rparr>))"

lemmas setup_defs = SetupController_config_def
  createReconciler_bucket_def
  SetupControllerWithConnector_bucket_def
  SetupController_bucket_def
  SetupWebhook_bucket_def
  createReconciler_user_def
  SetupControllerWithConnector_user_def
  SetupController_user_def
  SetupWebhook_user_def
  createReconciler_policy_def
  SetupControllerWithConnector_policy_def
  SetupController_policy_def
  SetupWebhook_policy_def
  createReconciler_sa_def
  SetupControllerWithConnector_sa_def
  SetupController_sa_def
  SetupWebhook_sa_def
  createV1Beta1Reconciler_sa_def
  SetupV1Beta1ControllerWithConnector_sa_def
  SetupV1Beta1Controller_sa_def
  SetupV1Beta1Webhook_sa_def
  createReconciler_nc_def
  SetupControllerWithConnector_nc_def
  SetupController_nc_def
  SetupWebhook_nc_def

section \<open>What is registered\<close>

lemma for_each_api: "for_each (\<lambda>setup. setup mgr) (map (\<lambda>x mgr. api_call (f mgr x)) xs) = for_each (\<lambda>x. api_call (f mgr x)) xs"
  by (induction xs) simp_all

text \<open>The registrations in order, as the managers gets them.\<close>

definition managed_setup :: "'w manager \<Rightarrow> managed_kind \<Rightarrow> 'w controller_setup" where
  "managed_setup mgr k = (let name = to_lower (mgr_GroupKindString mgr Group (kind_name k)) in
     \<lparr>cs_Named = name, cs_Options = None, cs_For = kind_name k, cs_Watches = [],
      cs_Reconciler = ManagedReconciler \<lparr>mgo_Kind = WithKind MinioGroupVersion (kind_name k), mgo_Package = k, mgo_Legacy = False,
        mgo_Connector = new_connector mgr, mgo_Logger = name, mgo_Recorder = name, mgo_PollInterval = minute, mgo_CreationGracePeriod = Some 0\<rparr>\<rparr>)"

definition all_kinds :: "managed_kind list" where
  "all_kinds = [KBucket, KUser, KPolicy, KServiceAccount, KNotificationConfiguration]"

lemma controllers_are_uniform:
  "SetupController_bucket mgr = api_call (mgr_CompleteController mgr (managed_setup mgr KBucket))"
  "SetupController_user mgr = api_call (mgr_CompleteController mgr (managed_setup mgr KUser))"
  "SetupController_policy mgr = api_call (mgr_CompleteController mgr (managed_setup mgr KPolicy))"
  "SetupController_sa mgr = api_call (mgr_CompleteController mgr (managed_setup mgr KServiceAccount))"
  "SetupController_nc mgr = api_call (mgr_CompleteController mgr (managed_setup mgr KNotificationConfiguration))"
  by (simp_all add: setup_defs managed_setup_def Let_def)

lemma service_account_setups_agree:
  "SetupV1Beta1Controller_sa mgr = SetupController_sa mgr" "SetupV1Beta1Webhook_sa mgr = SetupWebhook_sa mgr"
  by (simp_all add: setup_defs)

text \<open>The documented names: \<^verbatim>\<open>Kind.group\<close>, and \<^verbatim>\<open>providerconfig/\<close> before the lower-case name.\<close>

definition naming_laws :: "'w manager \<Rightarrow> bool" where
  "naming_laws mgr \<longleftrightarrow> (\<forall>g k. mgr_GroupKindString mgr g k = k @ ''.'' @ g) \<and>
     (\<forall>n. mgr_ProviderConfigName mgr n = ''providerconfig/'' @ to_lower n)"

lemma lower_names:
  "to_lower (BucketKind @ ''.'' @ Group) = ''bucket.minio.m.crossplane.io''"
  "to_lower (UserKind @ ''.'' @ Group) = ''user.minio.m.crossplane.io''"
  "to_lower (PolicyKind @ ''.'' @ Group) = ''policy.minio.m.crossplane.io''"
  "to_lower (ServiceAccountKind @ ''.'' @ Group) = ''serviceaccount.minio.m.crossplane.io''"
  "to_lower (NotificationConfigurationKind @ ''.'' @ Group) = ''notificationconfiguration.minio.m.crossplane.io''"
  "to_lower (ProviderConfigKind @ ''.'' @ ProviderGroup) = ''providerconfig.minio.crossplane.io''"
  by code_simp+

lemma managed_names:
  assumes "naming_laws mgr"
  shows "map (\<lambda>k. cs_Named (managed_setup mgr k)) all_kinds =
    [''bucket.minio.m.crossplane.io'', ''user.minio.m.crossplane.io'', ''policy.minio.m.crossplane.io'',
     ''serviceaccount.minio.m.crossplane.io'', ''notificationconfiguration.minio.m.crossplane.io'']"
  using assms lower_names by (simp add: managed_setup_def all_kinds_def naming_laws_def Let_def)

text \<open>
  C25. Registration: \<open>SetupControllers\<close> completes, in this order and up to the first error, the provider-config
  controller and one controller for each of the five kinds, under six different names; each
  reconciles the kind of its own package, polls every minute and gives no grace period after a creation; and
  \<open>SetupWebhooks\<close> completes one webhook for each of the same five kinds, with the validator of that kind.
\<close>
theorem registration_covers_every_kind:
  assumes "naming_laws mgr"
  shows "\<exists>cs ws. SetupControllers mgr = for_each (\<lambda>c. api_call (mgr_CompleteController mgr c)) cs \<and>
    SetupWebhooks mgr = for_each (\<lambda>v. api_call (mgr_CompleteWebhook mgr v)) ws \<and>
    map cs_For cs = ProviderConfigKind # map kind_name all_kinds \<and> distinct (map cs_Named cs) \<and>
    map ws_For ws = map kind_name all_kinds \<and> map ws_Validator ws = all_kinds \<and>
    (\<forall>c \<in> set (tl cs). \<exists>m. cs_Reconciler c = ManagedReconciler m \<and> kind_name (mgo_Package m) = cs_For c \<and>
       mgo_Kind m = WithKind MinioGroupVersion (cs_For c) \<and> mgo_PollInterval m = minute \<and> mgo_CreationGracePeriod m = Some 0)"
proof -
  obtain c0 where c0: "SetupController_config mgr = api_call (mgr_CompleteController mgr c0)" "cs_For c0 = ProviderConfigKind"
    "cs_Named c0 = mgr_ProviderConfigName mgr (mgr_GroupKindString mgr ProviderGroup ProviderConfigKind)"
    by (simp add: SetupController_config_def Let_def)
  let ?cs = "c0 # map (managed_setup mgr) all_kinds"
  let ?ws = "[\<lparr>ws_For = BucketKind, ws_Validator = KBucket, ws_Logger = [''webhook'', to_lower BucketKind], ws_Kube = None\<rparr>,
    \<lparr>ws_For = UserKind, ws_Validator = KUser, ws_Logger = [''webhook'', to_lower UserKind], ws_Kube = Some (mgr_Client mgr)\<rparr>,
    \<lparr>ws_For = PolicyKind, ws_Validator = KPolicy, ws_Logger = [''webhook'', to_lower PolicyKind], ws_Kube = None\<rparr>,
    \<lparr>ws_For = ServiceAccountKind, ws_Validator = KServiceAccount, ws_Logger = [''webhook'', to_lower ServiceAccountKind], ws_Kube = Some (mgr_Client mgr)\<rparr>,
    \<lparr>ws_For = NotificationConfigurationKind, ws_Validator = KNotificationConfiguration,
     ws_Logger = [''webhook'', to_lower NotificationConfigurationKind], ws_Kube = Some (mgr_Client mgr)\<rparr>]"
  have "SetupControllers mgr = for_each (\<lambda>c. api_call (mgr_CompleteController mgr c)) ?cs"
    by (simp add: SetupControllers_def controllers_are_uniform c0(1) all_kinds_def)
  moreover have "SetupWebhooks mgr = for_each (\<lambda>v. api_call (mgr_CompleteWebhook mgr v)) ?ws"
    by (simp add: SetupWebhooks_def setup_defs)
  moreover have "cs_Named c0 = ''providerconfig/providerconfig.minio.crossplane.io''"
    using assms lower_names by (simp add: c0(3) naming_laws_def)
  then have "distinct (map cs_Named ?cs)"
    using managed_names [OF assms] by (simp add: comp_def)
  ultimately show ?thesis using c0(2)
    by (intro exI [of _ ?cs] exI [of _ ?ws]) (simp add: all_kinds_def managed_setup_def Let_def)
qed

definition recording_manager :: "string list manager" where
  "recording_manager = \<lparr>mgr_Client = \<lparr>KubeGetSecret = (\<lambda>_ _ w. (Inr Map.empty, w)), KubeGetConfigMap = (\<lambda>_ _ w. (Inr Map.empty, w)),
       KubeGetProviderConfig = (\<lambda>_ w. (Inr tls_demo, w))\<rparr>,
     mgr_NewUsageTracker = (\<lambda>_ _ w. (Inr (), w)), mgr_GroupKindString = (\<lambda>g k. k @ ''.'' @ g),
     mgr_ProviderConfigName = (\<lambda>n. ''providerconfig/'' @ to_lower n), mgr_ManagedName = (\<lambda>n. ''managed/'' @ to_lower n),
     mgr_CompleteController = (\<lambda>c w. (Inr (), w @ [cs_For c])), mgr_CompleteWebhook = (\<lambda>v w. (Inr (), w @ [ws_For v]))\<rparr>"

theorem registration_covers_every_kind_witness:
  "\<exists>cs :: string list controller_setup list. SetupControllers recording_manager [] = for_each (\<lambda>c. api_call (\<lambda>w. (Inr (), w @ [cs_For c]))) cs [] \<and>
     distinct (map cs_Named cs) \<and> length cs = 6"
proof -
  have "naming_laws recording_manager" by (simp add: naming_laws_def recording_manager_def)
  from registration_covers_every_kind [OF this] obtain cs where
    cs: "SetupControllers recording_manager = for_each (\<lambda>c. api_call (mgr_CompleteController recording_manager c)) cs"
      "map cs_For cs = ProviderConfigKind # map kind_name all_kinds" "distinct (map cs_Named cs)"
    by (elim exE conjE) (rule that)
  from arg_cong [OF cs(2), of length] have "length cs = 6" by (simp add: all_kinds_def)
  with cs show ?thesis by (intro exI [of _ cs]) (simp add: recording_manager_def)
qed

text \<open>Every type a controller is for, watches or reads has been added to the scheme.\<close>

lemma registered_kinds_in_scheme: "WithKind MinioGroupVersion (kind_name k) \<in> api_types"
  by (cases k) (simp_all add: api_types_def)

section \<open>Each controller connects its own kind\<close>

text \<open>Which connector runs behind a registered controller, and the kind of a resource.\<close>

fun kind_of :: "managed \<Rightarrow> managed_kind option" where
  "kind_of (MBucket b) = Some KBucket"
| "kind_of (MUser u) = Some KUser"
| "kind_of (MPolicy p) = Some KPolicy"
| "kind_of (MServiceAccount a) = Some KServiceAccount"
| "kind_of (MNotification n) = Some KNotificationConfiguration"
| "kind_of (MOther m) = None"

record ('w, 't, 'n, 'a, 'c) provider_libs =
  pl_ListedFirst :: bool
  pl_S3 :: "(('w, 't, 'n) s3_client, 'a) minio_lib"
  pl_Admin :: "('c, 'w admin_client) minio_lib"
  pl_Generate :: "'w password_gen"
  pl_ListBuckets :: "'c \<Rightarrow> ('w, unit) api"
  pl_Iam :: iam_lib
  pl_Meta :: meta_lib
  pl_Notif :: "'n notif_lib"

fun connector_of :: "('w, 't, 'n, 'a, 'c) provider_libs \<Rightarrow> managed_kind \<Rightarrow> 'w connector \<Rightarrow> managed \<Rightarrow> ('w, 'w external_client) go" where
  "connector_of pl KBucket = Connect_bucket (pl_ListedFirst pl) (pl_S3 pl)"
| "connector_of pl KUser = Connect_user (pl_Generate pl) (pl_Admin pl) (pl_ListBuckets pl)"
| "connector_of pl KPolicy = Connect_policy (pl_Iam pl) (pl_Admin pl)"
| "connector_of pl KServiceAccount = Connect_sa (pl_Generate pl) (pl_Meta pl) (pl_Admin pl)"
| "connector_of pl KNotificationConfiguration = Connect_nc (pl_Notif pl) (pl_S3 pl)"

text \<open>
  The connector behind each registered controller accepts exactly the resources of the kind the
  controller is registered for: it connects no other kind, and only resources that name a provider config.
\<close>
theorem registered_connector_accepts_its_kind:
  assumes "connector_of pl k c m w = (Ok ec, w')"
  shows "kind_of m = Some k \<and> mg_GetProviderConfigReference m \<noteq> None"
proof -
  have "kind_of m = Some k \<and> referenced m \<noteq> None"
  proof (cases k)
    case KBucket
    from bucket_con.unlisted_not_connected [OF assms [unfolded KBucket connector_of.simps]] show ?thesis by (cases m) (simp_all add: KBucket is_bucket_def)
  next
    case KUser
    from user_con.unlisted_not_connected [OF assms [unfolded KUser connector_of.simps]] show ?thesis by (cases m) (simp_all add: KUser is_user_def)
  next
    case KPolicy
    from policy_con.unlisted_not_connected [OF assms [unfolded KPolicy connector_of.simps]] show ?thesis by (cases m) (simp_all add: KPolicy is_policy_def)
  next
    case KServiceAccount
    from sa_con.unlisted_not_connected [OF assms [unfolded KServiceAccount connector_of.simps]] show ?thesis by (cases m) (simp_all add: KServiceAccount is_service_account_def)
  next
    case KNotificationConfiguration
    from nc_con.unlisted_not_connected [OF assms [unfolded KNotificationConfiguration connector_of.simps]] show ?thesis by (cases m) (simp_all add: KNotificationConfiguration is_notification_def)
  qed
  then show ?thesis by (cases m) (auto simp: referenced_accessor)
qed

end
