(* ===== verification/Rbac.thy ===== *)
theory Rbac
  imports Scheme Tracing
begin

text \<open>
  The roles the program gives itself at start (\<^verbatim>\<open>setupRBAC\<close> and \<^verbatim>\<open>withVerbs\<close> of
  \<^verbatim>\<open>cmd/provider/main.go\<close>), and what a list of rules allows. The Kubernetes client and the test for
  an \<^verbatim>\<open>AlreadyExists\<close> error are parameters; how the API server reads a rule is \<open>rule_allows\<close>, after
  its documentation.
\<close>

section \<open>The program's state\<close>

record ('w, 'f) program =
  pg_world :: 'w
  pg_log :: "string list"
  pg_trace :: "'f trace_state"

definition on_program :: "('w, 'a) go \<Rightarrow> (('w, 'f) program, 'a) go" where
  "on_program m s = (case m (pg_world s) of (r, w) \<Rightarrow> (r, s\<lparr>pg_world := w\<rparr>))"

definition info :: "string \<Rightarrow> (('w, 'f) program, unit) go" where
  "info l s = (Ok (), s\<lparr>pg_log := pg_log s @ [l]\<rparr>)"

section \<open>The rules\<close>

record policy_rule =
  APIGroups :: "string list"
  rule_Resources :: "string list"
  Verbs :: "string list"

definition ruleVerbs :: "string list" where
  "ruleVerbs = [''get'', ''list'', ''watch'', ''update'', ''patch'', ''create'']"

definition rules :: "policy_rule list" where
  "rules = [
     \<lparr>APIGroups = [''minio.crossplane.io''], rule_Resources = [''providerconfigs'', ''providerconfigs/status'', ''providerconfigusages'',
        ''providerconfigusages/status''], Verbs = ruleVerbs\<rparr>,
     \<lparr>APIGroups = [''bucket.minio.crossplane.io''], rule_Resources = [''buckets'', ''buckets/status''], Verbs = ruleVerbs\<rparr>,
     \<lparr>APIGroups = [''user.minio.crossplane.io''], rule_Resources = [''users'', ''users/status''], Verbs = ruleVerbs\<rparr>,
     \<lparr>APIGroups = [''policy.minio.crossplane.io''], rule_Resources = [''policies'', ''policies/status''], Verbs = ruleVerbs\<rparr>,
     \<lparr>APIGroups = [''serviceaccount.minio.crossplane.io''], rule_Resources = [''serviceaccounts'', ''serviceaccounts/status''], Verbs = ruleVerbs\<rparr>,
     \<lparr>APIGroups = [''notificationconfiguration.minio.crossplane.io''],
      rule_Resources = [''notificationconfigurations'', ''notificationconfigurations/status''], Verbs = ruleVerbs\<rparr>,
     \<lparr>APIGroups = [''minio.crossplane.io'', ''bucket.minio.crossplane.io'', ''user.minio.crossplane.io'', ''policy.minio.crossplane.io'',
        ''serviceaccount.minio.crossplane.io'', ''notificationconfiguration.minio.crossplane.io''],
      rule_Resources = [''*/finalizers''], Verbs = [''update'']\<rparr>,
     \<lparr>APIGroups = ['''', ''coordination.k8s.io''], rule_Resources = [''secrets'', ''configmaps'', ''events'', ''leases''], Verbs = [''*'']\<rparr>]"

text \<open>The loop over the indices, which fills a new slice with copies of the rules.\<close>

definition withVerbs :: "policy_rule list \<Rightarrow> string list \<Rightarrow> policy_rule list" where
  "withVerbs r verbs =
     fold (\<lambda>i out. let out = out[i := r ! i] in out[i := (out ! i)\<lparr>Verbs := verbs\<rparr>])
       [0..<length r] (replicate (length r) \<lparr>APIGroups = [], rule_Resources = [], Verbs = []\<rparr>)"

section \<open>The objects and their creation\<close>

record cluster_role =
  role_Name :: string
  role_Labels :: "(string \<times> string) list"
  role_Rules :: "policy_rule list"

record cluster_role_binding =
  bind_Name :: string
  bind_RoleRef :: "string \<times> string \<times> string"
  bind_Subjects :: "(string \<times> string \<times> string) list"

datatype rbac_object = Role cluster_role | Binding cluster_role_binding

record 'w rbac_client =
  RbacCreate :: "rbac_object \<Rightarrow> ('w, unit) api"
  RbacUpdate :: "rbac_object \<Rightarrow> ('w, unit) api"
  IsAlreadyExists :: "go_error \<Rightarrow> bool"

definition systemRole :: cluster_role where
  "systemRole = \<lparr>role_Name = ''crossplane:provider:provider-minio:system'', role_Labels = [(''rbac.crossplane.io/system'', ''provider-minio'')],
     role_Rules = rules\<rparr>"

definition systemBinding :: cluster_role_binding where
  "systemBinding = \<lparr>bind_Name = ''crossplane:provider:provider-minio:system'',
     bind_RoleRef = (''rbac.authorization.k8s.io'', ''ClusterRole'', ''crossplane:provider:provider-minio:system''),
     bind_Subjects = [(''ServiceAccount'', ''provider-minio'', ''crossplane-system'')]\<rparr>"

definition editRole :: cluster_role where
  "editRole = \<lparr>role_Name = ''crossplane:provider:provider-minio:aggregate-to-edit'',
     role_Labels = [(''rbac.crossplane.io/aggregate-to-edit'', ''true''), (''rbac.crossplane.io/aggregate-to-admin'', ''true''),
       (''rbac.crossplane.io/aggregate-to-crossplane'', ''true''), (''rbac.crossplane.io/system'', ''provider-minio'')],
     role_Rules = withVerbs rules [''*'']\<rparr>"

definition viewRole :: cluster_role where
  "viewRole = \<lparr>role_Name = ''crossplane:provider:provider-minio:aggregate-to-view'',
     role_Labels = [(''rbac.crossplane.io/aggregate-to-view'', ''true''), (''rbac.crossplane.io/system'', ''provider-minio'')],
     role_Rules = withVerbs rules [''get'', ''list'', ''watch'']\<rparr>"

definition createObject :: "'w rbac_client \<Rightarrow> rbac_object \<Rightarrow> (go_error \<Rightarrow> (('w, 'f) program, unit) go) \<Rightarrow> (('w, 'f) program, unit) go" where
  "createObject c obj failed = if_err (on_program (api_call (RbacCreate c obj))) (\<lambda>err. if \<not> IsAlreadyExists c err then failed err else ret ()) ret"

definition updateObject :: "'w rbac_client \<Rightarrow> rbac_object \<Rightarrow> (go_error \<Rightarrow> (('w, 'f) program, unit) go) \<Rightarrow> (('w, 'f) program, unit) go" where
  "updateObject c obj failed = if_err (on_program (api_call (RbacUpdate c obj))) failed ret"

definition setupRBAC :: "'w rbac_client \<Rightarrow> (('w, 'f) program, unit) go" where
  "setupRBAC c =
     seq (createObject c (Role systemRole) fail)
     (seq (updateObject c (Role systemRole) (\<lambda>_. info ''system role update''))
     (seq (createObject c (Binding systemBinding) fail)
     (seq (updateObject c (Binding systemBinding) (\<lambda>_. info ''system binding update''))
     (seq (createObject c (Role editRole) (\<lambda>_. info ''aggregate-to-edit create warning (non-fatal)''))
     (seq (updateObject c (Role editRole) (\<lambda>_. ret ()))
     (seq (createObject c (Role viewRole) (\<lambda>_. info ''aggregate-to-view create warning (non-fatal)''))
     (seq (updateObject c (Role viewRole) (\<lambda>_. ret ()))
       (info ''provider self-managed RBAC roles ensured''))))))))"

section \<open>What the rules allow\<close>

definition resource_matches :: "string \<Rightarrow> string \<Rightarrow> bool" where
  "resource_matches pat res \<longleftrightarrow> pat = res \<or> pat = ''*'' \<or> take 2 pat = ''*/'' \<and> suffix (drop 1 pat) res"

definition rule_allows :: "policy_rule \<Rightarrow> string \<Rightarrow> string \<Rightarrow> string \<Rightarrow> bool" where
  "rule_allows r verb grp res \<longleftrightarrow> (verb \<in> set (Verbs r) \<or> ''*'' \<in> set (Verbs r)) \<and>
     (grp \<in> set (APIGroups r) \<or> ''*'' \<in> set (APIGroups r)) \<and> list_ex (\<lambda>pat. resource_matches pat res) (rule_Resources r)"

definition rbac_allows :: "policy_rule list \<Rightarrow> string \<Rightarrow> string \<Rightarrow> string \<Rightarrow> bool" where
  "rbac_allows rs verb grp res \<longleftrightarrow> list_ex (\<lambda>r. rule_allows r verb grp res) rs"

lemma withVerbs_map: "withVerbs r verbs = map (\<lambda>x. x\<lparr>Verbs := verbs\<rparr>) r"
proof -
  let ?z = "\<lparr>APIGroups = [], rule_Resources = [], Verbs = []\<rparr>"
  have "fold (\<lambda>i out. let out = out[i := r ! i] in out[i := (out ! i)\<lparr>Verbs := verbs\<rparr>]) [0..<k] (replicate (length r) ?z) =
      map (\<lambda>i. if i < k then (r ! i)\<lparr>Verbs := verbs\<rparr> else ?z) [0..<length r]" if "k \<le> length r" for k
    using that by (induction k) (auto intro!: nth_equalityI simp: nth_list_update less_Suc_eq Let_def)
  from this [of "length r"] show ?thesis by (auto simp: withVerbs_def intro!: nth_equalityI)
qed

lemma rules_have_verbs: "r \<in> set rules \<Longrightarrow> Verbs r \<noteq> []"
  by (auto simp: rules_def ruleVerbs_def)

lemma withVerbs_allows:
  "rbac_allows (withVerbs rules vs) verb grp res \<longleftrightarrow> (verb \<in> set vs \<or> ''*'' \<in> set vs) \<and> (\<exists>any. rbac_allows rules any grp res)"
proof -
  let ?P = "\<lambda>r. (grp \<in> set (APIGroups r) \<or> ''*'' \<in> set (APIGroups r)) \<and> list_ex (\<lambda>pat. resource_matches pat res) (rule_Resources r)"
  have "(\<exists>any. rule_allows r any grp res) \<longleftrightarrow> ?P r" if "r \<in> set rules" for r
    using rules_have_verbs [OF that] by (cases "Verbs r") (auto simp: rule_allows_def)
  then have "(\<exists>any. rbac_allows rules any grp res) \<longleftrightarrow> (\<exists>r \<in> set rules. ?P r)"
    by (simp add: rbac_allows_def list_ex_iff) blast
  moreover have "rule_allows (r\<lparr>Verbs := vs\<rparr>) verb grp res \<longleftrightarrow> (verb \<in> set vs \<or> ''*'' \<in> set vs) \<and> ?P r" for r
    by (auto simp: rule_allows_def)
  then have "rbac_allows (withVerbs rules vs) verb grp res \<longleftrightarrow> (\<exists>r \<in> set rules. (verb \<in> set vs \<or> ''*'' \<in> set vs) \<and> ?P r)"
    by (simp add: rbac_allows_def withVerbs_map list_ex_iff)
  ultimately show ?thesis by blast
qed

lemma system_allows_group: "rbac_allows rules verb grp res \<Longrightarrow> grp \<in> set (concat (map APIGroups rules)) \<or> ''*'' \<in> set (concat (map APIGroups rules))"
  by (auto simp: rbac_allows_def rule_allows_def list_ex_iff)

lemma groups_of_rules: "Group \<notin> set (concat (map APIGroups rules))" "''*'' \<notin> set (concat (map APIGroups rules))"
  by (simp_all add: rules_def Group_def)

text \<open>
  The roles the program sets up do not cover the resources it manages: none of the three allows any
  verb on any resource of the API group the five managed kinds are registered under, while the
  provider configs are covered.
\<close>
lemma roles_miss_the_managed_group:
  "\<not> rbac_allows (role_Rules systemRole) verb (gv_Group MinioGroupVersion) res \<and>
   \<not> rbac_allows (role_Rules editRole) verb (gv_Group MinioGroupVersion) res \<and>
   \<not> rbac_allows (role_Rules viewRole) verb (gv_Group MinioGroupVersion) res \<and>
   rbac_allows (role_Rules systemRole) ''watch'' (gv_Group ProviderGroupVersion) ''providerconfigs''"
proof -
  have no: "\<not> rbac_allows rules any Group res" for any
    using system_allows_group [of any Group res] groups_of_rules by blast
  have "rbac_allows rules ''watch'' ProviderGroup ''providerconfigs''"
    by (simp add: rbac_allows_def rules_def rule_allows_def resource_matches_def ProviderGroup_def ruleVerbs_def)
  with no show ?thesis
    by (simp add: systemRole_def editRole_def viewRole_def withVerbs_allows MinioGroupVersion_def ProviderGroupVersion_def)
qed

text \<open>
  What the aggregated roles give to others: the view role allows exactly to get, list and
  watch whatever the program itself may touch in any way, and that includes every secret of the cluster; the edit
  role allows every verb on the same resources.
\<close>
lemma aggregated_roles_reach_secrets:
  "(rbac_allows (role_Rules viewRole) verb grp res \<longleftrightarrow>
      verb \<in> {''get'', ''list'', ''watch''} \<and> (\<exists>any. rbac_allows (role_Rules systemRole) any grp res)) \<and>
   (rbac_allows (role_Rules editRole) verb grp res \<longleftrightarrow> (\<exists>any. rbac_allows (role_Rules systemRole) any grp res)) \<and>
   rbac_allows (role_Rules viewRole) ''get'' '''' ''secrets'' \<and> rbac_allows (role_Rules editRole) ''delete'' '''' ''secrets''"
proof -
  have "rbac_allows rules ''get'' '''' ''secrets''"
    by (simp add: rbac_allows_def rules_def rule_allows_def resource_matches_def)
  then show ?thesis by (auto simp: systemRole_def editRole_def viewRole_def withVerbs_allows)
qed

text \<open>
  C26. The roles the program sets up allow both too little and too much. None of the three allows
  any verb on any resource of the API group the five managed kinds are registered under, while
  the provider configs are covered. The two roles that are aggregated for others are derived from
  the rules of the program: the view role allows exactly to get, list and watch whatever the
  program itself may touch in any way, and that includes every secret of the cluster; the edit
  role allows every verb on the same resources.
\<close>

theorem program_roles:
  "(\<not> rbac_allows (role_Rules systemRole) verb (gv_Group MinioGroupVersion) res \<and>
    \<not> rbac_allows (role_Rules editRole) verb (gv_Group MinioGroupVersion) res \<and>
    \<not> rbac_allows (role_Rules viewRole) verb (gv_Group MinioGroupVersion) res \<and>
    rbac_allows (role_Rules systemRole) ''watch'' (gv_Group ProviderGroupVersion) ''providerconfigs'') \<and>
   (rbac_allows (role_Rules viewRole) verb grp res \<longleftrightarrow>
      verb \<in> {''get'', ''list'', ''watch''} \<and> (\<exists>any. rbac_allows (role_Rules systemRole) any grp res)) \<and>
   (rbac_allows (role_Rules editRole) verb grp res \<longleftrightarrow> (\<exists>any. rbac_allows (role_Rules systemRole) any grp res)) \<and>
   rbac_allows (role_Rules viewRole) ''get'' '''' ''secrets'' \<and> rbac_allows (role_Rules editRole) ''delete'' '''' ''secrets''"
  by (rule conjI [OF roles_miss_the_managed_group aggregated_roles_reach_secrets])

section \<open>Errors\<close>

text \<open>
  Only a failure to create the system role or its binding ends the setup; the other objects may
  fail in any way.
\<close>

lemma createObject_ends:
  "createObject c obj h s = (r, t) \<Longrightarrow> r = Ok () \<or> (\<exists>a s1. RbacCreate c obj (pg_world s) = (Inl a, pg_world s1) \<and> \<not> IsAlreadyExists c (ErrApi a) \<and> h (ErrApi a) s1 = (r, t))"
  by (auto simp: createObject_def if_err_def on_program_def api_call_def ret_def split: prod.splits sum.splits if_splits)

lemma optional_steps:
  "fst (createObject c obj (\<lambda>_. info l) s) = Ok ()" "fst (updateObject c obj (\<lambda>_. info l) s) = Ok ()" "fst (updateObject c obj (\<lambda>_. ret ()) s) = Ok ()"
  by (simp_all add: createObject_def updateObject_def if_err_def on_program_def api_call_def ret_def info_def split: prod.splits sum.splits)

lemma seq_optional: "fst (m s) = Ok () \<Longrightarrow> seq m n s = n (snd (m s))"
  by (cases "m s") (simp add: seq_def check_def if_err_def)

lemma setup_rbac_errors:
  fixes c :: "'w rbac_client" and s :: "('w, 'f) program"
  assumes "fst (setupRBAC c s) \<noteq> Ok ()"
  shows "\<exists>e obj s1 t. obj \<in> {Role systemRole, Binding systemBinding} \<and> createObject c obj fail s1 = (Err e, t) \<and> setupRBAC c s = (Err e, t)"
proof -
  let ?rest = "seq (createObject c (Binding systemBinding) fail)
     (seq (updateObject c (Binding systemBinding) (\<lambda>_. info ''system binding update''))
     (seq (createObject c (Role editRole) (\<lambda>_. info ''aggregate-to-edit create warning (non-fatal)''))
     (seq (updateObject c (Role editRole) (\<lambda>_. ret ()))
     (seq (createObject c (Role viewRole) (\<lambda>_. info ''aggregate-to-view create warning (non-fatal)''))
     (seq (updateObject c (Role viewRole) (\<lambda>_. ret ()))
       (info ''provider self-managed RBAC roles ensured''))))))"
  have ends: "(\<exists>t. createObject c obj fail s' = (Ok (), t)) \<or> (\<exists>e t. createObject c obj fail s' = (Err e, t))" for obj and s' :: "('w, 'f) program"
    using createObject_ends [of c obj fail s'] by (cases "createObject c obj fail s'") (auto simp: fail_def)
  show ?thesis
  proof (cases "fst (createObject c (Role systemRole) fail s) = Ok ()")
    case False
    with ends obtain e t where e: "createObject c (Role systemRole) fail s = (Err e, t)" by (metis fst_conv)
    then have "setupRBAC c s = (Err e, t)" by (simp add: setupRBAC_def seq_def check_def if_err_def fail_def)
    with e show ?thesis by blast
  next
    case True
    then obtain s1 where r: "setupRBAC c s = ?rest s1"
      by (simp add: setupRBAC_def seq_optional optional_steps)
    show ?thesis
    proof (cases "fst (createObject c (Binding systemBinding) fail s1) = Ok ()")
      case False
      with ends obtain e t where e: "createObject c (Binding systemBinding) fail s1 = (Err e, t)" by (metis fst_conv)
      then have "?rest s1 = (Err e, t)" by (simp add: seq_def check_def if_err_def fail_def)
      with e r show ?thesis by auto
    next
      case True
      then have "fst (?rest s1) = Ok ()" by (simp add: seq_optional optional_steps) (simp add: info_def)
      with r assms show ?thesis by simp
    qed
  qed
qed

end
