(* ===== verification/Program.thy ===== *)
theory Program
  imports Setup Rbac
begin

text \<open>
  The program entry (\<^verbatim>\<open>main\<close> of \<^verbatim>\<open>cmd/provider/main.go\<close>): tracing, the scheme, the manager, the
  roles, the controllers and webhooks, and the start of the manager, in this order. A step whose
  error is fatal ends the process (\<open>Err\<close>): then the deferred shutdown of tracing does not run.
  The manager and everything it is made from is the record \<open>platform\<close>; the scheme is part of its
  world. The line the program logs at debug level is left out.
\<close>

section \<open>Definitions\<close>

record flags =
  fl_debug :: bool
  fl_syncPeriod :: int
  fl_pollInt :: int
  fl_leaderElect :: bool
  fl_maxReconcileRate :: int
  fl_enableManagementPolicies :: bool

record manager_options =
  mopt_LeaderElection :: bool
  mopt_LeaderElectionID :: string
  mopt_SyncPeriod :: int
  mopt_EnableWatchBookmarks :: bool
  mopt_ResourceLock :: string
  mopt_LeaseDuration :: int
  mopt_RenewDeadline :: int
  mopt_Port :: int
  mopt_CertDir :: string

record ('w, 'k, 'f) platform =
  pf_trace :: "'f trace_lib"
  pf_GetConfig :: "('w, 'k) api"
  pf_AddK8sTypes :: "('w, unit) api"
  pf_scheme :: "'w scheme_lib"
  pf_NewManager :: "'k \<Rightarrow> manager_options \<Rightarrow> ('w, 'w manager) api"
  pf_rbac :: "'w manager \<Rightarrow> 'w rbac_client"
  pf_AddHealthzCheck :: "'w manager \<Rightarrow> string \<Rightarrow> ('w, unit) api"
  pf_AddReadyzCheck :: "'w manager \<Rightarrow> string \<Rightarrow> ('w, unit) api"
  pf_Start :: "'w manager \<Rightarrow> ('w, unit) api"

text \<open>\<^verbatim>\<open>kingpin.FatalIfError(err, msg)\<close>\<close>

definition fatal :: "('w, 'a) go \<Rightarrow> string \<Rightarrow> (('w, 'f) program, 'a) go" where
  "fatal m msg = if_err (on_program m) (\<lambda>err. fail (ErrWrap msg [] err)) ret"

definition managerOptions :: "('w, 'k, 'f) platform \<Rightarrow> flags \<Rightarrow> manager_options" where
  "managerOptions pf fl = \<lparr>mopt_LeaderElection = fl_leaderElect fl, mopt_LeaderElectionID = ''crossplane-leader-election-provider-minio'',
     mopt_SyncPeriod = fl_syncPeriod fl, mopt_EnableWatchBookmarks = True, mopt_ResourceLock = ''leases'',
     mopt_LeaseDuration = 60 * second, mopt_RenewDeadline = 50 * second, mopt_Port = 9443,
     mopt_CertDir = LookupEnv (pf_trace pf) ''WEBHOOK_TLS_CERT_DIR''\<rparr>"

text \<open>The part after the manager is made; the options \<open>o'\<close> are built and then not passed on.\<close>

definition main_manager :: "('w, 'k, 'f) platform \<Rightarrow> flags \<Rightarrow> 'w manager \<Rightarrow> (('w, 'f) program, unit) go" where
  "main_manager pf fl mgr =
     seq (if_err (setupRBAC (pf_rbac pf mgr)) (\<lambda>err. info ''RBAC setup warning (may be transient)'') ret)
     (let o' = \<lparr>co_MaxConcurrentReconciles = fl_maxReconcileRate fl, co_PollInterval = fl_pollInt fl,
            co_GlobalRateLimiter = fl_maxReconcileRate fl, co_ManagementPolicies = False\<rparr>;
          o' = (if fl_enableManagementPolicies fl then o'\<lparr>co_ManagementPolicies := True\<rparr> else o') in
      seq (if fl_enableManagementPolicies fl then info ''Beta feature enabled'' else ret ())
      (seq (fatal (SetupControllers mgr) ''Cannot setup MinIO controllers'')
      (seq (fatal (SetupWebhooks mgr) ''Cannot setup MinIO webhooks'')
      (seq (fatal (api_call (pf_AddHealthzCheck pf mgr ''healthz'')) ''Cannot add health check'')
      (seq (fatal (api_call (pf_AddReadyzCheck pf mgr ''readyz'')) ''Cannot add ready check'')
        (fatal (api_call (pf_Start pf mgr)) ''Cannot start controller manager''))))))"

definition main_body :: "('w, 'k, 'f) platform \<Rightarrow> flags \<Rightarrow> (('w, 'f) program, unit) go" where
  "main_body pf fl =
     check (fatal (api_call (pf_GetConfig pf)) ''Cannot get API server rest config'') (\<lambda>cfg.
     seq (fatal (api_call (pf_AddK8sTypes pf)) ''Cannot add k8s types to scheme'')
     (seq (fatal (AddToScheme (pf_scheme pf)) ''Cannot add MinIO APIs to scheme'')
     (seq (info ''Using cert-manager issued certificate for webhook server'')
     (check (fatal (api_call (pf_NewManager pf cfg (managerOptions pf fl))) ''Cannot create controller manager'') (\<lambda>mgr.
        main_manager pf fl mgr)))))"

definition main :: "('w, 'k, 'f) platform \<Rightarrow> flags \<Rightarrow> (('w, 'f) program, unit) go" where
  "main pf fl s =
     (let (shutdownTracing, tr) = Init (pf_trace pf) ''provider-minio'' (pg_trace s);
          (r, t) = main_body pf fl (s\<lparr>pg_trace := tr\<rparr>)
      in case r of
           Err e \<Rightarrow> (r, t)
         | _ \<Rightarrow> (r, t\<lparr>pg_trace := run_shutdown shutdownTracing (pg_trace t)\<rparr>))"

section \<open>Independence of the log\<close>

text \<open>Two states that differ in their log only, and steps that cannot tell them apart.\<close>

definition same_but_log :: "('w, 'f) program \<Rightarrow> ('w, 'f) program \<Rightarrow> bool" where
  "same_but_log s t \<longleftrightarrow> pg_world s = pg_world t \<and> pg_trace s = pg_trace t"

definition unlogged :: "'a outcome \<times> ('w, 'f) program \<Rightarrow> 'a outcome \<times> ('w, 'f) program \<Rightarrow> bool" where
  "unlogged x y \<longleftrightarrow> fst x = fst y \<and> same_but_log (snd x) (snd y)"

definition alike :: "(('w, 'f) program, 'a) go \<Rightarrow> (('w, 'f) program, 'a) go \<Rightarrow> bool" where
  "alike m n \<longleftrightarrow> (\<forall>s t. same_but_log s t \<longrightarrow> unlogged (m s) (n t))"

lemma alike_if_err:
  fixes m m' :: "(('w, 'f) program, 'a) go"
  shows "alike m m' \<Longrightarrow> (\<And>e. alike (h e) (h' e)) \<Longrightarrow> (\<And>x. alike (k x) (k' x)) \<Longrightarrow> alike (if_err m h k) (if_err m' h' k')"
  unfolding alike_def
proof (intro allI impI)
  fix s t :: "('w, 'f) program"
  assume m: "\<forall>s t. same_but_log s t \<longrightarrow> unlogged (m s) (m' t)" and h: "\<And>e. \<forall>s t. same_but_log s t \<longrightarrow> unlogged (h e s) (h' e t)"
    and k: "\<And>x. \<forall>s t. same_but_log s t \<longrightarrow> unlogged (k x s) (k' x t)" and st: "same_but_log s t"
  from m st have "unlogged (m s) (m' t)" by blast
  then show "unlogged (if_err m h k s) (if_err m' h' k' t)"
    by (cases "m s"; cases "m' t"; cases "fst (m s)") (use h k in \<open>auto simp: if_err_def unlogged_def\<close>)
qed

lemma alike_ends: "alike (ret x) (ret x)" "alike (fail e) (fail e)" "alike (info l) (info l')" "alike (on_program p) (on_program p)"
  by (auto simp: alike_def unlogged_def same_but_log_def ret_def fail_def info_def on_program_def split: prod.split)

lemma alike_check: "alike m m' \<Longrightarrow> (\<And>x. alike (k x) (k' x)) \<Longrightarrow> alike (check m k) (check m' k')"
  by (simp add: check_def alike_if_err alike_ends)

lemma alike_seq: "alike m m' \<Longrightarrow> alike n n' \<Longrightarrow> alike (seq m n) (seq m' n')"
  by (simp add: seq_def alike_check)

lemma alike_fatal: "alike (fatal m msg) (fatal m msg)"
  unfolding fatal_def by (intro alike_if_err alike_ends)

lemma alike_If: "alike m m' \<Longrightarrow> alike n n' \<Longrightarrow> alike (if b then m else n) (if b then m' else n')"
  by simp

lemma alike_optional_info: "alike (if b then info l else ret ()) (if b' then info l' else ret ())"
  by (auto simp: alike_def unlogged_def same_but_log_def ret_def info_def)

lemma alike_rbac: "alike (setupRBAC c) (setupRBAC c)"
  unfolding setupRBAC_def createObject_def updateObject_def by (intro alike_seq alike_if_err alike_If alike_ends)

lemmas alike_intros = alike_seq alike_check alike_fatal alike_rbac alike_optional_info alike_if_err alike_If alike_ends

lemma alike_main_body:
  "alike (main_body pf fl) (main_body pf (fl\<lparr>fl_pollInt := p, fl_maxReconcileRate := r, fl_enableManagementPolicies := b, fl_debug := d\<rparr>))"
proof -
  have "managerOptions pf (fl\<lparr>fl_pollInt := p, fl_maxReconcileRate := r, fl_enableManagementPolicies := b, fl_debug := d\<rparr>) = managerOptions pf fl"
    by (simp add: managerOptions_def)
  then show ?thesis unfolding main_body_def main_manager_def Let_def by (simp only:) (intro alike_intros)
qed

text \<open>
  C27. The options \<^verbatim>\<open>--poll\<close>, \<^verbatim>\<open>--max-reconcile-rate\<close> and \<^verbatim>\<open>--enable-management-policies\<close> have no effect: whatever
  they are set to, the program ends the same way, with the same tracing and having done the same to the world outside;
  only its log may differ.
\<close>
theorem command_line_options_ignored:
  "unlogged (main pf fl s) (main pf (fl\<lparr>fl_pollInt := p, fl_maxReconcileRate := r, fl_enableManagementPolicies := b, fl_debug := d\<rparr>) s)"
proof -
  let ?fl = "fl\<lparr>fl_pollInt := p, fl_maxReconcileRate := r, fl_enableManagementPolicies := b, fl_debug := d\<rparr>"
  obtain f tr where i: "Init (pf_trace pf) ''provider-minio'' (pg_trace s) = (f, tr)" by (cases "Init (pf_trace pf) ''provider-minio'' (pg_trace s)")
  have "unlogged (main_body pf fl (s\<lparr>pg_trace := tr\<rparr>)) (main_body pf ?fl (s\<lparr>pg_trace := tr\<rparr>))"
    using alike_main_body [where pf = pf and fl = fl and p = p and r = r and b = b and d = d] by (simp add: alike_def same_but_log_def)
  then show ?thesis
    by (cases "main_body pf fl (s\<lparr>pg_trace := tr\<rparr>)"; cases "main_body pf ?fl (s\<lparr>pg_trace := tr\<rparr>)")
      (auto simp: main_def i unlogged_def same_but_log_def split: outcome.split)
qed

section \<open>What runs when the manager starts\<close>

lemma fatal_Ok_iff: "fatal m msg s = (Ok x, t) \<longleftrightarrow> (\<exists>w. m (pg_world s) = (Ok x, w) \<and> t = s\<lparr>pg_world := w\<rparr>)"
  by (auto simp: fatal_def if_err_Ok_iff on_program_def split: prod.splits)

lemma rbac_keeps_trace: "pg_trace (snd (setupRBAC c s)) = pg_trace s"
proof -
  have k: "pg_trace (snd (if_err m h k s)) = pg_trace s"
    if "\<And>s. pg_trace (snd (m s)) = pg_trace s" "\<And>e s. pg_trace (snd (h e s)) = pg_trace s" "\<And>x s. pg_trace (snd (k x s)) = pg_trace s"
    for m :: "(('w, 'f) program, unit) go" and h and k :: "unit \<Rightarrow> (('w, 'f) program, unit) go" and s
    using that(1) [of s] that(2,3) by (cases "m s") (auto simp: if_err_def split: outcome.split)
  have e: "pg_trace (snd (on_program p s)) = pg_trace s" "pg_trace (snd (info l s)) = pg_trace s" "pg_trace (snd (ret () s)) = pg_trace s"
    "pg_trace (snd (fail err s)) = pg_trace s" for p :: "('w, unit) go" and l err and s :: "('w, 'f) program"
    by (simp_all add: on_program_def info_def ret_def fail_def split: prod.split)
  show ?thesis
    unfolding setupRBAC_def createObject_def updateObject_def seq_def check_def
    by (intro k; simp add: e k)
qed

lemma main_manager_Ok:
  assumes "main_manager pf fl mgr s = (Ok (), t)"
  shows "\<exists>w1 w2 w3 w4. SetupControllers mgr w1 = (Ok (), w2) \<and> SetupWebhooks mgr w2 = (Ok (), w3) \<and>
    pf_Start pf mgr w4 = (Inr (), pg_world t) \<and> pg_trace t = pg_trace s"
proof -
  let ?rbac = "if_err (setupRBAC (pf_rbac pf mgr)) (\<lambda>err. info ''RBAC setup warning (may be transient)'') ret"
  have "pg_trace u = pg_trace s" if "?rbac s = (Ok (), u)" for u
    using that rbac_keeps_trace [of "pf_rbac pf mgr" s] by (auto simp: if_err_Ok_iff info_def)
  with assms show ?thesis
    unfolding main_manager_def Let_def by (auto simp: seq_Ok_iff fatal_Ok_iff api_call_Ok_iff info_def split: if_splits) blast+
qed

text \<open>
  C24. When the program ends without an error, the manager was made after every API type of the
  provider had been added to its scheme, all controllers and then all webhooks were registered
  with it, whether or not the roles could be set up, and it was started after that, with the tracer
  in place; tracing is then shut down if it was set up.
\<close>
theorem manager_starts_complete:
  assumes "scheme_laws (pf_scheme pf)" and "main pf fl s = (Ok (), t)"
  shows "\<exists>cfg mgr w0 w1 w2 w3 w4 w5 f tr. Init (pf_trace pf) ''provider-minio'' (pg_trace s) = (f, tr) \<and> tracer tr \<and>
    (\<forall>k \<in> api_types. Recognizes (pf_scheme pf) w0 k) \<and>
    pf_NewManager pf cfg (managerOptions pf fl) w0 = (Inr mgr, w1) \<and>
    SetupControllers mgr w2 = (Ok (), w3) \<and> SetupWebhooks mgr w3 = (Ok (), w4) \<and>
    pf_Start pf mgr w5 = (Inr (), pg_world t) \<and> pg_trace t = run_shutdown f tr"
proof -
  obtain f tr where i: "Init (pf_trace pf) ''provider-minio'' (pg_trace s) = (f, tr)" by (cases "Init (pf_trace pf) ''provider-minio'' (pg_trace s)")
  from assms(2) obtain u where u: "main_body pf fl (s\<lparr>pg_trace := tr\<rparr>) = (Ok (), u)" "t = u\<lparr>pg_trace := run_shutdown f (pg_trace u)\<rparr>"
    by (auto simp: main_def i split: prod.splits outcome.splits)
  from u(1) obtain cfg wa wb wc mgr w1 s2 where
    sch: "AddToScheme (pf_scheme pf) wa = (Ok (), wb)" and
    new: "pf_NewManager pf cfg (managerOptions pf fl) wb = (Inr mgr, w1)" and
    m: "main_manager pf fl mgr s2 = (Ok (), u)" and s2: "pg_trace s2 = tr"
    unfolding main_body_def by (fastforce simp: check_Ok_iff seq_Ok_iff fatal_Ok_iff api_call_Ok_iff info_def)
  from add_to_scheme_recognizes [OF assms(1), of wa] sch have r: "\<forall>k \<in> api_types. Recognizes (pf_scheme pf) wb k" by auto
  from main_manager_Ok [OF m] obtain w2 w3 w4 w5 where
    "SetupControllers mgr w2 = (Ok (), w3)" "SetupWebhooks mgr w3 = (Ok (), w4)" "pf_Start pf mgr w5 = (Inr (), pg_world u)" "pg_trace u = tr"
    using s2 by auto
  moreover from this u(2) have "pf_Start pf mgr w5 = (Inr (), pg_world t)" "pg_trace t = run_shutdown f tr" by simp_all
  ultimately show ?thesis using r new i init_traces(1) [OF i] by blast
qed

text \<open>A platform that records what it is told; the recognised types are kept in the world.\<close>

type_synonym recorder = "(group_version \<times> string) list \<times> string list"

definition record_line :: "string \<Rightarrow> (recorder, unit) api" where
  "record_line l w = (Inr (), (fst w, snd w @ [l]))"

definition quiet_manager :: "recorder manager" where
  "quiet_manager = \<lparr>mgr_Client = \<lparr>KubeGetSecret = (\<lambda>_ _ w. (Inr Map.empty, w)), KubeGetConfigMap = (\<lambda>_ _ w. (Inr Map.empty, w)),
       KubeGetProviderConfig = (\<lambda>_ w. (Inr tls_demo, w))\<rparr>,
     mgr_NewUsageTracker = (\<lambda>_ _ w. (Inr (), w)), mgr_GroupKindString = (\<lambda>g k. k @ ''.'' @ g),
     mgr_ProviderConfigName = (\<lambda>n. ''providerconfig/'' @ to_lower n), mgr_ManagedName = (\<lambda>n. ''managed/'' @ to_lower n),
     mgr_CompleteController = (\<lambda>c. record_line (cs_For c)), mgr_CompleteWebhook = (\<lambda>v. record_line (ws_For v))\<rparr>"

definition quiet_platform :: "(recorder, unit, unit) platform" where
  "quiet_platform = \<lparr>
     pf_trace = \<lparr>LookupEnv = (\<lambda>_. ''''), ParseFloat = (\<lambda>_. Inr ()), OneTenth = (), NewResource = (\<lambda>_. None), NewExporter = (\<lambda>_. None)\<rparr>,
     pf_GetConfig = (\<lambda>w. (Inr (), w)), pf_AddK8sTypes = (\<lambda>w. (Inr (), w)),
     pf_scheme = \<lparr>AddKnownTypes = (\<lambda>gv ks w. (fst w @ map (Pair gv) ks, snd w)), AddToGroupVersion = (\<lambda>_ w. w),
       Recognizes = (\<lambda>w k. (gvk_GroupVersion k, gvk_Kind k) \<in> set (fst w))\<rparr>,
     pf_NewManager = (\<lambda>_ _ w. (Inr quiet_manager, w)),
     pf_rbac = (\<lambda>_. \<lparr>RbacCreate = (\<lambda>_ w. (Inl \<lparr>err_text = ''forbidden'', err_code = '''', err_status = 403\<rparr>, w)),
       RbacUpdate = (\<lambda>_ w. (Inr (), w)), IsAlreadyExists = (\<lambda>_. False)\<rparr>),
     pf_AddHealthzCheck = (\<lambda>_ _ w. (Inr (), w)), pf_AddReadyzCheck = (\<lambda>_ _ w. (Inr (), w)), pf_Start = (\<lambda>_. record_line ''started'')\<rparr>"

definition default_flags :: flags where
  "default_flags = \<lparr>fl_debug = False, fl_syncPeriod = 60 * minute, fl_pollInt = 10 * minute, fl_leaderElect = False,
     fl_maxReconcileRate = 10, fl_enableManagementPolicies = False\<rparr>"

definition fresh_program :: "(recorder, unit) program" where
  "fresh_program = \<lparr>pg_world = ([], []), pg_log = [], pg_trace = \<lparr>tracer = False, tp = None, global_provider = None, shut_down = []\<rparr>\<rparr>"

lemma quiet_scheme: "scheme_laws (pf_scheme quiet_platform)"
  by (auto simp: scheme_laws_def quiet_platform_def)

lemma quiet_main: "\<exists>t. main quiet_platform default_flags fresh_program = (Ok (), t)"
  by (simp add: main_def main_body_def main_manager_def Let_def Init_def getEnv_def parse_bool_def quiet_platform_def fresh_program_def default_flags_def
      fatal_def on_program_def AddToScheme_def AddToSchemes_def addKnownTypes_minio_def addKnownTypes_provider_def info_def
      setupRBAC_def createObject_def SetupControllers_def SetupWebhooks_def setup_defs quiet_manager_def record_line_def go_defs split: prod.split)

theorem manager_starts_complete_witness:
  "\<exists>t (mgr :: recorder manager) w w'. main quiet_platform default_flags fresh_program = (Ok (), t) \<and> SetupControllers mgr w = (Ok (), w') \<and>
     pg_trace t = \<lparr>tracer = True, tp = None, global_provider = None, shut_down = []\<rparr>"
proof -
  from quiet_main obtain t where t: "main quiet_platform default_flags fresh_program = (Ok (), t)" by blast
  have i: "Init (pf_trace quiet_platform) ''provider-minio'' (pg_trace fresh_program) =
      (NoShutdown, \<lparr>tracer = True, tp = None, global_provider = None, shut_down = []\<rparr>)"
    by (simp add: Init_def getEnv_def parse_bool_def quiet_platform_def fresh_program_def Let_def)
  from manager_starts_complete [OF quiet_scheme t] obtain mgr :: "recorder manager" and w w' f tr where
    "SetupControllers mgr w = (Ok (), w')" "Init (pf_trace quiet_platform) ''provider-minio'' (pg_trace fresh_program) = (f, tr)"
    "pg_trace t = run_shutdown f tr" by (elim exE conjE) (rule that; assumption)
  moreover from this i have "pg_trace t = \<lparr>tracer = True, tp = None, global_provider = None, shut_down = []\<rparr>" by (simp add: run_shutdown_def)
  ultimately show ?thesis using t by blast
qed

end
