(* ===== verification/Samples.thy ===== *)
theory Samples
  imports Setup
begin

text \<open>
  The sample objects \<^verbatim>\<open>generate_sample.go\<close> writes: a bucket, the provider config and secret it
  connects with, a user and a policy, and the files they go to. The group/version syntax, the file
  system and the serializer are parameters.
\<close>

section \<open>The objects\<close>

record gv_lib =
  GroupVersionString :: "group_version \<Rightarrow> string"
  ParseGroupVersion :: "string \<Rightarrow> group_version"

definition sampleMeta :: "string \<Rightarrow> string \<Rightarrow> object_meta" where
  "sampleMeta name ns = \<lparr>Name = name, Namespace = ns, Annotations = None, DeletionTimestamp = None\<rparr>"

definition sampleSpec :: "string option \<Rightarrow> managed_spec" where
  "sampleSpec secretName = \<lparr>ManagementPolicies = None, ProviderConfigReference = Some ''provider-config'',
     WriteConnectionSecretToReference = secretName\<rparr>"

definition newBucketSample :: "gv_lib \<Rightarrow> type_meta \<times> bucket" where
  "newBucketSample g = (\<lparr>tm_Kind = BucketKind, tm_APIVersion = GroupVersionString g MinioGroupVersion\<rparr>,
     \<lparr>b_meta = sampleMeta ''bucket-local-dev'' '''', b_spec = sampleSpec None,
      b_params = \<lparr>bp_BucketName = '''', bp_Region = ''us-east-1'', bp_BucketDeletionPolicy = '''', bp_Policy = None, bp_Tags = None\<rparr>,
      b_status = \<lparr>bs_Conditions = [], bs_Endpoint = '''', bs_EndpointURL = '''', bs_BucketName = ''''\<rparr>\<rparr>)"

definition newProviderConfigSample :: "gv_lib \<Rightarrow> type_meta \<times> object_meta \<times> provider_config" where
  "newProviderConfigSample g = (\<lparr>tm_Kind = ProviderConfigKind, tm_APIVersion = GroupVersionString g ProviderGroupVersion\<rparr>,
     sampleMeta ''provider-config'' '''',
     \<lparr>pc_Credentials = \<lparr>cred_Source = ''InjectedIdentity'',
        cred_APISecretRef = \<lparr>sr_Name = ''minio-secret'', sr_Namespace = ''crossplane-system''\<rparr>, cred_SecretRef = None\<rparr>,
      pc_MinioURL = ''http://minio.127.0.0.1.nip.io:8088/'', pc_TLS = None\<rparr>)"

definition newSecretSample :: "type_meta \<times> object_meta \<times> secret" where
  "newSecretSample = (\<lparr>tm_Kind = ''Secret'', tm_APIVersion = ''v1''\<rparr>, sampleMeta ''minio-secret'' ''crossplane-system'',
     [MinioIDKey \<mapsto> ''minioadmin'', MinioSecretKey \<mapsto> ''minioadmin''])"

definition newUserSample :: "gv_lib \<Rightarrow> type_meta \<times> user" where
  "newUserSample g = (\<lparr>tm_Kind = UserKind, tm_APIVersion = GroupVersionString g MinioGroupVersion\<rparr>,
     \<lparr>u_meta = sampleMeta ''devuser'' '''', u_spec = sampleSpec (Some ''devuser''),
      u_params = \<lparr>up_UserName = '''', up_Policies = None\<rparr>,
      u_status = \<lparr>us_Conditions = [], us_UserName = '''', us_Status = '''', us_Policies = ''''\<rparr>\<rparr>)"

definition newPolicySample :: "gv_lib \<Rightarrow> type_meta \<times> policy" where
  "newPolicySample g = (\<lparr>tm_Kind = PolicyKind, tm_APIVersion = GroupVersionString g MinioGroupVersion\<rparr>,
     \<lparr>p_meta = sampleMeta ''mypolicy'' '''', p_spec = sampleSpec None,
      p_params = \<lparr>pp_AllowBucket = ''bucket-local-dev'', pp_RawPolicy = ''''\<rparr>,
      p_status = \<lparr>ps_Conditions = [], ps_Policy = ''''\<rparr>\<rparr>)"

section \<open>Writing them\<close>

datatype sample =
    SBucket "type_meta \<times> bucket"
  | SProviderConfig "type_meta \<times> object_meta \<times> provider_config"
  | SSecret "type_meta \<times> object_meta \<times> secret"
  | SUser "type_meta \<times> user"
  | SPolicy "type_meta \<times> policy"

fun sample_type :: "sample \<Rightarrow> type_meta" where
  "sample_type (SBucket x) = fst x"
| "sample_type (SProviderConfig x) = fst x"
| "sample_type (SSecret x) = fst x"
| "sample_type (SUser x) = fst x"
| "sample_type (SPolicy x) = fst x"

record 'w file_lib =
  MkdirAll :: "string \<Rightarrow> ('w, unit) api"
  CreateFile :: "string \<Rightarrow> ('w, unit) api"
  EncodeTo :: "bool \<Rightarrow> sample \<Rightarrow> string \<Rightarrow> ('w, unit) api"
  JoinPath :: "string \<Rightarrow> string \<Rightarrow> string"

text \<open>\<^verbatim>\<open>failIfError\<close> ends the program.\<close>

definition prepareFile :: "'w file_lib \<Rightarrow> string \<Rightarrow> string \<Rightarrow> ('w, string) go" where
  "prepareFile fs dir file =
     seq (api_call (MkdirAll fs dir)) (seq (api_call (CreateFile fs (JoinPath fs dir file))) (ret (JoinPath fs dir file)))"

definition sampleFileName :: "gv_lib \<Rightarrow> type_meta \<Rightarrow> bool \<Rightarrow> string" where
  "sampleFileName g tm useYaml =
     (let grp = gv_Group (ParseGroupVersion g (tm_APIVersion tm)); fileExt = (if useYaml then ''yaml'' else ''json'') in
      to_lower grp @ ''_'' @ to_lower (tm_Kind tm) @ ''.'' @ fileExt)"

definition serialize :: "gv_lib \<Rightarrow> 'w file_lib \<Rightarrow> string \<Rightarrow> sample \<Rightarrow> bool \<Rightarrow> ('w, unit) go" where
  "serialize g fs dir object useYaml =
     check (prepareFile fs dir (sampleFileName g (sample_type object) useYaml)) (\<lambda>f. api_call (EncodeTo fs useYaml object f))"

definition generateBucketSample :: "gv_lib \<Rightarrow> 'w file_lib \<Rightarrow> string \<Rightarrow> ('w, unit) go" where
  "generateBucketSample g fs dir = serialize g fs dir (SBucket (newBucketSample g)) True"

definition generateProviderConfigSample :: "gv_lib \<Rightarrow> 'w file_lib \<Rightarrow> string \<Rightarrow> ('w, unit) go" where
  "generateProviderConfigSample g fs dir = serialize g fs dir (SProviderConfig (newProviderConfigSample g)) True"

definition generateSecretSample :: "gv_lib \<Rightarrow> 'w file_lib \<Rightarrow> string \<Rightarrow> ('w, unit) go" where
  "generateSecretSample g fs dir = serialize g fs dir (SSecret newSecretSample) True"

definition generateUserSample :: "gv_lib \<Rightarrow> 'w file_lib \<Rightarrow> string \<Rightarrow> ('w, unit) go" where
  "generateUserSample g fs dir = serialize g fs dir (SUser (newUserSample g)) True"

definition generatePolicySample :: "gv_lib \<Rightarrow> 'w file_lib \<Rightarrow> string \<Rightarrow> ('w, unit) go" where
  "generatePolicySample g fs dir = serialize g fs dir (SPolicy (newPolicySample g)) True"

definition generateSamples :: "gv_lib \<Rightarrow> 'w file_lib \<Rightarrow> string \<Rightarrow> ('w, unit) go \<Rightarrow> ('w, unit) go" where
  "generateSamples g fs dir addToScheme =
     seq addToScheme
     (seq (generateBucketSample g fs dir)
     (seq (generateProviderConfigSample g fs dir)
     (seq (generateSecretSample g fs dir)
     (seq (generateUserSample g fs dir)
       (generatePolicySample g fs dir)))))"

section \<open>They fit together\<close>

text \<open>The documented syntax: parsing undoes printing, and a bare version has the empty group.\<close>

definition gv_laws :: "gv_lib \<Rightarrow> bool" where
  "gv_laws g \<longleftrightarrow> (\<forall>gv. ParseGroupVersion g (GroupVersionString g gv) = gv) \<and> gv_Group (ParseGroupVersion g ''v1'') = ''''"

lemma sample_files_distinct:
  assumes "gv_laws g"
  shows "map (\<lambda>x. sampleFileName g (sample_type x) True)
      [SBucket (newBucketSample g), SProviderConfig (newProviderConfigSample g), SSecret newSecretSample, SUser (newUserSample g), SPolicy (newPolicySample g)] =
    [''minio.m.crossplane.io_bucket.yaml'', ''minio.crossplane.io_providerconfig.yaml'', ''_secret.yaml'',
     ''minio.m.crossplane.io_user.yaml'', ''minio.m.crossplane.io_policy.yaml'']"
proof -
  have l: "to_lower Group = ''minio.m.crossplane.io''" "to_lower ProviderGroup = ''minio.crossplane.io''" "to_lower '''' = ''''"
    "to_lower BucketKind = ''bucket''" "to_lower ProviderConfigKind = ''providerconfig''" "to_lower ''Secret'' = ''secret''"
    "to_lower UserKind = ''user''" "to_lower PolicyKind = ''policy''"
    by code_simp+
  show ?thesis
    using assms l by (simp add: sampleFileName_def gv_laws_def newBucketSample_def newProviderConfigSample_def newSecretSample_def newUserSample_def
        newPolicySample_def MinioGroupVersion_def ProviderGroupVersion_def Let_def)
qed

text \<open>
  The samples work together: the bucket, the user and the policy pass their webhooks; and once the sample
  provider config and secret are in the cluster, the connector of each of the three finds the config and asks for a client with
  the credentials of the sample secret and no transport of its own, at the host of the sample URL. The older
  client code rejects the same config, because it only takes credentials of source \<^verbatim>\<open>Secret\<close>.
\<close>
theorem samples_fit_together:
  assumes "KubeGetProviderConfig kube ''provider-config'' w = (Inr (snd (snd (newProviderConfigSample g))), w)"
    and "KubeGetSecret kube ''minio-secret'' ''crossplane-system'' w = (Inr (snd (snd newSecretSample)), w)"
    and "ParseURL lib ''http://minio.127.0.0.1.nip.io:8088/'' = Inr u"
  shows "ValidateCreate_bucket (snd (newBucketSample g)) v = (Ok (), v) \<and>
    ValidateCreate_user lib kube (snd (newUserSample g)) w = (Ok (), w) \<and>
    ValidateCreate_policy (snd (newPolicySample g)) v = (Ok (), v) \<and>
    (\<forall>sp \<in> {b_spec (snd (newBucketSample g)), u_spec (snd (newUserSample g)), p_spec (snd (newPolicySample g))}.
       check (getProviderConfig kube sp) (NewMinioAdmin lib kube) w =
       lib_call (NewAdmin lib (url_Host u) \<lparr>opt_AccessKey = ''minioadmin'', opt_SecretKey = ''minioadmin'', opt_Secure = IsTLSEnabled u, opt_Transport = None\<rparr>) w \<and>
       check (getProviderConfig kube sp) (NewMinioClient lib kube) w =
       lib_call (NewS3 lib (url_Host u) \<lparr>opt_AccessKey = ''minioadmin'', opt_SecretKey = ''minioadmin'', opt_Secure = IsTLSEnabled u, opt_Transport = None\<rparr>) w) \<and>
    fst (GetConfig unmarshal kube (snd (snd (newProviderConfigSample g))) w) = Err (ErrFmt errFmtUnsupportedCredSource [''InjectedIdentity''])"
proof (intro conjI ballI)
  show "ValidateCreate_bucket (snd (newBucketSample g)) v = (Ok (), v)"
    by (simp add: ValidateCreate_bucket_def newBucketSample_def sampleSpec_def has_provider_config_def ret_def)
  show "ValidateCreate_user lib kube (snd (newUserSample g)) w = (Ok (), w)"
    by (simp add: ValidateCreate_user_def doesPolicyExist_def newUserSample_def sampleSpec_def has_provider_config_def)
  show "ValidateCreate_policy (snd (newPolicySample g)) v = (Ok (), v)"
    by (simp add: ValidateCreate_policy_def validatePolicy_policy_Ok_iff newPolicySample_def sampleSpec_def has_provider_config_def)
next
  fix sp assume "sp \<in> {b_spec (snd (newBucketSample g)), u_spec (snd (newUserSample g)), p_spec (snd (newPolicySample g))}"
  then have sp: "ProviderConfigReference sp = Some ''provider-config''"
    by (auto simp: newBucketSample_def newUserSample_def newPolicySample_def sampleSpec_def)
  have sec: "map_get (snd (snd newSecretSample)) MinioIDKey = ''minioadmin''" "map_get (snd (snd newSecretSample)) MinioSecretKey = ''minioadmin''"
    by (simp_all add: newSecretSample_def map_get_def MinioIDKey_def MinioSecretKey_def)
  note eval = getProviderConfig_def NewMinioAdmin_def NewMinioClient_def api_secret_def sp assms sec newProviderConfigSample_def go_defs
  show "check (getProviderConfig kube sp) (NewMinioAdmin lib kube) w =
      lib_call (NewAdmin lib (url_Host u) \<lparr>opt_AccessKey = ''minioadmin'', opt_SecretKey = ''minioadmin'', opt_Secure = IsTLSEnabled u, opt_Transport = None\<rparr>) w"
    "check (getProviderConfig kube sp) (NewMinioClient lib kube) w =
      lib_call (NewS3 lib (url_Host u) \<lparr>opt_AccessKey = ''minioadmin'', opt_SecretKey = ''minioadmin'', opt_Secure = IsTLSEnabled u, opt_Transport = None\<rparr>) w"
    using assms(1,2) by (simp_all add: eval split: sum.split)
next
  show "fst (GetConfig unmarshal kube (snd (snd (newProviderConfigSample g))) w) = Err (ErrFmt errFmtUnsupportedCredSource [''InjectedIdentity''])"
    by (simp add: GetConfig_def newProviderConfigSample_def useSSL_def slice_to_def CredentialsSourceSecret_def go_defs)
qed

definition plain_gv :: gv_lib where
  "plain_gv = \<lparr>GroupVersionString = (\<lambda>gv. gv_Group gv @ ''/'' @ gv_Version gv), ParseGroupVersion = (\<lambda>_. MinioGroupVersion)\<rparr>"

theorem samples_fit_together_witness:
  "\<exists>ec. Connect_policy text_lib admin_lib
     \<lparr>con_kube = one_secret (snd (snd newSecretSample)) (snd (snd (newProviderConfigSample plain_gv))), con_Track = (\<lambda>_ w. (Inr (), w))\<rparr>
     (MPolicy (snd (newPolicySample plain_gv))) demo_server = (Ok ec, demo_server)"
proof -
  let ?kube = "one_secret (snd (snd newSecretSample)) (snd (snd (newProviderConfigSample plain_gv))) :: mem_server kube_client"
  have "KubeGetProviderConfig ?kube ''provider-config'' demo_server = (Inr (snd (snd (newProviderConfigSample plain_gv))), demo_server)"
    "KubeGetSecret ?kube ''minio-secret'' ''crossplane-system'' demo_server = (Inr (snd (snd newSecretSample)), demo_server)"
    "ParseURL admin_lib ''http://minio.127.0.0.1.nip.io:8088/'' = Inr \<lparr>url_Scheme = ''https'', url_Host = ''http://minio.127.0.0.1.nip.io:8088/''\<rparr>"
    by (simp_all add: one_secret_def admin_lib_def)
  note fit = samples_fit_together [OF this, THEN conjunct2, THEN conjunct2, THEN conjunct2, THEN conjunct1, THEN bspec, THEN conjunct1,
      of "p_spec (snd (newPolicySample plain_gv))"]
  have "NewAdmin admin_lib h opts = Inr mem_admin" for h opts by (simp add: admin_lib_def)
  with fit have "check (getProviderConfig ?kube (p_spec (snd (newPolicySample plain_gv)))) (NewMinioAdmin admin_lib ?kube) demo_server = (Ok mem_admin, demo_server)"
    by (simp add: lib_call_def ret_def)
  then show ?thesis
    by (auto simp: Connect_policy_def track_def check_Ok_iff seq_Ok_iff api_call_def)
qed

end
