(* ===== verification/Admission.thy ===== *)
theory Admission
  imports User_Props ServiceAccount_Props Notification_Props
begin

text \<open>
  What the webhooks pin over the whole life of a resource: the versions of a user, a service
  account or a notification that are admitted one after the other. Buckets are in theory
  \<open>Bucket_Props\<close>, because what is pinned there depends on what was observed; the webhook of
  policies pins nothing but the name, which Kubernetes keeps.
\<close>


text \<open>Three resources and an edit of each.\<close>

definition free_user :: user where
  "free_user = demo_user\<lparr>u_params := \<lparr>up_UserName = [], up_Policies = None\<rparr>\<rparr>"

lemma user_edit:
  "ValidateCreate_user mem_lib (one_secret Map.empty tls_demo) demo_user demo_server = (Ok (), demo_server)"
  "evolves (userValidator mem_lib (one_secret Map.empty tls_demo)) demo_user free_user"
proof -
  show "ValidateCreate_user mem_lib (one_secret Map.empty tls_demo) demo_user demo_server = (Ok (), demo_server)"
    by (rule demo_user_created)
  have "ValidateUpdate (userValidator mem_lib (one_secret Map.empty tls_demo)) demo_user free_user demo_server = (Ok (), demo_server)"
    by (simp add: userValidator_def ValidateUpdate_user_def has_provider_config_def free_user_def demo_user_def doesPolicyExist_def
        GetUserName_def if_err_def ret_def)
  then show "evolves (userValidator mem_lib (one_secret Map.empty tls_demo)) demo_user free_user"
    by (rule evolves.replaced [OF evolves.same])
qed

lemma sa_edit:
  "evolves (serviceAccountValidator (\<lambda>_. None) :: (unit, service_account) validator) demo_sa (demo_sa\<lparr>s_params := (s_params demo_sa)\<lparr>sp_Name := ''new''\<rparr>\<rparr>)"
  "has_provider_config (s_spec demo_sa)"
proof -
  have "ValidateUpdate (serviceAccountValidator (\<lambda>_. None)) demo_sa (demo_sa\<lparr>s_params := (s_params demo_sa)\<lparr>sp_Name := ''new''\<rparr>\<rparr>) () = (Ok (), ())"
    by (simp add: serviceAccountValidator_def ValidateUpdate_sa_def policyCheck_sa_def has_provider_config_def demo_sa_def
        GetAccessKey_def ret_def)
  then show "evolves (serviceAccountValidator (\<lambda>_. None) :: (unit, service_account) validator) demo_sa (demo_sa\<lparr>s_params := (s_params demo_sa)\<lparr>sp_Name := ''new''\<rparr>\<rparr>)"
    by (rule evolves.replaced [OF evolves.same])
  show "has_provider_config (s_spec demo_sa)" by (simp add: demo_sa_def has_provider_config_def)
qed

lemma nc_created: "ValidateCreate_nc demo_nc () = (Ok (), ())"
proof -
  have "trim_space ''s3:ObjectCreated:*'' \<in> set validS3Events" by (simp add: trim_space_id is_space_def validS3Events_def)
  then show ?thesis
    by (simp add: ValidateCreate_nc_def ValidateEvents_def ValidateS3Event_def demo_nc_def hook_def has_provider_config_def
        ret_def if_err_def seq_def check_def)
qed


end
