(* ===== verification/Fleet.thy ===== *)
theory Fleet
  imports Contracts
begin

text \<open>
  Many resources of one kind on one server. A controller has one worker, so the reconciles of
  its resources follow one another, in any order; between them anything else may happen on the
  server and the resources may be edited (theory \<open>Interleaving\<close> lets reconciles overlap). The
  locale \<open>exclusive_external\<close> is what a controller must promise for its marks to be worth
  something: whoever holds the mark created the object, and nobody else holds the mark for the
  same object. The bucket, the user and the policy controller are interpreted as one, whenever
  the server keeps its laws; then the runs follow in which the marks fail, because a deletion or
  a renaming is involved.
\<close>

section \<open>A fleet of resources\<close>

record ('i, 'w) fleet =
  server :: 'w
  resource :: "'i \<Rightarrow> managed"

fun metadata :: "managed \<Rightarrow> object_meta option" where
  "metadata (MBucket b) = Some (b_meta b)"
| "metadata (MUser u) = Some (u_meta u)"
| "metadata (MPolicy p) = Some (p_meta p)"
| "metadata (MServiceAccount a) = Some (s_meta a)"
| "metadata (MNotification n) = Some (n_meta n)"
| "metadata (MOther _) = None"

definition being_deleted :: "managed \<Rightarrow> bool" where
  "being_deleted m \<longleftrightarrow> (case metadata m of None \<Rightarrow> False | Some x \<Rightarrow> DeletionTimestamp x \<noteq> None)"

lemma same_desired_being_deleted: "same_desired m n \<Longrightarrow> being_deleted n = being_deleted m"
  by (cases m; cases n) (auto simp: being_deleted_def same_identity_def)

definition fresh_state :: "'w \<Rightarrow> managed \<Rightarrow> 'w cstate" where
  "fresh_state w m = \<lparr>world = w, cr = m, events = [], logs = []\<rparr>"

lemma fresh_state_simps [simp]: "world (fresh_state w m) = w" "cr (fresh_state w m) = m"
  by (simp_all add: fresh_state_def)

text \<open>
  One step: a whole reconcile of one resource, something else on the server (\<open>env\<close>), or an edit
  of one resource (\<open>edit\<close>), which also adds and removes resources: an index without a resource
  holds some \<open>MOther\<close>.
\<close>

inductive fleet_step :: "'w external_client \<Rightarrow> (('i, 'w) fleet \<Rightarrow> 'w \<Rightarrow> bool) \<Rightarrow> (('i, 'w) fleet \<Rightarrow> 'i \<Rightarrow> managed \<Rightarrow> bool) \<Rightarrow>
    ('i, 'w) fleet \<Rightarrow> ('i \<times> verdict) option \<Rightarrow> ('i, 'w) fleet \<Rightarrow> bool"
  for ec :: "'w external_client" and env :: "('i, 'w) fleet \<Rightarrow> 'w \<Rightarrow> bool" and edit :: "('i, 'w) fleet \<Rightarrow> 'i \<Rightarrow> managed \<Rightarrow> bool" where
  reconciled: "reconcile ec (being_deleted (resource f i)) (fresh_state (server f) (resource f i)) v t \<Longrightarrow>
    fleet_step ec env edit f (Some (i, v)) (f\<lparr>server := world t, resource := (resource f)(i := cr t)\<rparr>)"
| elsewhere: "env f w \<Longrightarrow> fleet_step ec env edit f None (f\<lparr>server := w\<rparr>)"
| edited_resource: "edit f i m \<Longrightarrow> fleet_step ec env edit f None (f\<lparr>resource := (resource f)(i := m)\<rparr>)"

inductive fleet_run :: "'w external_client \<Rightarrow> (('i, 'w) fleet \<Rightarrow> 'w \<Rightarrow> bool) \<Rightarrow> (('i, 'w) fleet \<Rightarrow> 'i \<Rightarrow> managed \<Rightarrow> bool) \<Rightarrow>
    ('i, 'w) fleet \<Rightarrow> ('i \<times> verdict) list \<Rightarrow> ('i, 'w) fleet \<Rightarrow> bool"
  for ec :: "'w external_client" and env :: "('i, 'w) fleet \<Rightarrow> 'w \<Rightarrow> bool" and edit :: "('i, 'w) fleet \<Rightarrow> 'i \<Rightarrow> managed \<Rightarrow> bool" where
  fleet_idle: "fleet_run ec env edit f [] f"
| fleet_acts: "fleet_run ec env edit f tr g \<Longrightarrow> fleet_step ec env edit g (Some x) h \<Longrightarrow> fleet_run ec env edit f (tr @ [x]) h"
| fleet_changes: "fleet_run ec env edit f tr g \<Longrightarrow> fleet_step ec env edit g None h \<Longrightarrow> fleet_run ec env edit f tr h"

lemma fleet_run_invariant:
  assumes "fleet_run ec env edit f tr g" and "I f"
    and "\<And>f x g. I f \<Longrightarrow> fleet_step ec env edit f x g \<Longrightarrow> I g"
  shows "I g"
  using assms by (induction rule: fleet_run.induct) auto

section \<open>What makes a mark exclusive\<close>

lemma reconcile_desired:
  assumes "reconcile ec d s v t"
    and "\<And>s. same_desired (cr s) (cr (snd (Observe ec s)))" "\<And>s. same_desired (cr s) (cr (snd (Create ec s)))"
    and "\<And>s. same_desired (cr s) (cr (snd (Update ec s)))" "\<And>s. same_desired (cr s) (cr (snd (Delete ec s)))"
  shows "same_desired (cr s) (cr t)"
  using assms(1)
  by (cases rule: reconcile.cases)
    (use assms(2-5) in \<open>(metis same_desired_trans snd_conv)+\<close>)

text \<open>
  Every marked resource that is not being deleted has its object on the server, no two marked
  resources have the same one, and nobody shares a name with a resource being deleted.
\<close>

definition orderly :: "(managed \<Rightarrow> bool) \<Rightarrow> (managed \<Rightarrow> string) \<Rightarrow> (string \<Rightarrow> 'w \<Rightarrow> bool) \<Rightarrow> ('i, 'w) fleet \<Rightarrow> bool" where
  "orderly claimed nm present f \<longleftrightarrow>
     (\<forall>i. claimed (resource f i) \<longrightarrow> \<not> being_deleted (resource f i) \<longrightarrow> present (nm (resource f i)) (server f)) \<and>
     (\<forall>i j. i \<noteq> j \<longrightarrow> claimed (resource f i) \<longrightarrow> claimed (resource f j) \<longrightarrow> nm (resource f i) \<noteq> nm (resource f j)) \<and>
     (\<forall>i j. i \<noteq> j \<longrightarrow> being_deleted (resource f i) \<longrightarrow> nm (resource f i) \<noteq> nm (resource f j))"

text \<open>
  One resource changes, together with the server: it keeps its name, no object goes but its own
  when it is being deleted, and a new mark comes with a new object.
\<close>

lemma orderly_changed:
  assumes o: "orderly claimed nm present f"
    and n: "nm m = nm (resource f i)" and d: "being_deleted m = being_deleted (resource f i)"
    and sp: "\<And>x. being_deleted (resource f i) \<longrightarrow> x \<noteq> nm (resource f i) \<Longrightarrow> present x (server f) \<Longrightarrow> present x w"
    and c: "claimed m \<Longrightarrow> claimed (resource f i) \<or>
      \<not> being_deleted (resource f i) \<and> \<not> present (nm (resource f i)) (server f) \<and> present (nm (resource f i)) w"
  shows "orderly claimed nm present (f\<lparr>server := w, resource := (resource f)(i := m)\<rparr>)"
proof -
  have share: "being_deleted (resource f j) \<Longrightarrow> j \<noteq> k \<Longrightarrow> nm (resource f j) \<noteq> nm (resource f k)" for j k
    using o by (simp add: orderly_def)
  have own: "claimed (resource f j) \<Longrightarrow> \<not> being_deleted (resource f j) \<Longrightarrow> present (nm (resource f j)) (server f)" for j
    using o by (simp add: orderly_def)
  have one: "claimed (resource f j) \<Longrightarrow> claimed (resource f k) \<Longrightarrow> j \<noteq> k \<Longrightarrow> nm (resource f j) \<noteq> nm (resource f k)" for j k
    using o by (simp add: orderly_def)
  have fresh: "claimed m \<Longrightarrow> claimed (resource f j) \<Longrightarrow> j \<noteq> i \<Longrightarrow> nm (resource f i) \<noteq> nm (resource f j)" for j
    using c one own share by metis
  show ?thesis
    unfolding orderly_def
  proof (intro conjI allI impI, goal_cases)
    case (1 j)
    with n d sp c own share [of i j] show ?case by (auto split: if_splits)
  next
    case (2 j k)
    with n fresh [of j] fresh [of k] one show ?case by (auto split: if_splits)
  next
    case (3 j k)
    with n d share show ?case by (auto split: if_splits)
  qed
qed

text \<open>
  What the rest of the world may do: it does not remove the object of a marked resource; an edit
  neither sets a mark nor renames what is marked, it does not revive a marked resource, and it
  does not let a resource that is being deleted share its name.
\<close>

definition undisturbed :: "(managed \<Rightarrow> bool) \<Rightarrow> (managed \<Rightarrow> string) \<Rightarrow> (string \<Rightarrow> 'w \<Rightarrow> bool) \<Rightarrow>
    (('i, 'w) fleet \<Rightarrow> 'w \<Rightarrow> bool) \<Rightarrow> (('i, 'w) fleet \<Rightarrow> 'i \<Rightarrow> managed \<Rightarrow> bool) \<Rightarrow> bool" where
  "undisturbed claimed nm present env edit \<longleftrightarrow>
     (\<forall>f w i. env f w \<longrightarrow> claimed (resource f i) \<longrightarrow> present (nm (resource f i)) (server f) \<longrightarrow> present (nm (resource f i)) w) \<and>
     (\<forall>f i m. edit f i m \<longrightarrow>
        (claimed m \<longrightarrow> claimed (resource f i) \<and> nm m = nm (resource f i) \<and> (being_deleted (resource f i) \<longrightarrow> being_deleted m)) \<and>
        (\<forall>j. j \<noteq> i \<longrightarrow> being_deleted m \<or> being_deleted (resource f j) \<longrightarrow> nm m \<noteq> nm (resource f j)))"

text \<open>
  \<open>lawful\<close> are the laws of the server the promise rests on, \<open>nm\<close> the name a resource has on the
  server, \<open>present\<close> what the server holds.
\<close>

locale exclusive_external = marking_external +
  fixes lawful :: bool
    and nm :: "managed \<Rightarrow> string"
    and present :: "string \<Rightarrow> 'a \<Rightarrow> bool"
  assumes nm_desired: "same_desired m n \<Longrightarrow> nm n = nm m"
    and created_new: "lawful \<Longrightarrow> reconcile ec False s Created t \<Longrightarrow>
      \<not> present (nm (cr s)) (world s) \<and> present (nm (cr s)) (world t)"
    and spared: "lawful \<Longrightarrow> reconcile ec d s v t \<Longrightarrow> d \<longrightarrow> x \<noteq> nm (cr s) \<Longrightarrow> present x (world s) \<Longrightarrow> present x (world t)"
begin

lemma reconcile_same_desired: "reconcile ec d s v t \<Longrightarrow> same_desired (cr s) (cr t)"
  by (rule reconcile_desired [OF _ keeps_observe keeps_create keeps_update keeps_delete])

lemma created_only_alive: "reconcile ec d s Created t \<Longrightarrow> \<not> d"
  by (auto elim: reconcileE)

lemma orderly_reconciled:
  assumes law: lawful and o: "orderly claimed nm present f"
    and r: "reconcile ec (being_deleted (resource f i)) (fresh_state (server f) (resource f i)) v t"
  shows "orderly claimed nm present (f\<lparr>server := world t, resource := (resource f)(i := cr t)\<rparr>)"
proof (rule orderly_changed [OF o])
  let ?d = "being_deleted (resource f i)"
  from reconcile_same_desired [OF r] have sd: "same_desired (resource f i) (cr t)" by simp
  show "nm (cr t) = nm (resource f i)" using nm_desired [OF sd] .
  show "being_deleted (cr t) = ?d" using same_desired_being_deleted [OF sd] .
  show "?d \<longrightarrow> x \<noteq> nm (resource f i) \<Longrightarrow> present x (server f) \<Longrightarrow> present x (world t)" for x
    using spared [OF law r] by simp
  show "claimed (resource f i) \<or> \<not> ?d \<and> \<not> present (nm (resource f i)) (server f) \<and> present (nm (resource f i)) (world t)"
    if "claimed (cr t)"
  proof (cases "v = Created")
    case True
    with r created_only_alive have "\<not> ?d" by blast
    with created_new [OF law, of "fresh_state (server f) (resource f i)" t] r True show ?thesis by simp
  next
    case False
    with reconcile_stays_unclaimed(2) [OF r] that show ?thesis by auto
  qed
qed

lemma orderly_edited:
  assumes "orderly claimed nm present f" and "undisturbed claimed nm present env edit" and "edit f i m"
  shows "orderly claimed nm present (f\<lparr>resource := (resource f)(i := m)\<rparr>)"
proof -
  from assms(2,3) have m: "claimed m \<Longrightarrow> claimed (resource f i) \<and> nm m = nm (resource f i) \<and> (being_deleted (resource f i) \<longrightarrow> being_deleted m)"
    and sh: "\<And>j. j \<noteq> i \<Longrightarrow> being_deleted m \<or> being_deleted (resource f j) \<Longrightarrow> nm m \<noteq> nm (resource f j)"
    unfolding undisturbed_def by blast+
  show ?thesis
    unfolding orderly_def
  proof (intro conjI allI impI, goal_cases)
    case (1 j)
    with m assms(1) show ?case by (auto simp: orderly_def split: if_splits)
  next
    case (2 j k)
    with m assms(1) show ?case unfolding orderly_def by (simp split: if_splits)
  next
    case (3 j k)
    with sh [of j] sh [of k] assms(1) show ?case unfolding orderly_def by (auto split: if_splits)
  qed
qed

text \<open>The marks stay exclusive, whatever the order of the reconciles.\<close>

lemma orderly_run:
  assumes lawful and "undisturbed claimed nm present env edit"
    and "fleet_run ec env edit f tr g" and "orderly claimed nm present f"
  shows "orderly claimed nm present g"
proof (rule fleet_run_invariant [where I = "orderly claimed nm present", OF assms(3,4)])
  fix f x g assume o: "orderly claimed nm present f" and st: "fleet_step ec env edit f x g"
  from st show "orderly claimed nm present g"
  proof cases
    case (reconciled i v t)
    with orderly_reconciled [OF assms(1) o] show ?thesis by simp
  next
    case (elsewhere w)
    with o assms(2) show ?thesis by (simp add: orderly_def undisturbed_def)
  next
    case (edited_resource i m)
    with orderly_edited [OF o assms(2)] show ?thesis by simp
  qed
qed

end

text \<open>
  What a reconcile leaves alone: what Observe, Create and Update leave alone, and, when the
  resource is being deleted, what Delete leaves alone in the states Observe hands it.
\<close>

lemma reconcile_spares:
  assumes "reconcile ec d s v t" and "P (world s)"
    and "keeps (\<lambda>s. P (world s)) (Observe ec)" "keeps (\<lambda>s. P (world s)) (Create ec)" "keeps (\<lambda>s. P (world s)) (Update ec)"
    and "\<And>s' y r. d \<Longrightarrow> Observe ec s = (Ok y, s') \<Longrightarrow> ResourceExists y \<Longrightarrow> P (world s') \<Longrightarrow> Delete ec s' = (r, t) \<Longrightarrow> P (world t)"
  shows "P (world t)"
proof -
  have ob: "Observe ec s = (r, s') \<Longrightarrow> P (world s')" for r s'
    using keeps_result [OF _ assms(3) assms(2)] .
  have w: "P (world s') \<Longrightarrow> Create ec s' = (r, t) \<Longrightarrow> P (world t)"
    "P (world s') \<Longrightarrow> Update ec s' = (r', t) \<Longrightarrow> P (world t)" for s' r r'
    using keeps_result [OF _ assms(4), of s' r t] keeps_result [OF _ assms(5), of s' r' t] by auto
  from assms(1) show ?thesis
    by (cases rule: reconcile.cases) (use ob w assms(6) in \<open>(metis (full_types))+\<close>)
qed

text \<open>
  The promise follows from what the operations do one by one: Create makes an object that was
  not there, only Delete removes one, and only the one of its resource.
\<close>

locale sparing_external = marking_external +
  fixes lawful :: bool
    and nm :: "managed \<Rightarrow> string"
    and present :: "string \<Rightarrow> 'a \<Rightarrow> bool"
  assumes name_desired: "same_desired m n \<Longrightarrow> nm n = nm m"
    and create_new: "lawful \<Longrightarrow> Create ec s = (Ok c, t) \<Longrightarrow> \<not> present (nm (cr s)) (world s) \<and> present (nm (cr s)) (world t)"
    and observe_spares: "lawful \<Longrightarrow> keeps (\<lambda>s. present x (world s)) (Observe ec)"
    and create_spares: "lawful \<Longrightarrow> keeps (\<lambda>s. present x (world s)) (Create ec)"
    and update_spares: "lawful \<Longrightarrow> keeps (\<lambda>s. present x (world s)) (Update ec)"
    and delete_spares: "lawful \<Longrightarrow> x \<noteq> nm (cr s) \<Longrightarrow> present x (world s) \<Longrightarrow> Delete ec s = (r, t) \<Longrightarrow> present x (world t)"
begin

lemma observed_name: "Observe ec s = (r, s') \<Longrightarrow> nm (cr s') = nm (cr s)"
  using keeps_observe [of s] by (auto intro: name_desired)

lemma reconcile_creates_new:
  assumes lawful and "reconcile ec False s Created t"
  shows "\<not> present (nm (cr s)) (world s) \<and> present (nm (cr s)) (world t)"
proof -
  from assms(2) obtain x s' c where ob: "Observe ec s = (Ok x, s')" and cre: "Create ec s' = (Ok c, t)"
    by (auto elim!: reconcileE)
  from keeps_result [OF ob observe_spares [OF assms(1)]] create_new [OF assms(1) cre] observed_name [OF ob]
  show ?thesis by metis
qed

lemma reconcile_spares_others:
  assumes lawful and "reconcile ec d s v t" and "d \<longrightarrow> x \<noteq> nm (cr s)" and "present x (world s)"
  shows "present x (world t)"
proof (rule reconcile_spares [where P = "present x", OF assms(2,4)])
  fix s' y r assume "d" and "Observe ec s = (Ok y, s')" and h: "present x (world s')" and de: "Delete ec s' = (r, t)"
  with assms(3) observed_name have "x \<noteq> nm (cr s')" by simp
  from delete_spares [OF assms(1) this h de] show "present x (world t)" .
qed (rule observe_spares create_spares update_spares, rule assms(1))+

end

sublocale sparing_external \<subseteq> exclusive_external
  by unfold_locales (rule name_desired reconcile_creates_new reconcile_spares_others; assumption)+

end
