(* ===== verification/Ownership.thy ===== *)
theory Ownership
  imports Fleet Bucket_Props User_Props Policy_Props
begin

text \<open>
  The bucket, the user and the policy controller as \<open>exclusive_external\<close>s, each whenever the
  server keeps its laws, and what follows for any number of resources; then the runs in which
  the mark does not protect: a renaming before the first observation, a deletion that is
  repeated, and the credentials an Update writes.
\<close>

section \<open>Calls that remove nothing\<close>

definition held :: "('w \<Rightarrow> 'n \<Rightarrow> 'v option) \<Rightarrow> 'n \<Rightarrow> 'w \<Rightarrow> bool" where
  "held view n w \<longleftrightarrow> view w n \<noteq> None"

definition spares :: "('w \<Rightarrow> bool) \<Rightarrow> ('w, 'a) api \<Rightarrow> bool" where
  "spares P f \<longleftrightarrow> (\<forall>w. P w \<longrightarrow> P (snd (f w)))"

lemma spares_reads: "reads view f P \<Longrightarrow> spares (held view x) f"
  by (simp add: reads_def spares_def held_def)

lemma spares_unnoticed: "unnoticed view f \<Longrightarrow> spares (held view x) f"
  by (simp add: unnoticed_def spares_def held_def)

lemma keeps_spared: "spares P f \<Longrightarrow> keeps (\<lambda>s. P (world s)) (call f)"
  by (fastforce simp: spares_def keeps_def go_defs split: prod.splits sum.splits)

lemmas spared_intros = keeps_ret keeps_fail keeps_panic keeps_deref keeps_if_err keeps_check keeps_seq keeps_emit
  keeps_log_line keeps_put_cr keeps_If keeps_option keeps_list keeps_sum keeps_prod keeps_Let keeps_lib_call keeps_spared

fun server_name :: "managed \<Rightarrow> string" where
  "server_name (MBucket b) = GetBucketName b"
| "server_name (MUser u) = GetUserName u"
| "server_name (MPolicy p) = policyName p"
| "server_name _ = []"

lemma server_name_desired: "same_desired m n \<Longrightarrow> server_name n = server_name m"
  by (cases m; cases n) (auto simp: same_identity_def GetBucketName_def GetUserName_def policyName_def)

section \<open>Buckets\<close>

definition s3_sparing_laws :: "('w, 't, 'n) s3_client \<Rightarrow> 'w server_view \<Rightarrow> bool" where
  "s3_sparing_laws mc view \<longleftrightarrow> (\<forall>x n.
     (\<forall>g. spares (held view x) (MakeBucket mc n g)) \<and> (\<forall>p. spares (held view x) (SetBucketPolicy mc n p)) \<and>
     (\<forall>t. spares (held view x) (SetBucketTagging mc n t)) \<and> spares (held view x) (RemoveBucketTagging mc n) \<and>
     spares (held view x) (GetObjectLockConfig mc n) \<and>
     (\<forall>w. held view x w \<longrightarrow> held view x (snd (ListObjects mc n w))) \<and>
     (\<forall>os g w. held view x w \<longrightarrow> held view x (snd (RemoveObjects mc n os g w))))"

definition bucket_laws :: "('w, 't, 'n) s3_client \<Rightarrow> 'w server_view \<Rightarrow> bool" where
  "bucket_laws mc view \<longleftrightarrow>
     s3_read_laws mc view \<and> s3_write_laws mc view \<and> s3_remove_laws mc view \<and> s3_sparing_laws mc view"

lemma keeps_as_bucket_spared: "(\<And>b. keeps (\<lambda>s. P (world s)) (k b)) \<Longrightarrow> keeps (\<lambda>s. P (world s)) (as_bucket k)"
  by (auto simp: keeps_def as_bucket_def split: managed.split)

lemma spares_other_bucket:
  assumes "s3_remove_laws mc view" and "x \<noteq> n"
  shows "spares (held view x) (RemoveBucket mc n)"
  unfolding spares_def held_def
proof (intro allI impI)
  fix w assume h: "view w x \<noteq> None"
  obtain r w' where r: "RemoveBucket mc n w = (r, w')" by fastforce
  with h assms s3_removesD [OF assms(1), of n w] show "view (snd (RemoveBucket mc n w)) x \<noteq> None"
    by (cases r) auto
qed

lemma bucket_calls_spare:
  assumes "bucket_laws mc view"
  shows "spares (held view x) (MakeBucket mc n g)" "spares (held view x) (BucketExists mc n)"
    "spares (held view x) (GetBucketPolicy mc n)" "spares (held view x) (SetBucketPolicy mc n p)"
    "spares (held view x) (GetBucketTagging mc n)" "spares (held view x) (SetBucketTagging mc n t)"
    "spares (held view x) (RemoveBucketTagging mc n)" "spares (held view x) (GetObjectLockConfig mc n)"
  using assms by (auto simp: bucket_laws_def s3_sparing_laws_def s3_read_laws_def intro: spares_reads)

lemma object_calls_spare:
  assumes "bucket_laws mc view"
  shows "keeps (\<lambda>s. held view x (world s)) (list_objects mc n)" "keeps (\<lambda>s. held view x (world s)) (remove_objects mc n os g)"
proof -
  from assms have "\<And>w. held view x w \<Longrightarrow> held view x (snd (ListObjects mc n w))"
    "\<And>w. held view x w \<Longrightarrow> held view x (snd (RemoveObjects mc n os g w))"
    by (auto simp: bucket_laws_def s3_sparing_laws_def)
  then show "keeps (\<lambda>s. held view x (world s)) (list_objects mc n)" "keeps (\<lambda>s. held view x (world s)) (remove_objects mc n os g)"
    by (fastforce simp: keeps_def list_objects_def remove_objects_def split: prod.split)+
qed

lemma bucket_spares:
  assumes "bucket_laws mc view"
  shows "keeps (\<lambda>s. held view x (world s)) (Observe_bucket mc)" "keeps (\<lambda>s. held view x (world s)) (Create_bucket mc)"
    "keeps (\<lambda>s. held view x (world s)) (Update_bucket mc)" "keeps (\<lambda>s. held view x (world s)) (deleteAllObjects l mc b)"
  unfolding ctl_defs
  by (intro keeps_as_bucket_spared spared_intros bucket_calls_spare [OF assms] object_calls_spare [OF assms]; simp)+

lemma bucket_delete_spares:
  assumes "bucket_laws mc view" and "bs_BucketName (b_status b) \<noteq> x"
    and "cr s = MBucket b" and "held view x (world s)" and "Delete_bucket l mc s = (r, t)"
  shows "held view x (world t)"
proof -
  let ?k = "\<lambda>b. seq (if hasDeleteAllPolicy b then deleteAllObjects l mc b else ret ())
        (seq (deleteS3Bucket mc b) emitDeletionEvent_bucket)"
  have "s3_remove_laws mc view" using assms(1) by (simp add: bucket_laws_def)
  from spares_other_bucket [OF this, of x "bs_BucketName (b_status b)"] assms(2)
  have "keeps (\<lambda>s. held view x (world s)) (?k b)"
    unfolding deleteS3Bucket_def emitDeletionEvent_bucket_def
    by (intro spared_intros bucket_spares [OF assms(1)]) auto
  from keeps_result [OF _ this] show ?thesis
    using assms(3-5) by (simp add: Delete_bucket_def as_bucket_def go_defs)
qed

lemma bucket_observed_absent:
  assumes "bucket_laws mc view" and "Observe_bucket mc s = (Ok x, s')" and "\<not> ResourceExists x"
  shows "\<not> held view (server_name (cr s)) (world s) \<and> cr s' = cr s"
proof -
  from assms(1) have rd: "s3_read_laws mc view" by (simp add: bucket_laws_def)
  from assms(2,3) show ?thesis
    by (cases "cr s")
      (auto simp: Observe_bucket_def observeBucket_def as_bucket_def Let_def if_err_Ok_iff call_Ok_iff seq_Ok_iff check_Ok_iff
        NoObservation_def held_def split: if_split_asm dest!: s3_readsD(1) [OF rd])
qed

lemma bucket_created_new:
  assumes "bucket_laws mc view" and "reconcile (bucketClient l mc) False s Created t"
  shows "\<not> held view (server_name (cr s)) (world s) \<and> held view (server_name (cr s)) (world t)"
proof -
  from assms(2) obtain x s' c where ob: "Observe_bucket mc s = (Ok x, s')" "\<not> ResourceExists x"
    and cre: "Create_bucket mc s' = (Ok c, t)"
    by (auto simp: bucketClient_def elim!: reconcileE)
  from cre obtain b where b: "cr s' = MBucket b" by (cases "cr s'") (auto simp: Create_bucket_def as_bucket_def)
  from assms(1) have "s3_read_laws mc view" "s3_write_laws mc view" by (simp_all add: bucket_laws_def)
  from bucket_create_syncs [OF this b cre] have "held view (GetBucketName b) (world t)" by (auto simp: held_def)
  moreover from bucket_observed_absent [OF assms(1) ob] have "\<not> held view (server_name (cr s)) (world s)" "cr s = MBucket b"
    by (simp_all add: b)
  ultimately show ?thesis by simp
qed

lemma bucket_reconcile_spares:
  assumes "bucket_laws mc view" and "reconcile (bucketClient l mc) d s v t"
    and "d \<longrightarrow> x \<noteq> server_name (cr s)" and "held view x (world s)"
  shows "held view x (world t)"
proof (rule reconcile_spares [where P = "held view x", OF assms(2,4)])
  fix s' y r assume d: "d" and ob: "Observe (bucketClient l mc) s = (Ok y, s')" "ResourceExists y"
    and h: "held view x (world s')" and de: "Delete (bucketClient l mc) s' = (r, t)"
  show "held view x (world t)"
  proof (cases "cr s")
    case (MBucket a)
    with bucket_observe_status [of s a mc y s'] ob
    have "cr s' = MBucket (a\<lparr>b_status := (b_status a)\<lparr>bs_BucketName := GetBucketName a,
           bs_Conditions := bs_Conditions (b_status a) @ [XpAvailable]\<rparr>\<rparr>)" by (simp add: bucketClient_def)
    from bucket_delete_spares [OF assms(1) _ this h] de d assms(3) MBucket show ?thesis by (simp add: bucketClient_def)
  qed (use ob in \<open>simp_all add: bucketClient_def Observe_bucket_def as_bucket_def\<close>)
qed (simp_all add: bucketClient_def bucket_spares [OF assms(1)])

interpretation buckets: exclusive_external "bucketClient l mc" is_bucket errNotBucket bucket_claimed
  "bucket_laws mc view" server_name "held view"
  for l :: bool and mc :: "('w, 't, 'n) s3_client" and view :: "'w server_view"
  by unfold_locales (rule server_name_desired bucket_created_new bucket_reconcile_spares; assumption)+

section \<open>Users\<close>

definition user_sparing_laws :: "'w password_gen \<Rightarrow> ('w, 'c) user_client \<Rightarrow> 'w account_view \<Rightarrow> bool" where
  "user_sparing_laws generate uc view \<longleftrightarrow>
     unnoticed view (generate 64 5 0 False True) \<and>
     (\<forall>n ns. unnoticed view (KubeGetSecret (uc_kube uc) n ns)) \<and> (\<forall>c. unnoticed view (uc_ListBuckets uc c)) \<and>
     (\<forall>x n sk. spares (held view x) (AddUser (uc_ma uc) n sk)) \<and>
     (\<forall>x n sk st. spares (held view x) (SetUser (uc_ma uc) n sk st)) \<and>
     (\<forall>x ps n. spares (held view x) (AttachPolicy (uc_ma uc) ps n) \<and> spares (held view x) (DetachPolicy (uc_ma uc) ps n)) \<and>
     (\<forall>x n. x \<noteq> n \<longrightarrow> spares (held view x) (RemoveUser (uc_ma uc) n))"

definition user_laws :: "'w password_gen \<Rightarrow> ('w, 'c) user_client \<Rightarrow> 'w account_view \<Rightarrow> bool" where
  "user_laws generate uc view \<longleftrightarrow>
     user_read_laws (uc_ma uc) view \<and> user_write_laws (uc_ma uc) view \<and> user_sparing_laws generate uc view"

lemma keeps_as_user_spared: "(\<And>u. keeps (\<lambda>s. P (world s)) (k u)) \<Longrightarrow> keeps (\<lambda>s. P (world s)) (as_user k)"
  by (auto simp: keeps_def as_user_def split: managed.split)

lemma user_calls_spare:
  assumes "user_laws generate uc view"
  shows "spares (held view x) (generate 64 5 0 False True)" "spares (held view x) (KubeGetSecret (uc_kube uc) n ns)"
    "spares (held view x) (uc_ListBuckets uc c)" "spares (held view x) (AddUser (uc_ma uc) n sk)"
    "spares (held view x) (SetUser (uc_ma uc) n sk st)" "spares (held view x) (AttachPolicy (uc_ma uc) ps n)"
    "spares (held view x) (DetachPolicy (uc_ma uc) ps n)" "spares (held view x) (ListUsers (uc_ma uc))"
    "spares (held view x) (GetUserInfo (uc_ma uc) n)"
  using assms by (auto simp: user_laws_def user_sparing_laws_def user_read_laws_def intro: spares_reads spares_unnoticed)

lemma user_spares:
  assumes "user_laws generate uc view"
  shows "keeps (\<lambda>s. held view x (world s)) (Observe_user uc)" "keeps (\<lambda>s. held view x (world s)) (Create_user generate uc)"
    "keeps (\<lambda>s. held view x (world s)) (Update_user uc)"
  unfolding ctl_defs
  by (intro keeps_as_user_spared spared_intros user_calls_spare [OF assms]; simp)+

lemma user_delete_spares:
  assumes "user_laws generate uc view" and "x \<noteq> server_name (cr s)" and "held view x (world s)"
    and de: "Delete_user uc s = (r, t)"
  shows "held view x (world t)"
proof -
  from assms(1) have sp: "x \<noteq> n \<Longrightarrow> keeps (\<lambda>s. held view x (world s)) (call (RemoveUser (uc_ma uc) n))" for n
    by (intro keeps_spared) (simp add: user_laws_def user_sparing_laws_def)
  have "keeps (\<lambda>s. held view x (world s)) (seq (call (RemoveUser (uc_ma uc) (GetUserName u)))
     (seq emitDeletionEvent_user (put_cr (MUser (SetConditions_user u XpDeleting)))))" if "cr s = MUser u" for u
    unfolding emitDeletionEvent_user_def using that assms(2) by (intro spared_intros sp; simp)
  from keeps_result [OF _ this assms(3)] assms(3) de show ?thesis
    by (cases "cr s") (auto simp: Delete_user_def as_user_def)
qed

lemma user_create_new:
  assumes "user_laws generate uc view" and cre: "Create_user generate uc s = (Ok c, t)"
  shows "\<not> held view (server_name (cr s)) (world s) \<and> held view (server_name (cr s)) (world t)"
proof -
  from cre obtain u where u: "cr s = MUser u"
    by (cases "cr s") (auto simp: Create_user_def as_user_def)
  have "user_read_laws (uc_ma uc) view" "user_write_laws (uc_ma uc) view" "unnoticed view (generate 64 5 0 False True)"
    using assms(1) by (simp_all add: user_laws_def user_sparing_laws_def)
  from create_new [OF this u cre] u show ?thesis by (auto simp: held_def)
qed

interpretation users: sparing_external "userClient generate uc" is_user errNotUser user_claimed
  "user_laws generate uc view" server_name "held view"
  for generate :: "'w password_gen" and uc :: "('w, 'c) user_client" and view :: "'w account_view"
  by unfold_locales (simp_all add: userClient_def user_spares server_name_desired, (blast dest: user_create_new user_delete_spares)+)

section \<open>Policies\<close>

definition policy_laws :: "iam_lib \<Rightarrow> 'w admin_client \<Rightarrow> 'w canned_view \<Rightarrow> bool" where
  "policy_laws lib ma view \<longleftrightarrow> canned_laws lib ma view \<and> (\<forall>x n p. spares (held view x) (AddCannedPolicy ma n p)) \<and>
     (\<forall>x n. x \<noteq> n \<longrightarrow> spares (held view x) (RemoveCannedPolicy ma n))"

lemma keeps_as_policy_spared: "(\<And>p. keeps (\<lambda>s. P (world s)) (k p)) \<Longrightarrow> keeps (\<lambda>s. P (world s)) (as_policy k)"
  by (auto simp: keeps_def as_policy_def split: managed.split)

lemma policy_calls_spare:
  assumes "policy_laws lib ma view"
  shows "spares (held view x) (ListCannedPolicies ma)" "spares (held view x) (AddCannedPolicy ma n p)"
  using assms by (auto simp: policy_laws_def canned_laws_def intro: spares_reads)

lemma policy_spares:
  assumes "policy_laws lib ma view"
  shows "keeps (\<lambda>s. held view x (world s)) (Observe_policy lib ma)" "keeps (\<lambda>s. held view x (world s)) (Create_policy lib ma)"
    "keeps (\<lambda>s. held view x (world s)) (Update_policy lib ma)"
  unfolding ctl_defs
  by (intro keeps_as_policy_spared spared_intros policy_calls_spare [OF assms]; simp)+

lemma policy_added:
  assumes "canned_laws lib ma view"
    and "createBucketPolicy lib ma p s = (Ok (), t) \<or> createRawPolicy ma p s = (Ok (), t)"
  shows "held view (policyName p) (world t)"
  using assms(2)
  by (auto simp: createBucketPolicy_def createRawPolicy_def setLock_policy_def getAllowBucketPolicy_def check_Ok_iff seq_Ok_iff
      call_Ok_iff lib_call_Ok_iff held_def split: option.split_asm dest!: canned_lawsD(2) [OF assms(1)])

lemma policy_delete_spares:
  assumes "policy_laws lib ma view" and "x \<noteq> server_name (cr s)" and "held view x (world s)"
    and de: "Delete_policy ma s = (r, t)"
  shows "held view x (world t)"
proof -
  from assms(1) have sp: "x \<noteq> n \<Longrightarrow> keeps (\<lambda>s. held view x (world s)) (call (RemoveCannedPolicy ma n))" for n
    by (intro keeps_spared) (simp add: policy_laws_def)
  have "keeps (\<lambda>s. held view x (world s)) (seq (put_cr (MPolicy (SetConditions_policy p XpDeleting)))
     (seq emitDeletionEvent_policy (call (RemoveCannedPolicy ma (policyName p)))))" if "cr s = MPolicy p" for p
    unfolding emitDeletionEvent_policy_def using that assms(2) by (intro spared_intros sp; simp)
  from keeps_result [OF _ this assms(3)] assms(3) de show ?thesis
    by (cases "cr s") (auto simp: Delete_policy_def as_policy_def)
qed

lemma policy_create_new:
  assumes "policy_laws lib ma view" and cre: "Create_policy lib ma s = (Ok c, t)"
  shows "\<not> held view (server_name (cr s)) (world s) \<and> held view (server_name (cr s)) (world t)"
proof -
  from cre obtain p where p: "cr s = MPolicy p"
    by (cases "cr s") (auto simp: Create_policy_def as_policy_def)
  from assms(1) have l: "canned_laws lib ma view" by (simp add: policy_laws_def)
  from cre p show ?thesis
    by (auto simp: Create_policy_def as_policy_def check_Ok_iff seq_Ok_iff call_Ok_iff held_def [of view _ "world s"]
        split: if_split_asm dest!: canned_lawsD(1) [OF l] intro: policy_added [OF l])
qed

interpretation policies: sparing_external "policyClient lib ma" is_policy errNotPolicy policy_claimed
  "policy_laws lib ma view" server_name "held view"
  for lib :: iam_lib and ma :: "'w admin_client" and view :: "'w canned_view"
  by unfold_locales (simp_all add: policyClient_def policy_spares server_name_desired, (blast dest: policy_create_new policy_delete_spares)+)

section \<open>One owner\<close>

text \<open>
  The mark of a controller is exclusive: for any number of buckets, users or policies on one
  server, reconciled in any order, with edits, deletions and calls from elsewhere in between, no
  two marked resources ever have the same name on the server, and the object of every marked
  resource that is not being deleted is there. The rest of the world must leave the marks and
  the objects of marked resources alone, and nobody may share a name with a resource that is
  being deleted.
\<close>

theorem one_owner:
  "(bucket_laws mc bv \<longrightarrow> undisturbed bucket_claimed server_name (held bv) env edit \<longrightarrow>
      fleet_run (bucketClient l mc) env edit f tr g \<longrightarrow> orderly bucket_claimed server_name (held bv) f \<longrightarrow>
      orderly bucket_claimed server_name (held bv) g) \<and>
   (user_laws generate uc uv \<longrightarrow> undisturbed user_claimed server_name (held uv) uenv uedit \<longrightarrow>
      fleet_run (userClient generate uc) uenv uedit uf utr ug \<longrightarrow> orderly user_claimed server_name (held uv) uf \<longrightarrow>
      orderly user_claimed server_name (held uv) ug) \<and>
   (policy_laws lib ma pv \<longrightarrow> undisturbed policy_claimed server_name (held pv) penv pedit \<longrightarrow>
      fleet_run (policyClient lib ma) penv pedit pf ptr pg \<longrightarrow> orderly policy_claimed server_name (held pv) pf \<longrightarrow>
      orderly policy_claimed server_name (held pv) pg)"
  by (intro conjI impI) (rule buckets.orderly_run users.orderly_run policies.orderly_run; assumption)+

text \<open>Two resources of the same name on the in-memory servers: the first gets the object.\<close>

lemma mem_bucket_laws: "bucket_laws mem_client mem_view"
  using mem_read_laws mem_write_laws mem_remove_laws
  by (auto simp: bucket_laws_def s3_sparing_laws_def spares_def held_def mem_defs split: option.splits)

lemma mem_user_laws: "user_laws demo_password demo_uc account_view_of"
  using mem_user_read_laws mem_user_write_laws
  by (auto simp: user_laws_def user_sparing_laws_def unnoticed_def spares_def held_def demo_uc_def demo_password_def one_secret_def
      mem_admin_simps split: option.splits)

lemma mem_policy_laws: "policy_laws text_lib mem_admin canned"
  using mem_canned_laws by (simp add: policy_laws_def spares_def held_def mem_admin_def)

definition twins :: "'w \<Rightarrow> managed \<Rightarrow> (bool, 'w) fleet" where
  "twins w m = \<lparr>server = w, resource = (\<lambda>_. m)\<rparr>"

definition untouched :: "('i, 'w) fleet \<Rightarrow> 'w \<Rightarrow> bool" where "untouched f w \<longleftrightarrow> w = server f"

lemma twins_run:
  assumes "reconcile ec False (fresh_state w m) v t" and "reconcile ec False (fresh_state (world t) m) v' u" and "\<not> being_deleted m"
  shows "fleet_run ec env edit (twins w m) [(True, v), (False, v')]
    \<lparr>server = world u, resource = (\<lambda>_. m)(True := cr t, False := cr u)\<rparr>"
proof -
  have "fleet_step ec env edit (twins w m) (Some (True, v)) \<lparr>server = world t, resource = (\<lambda>_. m)(True := cr t)\<rparr>"
    using fleet_step.reconciled [of ec "twins w m" True v t] assms(1,3) by (simp add: twins_def)
  moreover have "fleet_step ec env edit \<lparr>server = world t, resource = (\<lambda>_. m)(True := cr t)\<rparr> (Some (False, v'))
      \<lparr>server = world u, resource = (\<lambda>_. m)(True := cr t, False := cr u)\<rparr>"
    using fleet_step.reconciled [of ec "\<lparr>server = world t, resource = (\<lambda>_. m)(True := cr t)\<rparr>" False v' u] assms(2,3) by simp
  ultimately show ?thesis
    using fleet_run.fleet_acts [OF fleet_run.fleet_acts [OF fleet_run.fleet_idle]] by fastforce
qed

lemma twins_undisturbed: "undisturbed claimed nm present untouched (\<lambda>_ _ _. False)"
  by (simp add: undisturbed_def untouched_def)

lemma twins_orderly: "\<not> claimed m \<Longrightarrow> \<not> being_deleted m \<Longrightarrow> orderly claimed nm present (twins w m)"
  by (simp add: orderly_def twins_def)

lemma twin_buckets:
  "\<exists>g. fleet_run (bucketClient True mem_client) untouched (\<lambda>_ _ _. False) (twins Map.empty (MBucket demo_bucket))
     [(True, Created), (False, ObserveFailed)] g"
proof -
  have "\<exists>t e u. Observe_bucket mem_client (fresh_state Map.empty (MBucket demo_bucket)) = (Ok NoObservation, fresh_state Map.empty (MBucket demo_bucket)) \<and>
     Create_bucket mem_client (fresh_state Map.empty (MBucket demo_bucket)) = (Ok None, t) \<and>
     Observe_bucket mem_client (fresh_state (world t) (MBucket demo_bucket)) = (Err e, u)"
    by (simp add: bucket_eval demo_bucket_def fresh_state_def)
  then obtain t e u where
    "Observe_bucket mem_client (fresh_state Map.empty (MBucket demo_bucket)) = (Ok NoObservation, fresh_state Map.empty (MBucket demo_bucket))"
    "Create_bucket mem_client (fresh_state Map.empty (MBucket demo_bucket)) = (Ok None, t)"
    "Observe_bucket mem_client (fresh_state (world t) (MBucket demo_bucket)) = (Err e, u)" by blast
  then have "reconcile (bucketClient True mem_client) False (fresh_state Map.empty (MBucket demo_bucket)) Created t"
    "reconcile (bucketClient True mem_client) False (fresh_state (world t) (MBucket demo_bucket)) ObserveFailed u"
    by (auto simp: bucketClient_def NoObservation_def intro: reconcile.intros)
  from twins_run [OF this] show ?thesis by (auto simp: being_deleted_def demo_bucket_def)
qed

lemma twin_creates:
  assumes "\<And>w. Observe ec (fresh_state w m) = (Ok NoObservation, fresh_state w m)"
    and "Create ec (fresh_state w m) = (Ok c, t)" and "Create ec (fresh_state (world t) m) = (Err e, u)" and "\<not> being_deleted m"
  shows "\<exists>g. fleet_run ec env edit (twins w m) [(True, Created), (False, CreateFailed)] g"
proof -
  have "reconcile ec False (fresh_state w m) Created t" "reconcile ec False (fresh_state (world t) m) CreateFailed u"
    using assms(2,3) by (auto simp: NoObservation_def intro: reconcile.created [OF assms(1)] reconcile.create_failed [OF assms(1)])
  from twins_run [OF this assms(4)] show ?thesis by blast
qed

lemma demo_user_alive: "\<not> being_deleted (MUser demo_user)"
  by (simp add: being_deleted_def demo_user_def)

lemma twin_user_creates:
  "\<exists>c t e u. Create_user demo_password demo_uc (fresh_state demo_server (MUser demo_user)) = (Ok c, t) \<and>
     Create_user demo_password demo_uc (fresh_state (world t) (MUser demo_user)) = (Err e, u)"
  by (simp add: Create_user_def userExists_def setUserPolicies_def user_eval demo_user_def demo_server_def demo_password_def
    GetUserName_def proper_def fresh_state_def)

lemma twin_users:
  "\<exists>g. fleet_run (userClient demo_password demo_uc) untouched (\<lambda>_ _ _. False) (twins demo_server (MUser demo_user))
     [(True, Created), (False, CreateFailed)] g"
proof -
  from twin_user_creates obtain c t e u where "Create_user demo_password demo_uc (fresh_state demo_server (MUser demo_user)) = (Ok c, t)"
    "Create_user demo_password demo_uc (fresh_state (world t) (MUser demo_user)) = (Err e, u)" by blast
  then show ?thesis
    by (intro twin_creates [where c = c and t = t and e = e and u = u])
      (simp_all add: userClient_def user_observe_unclaimed [OF demo_user_simps(4)] demo_user_alive)
qed

definition bare_server :: mem_server where
  "bare_server = \<lparr>accounts = Map.empty, canned = Map.empty, service_accounts = Map.empty\<rparr>"

lemma demo_policy_unmarked: "\<not> policy_claimed (MPolicy (demo_policy raw))" "\<not> being_deleted (MPolicy (demo_policy raw))"
  by (simp_all add: policy_claimed_def demo_policy_def get_annotation_def being_deleted_def)

lemma twin_policy_creates:
  "\<exists>t e u. Create_policy text_lib mem_admin (fresh_state bare_server (MPolicy (demo_policy ''{}''))) = (Ok None, t) \<and>
     Create_policy text_lib mem_admin (fresh_state (world t) (MPolicy (demo_policy ''{}''))) = (Err e, u)"
  by (simp add: policy_eval fresh_state_def bare_server_def)

lemma twin_policies:
  "\<exists>g. fleet_run (policyClient text_lib mem_admin) untouched (\<lambda>_ _ _. False) (twins bare_server (MPolicy (demo_policy ''{}'')))
     [(True, Created), (False, CreateFailed)] g"
proof -
  from twin_policy_creates obtain t e u where "Create_policy text_lib mem_admin (fresh_state bare_server (MPolicy (demo_policy ''{}''))) = (Ok None, t)"
    "Create_policy text_lib mem_admin (fresh_state (world t) (MPolicy (demo_policy ''{}''))) = (Err e, u)" by blast
  then show ?thesis
    by (intro twin_creates [where c = None and t = t and e = e and u = u])
      (simp_all add: policyClient_def policy_observe_unclaimed [OF demo_policy_unmarked(1)] demo_policy_unmarked)
qed

lemma demo_bucket_unmarked: "\<not> bucket_claimed (MBucket demo_bucket)" "\<not> being_deleted (MBucket demo_bucket)"
  by (simp_all add: bucket_claimed_def demo_bucket_def get_annotation_def being_deleted_def)

lemma demo_twins_orderly:
  "orderly bucket_claimed server_name (held mem_view) (twins Map.empty (MBucket demo_bucket))"
  "orderly user_claimed server_name (held account_view_of) (twins demo_server (MUser demo_user))"
  "orderly policy_claimed server_name (held canned) (twins bare_server (MPolicy (demo_policy ''{}'')))"
  by (rule twins_orderly; simp add: demo_bucket_unmarked demo_user_alive demo_policy_unmarked)+

theorem one_owner_witness:
  "(\<exists>g. fleet_run (bucketClient True mem_client) untouched (\<lambda>_ _ _. False) (twins Map.empty (MBucket demo_bucket))
      [(True, Created), (False, ObserveFailed)] g \<and> orderly bucket_claimed server_name (held mem_view) g) \<and>
   (\<exists>g. fleet_run (userClient demo_password demo_uc) untouched (\<lambda>_ _ _. False) (twins demo_server (MUser demo_user))
      [(True, Created), (False, CreateFailed)] g \<and> orderly user_claimed server_name (held account_view_of) g) \<and>
   (\<exists>g. fleet_run (policyClient text_lib mem_admin) untouched (\<lambda>_ _ _. False) (twins bare_server (MPolicy (demo_policy ''{}'')))
      [(True, Created), (False, CreateFailed)] g \<and> orderly policy_claimed server_name (held canned) g)"
proof -
  from twin_buckets obtain b :: "(bool, mem_s3) fleet" where
    b: "fleet_run (bucketClient True mem_client) untouched (\<lambda>_ _ _. False) (twins Map.empty (MBucket demo_bucket)) [(True, Created), (False, ObserveFailed)] b" ..
  from twin_users obtain u :: "(bool, mem_server) fleet" where
    u: "fleet_run (userClient demo_password demo_uc) untouched (\<lambda>_ _ _. False) (twins demo_server (MUser demo_user)) [(True, Created), (False, CreateFailed)] u" ..
  from twin_policies obtain p :: "(bool, mem_server) fleet" where
    p: "fleet_run (policyClient text_lib mem_admin) untouched (\<lambda>_ _ _. False) (twins bare_server (MPolicy (demo_policy ''{}''))) [(True, Created), (False, CreateFailed)] p" ..
  note o = one_owner [THEN conjunct1, rule_format, OF mem_bucket_laws twins_undisturbed b demo_twins_orderly(1)]
    one_owner [THEN conjunct2, THEN conjunct1, rule_format, OF mem_user_laws twins_undisturbed u demo_twins_orderly(2)]
    one_owner [THEN conjunct2, THEN conjunct2, rule_format, OF mem_policy_laws twins_undisturbed p demo_twins_orderly(3)]
  from b u p o show ?thesis by blast
qed

section \<open>Whose credentials an Update writes\<close>

text \<open>
  C31. An Update of a user that is not being deleted ends by setting the secret key of the account
  that the connection secret names, and by enabling that account. Nothing compares the access
  key in the secret with the name of the user: who can write the secret can reset and enable any
  account of the server.
\<close>

theorem user_update_trusts_secret:
  assumes "reconcile (userClient generate uc) False s Updated t"
    and "cr s = MUser u" and "DeletionTimestamp (u_meta u) = None"
  shows "\<exists>name sec w w'. WriteConnectionSecretToReference (u_spec u) = Some name \<and>
    KubeGetSecret (uc_kube uc) name (Namespace (u_meta u)) w = (Inr sec, w') \<and>
    SetUser (uc_ma uc) (map_get sec AccessKeyName) (map_get sec SecretKeyName) AccountEnabled w' = (Inr (), world t)"
proof -
  from assms(1) obtain x s' where ob: "Observe_user uc s = (Ok x, s')" and up: "Update_user uc s' = (Ok (), t)"
    by (auto simp: userClient_def elim!: reconcileE)
  from user.keeps_observe [of s generate uc] ob assms(2) have sd: "same_desired (MUser u) (cr s')" by (simp add: userClient_def)
  then obtain u' where u': "cr s' = MUser u'" by (cases "cr s'") auto
  with sd assms(3) have k: "u_spec u' = u_spec u" "Namespace (u_meta u') = Namespace (u_meta u)" "DeletionTimestamp (u_meta u') = None"
    by (simp_all add: same_identity_def)
  from up u' k(3) obtain name sec s1 where
    "WriteConnectionSecretToReference (u_spec u') = Some name"
    "\<exists>w w'. KubeGetSecret (uc_kube uc) name (Namespace (u_meta u')) w = (Inr sec, w') \<and>
      SetUser (uc_ma uc) (map_get sec AccessKeyName) (map_get sec SecretKeyName) AccountEnabled w' = (Inr (), s1)" "s1 = world t"
    unfolding Update_user_def as_user_def Let_def
    by (fastforce simp: check_Ok_iff seq_Ok_iff deref_Ok_iff call_Ok_iff split del: if_split)
  then show ?thesis unfolding k by blast
qed

text \<open>The secret of ''ada'' names ''root'', whose account was disabled.\<close>

definition rooted_uc :: "(mem_server, unit) user_client" where
  "rooted_uc = demo_uc\<lparr>uc_kube := one_secret [''AWS_ACCESS_KEY_ID'' \<mapsto> ''root'', ''AWS_SECRET_ACCESS_KEY'' \<mapsto> ''taken''] tls_demo\<rparr>"

definition rooted_server :: mem_server where
  "rooted_server = (ada_server [''writeonly''])\<lparr>accounts := (accounts (ada_server [''writeonly'']))(''root'' \<mapsto> \<lparr>ac_Status = ''disabled'', ac_Policies = []\<rparr>)\<rparr>"

lemma rooted_update:
  "\<exists>t. reconcile (userClient demo_password rooted_uc) False (fresh_state rooted_server (MUser claimed_demo_user)) Updated t"
proof -
  have "\<exists>x s' t. Observe_user rooted_uc (fresh_state rooted_server (MUser claimed_demo_user)) = (Ok x, s') \<and> ResourceExists x \<and>
    \<not> ResourceUpToDate x \<and> Update_user rooted_uc s' = (Ok (), t)"
    by (simp add: Update_user_def setUserPolicies_def user_eval rooted_uc_def rooted_server_def claimed_demo_user_def demo_user_def
      ada_server_def demo_server_def GetUserName_def proper_def AccessKeyName_def SecretKeyName_def SetConditions_user_def
      get_annotation_def fresh_state_def map_get_def)
  then show ?thesis by (fastforce simp: userClient_def intro: reconcile.updated)
qed

theorem user_update_trusts_secret_witness:
  "\<exists>t a. reconcile (userClient demo_password rooted_uc) False (fresh_state rooted_server (MUser claimed_demo_user)) Updated t \<and>
     accounts (world t) ''root'' = Some a \<and> ac_Status a = AccountEnabled"
proof -
  from rooted_update obtain t where t: "reconcile (userClient demo_password rooted_uc) False (fresh_state rooted_server (MUser claimed_demo_user)) Updated t" ..
  have "DeletionTimestamp (u_meta claimed_demo_user) = None" by (simp add: claimed_demo_user_def demo_user_def)
  from user_update_trusts_secret [OF t _ this] obtain name sec w w' where
    k: "KubeGetSecret (uc_kube rooted_uc) name (Namespace (u_meta claimed_demo_user)) w = (Inr sec, w')" and
    st: "SetUser (uc_ma rooted_uc) (map_get sec AccessKeyName) (map_get sec SecretKeyName) AccountEnabled w' = (Inr (), world t)" by auto
  from k have "map_get sec AccessKeyName = ''root''"
    by (auto simp: rooted_uc_def one_secret_def AccessKeyName_def map_get_def)
  with st have "\<exists>a. accounts (world t) ''root'' = Some a \<and> ac_Status a = AccountEnabled"
    by (auto simp: rooted_uc_def demo_uc_def mem_admin_simps split: option.split_asm dest!: sym [of _ "world t"])
  with t show ?thesis by blast
qed

end
