(* ===== verification/Deletion.thy ===== *)
theory Deletion
  imports Ownership ServiceAccount_Props Notification_Props
begin

text \<open>
  What a deletion leaves behind, for all five controllers. The locale \<open>deleting_external\<close> says
  what Observe sees of a resource the controller knows as its own, and that a Delete that
  succeeds leaves nothing to see; it follows that the next reconcile decides by the name alone.
\<close>

section \<open>The contract\<close>

definition decided :: "bool \<Rightarrow> verdict \<Rightarrow> bool" where
  "decided absent v \<longleftrightarrow> v = ObserveFailed \<or> (if absent then v = Current else v \<in> {Deleted, DeleteFailed})"

locale deleting_external = managed_external +
  fixes lawful :: bool
    and known :: "managed \<Rightarrow> bool"
    and absent :: "managed \<Rightarrow> 'a \<Rightarrow> bool"
  assumes seen: "lawful \<Longrightarrow> known (cr s) \<Longrightarrow> Observe ec s = (Ok x, t) \<Longrightarrow> ResourceExists x \<longleftrightarrow> \<not> absent (cr s) (world s)"
    and removed: "lawful \<Longrightarrow> Observe ec s = (Ok x, s') \<Longrightarrow> ResourceExists x \<Longrightarrow> Delete ec s' = (Ok (), t) \<Longrightarrow>
      absent (cr t) (world t) \<and> known (cr t)"
begin

lemma deletion_done:
  assumes lawful and "reconcile ec True s Deleted t"
  shows "absent (cr t) (world t)" and "known (cr t)"
  using assms removed by (auto elim!: reconcileE)

lemma next_by_name:
  assumes lawful and "known (cr s)" and "reconcile ec True s v u"
  shows "decided (absent (cr s) (world s)) v"
  using assms(3) seen [OF assms(1,2)] by (auto simp: decided_def elim!: reconcileE)

lemma deletion_by_name:
  assumes lawful and "reconcile ec True s Deleted t" and "cr s' = cr t" and "reconcile ec True s' v u"
  shows "absent (cr t) (world t) \<and> decided (absent (cr t) (world s')) v"
  using deletion_done [OF assms(1,2)] next_by_name [OF assms(1) _ assms(4)] assms(3) by simp

end

section \<open>Buckets, users and policies\<close>

definition not_held :: "('w \<Rightarrow> string \<Rightarrow> 'v option) \<Rightarrow> managed \<Rightarrow> 'w \<Rightarrow> bool" where
  "not_held view m w \<longleftrightarrow> \<not> held view (server_name m) w"

lemma bucket_observed_exists:
  assumes "bucket_laws mc view" and "Observe_bucket mc s = (Ok x, s')" and "ResourceExists x"
  shows "\<exists>b. cr s = MBucket b \<and> held view (GetBucketName b) (world s) \<and> bucket_claimed (cr s')
    \<and> cr s' = MBucket (b\<lparr>b_status := (b_status b)\<lparr>bs_BucketName := GetBucketName b,
           bs_Conditions := bs_Conditions (b_status b) @ [XpAvailable]\<rparr>\<rparr>)"
proof -
  from assms(1) have rd: "s3_read_laws mc view" by (simp add: bucket_laws_def)
  from assms(2) obtain b where b: "cr s = MBucket b" by (cases "cr s") (auto simp: Observe_bucket_def as_bucket_def)
  from bucket_observe_status [OF b assms(2,3)] assms(2,3) b show ?thesis
    by (auto simp: Observe_bucket_def observeBucket_def as_bucket_def Let_def if_err_Ok_iff call_Ok_iff bucket_claimed_def
        NoObservation_def held_def split: if_split_asm dest!: s3_readsD(1) [OF rd])
qed

lemma Delete_bucket_frame: "Delete_bucket l mc s = (r, t) \<Longrightarrow> cr t = cr s"
proof -
  have "keeps (\<lambda>u. cr u = cr s) (Delete_bucket l mc)"
    unfolding ctl_defs by (intro keeps_intros; simp)
  then show "Delete_bucket l mc s = (r, t) \<Longrightarrow> cr t = cr s" by (auto dest: keeps_result)
qed

lemma Delete_bucket_removes:
  assumes "bucket_laws mc view" and "Delete_bucket l mc s = (Ok (), t)" and "cr s = MBucket b"
  shows "\<not> held view (bs_BucketName (b_status b)) (world t)"
proof -
  from assms(1) have rm: "s3_remove_laws mc view" by (simp add: bucket_laws_def)
  from assms(2,3) show ?thesis
    by (auto simp: Delete_bucket_def as_bucket_def deleteS3Bucket_def seq_Ok_iff call_Ok_iff held_def
        dest!: s3_removesD(2) [OF rm])
qed

interpretation bucket_deletion: deleting_external "bucketClient l mc" is_bucket errNotBucket
  "bucket_laws mc view" bucket_claimed "not_held view"
  for l :: bool and mc :: "('w, 't, 'n) s3_client" and view :: "'w server_view"
proof (unfold_locales, goal_cases)
  case (1 s x t)
  then have ob: "Observe_bucket mc s = (Ok x, t)" by (simp add: bucketClient_def)
  show ?case
    using bucket_observed_exists [OF 1(1) ob] bucket_observed_absent [OF 1(1) ob] by (auto simp: not_held_def)
next
  case (2 s x s' t)
  then have ob: "Observe_bucket mc s = (Ok x, s')" and de: "Delete_bucket l mc s' = (Ok (), t)" by (simp_all add: bucketClient_def)
  from bucket_observed_exists [OF 2(1) ob 2(3)] obtain b where
    "cr s' = MBucket (b\<lparr>b_status := (b_status b)\<lparr>bs_BucketName := GetBucketName b,
           bs_Conditions := bs_Conditions (b_status b) @ [XpAvailable]\<rparr>\<rparr>)" "bucket_claimed (cr s')" by blast
  with Delete_bucket_removes [OF 2(1) de this(1)] Delete_bucket_frame [OF de] show ?case
    by (simp add: not_held_def)
qed

text \<open>The server removes users, and knows none without a name.\<close>

definition user_removal_laws :: "('w, 'c) user_client \<Rightarrow> 'w account_view \<Rightarrow> bool" where
  "user_removal_laws uc view \<longleftrightarrow> user_read_laws (uc_ma uc) view \<and> (\<forall>w. view w [] = None) \<and>
     (\<forall>n. effects view (RemoveUser (uc_ma uc) n) (\<lambda>v _ v'. v' n = None))"

lemma checkCredentials_keeps_cr: "keeps (\<lambda>s. P (cr s)) (checkCredentials uc u)"
  unfolding checkCredentials_def by (intro keeps_intros; simp)

lemma observeMinioUser_claims:
  assumes "observeMinioUser uc u i s = (Ok x, t)" and "us_UserName (u_status u) \<noteq> []"
  shows "user_claimed (cr t)"
  using assms
  by (auto simp: observeMinioUser_def Let_def seq_Ok_iff user_claimed_def SetConditions_user_def
      split: if_split_asm dest!: keeps_result [OF _ checkCredentials_keeps_cr [where P = user_claimed]])

lemma user_observed:
  assumes "user_removal_laws uc view" and "Observe_user uc s = (Ok x, t)" and "user_claimed (cr s)"
  shows "(ResourceExists x \<longleftrightarrow> held view (server_name (cr s)) (world s)) \<and> (ResourceExists x \<longrightarrow> user_claimed (cr t))"
proof -
  from assms(3) obtain u where u: "cr s = MUser u" by (auto simp: user_claimed_def split: managed.splits)
  from assms(1) have rd: "user_read_laws (uc_ma uc) view" and e: "view w [] = None" for w
    by (auto simp: user_removal_laws_def)
  from observe_user_listed [OF u _ assms(2)] assms(3) u obtain users w where
    l: "ListUsers (uc_ma uc) (world s) = (Inr users, w)" and
    r: "case users (GetUserName u) of
       None \<Rightarrow> x = NoObservation
     | Some i \<Rightarrow> reported i u x \<and>
         (\<exists>s'. observeMinioUser uc (u\<lparr>u_status := (u_status u)\<lparr>us_UserName := GetUserName u\<rparr>\<rparr>) i s' = (Ok x, t))" by auto
  from user_readsD(2) [OF rd l] have m: "users = (\<lambda>n. map_option account_info (view (world s) n))" by simp
  show ?thesis
  proof (cases "view (world s) (GetUserName u)")
    case None
    with r m u show ?thesis by (simp add: NoObservation_def held_def)
  next
    case (Some a)
    with e have "GetUserName u \<noteq> []" by auto
    with Some r m u observeMinioUser_claims show ?thesis by (fastforce simp: held_def reported_def)
  qed
qed

lemma Delete_user_removes:
  assumes "user_removal_laws uc view" and "Delete_user uc s = (Ok (), t)"
  shows "\<not> held view (server_name (cr t)) (world t) \<and> (user_claimed (cr s) \<longrightarrow> user_claimed (cr t))"
proof -
  from assms(1) have e: "\<And>n. effects view (RemoveUser (uc_ma uc) n) (\<lambda>v _ v'. v' n = None)" by (simp add: user_removal_laws_def)
  from assms(2) show ?thesis
    by (cases "cr s")
      (auto simp: Delete_user_def as_user_def seq_Ok_iff call_Ok_iff SetConditions_user_def user_claimed_def held_def
        dest: effectsD [OF e])
qed

interpretation user_deletion: deleting_external "userClient generate uc" is_user errNotUser
  "user_removal_laws uc view" user_claimed "not_held view"
  for generate :: "'w password_gen" and uc :: "('w, 'c) user_client" and view :: "'w account_view"
proof (unfold_locales, goal_cases)
  case (1 s x t)
  with user_observed [of uc view s x t] show ?case by (simp add: userClient_def not_held_def)
next
  case (2 s x s' t)
  then have ob: "Observe_user uc s = (Ok x, s')" and de: "Delete_user uc s' = (Ok (), t)" by (simp_all add: userClient_def)
  have "user_claimed (cr s)"
    using user.unclaimed_absent [of s generate uc x] 2(2,3) by auto
  with user_observed [OF 2(1) ob] 2(3) Delete_user_removes [OF 2(1) de] show ?case by (simp add: not_held_def)
qed

lemma policy_observed:
  assumes "canned_laws lib ma view" and "Observe_policy lib ma s = (Ok x, t)" and "policy_claimed (cr s)"
  shows "(ResourceExists x \<longleftrightarrow> held view (server_name (cr s)) (world s)) \<and> policy_claimed (cr t)"
proof -
  from assms(3) obtain p where p: "cr s = MPolicy p" by (auto simp: policy_claimed_def split: managed.splits)
  with policy_observe_spec [OF assms(1) p _ assms(2)] assms(3) show ?thesis
    by (auto simp: held_def NoObservation_def policy_claimed_def split: option.splits)
qed

lemma Delete_policy_removes:
  assumes "canned_laws lib ma view" and "Delete_policy ma s = (Ok (), t)"
  shows "\<not> held view (server_name (cr t)) (world t) \<and> (policy_claimed (cr s) \<longrightarrow> policy_claimed (cr t))"
  using assms(2)
  by (cases "cr s")
    (auto simp: Delete_policy_def as_policy_def seq_Ok_iff call_Ok_iff SetConditions_policy_def policy_claimed_def
      policyName_def held_def dest!: canned_lawsD(3) [OF assms(1)])

interpretation policy_deletion: deleting_external "policyClient lib ma" is_policy errNotPolicy
  "canned_laws lib ma view" policy_claimed "not_held view"
  for lib :: iam_lib and ma :: "'w admin_client" and view :: "'w canned_view"
proof (unfold_locales, goal_cases)
  case (1 s x t)
  with policy_observed [of lib ma view s x t] show ?case by (simp add: policyClient_def not_held_def)
next
  case (2 s x s' t)
  then have ob: "Observe_policy lib ma s = (Ok x, s')" and de: "Delete_policy ma s' = (Ok (), t)" by (simp_all add: policyClient_def)
  have "policy_claimed (cr s)"
    using policy.unclaimed_absent [of s lib ma x] 2(2,3) by auto
  with policy_observed [OF 2(1) ob] Delete_policy_removes [OF 2(1) de] show ?case by (simp add: not_held_def)
qed

section \<open>Service accounts\<close>

text \<open>
  The server removes service accounts, and the existence check fails only for a missing one: for
  any other failure the Delete of the controller reports a success it did not have.
\<close>

definition sa_removal_laws :: "'w sa_client \<Rightarrow> 'w sa_view \<Rightarrow> bool" where
  "sa_removal_laws c view \<longleftrightarrow> sa_laws (sac_ma c) view \<and>
     (\<forall>k. effects view (DeleteServiceAccount (sac_ma c) k) (\<lambda>v _ v'. v' k = None)) \<and>
     (\<forall>k w e w'. InfoServiceAccount (sac_ma c) k w = (Inl e, w') \<longrightarrow> is_missing (ErrApi e))"

definition sa_absent :: "'w sa_client \<Rightarrow> 'w sa_view \<Rightarrow> managed \<Rightarrow> 'w \<Rightarrow> bool" where
  "sa_absent c view m w \<longleftrightarrow> (case m of MServiceAccount a \<Rightarrow> view w (external_name c a) = None | _ \<Rightarrow> True)"

lemma external_name_kept: "keeps (\<lambda>s. \<exists>b. cr s = MServiceAccount b \<and> external_name c b = n) (Observe_sa c)"
  unfolding ctl_defs
  by (intro keeps_intros) (auto simp: external_name_def observed_status_def SetConditions_sa_def Let_def split: option.splits)

lemma Delete_sa_removes:
  assumes "sa_removal_laws c view" and "Delete_sa c s = (Ok (), t)" and "cr s = MServiceAccount a" and "external_name c a \<noteq> []"
  shows "view (world t) (external_name c a) = None \<and> cr t = cr s"
proof -
  from assms(1) have l: "sa_laws (sac_ma c) view"
    and d: "\<And>k. effects view (DeleteServiceAccount (sac_ma c) k) (\<lambda>v _ v'. v' k = None)"
    and m: "InfoServiceAccount (sac_ma c) k w = (Inl e, w') \<Longrightarrow> is_missing (ErrApi e)" for k w e w'
    unfolding sa_removal_laws_def by blast+
  have never: "serviceAccountExists (sac_ma c) k u \<noteq> (Err e, u')" for k u e u'
    using m [of k "world u"]
    by (auto simp: serviceAccountExists_def go_defs split: prod.splits sum.splits if_split_asm)
  from assms(2-4) show ?thesis
    by (auto simp: Delete_sa_def as_service_account_def emitDeleteEvent_sa_def check_Ok_iff seq_Ok_iff if_err_Ok_iff call_Ok_iff never
        split: if_split_asm dest!: exists_step [OF l] dest: effectsD [OF d])
qed

interpretation sa_deletion: deleting_external "serviceAccountClient generate c" is_service_account errNotServiceAccount
  "sa_removal_laws c view" "sa_claimed c" "sa_absent c view"
  for generate :: "'w password_gen" and c :: "'w sa_client" and view :: "'w sa_view"
proof (unfold_locales, goal_cases)
  case (1 s x t)
  then show ?case
    by (cases "cr s")
      (auto simp: sa_removal_laws_def serviceAccountClient_def sa_absent_def sa_claimed_def NoObservation_def
        dest!: sa_observe_spec split: option.splits)
next
  case (2 s x s' t)
  then have ob: "Observe_sa c s = (Ok x, s')" and de: "Delete_sa c s' = (Ok (), t)" by (simp_all add: serviceAccountClient_def)
  have "sa_claimed c (cr s)"
    using sa.unclaimed_absent [of c s generate x] 2(2,3) by auto
  then obtain a where a: "cr s = MServiceAccount a" "external_name c a \<noteq> []"
    by (auto simp: sa_claimed_def split: managed.splits)
  with keeps_result [OF ob external_name_kept] obtain b where b: "cr s' = MServiceAccount b" "external_name c b = external_name c a" by auto
  with Delete_sa_removes [OF 2(1) de b(1)] a show ?case by (simp add: sa_absent_def sa_claimed_def)
qed

section \<open>Notifications\<close>

text \<open>A bucket the server says does not exist has no entries.\<close>

definition notif_removal_laws :: "('w, 't, 'n) notif_client \<Rightarrow> ('w, 'n) notif_view \<Rightarrow> bool" where
  "notif_removal_laws c view \<longleftrightarrow> notif_laws c view \<and>
     (\<forall>b w e w'. GetBucketNotification (nc_mc c) b w = (Inl e, w') \<longrightarrow> str_contains (err_text e) ''does not exist'' \<longrightarrow>
        LambdaConfigs (view w b) = []) \<and>
     (\<forall>b n w e w'. SetBucketNotification (nc_mc c) b n w = (Inl e, w') \<longrightarrow> str_contains (err_text e) ''does not exist'' \<longrightarrow>
        LambdaConfigs (view w b) = [])"

definition nc_absent :: "('w, 't, 'n) notif_client \<Rightarrow> ('w, 'n) notif_view \<Rightarrow> managed \<Rightarrow> 'w \<Rightarrow> bool" where
  "nc_absent c view m w \<longleftrightarrow> (case m of
     MNotification n \<Rightarrow> findWebhookConfiguration (nc_lib c) (n_params n) (view w (np_BucketName (n_params n))) = None
   | _ \<Rightarrow> True)"

lemma find_filter_none: "List.find P (filter (\<lambda>x. \<not> P x) xs) = None"
  by (induction xs) auto

lemma notif_removalD:
  assumes "notif_removal_laws c view"
  shows "GetBucketNotification (nc_mc c) b w = (r, w') \<Longrightarrow> view w' = view w \<and>
      (case r of Inl e \<Rightarrow> str_contains (err_text e) ''does not exist'' \<longrightarrow> LambdaConfigs (view w b) = [] | Inr x \<Rightarrow> x = view w b)"
    and "SetBucketNotification (nc_mc c) b n w = (q, w') \<Longrightarrow>
      (case q of Inl e \<Rightarrow> view w' = view w \<and> (str_contains (err_text e) ''does not exist'' \<longrightarrow> LambdaConfigs (view w b) = [])
       | Inr _ \<Rightarrow> view w' = (view w)(b := n))"
proof -
  from assms have l: "notif_laws c view" by (simp add: notif_removal_laws_def)
  show "GetBucketNotification (nc_mc c) b w = (r, w') \<Longrightarrow> view w' = view w \<and>
      (case r of Inl e \<Rightarrow> str_contains (err_text e) ''does not exist'' \<longrightarrow> LambdaConfigs (view w b) = [] | Inr x \<Rightarrow> x = view w b)"
    using assms notif_lawsD(1) [OF l, of b w r w'] by (cases r) (auto simp: notif_removal_laws_def)
  show "SetBucketNotification (nc_mc c) b n w = (q, w') \<Longrightarrow>
      (case q of Inl e \<Rightarrow> view w' = view w \<and> (str_contains (err_text e) ''does not exist'' \<longrightarrow> LambdaConfigs (view w b) = [])
       | Inr _ \<Rightarrow> view w' = (view w)(b := n))"
    using assms notif_lawsD(2) [OF l, of b n w q w'] by (cases q) (simp_all add: notif_removal_laws_def, blast)
qed

lemma nc_observed:
  assumes "notif_removal_laws c view" and "Observe_nc c s = (Ok x, t)" and "cr s = MNotification n"
  shows "ResourceExists x \<longleftrightarrow> \<not> nc_absent c view (cr s) (world s)"
  using assms(2,3)
  by (auto simp: Observe_nc_def as_notification_def Let_def if_err_Ok_iff call_Ok_iff call_Err_iff seq_Ok_iff set_conditions_def
      nc_absent_def findWebhookConfiguration_def simp del: foldl_Cons split: if_split_asm option.splits
      dest!: notif_removalD(1) [OF assms(1)])

lemma Delete_nc_removes:
  assumes "notif_removal_laws c view" and "Delete_nc c s = (Ok (), t)" and "cr s = MNotification n"
  shows "nc_absent c view (cr s) (world t)"
  using assms(2,3)
  by (auto simp: Delete_nc_def as_notification_def Let_def if_err_Ok_iff call_Ok_iff call_Err_iff seq_Ok_iff set_conditions_def
      nc_absent_def findWebhookConfiguration_def find_filter_none emitDeletionEvent_nc_def simp del: foldl_Cons
      split: if_split_asm option.split_asm option.split dest!: notif_removalD [OF assms(1)])

lemma nc_absent_desired: "same_desired m n \<Longrightarrow> nc_absent c view n w = nc_absent c view m w"
  by (cases m; cases n) (auto simp: nc_absent_def)

interpretation nc_deletion: deleting_external "notificationClient c" is_notification errNotNotificationConfiguration
  "notif_removal_laws c view" is_notification "nc_absent c view"
  for c :: "('w, 't, 'n) notif_client" and view :: "('w, 'n) notif_view"
proof (unfold_locales, goal_cases)
  case (1 s x t)
  then show ?case
    by (cases "cr s") (auto simp: notificationClient_def is_notification_def dest: nc_observed)
next
  case (2 s x s' t)
  then have ob: "Observe_nc c s = (Ok x, s')" and de: "Delete_nc c s' = (Ok (), t)" by (simp_all add: notificationClient_def)
  from de obtain n where n: "cr s' = MNotification n" by (cases "cr s'") (auto simp: Delete_nc_def as_notification_def)
  from notification.keeps_delete [of s' c] de have sd: "same_desired (cr s') (cr t)" by (simp add: notificationClient_def)
  with n have "is_notification (cr t)" by (cases "cr t") (auto simp: is_notification_def)
  with Delete_nc_removes [OF 2(1) de n] show ?case by (simp add: nc_absent_desired [OF sd])
qed

section \<open>Deleted, and what comes after\<close>


text \<open>One deletion of each kind on the in-memory servers; a second bucket of the same name falls with the first.\<close>

lemma deletes:
  assumes "\<exists>x s' t y u. Observe ec s = (Ok x, s') \<and> ResourceExists x \<and> Delete ec s' = (Ok (), t) \<and>
    Observe ec t = (Ok y, u) \<and> \<not> ResourceExists y"
  shows "\<exists>t u. reconcile ec True s Deleted t \<and> reconcile ec True t Current u"
  using assms by (metis deleted gone)

lemma demo_bucket_deleted:
  "\<exists>t u. reconcile (bucketClient True mem_client) True (demo_state [''photos'' \<mapsto> new_bucket] (MBucket locked_demo)) Deleted t \<and>
     reconcile (bucketClient True mem_client) True (t\<lparr>world := [''photos'' \<mapsto> new_bucket]\<rparr>) Deleted u"
proof -
  have "\<exists>x s' t y t' u. Observe_bucket mem_client (demo_state [''photos'' \<mapsto> new_bucket] (MBucket locked_demo)) = (Ok x, s') \<and> ResourceExists x \<and>
    Delete_bucket True mem_client s' = (Ok (), t) \<and>
    Observe_bucket mem_client (t\<lparr>world := [''photos'' \<mapsto> new_bucket]\<rparr>) = (Ok y, t') \<and> ResourceExists y \<and> Delete_bucket True mem_client t' = (Ok (), u)"
    by (simp add: bucket_eval Delete_bucket_def deleteS3Bucket_def hasDeleteAllPolicy_def DeleteIfEmpty_def DeleteAll_def
        locked_demo_def demo_bucket_def demo_state_def)
  then show ?thesis by (fastforce simp: bucketClient_def intro: reconcile.deleted)
qed

text \<open>A server that has no user without a name.\<close>

definition named_view :: "mem_server account_view" where
  "named_view w n = (if n = [] then None else account_view_of w n)"

definition named_uc :: "(mem_server, unit) user_client" where
  "named_uc = demo_uc\<lparr>uc_ma := mem_admin\<lparr>
     ListUsers := (\<lambda>w. (Inr (\<lambda>n. if n = [] then None else map_option (\<lambda>a. account_info (shown a)) (accounts w n)), w)),
     GetUserInfo := (\<lambda>n w. if n = [] then (Inl not_found, w) else GetUserInfo mem_admin n w)\<rparr>\<rparr>"

lemma demo_user_deleted:
  "\<exists>t u. reconcile (userClient demo_password named_uc) True (fresh_state (ada_server [''readonly'']) (MUser claimed_demo_user)) Deleted t \<and>
     reconcile (userClient demo_password named_uc) True t Current u"
proof -
  have "\<exists>x s' t y u. Observe_user named_uc (fresh_state (ada_server [''readonly'']) (MUser claimed_demo_user)) = (Ok x, s') \<and> ResourceExists x \<and>
    Delete_user named_uc s' = (Ok (), t) \<and> Observe_user named_uc t = (Ok y, u) \<and> \<not> ResourceExists y"
    by (simp add: user_eval named_uc_def Delete_user_def claimed_demo_user_def demo_user_def ada_server_def GetUserName_def
      get_annotation_def SetConditions_user_def proper_def fresh_state_def)
  then show ?thesis by (intro deletes) (simp add: userClient_def)
qed

lemma demo_policy_deleted:
  "\<exists>t u. reconcile (policyClient text_lib mem_admin) True (policy_state [''readonly'' \<mapsto> ''{}''] marked_policy) Deleted t \<and>
     reconcile (policyClient text_lib mem_admin) True t Current u"
proof -
  have "\<exists>x s' t y u. Observe_policy text_lib mem_admin (policy_state [''readonly'' \<mapsto> ''{}''] marked_policy) = (Ok x, s') \<and> ResourceExists x \<and>
    Delete_policy mem_admin s' = (Ok (), t) \<and> Observe_policy text_lib mem_admin t = (Ok y, u) \<and> \<not> ResourceExists y"
    by (simp add: policy_eval)
  then show ?thesis by (intro deletes) (simp add: policyClient_def)
qed

lemma demo_sa_deleted:
  "\<exists>t u. reconcile (serviceAccountClient sa_password demo_sac) True (sa_state [''AK1'' \<mapsto> demo_info None] demo_sa) Deleted t \<and>
     reconcile (serviceAccountClient sa_password demo_sac) True t Current u"
proof -
  have "\<exists>x s' t y u. Observe_sa demo_sac (sa_state [''AK1'' \<mapsto> demo_info None] demo_sa) = (Ok x, s') \<and> ResourceExists x \<and>
    Delete_sa demo_sac s' = (Ok (), t) \<and> Observe_sa demo_sac t = (Ok y, u) \<and> \<not> ResourceExists y"
    by (simp add: sa_eval serviceAccountExists_def emitDeleteEvent_sa_def missing_not_found external_name_def demo_sac_def demo_meta_def
      demo_sa_def demo_info_def sa_state_def observed_status_def SetConditions_sa_def map_get_def)
  then show ?thesis by (intro deletes) (simp add: serviceAccountClient_def)
qed

lemma demo_nc_deleted:
  "\<exists>t u. reconcile (notificationClient (store_client None)) True (nc_state [entry ''1'' ''http://new'']) Deleted t \<and>
     reconcile (notificationClient (store_client None)) True t Current u"
proof -
  have "\<exists>x s' t y u. Observe_nc (store_client None) (nc_state [entry ''1'' ''http://new'']) = (Ok x, s') \<and> ResourceExists x \<and>
    Delete_nc (store_client None) s' = (Ok (), t) \<and> Observe_nc (store_client None) t = (Ok y, u) \<and> \<not> ResourceExists y"
    by (simp add: nc_eval store_client_def store_s3_def store_lib_def nc_state_def demo_nc_def hook_def findWebhookConfiguration_def
      webhook_entry_def lambda_arn_def entry_def arn_text_def expectedARN_def SetConditions_nc_def)
  then show ?thesis by (intro deletes) (simp add: notificationClient_def)
qed

lemma named_removal_laws: "user_removal_laws named_uc named_view"
  using mem_user_read_laws
  by (auto simp: user_removal_laws_def user_read_laws_def named_uc_def named_view_def demo_uc_def reads_def effects_def mem_admin_simps
      shown_names fun_eq_iff option.map_comp comp_def split: option.splits)

lemma mem_removal_laws:
  "sa_removal_laws demo_sac service_accounts" "notif_removal_laws (store_client None) (\<lambda>w. w)"
  using demo_sac_laws store_laws [of None] missing_not_found
  by (auto simp: sa_removal_laws_def notif_removal_laws_def effects_def demo_sac_def mem_admin_def store_client_def store_s3_def
      split: option.splits)


section \<open>Where the mark does not protect\<close>

text \<open>
  C32. A bucket may be renamed onto another one before it is first observed: Create leaves the
  bucket name in the status empty, so the webhook admits any new name, and the mark comes along.
  If a bucket of the new name exists, whoever it belongs to, the resource takes it for its own,
  and deleting the resource deletes that bucket.
\<close>

theorem renamed_before_observed:
  assumes "bucket_laws mc view" and "reconcile (bucketClient l mc) False s Created t"
    and "cr s = MBucket b" and "bs_BucketName (b_status b) = []" and "has_provider_config (b_spec b)"
    and "n \<noteq> []" and "held view n (world t)"
  shows "\<exists>c. cr t = MBucket c \<and> ValidateUpdate_bucket c (c\<lparr>b_params := (b_params c)\<lparr>bp_BucketName := n\<rparr>\<rparr>) w = (Ok (), w) \<and>
    (\<forall>v u. reconcile (bucketClient l mc) True
        (fresh_state (world t) (MBucket (c\<lparr>b_params := (b_params c)\<lparr>bp_BucketName := n\<rparr>, b_meta := (b_meta c)\<lparr>DeletionTimestamp := Some d\<rparr>\<rparr>))) v u \<longrightarrow>
      v \<in> {ObserveFailed, Deleted, DeleteFailed} \<and> (v = Deleted \<longrightarrow> \<not> held view n (world u)))"
proof -
  from assms(2) obtain x s' e where ob: "Observe_bucket mc s = (Ok x, s')" "\<not> ResourceExists x"
    and cre: "Create_bucket mc s' = (Ok e, t)"
    by (auto simp: bucketClient_def elim!: reconcileE)
  from bucket_observed_absent [OF assms(1) ob] assms(3) have b: "cr s' = MBucket b" by simp
  from assms(1) have "s3_read_laws mc view" "s3_write_laws mc view" by (simp_all add: bucket_laws_def)
  from bucket_create_syncs [OF this b cre] have c: "cr t = MBucket (setLock_bucket b)" by simp
  let ?c = "setLock_bucket b"
  let ?d = "?c\<lparr>b_params := (b_params ?c)\<lparr>bp_BucketName := n\<rparr>, b_meta := (b_meta ?c)\<lparr>DeletionTimestamp := Some d\<rparr>\<rparr>"
  have st: "b_status ?c = b_status b" "b_spec ?c = b_spec b" by (simp_all add: setLock_bucket_def Let_def)
  have n: "GetBucketName ?d = n" using assms(6) by (simp add: GetBucketName_def)
  have k: "bucket_claimed (MBucket ?d)" by (simp add: bucket_claimed_def setLock_bucket_def get_annotation_def Let_def split: option.splits)
  have "v \<in> {ObserveFailed, Deleted, DeleteFailed} \<and> (v = Deleted \<longrightarrow> \<not> held view n (world u))"
    if r: "reconcile (bucketClient l mc) True (fresh_state (world t) (MBucket ?d)) v u" for v u
  proof
    from bucket_deletion.next_by_name [OF assms(1) _ r] k n assms(7)
    show "v \<in> {ObserveFailed, Deleted, DeleteFailed}" by (auto simp: decided_def not_held_def)
    show "v = Deleted \<longrightarrow> \<not> held view n (world u)"
      using bucket_deletion.deletion_done(1) [OF assms(1)] r server_name_desired [OF buckets.reconcile_same_desired [OF r]] n
      by (auto simp: not_held_def)
  qed
  with c st assms(4,5) show ?thesis
    by (intro exI [of _ ?c]) (simp add: ValidateUpdate_bucket_Ok_iff)
qed

text \<open>A bucket ''photos'' is created next to ''album'', renamed to it, and deleted.\<close>

definition album :: bucket where
  "album = (setLock_bucket demo_bucket)\<lparr>b_params := (b_params (setLock_bucket demo_bucket))\<lparr>bp_BucketName := ''album''\<rparr>,
     b_meta := (b_meta (setLock_bucket demo_bucket))\<lparr>DeletionTimestamp := Some 0\<rparr>\<rparr>"

lemma demo_rename:
  "\<exists>t u. reconcile (bucketClient True mem_client) False (demo_state [''album'' \<mapsto> new_bucket] (MBucket demo_bucket)) Created t \<and>
     cr t = MBucket (setLock_bucket demo_bucket) \<and> held mem_view ''album'' (world t) \<and>
     reconcile (bucketClient True mem_client) True (fresh_state (world t) (MBucket album)) Deleted u"
proof -
  have "\<exists>t x s' u. Observe_bucket mem_client (demo_state [''album'' \<mapsto> new_bucket] (MBucket demo_bucket)) =
      (Ok NoObservation, demo_state [''album'' \<mapsto> new_bucket] (MBucket demo_bucket)) \<and>
    Create_bucket mem_client (demo_state [''album'' \<mapsto> new_bucket] (MBucket demo_bucket)) = (Ok None, t) \<and>
    cr t = MBucket (setLock_bucket demo_bucket) \<and> held mem_view ''album'' (world t) \<and>
    Observe_bucket mem_client (fresh_state (world t) (MBucket album)) = (Ok x, s') \<and> ResourceExists x \<and> Delete_bucket True mem_client s' = (Ok (), u)"
    by (simp add: bucket_eval Delete_bucket_def deleteS3Bucket_def hasDeleteAllPolicy_def DeleteIfEmpty_def DeleteAll_def
        album_def demo_bucket_def demo_state_def fresh_state_def held_def)
  then show ?thesis
    by (fastforce simp: bucketClient_def NoObservation_def intro: reconcile.created reconcile.deleted)
qed

theorem renamed_before_observed_witness:
  "\<exists>t u. reconcile (bucketClient True mem_client) False (demo_state [''album'' \<mapsto> new_bucket] (MBucket demo_bucket)) Created t \<and>
     held mem_view ''album'' (world t) \<and>
     reconcile (bucketClient True mem_client) True (fresh_state (world t) (MBucket album)) Deleted u \<and>
     \<not> held mem_view ''album'' (world u)"
proof -
  from demo_rename obtain t u where
    t: "reconcile (bucketClient True mem_client) False (demo_state [''album'' \<mapsto> new_bucket] (MBucket demo_bucket)) Created t"
      "cr t = MBucket (setLock_bucket demo_bucket)" "held mem_view ''album'' (world t)"
    and u: "reconcile (bucketClient True mem_client) True (fresh_state (world t) (MBucket album)) Deleted u" by blast
  have "bs_BucketName (b_status demo_bucket) = []" "has_provider_config (b_spec demo_bucket)"
    by (simp_all add: demo_bucket_def has_provider_config_def)
  from renamed_before_observed [OF mem_bucket_laws t(1) _ this _ t(3), where d = 0 and w = "()"] obtain c where c: "cr t = MBucket c"
    "\<forall>v u. reconcile (bucketClient True mem_client) True
        (fresh_state (world t) (MBucket (c\<lparr>b_params := (b_params c)\<lparr>bp_BucketName := ''album''\<rparr>, b_meta := (b_meta c)\<lparr>DeletionTimestamp := Some 0\<rparr>\<rparr>))) v u \<longrightarrow>
      v \<in> {ObserveFailed, Deleted, DeleteFailed} \<and> (v = Deleted \<longrightarrow> \<not> held mem_view ''album'' (world u))"
    by auto
  from c(1) t(2) have "c = setLock_bucket demo_bucket" by simp
  from c(2) [unfolded this, folded album_def] u have "\<not> held mem_view ''album'' (world u)" by blast
  with t u show ?thesis by blast
qed

end
