(* ===== verification/Interleaving.thy ===== *)
theory Interleaving
  imports Ownership
begin

text \<open>
  Reconciles that interleave call by call. Leader election is off unless \<^verbatim>\<open>--leader-elect\<close> is
  given, so that for a while two processes of the provider may serve the same resources; and
  whatever the number of processes, anything may happen on the server between an Observe and the
  call that follows it. The locale \<open>exclusive_calls\<close> says when the marks stay exclusive all the
  same. The user and the policy controller are interpreted as one; the bucket controller is not,
  as its Create takes an existing bucket for its own.
\<close>

section \<open>Calls\<close>

text \<open>\<open>seen i\<close> is what the reconcile of resource \<open>i\<close> that is under way has observed.\<close>

record ('i, 'w) calls =
  fleet_of :: "('i, 'w) fleet"
  seen :: "'i \<Rightarrow> observation option"

definition idle :: "('i, 'w) fleet \<Rightarrow> ('i, 'w) calls" where
  "idle f = \<lparr>fleet_of = f, seen = (\<lambda>_. None)\<rparr>"

lemma idle_simps [simp]: "fleet_of (idle f) = f" "seen (idle f) = (\<lambda>_. None)"
  by (simp_all add: idle_def)

text \<open>The call the reconciler makes after an Observe.\<close>

definition follow_up :: "bool \<Rightarrow> observation \<Rightarrow> operation option" where
  "follow_up d x =
     (if \<not> ResourceExists x then (if d then None else Some OpCreate)
      else if d then Some OpDelete
      else if ResourceUpToDate x then None
      else Some OpUpdate)"

definition at_work :: "('i, 'w) fleet \<Rightarrow> 'i \<Rightarrow> 'w cstate \<Rightarrow> bool" where
  "at_work f i s \<longleftrightarrow> world s = server f \<and> cr s = resource f i"

definition leaves :: "('i, 'w) fleet \<Rightarrow> 'i \<Rightarrow> 'w cstate \<Rightarrow> ('i, 'w) fleet" where
  "leaves f i t = f\<lparr>server := world t, resource := (resource f)(i := cr t)\<rparr>"

text \<open>
  A reconcile holds its copy of the resource from its Observe to the call that follows, so an
  edit meets it before or after; the server may change at any time.
\<close>

inductive call_step :: "'w external_client \<Rightarrow> (('i, 'w) fleet \<Rightarrow> 'w \<Rightarrow> bool) \<Rightarrow> (('i, 'w) fleet \<Rightarrow> 'i \<Rightarrow> managed \<Rightarrow> bool) \<Rightarrow>
    ('i, 'w) calls \<Rightarrow> ('i, 'w) calls \<Rightarrow> bool"
  for ec :: "'w external_client" and env :: "('i, 'w) fleet \<Rightarrow> 'w \<Rightarrow> bool" and edit :: "('i, 'w) fleet \<Rightarrow> 'i \<Rightarrow> managed \<Rightarrow> bool" where
  observes: "seen c i = None \<Longrightarrow> at_work (fleet_of c) i s \<Longrightarrow> Observe ec s = (r, t) \<Longrightarrow>
    call_step ec env edit c
      \<lparr>fleet_of = leaves (fleet_of c) i t, seen = (seen c)(i := (case r of Ok x \<Rightarrow> Some x | _ \<Rightarrow> None))\<rparr>"
| follows: "seen c i = Some x \<Longrightarrow> follow_up (being_deleted (resource (fleet_of c) i)) x = Some op \<Longrightarrow>
    at_work (fleet_of c) i s \<Longrightarrow>
    call_step ec env edit c \<lparr>fleet_of = leaves (fleet_of c) i (perform ec op s), seen = (seen c)(i := None)\<rparr>"
| rests: "seen c i = Some x \<Longrightarrow> follow_up (being_deleted (resource (fleet_of c) i)) x = None \<Longrightarrow>
    call_step ec env edit c (c\<lparr>seen := (seen c)(i := None)\<rparr>)"
| meanwhile: "env (fleet_of c) w \<Longrightarrow> call_step ec env edit c (c\<lparr>fleet_of := (fleet_of c)\<lparr>server := w\<rparr>\<rparr>)"
| edits: "seen c i = None \<Longrightarrow> edit (fleet_of c) i m \<Longrightarrow>
    call_step ec env edit c (c\<lparr>fleet_of := (fleet_of c)\<lparr>resource := (resource (fleet_of c))(i := m)\<rparr>\<rparr>)"

definition call_run :: "'w external_client \<Rightarrow> (('i, 'w) fleet \<Rightarrow> 'w \<Rightarrow> bool) \<Rightarrow> (('i, 'w) fleet \<Rightarrow> 'i \<Rightarrow> managed \<Rightarrow> bool) \<Rightarrow>
    ('i, 'w) calls \<Rightarrow> ('i, 'w) calls \<Rightarrow> bool" where
  "call_run ec env edit = (call_step ec env edit)\<^sup>*\<^sup>*"

lemma call_run_trans: "call_run ec env edit c d \<Longrightarrow> call_run ec env edit d e \<Longrightarrow> call_run ec env edit c e"
  unfolding call_run_def by (rule rtranclp_trans)

section \<open>Whole reconciles are runs of calls\<close>

lemma observed_alone:
  assumes "at_work f i s" and "Observe ec s = (Ok x, t)"
  shows "call_run ec env edit (idle f) \<lparr>fleet_of = leaves f i t, seen = (\<lambda>_. None)(i := Some x)\<rparr>"
  using call_step.observes [of "idle f" i s ec "Ok x" t env edit] assms by (simp add: call_run_def)

lemma followed_alone:
  assumes "at_work f i s" and "Observe ec s = (Ok x, t)"
    and "follow_up (being_deleted (resource (leaves f i t) i)) x = Some op"
  shows "call_run ec env edit (idle f) (idle (leaves f i (perform ec op t)))"
proof -
  let ?c = "\<lparr>fleet_of = leaves f i t, seen = (\<lambda>_. None)(i := Some x)\<rparr>"
  have "call_step ec env edit ?c \<lparr>fleet_of = leaves (fleet_of ?c) i (perform ec op t), seen = (seen ?c)(i := None)\<rparr>"
    by (rule call_step.follows [where x = x]) (use assms(3) in \<open>simp_all add: at_work_def leaves_def\<close>)
  moreover have "\<lparr>fleet_of = leaves (fleet_of ?c) i (perform ec op t), seen = (seen ?c)(i := None)\<rparr> = idle (leaves f i (perform ec op t))"
    by (simp add: idle_def leaves_def fun_upd_idem)
  ultimately show ?thesis using observed_alone [OF assms(1,2), of env edit]
    by (simp add: call_run_def)
qed

lemma rested_alone:
  assumes "at_work f i s" and "Observe ec s = (Ok x, t)"
    and "follow_up (being_deleted (resource (leaves f i t) i)) x = None"
  shows "call_run ec env edit (idle f) (idle (leaves f i t))"
proof -
  let ?c = "\<lparr>fleet_of = leaves f i t, seen = (\<lambda>_. None)(i := Some x)\<rparr>"
  have "call_step ec env edit ?c (?c\<lparr>seen := (seen ?c)(i := None)\<rparr>)"
    by (rule call_step.rests [where x = x]) (use assms(3) in \<open>simp_all\<close>)
  moreover have "?c\<lparr>seen := (seen ?c)(i := None)\<rparr> = idle (leaves f i t)"
    by (simp add: idle_def fun_upd_idem)
  ultimately show ?thesis using observed_alone [OF assms(1,2), of env edit]
    by (simp add: call_run_def idle_def)
qed

lemma failed_alone:
  assumes "at_work f i s" and "Observe ec s = (r, t)" and "\<not> (\<exists>x. r = Ok x)"
  shows "call_run ec env edit (idle f) (idle (leaves f i t))"
  using call_step.observes [of "idle f" i s ec r t env edit] assms
  by (cases r) (simp_all add: call_run_def idle_def fun_upd_idem r_into_rtranclp)

text \<open>A step of a fleet is a run of calls that nothing gets in between of.\<close>

lemma fleet_step_calls:
  assumes "fleet_step ec env edit f x g" and "\<And>s. same_desired (cr s) (cr (snd (Observe ec s)))"
  shows "call_run ec env edit (idle f) (idle g)"
  using assms(1)
proof cases
  case (reconciled i v t)
  let ?s = "fresh_state (server f) (resource f i)"
  have w: "at_work f i ?s" by (simp add: at_work_def)
  have d: "being_deleted (resource (leaves f i t) i) = being_deleted (resource f i)" if "Observe ec ?s = (r, t)" for r t
    using assms(2) [of ?s] that by (simp add: leaves_def same_desired_being_deleted)
  have g: "g = leaves f i t" using reconciled by (simp add: leaves_def)
  note f = followed_alone [OF w, of ec _ _ _ env edit] and r = rested_alone [OF w, of ec _ _ env edit]
  from reconciled(3) have "call_run ec env edit (idle f) (idle (leaves f i t))"
  proof (cases rule: reconcile.cases)
    case (observe_failed r)
    with failed_alone [OF w] show ?thesis by blast
  next
    case (created x u c)
    with f [of x u OpCreate] d [of "Ok x" u] show ?thesis by (simp add: follow_up_def)
  next
    case (create_failed x u r)
    with f [of x u OpCreate] d [of "Ok x" u] show ?thesis by (simp add: follow_up_def)
  next
    case (gone x)
    with r [of x t] d [of "Ok x" t] show ?thesis by (simp add: follow_up_def)
  next
    case (deleted x u)
    with f [of x u OpDelete] d [of "Ok x" u] show ?thesis by (simp add: follow_up_def)
  next
    case (delete_failed x u r)
    with f [of x u OpDelete] d [of "Ok x" u] show ?thesis by (simp add: follow_up_def)
  next
    case (updated x u)
    with f [of x u OpUpdate] d [of "Ok x" u] show ?thesis by (simp add: follow_up_def)
  next
    case (update_failed x u r)
    with f [of x u OpUpdate] d [of "Ok x" u] show ?thesis by (simp add: follow_up_def)
  next
    case (current x)
    with r [of x t] d [of "Ok x" t] show ?thesis by (simp add: follow_up_def)
  qed
  with g show ?thesis by simp
next
  case (elsewhere w)
  with call_step.meanwhile [of env "idle f" w ec edit] show ?thesis by (simp add: call_run_def idle_def r_into_rtranclp)
next
  case (edited_resource i m)
  with call_step.edits [of "idle f" i edit m ec env] show ?thesis by (simp add: call_run_def idle_def r_into_rtranclp)
qed

lemma fleet_run_calls:
  assumes "fleet_run ec env edit f tr g" and "\<And>s. same_desired (cr s) (cr (snd (Observe ec s)))"
  shows "call_run ec env edit (idle f) (idle g)"
  using assms(1)
proof (induction rule: fleet_run.induct)
  case (fleet_idle f)
  then show ?case by (simp add: call_run_def)
qed (use fleet_step_calls [OF _ assms(2)] call_run_trans in blast)+

section \<open>Marks that stay exclusive call by call\<close>

text \<open>
  \<open>ready\<close> is what Observe leaves in a resource it found: from such a one neither Update nor
  Delete sets a mark that was not there.
\<close>

locale exclusive_calls = sparing_external +
  fixes ready :: "managed \<Rightarrow> bool"
  assumes observed_ready: "lawful \<Longrightarrow> Observe ec s = (Ok x, t) \<Longrightarrow> ResourceExists x \<Longrightarrow> ready (cr t)"
    and update_marked: "ready (cr s) \<Longrightarrow> claimed (cr (snd (Update ec s))) \<Longrightarrow> claimed (cr s)"
    and delete_marked: "ready (cr s) \<Longrightarrow> claimed (cr (snd (Delete ec s))) \<Longrightarrow> claimed (cr s)"
begin

definition calls_orderly :: "('i, 'a) calls \<Rightarrow> bool" where
  "calls_orderly c \<longleftrightarrow> orderly claimed nm present (fleet_of c) \<and>
     (\<forall>i x. seen c i = Some x \<longrightarrow> ResourceExists x \<longrightarrow> ready (resource (fleet_of c) i))"

lemma orderly_observed:
  assumes lawful and "orderly claimed nm present f" and s: "at_work f i s"
  shows "orderly claimed nm present (leaves f i (snd (Observe ec s)))"
  unfolding leaves_def
proof (rule orderly_changed [OF assms(2)])
  from s have s: "world s = server f" "cr s = resource f i" by (simp_all add: at_work_def)
  show "nm (cr (snd (Observe ec s))) = nm (resource f i)" "being_deleted (cr (snd (Observe ec s))) = being_deleted (resource f i)"
    using name_desired [OF keeps_observe] same_desired_being_deleted [OF keeps_observe] s(2) by metis+
  show "present x (server f) \<Longrightarrow> present x (world (snd (Observe ec s)))" for x
    using keepsD [OF observe_spares [OF assms(1), of x], of s] s(1) by simp
qed (use observe_no_claim [of s] s in \<open>auto simp: at_work_def\<close>)

lemma orderly_followed:
  assumes lawful and "orderly claimed nm present f" and s: "at_work f i s"
    and op: "follow_up (being_deleted (resource f i)) x = Some op" and r: "ResourceExists x \<Longrightarrow> ready (resource f i)"
  shows "orderly claimed nm present (leaves f i (perform ec op s))"
  unfolding leaves_def
proof (rule orderly_changed [OF assms(2)])
  from s have s: "world s = server f" "cr s = resource f i" by (simp_all add: at_work_def)
  show "nm (cr (perform ec op s)) = nm (resource f i)" "being_deleted (cr (perform ec op s)) = being_deleted (resource f i)"
    using name_desired [OF keeps_perform] same_desired_being_deleted [OF keeps_perform] s(2) by metis+
  from op have cases: "op = OpCreate \<and> \<not> being_deleted (resource f i) \<or>
      op = OpUpdate \<and> ResourceExists x \<or> op = OpDelete \<and> being_deleted (resource f i) \<and> ResourceExists x"
    by (auto simp: follow_up_def split: if_split_asm)
  show "present y (world (perform ec op s))" if "being_deleted (resource f i) \<longrightarrow> y \<noteq> nm (resource f i)" "present y (server f)" for y
    using cases that s keepsD [OF create_spares [OF assms(1), of y], of s] keepsD [OF update_spares [OF assms(1), of y], of s]
      delete_spares [OF assms(1), of y s "fst (Delete ec s)" "snd (Delete ec s)"] by auto
  show "claimed (resource f i) \<or> \<not> being_deleted (resource f i) \<and> \<not> present (nm (resource f i)) (server f) \<and>
      present (nm (resource f i)) (world (perform ec op s))" if m: "claimed (cr (perform ec op s))"
  proof (cases "op = OpCreate")
    case True
    obtain q t where c: "Create ec s = (q, t)" by fastforce
    with True m s failed_create_no_claim [OF c] create_new [OF assms(1), of s] cases show ?thesis by (cases q) auto
  next
    case False
    with cases m r s update_marked [of s] delete_marked [of s] show ?thesis by auto
  qed
qed

lemma calls_orderly_step:
  assumes lawful and u: "undisturbed claimed nm present env edit" and "call_step ec env edit c d" and o: "calls_orderly c"
  shows "calls_orderly d"
  using assms(3)
proof cases
  case (observes i s r t)
  with orderly_observed [OF assms(1) _ observes(3)] o observed_ready [OF assms(1), of s _ t]
  show ?thesis by (auto simp: calls_orderly_def leaves_def split: outcome.splits if_split_asm)
next
  case (follows i x op s)
  with orderly_followed [OF assms(1) _ follows(4,3)] o show ?thesis
    by (auto simp: calls_orderly_def leaves_def split: if_split_asm)
next
  case (rests i x)
  with o show ?thesis by (auto simp: calls_orderly_def split: if_split_asm)
next
  case (meanwhile w)
  with o u show ?thesis by (simp add: calls_orderly_def orderly_def undisturbed_def)
next
  case (edits i m)
  with orderly_edited [OF _ u edits(3)] o show ?thesis by (auto simp: calls_orderly_def split: if_split_asm)
qed

lemma calls_orderly_run:
  assumes lawful and "undisturbed claimed nm present env edit"
    and "call_run ec env edit (idle f) c" and "orderly claimed nm present f"
  shows "orderly claimed nm present (fleet_of c)"
proof -
  have "calls_orderly c"
    using assms(3) unfolding call_run_def
    by (induction rule: rtranclp_induct) (use assms(4) calls_orderly_step [OF assms(1,2)] in \<open>auto simp: calls_orderly_def\<close>)
  then show ?thesis by (simp add: calls_orderly_def)
qed

end

text \<open>
  No operation of the user controller but Create writes the annotation, and none sets the status
  of a user that has neither; a policy that Observe found is marked, so that its Update sets no
  new mark.
\<close>

lemma user_never_marked:
  "user_claimed (cr (snd (Update_user uc s))) \<Longrightarrow> user_claimed (cr s)"
  "user_claimed (cr (snd (Delete_user uc s))) \<Longrightarrow> user_claimed (cr s)"
proof -
  have "keeps (\<lambda>t. cr t = cr s) (Update_user uc)"
    unfolding ctl_defs by (intro keeps_intros; simp)
  from keepsD [OF this, of s] show "user_claimed (cr (snd (Update_user uc s))) \<Longrightarrow> user_claimed (cr s)" by simp
  show "user_claimed (cr (snd (Delete_user uc s))) \<Longrightarrow> user_claimed (cr s)"
    by (cases "cr s") (auto simp: Delete_user_def as_user_def user_claimed_def SetConditions_user_def go_defs split: prod.split_asm sum.split_asm)
qed

interpretation user_calls: exclusive_calls "userClient generate uc" is_user errNotUser user_claimed
  "user_laws generate uc view" server_name "held view" "\<lambda>_. True"
  for generate :: "'w password_gen" and uc :: "('w, 'c) user_client" and view :: "'w account_view"
  by unfold_locales (simp_all add: userClient_def, (erule user_never_marked)+)

lemma policy_observed_marked:
  assumes "Observe_policy lib ma s = (Ok x, t)" and "ResourceExists x"
  shows "policy_claimed (cr t)"
proof -
  from policy.unclaimed_absent [of s lib ma x] assms have "policy_claimed (cr s)" by (auto simp: policyClient_def)
  moreover have "keeps (\<lambda>u. policy_claimed (cr u)) (Observe_policy lib ma)"
    unfolding ctl_defs by (intro keeps_intros; auto simp: policy_claimed_def SetConditions_policy_def)
  ultimately show ?thesis using keepsD [of _ "Observe_policy lib ma" s] assms(1) by fastforce
qed

interpretation policy_calls: exclusive_calls "policyClient lib ma" is_policy errNotPolicy policy_claimed
  "policy_laws lib ma view" server_name "held view" policy_claimed
  for lib :: iam_lib and ma :: "'w admin_client" and view :: "'w canned_view"
  by unfold_locales (simp_all add: policyClient_def policy_observed_marked)

section \<open>Two resources of one name, observed together\<close>

lemma twins_interleaved:
  assumes "Observe ec (fresh_state w m) = (Ok x, fresh_state w m)" and "\<not> ResourceExists x" and "\<not> being_deleted m"
    and "Create ec (fresh_state w m) = (a, t)" and "Create ec (fresh_state (world t) m) = (b, u)"
  shows "call_run ec env edit (idle (twins w m)) (idle \<lparr>server = world u, resource = (\<lambda>_. m)(True := cr t, False := cr u)\<rparr>)"
proof -
  let ?f = "\<lparr>server = world t, resource = (\<lambda>_. m)(True := cr t)\<rparr>"
  let ?one = "(\<lambda>_. None)(True := Some x)"
  let ?two = "?one(False := Some x)"
  have at: "leaves (twins w m) i (fresh_state w m) = twins w m" "at_work (twins w m) i (fresh_state w m)" for i
    by (simp_all add: leaves_def twins_def at_work_def fun_upd_idem)
  have none: "?two(True := None, False := None) = (\<lambda>_. None)" by auto
  have "call_step ec env edit (idle (twins w m)) \<lparr>fleet_of = twins w m, seen = ?one\<rparr>"
    using call_step.observes [of "idle (twins w m)" True "fresh_state w m" ec, OF _ _ assms(1), of env edit] at by simp
  moreover have "call_step ec env edit \<lparr>fleet_of = twins w m, seen = ?one\<rparr> \<lparr>fleet_of = twins w m, seen = ?two\<rparr>"
    using call_step.observes [of "\<lparr>fleet_of = twins w m, seen = ?one\<rparr>" False "fresh_state w m" ec, OF _ _ assms(1), of env edit] at
    by simp
  moreover have "call_step ec env edit \<lparr>fleet_of = twins w m, seen = ?two\<rparr> \<lparr>fleet_of = ?f, seen = ?two(True := None)\<rparr>"
    using call_step.follows [of "\<lparr>fleet_of = twins w m, seen = ?two\<rparr>" True x OpCreate "fresh_state w m" ec env edit] assms(2-4) at
    by (simp add: leaves_def follow_up_def) (simp add: twins_def)
  moreover have "call_step ec env edit \<lparr>fleet_of = ?f, seen = ?two(True := None)\<rparr>
      \<lparr>fleet_of = \<lparr>server = world u, resource = (\<lambda>_. m)(True := cr t, False := cr u)\<rparr>, seen = ?two(True := None, False := None)\<rparr>"
    using call_step.follows [of "\<lparr>fleet_of = ?f, seen = ?two(True := None)\<rparr>" False x OpCreate "fresh_state (world t) m" ec env edit] assms(2,3,5)
    by (simp add: at_work_def leaves_def follow_up_def)
  ultimately show ?thesis unfolding call_run_def idle_def none
    by (meson converse_rtranclp_into_rtranclp rtranclp.rtrancl_refl)
qed

text \<open>Both buckets are marked: the second Create finds the bucket made and takes it for its own.\<close>

lemma twin_bucket_creates:
  "\<exists>t u. Create_bucket mem_client (fresh_state Map.empty (MBucket demo_bucket)) = (Ok None, t) \<and>
     Create_bucket mem_client (fresh_state (world t) (MBucket demo_bucket)) = (Ok None, u)"
  by (simp add: bucket_eval demo_bucket_def fresh_state_def)

lemma twin_buckets_both_marked:
  "\<exists>f. call_run (bucketClient True mem_client) untouched (\<lambda>_ _ _. False) (idle (twins Map.empty (MBucket demo_bucket))) (idle f) \<and>
     (\<forall>i. bucket_claimed (resource f i) \<and> server_name (resource f i) = server_name (MBucket demo_bucket))"
proof -
  from twin_bucket_creates obtain t u where
    c: "Create_bucket mem_client (fresh_state Map.empty (MBucket demo_bucket)) = (Ok None, t)"
       "Create_bucket mem_client (fresh_state (world t) (MBucket demo_bucket)) = (Ok None, u)" by blast
  let ?ec = "bucketClient True mem_client"
  have o: "Observe ?ec (fresh_state Map.empty (MBucket demo_bucket)) = (Ok NoObservation, fresh_state Map.empty (MBucket demo_bucket))"
    by (simp add: bucketClient_def bucket_eval demo_bucket_def fresh_state_def)
  have "call_run ?ec untouched (\<lambda>_ _ _. False) (idle (twins Map.empty (MBucket demo_bucket)))
     (idle \<lparr>server = world u, resource = (\<lambda>_. MBucket demo_bucket)(True := cr t, False := cr u)\<rparr>)"
    by (rule twins_interleaved [OF o]) (use c in \<open>simp_all add: bucketClient_def NoObservation_def demo_bucket_unmarked\<close>)
  moreover have "bucket_claimed (cr t)" "bucket_claimed (cr u)"
    using c bucket.create_claims [of True mem_client] by (auto simp: bucketClient_def)
  moreover have "server_name (cr t) = server_name (MBucket demo_bucket)" "server_name (cr u) = server_name (MBucket demo_bucket)"
    using c bucket.keeps_create [of "fresh_state Map.empty (MBucket demo_bucket)" True mem_client]
      bucket.keeps_create [of "fresh_state (world t) (MBucket demo_bucket)" True mem_client] server_name_desired
    by (fastforce simp: bucketClient_def)+
  ultimately show ?thesis by (intro exI conjI) auto
qed

section \<open>One owner\<close>


text \<open>Two users, and two policies, of one name, observed together: the second Create is refused.\<close>

lemma twin_users_interleaved:
  "\<exists>f. call_run (userClient demo_password demo_uc) untouched (\<lambda>_ _ _. False) (idle (twins demo_server (MUser demo_user))) (idle f) \<and>
     user_claimed (resource f True)"
proof -
  from twin_user_creates obtain c t e u where
    c: "Create_user demo_password demo_uc (fresh_state demo_server (MUser demo_user)) = (Ok c, t)"
       "Create_user demo_password demo_uc (fresh_state (world t) (MUser demo_user)) = (Err e, u)" by blast
  let ?ec = "userClient demo_password demo_uc"
  have "Observe ?ec (fresh_state demo_server (MUser demo_user)) = (Ok NoObservation, fresh_state demo_server (MUser demo_user))"
    by (simp add: userClient_def user_observe_unclaimed [OF demo_user_simps(4)])
  from twins_interleaved [OF this _ demo_user_alive, of "Ok c" t "Err e" u untouched "\<lambda>_ _ _. False"] c
  have "call_run ?ec untouched (\<lambda>_ _ _. False) (idle (twins demo_server (MUser demo_user)))
     (idle \<lparr>server = world u, resource = (\<lambda>_. MUser demo_user)(True := cr t, False := cr u)\<rparr>)"
    by (simp add: userClient_def NoObservation_def)
  moreover have "user_claimed (cr t)" by (rule user_create_claims [OF c(1)])
  ultimately show ?thesis by (intro exI conjI) auto
qed

lemma twin_policies_interleaved:
  "\<exists>f. call_run (policyClient text_lib mem_admin) untouched (\<lambda>_ _ _. False) (idle (twins bare_server (MPolicy (demo_policy ''{}'')))) (idle f) \<and>
     policy_claimed (resource f True)"
proof -
  from twin_policy_creates obtain t e u where
    c: "Create_policy text_lib mem_admin (fresh_state bare_server (MPolicy (demo_policy ''{}''))) = (Ok None, t)"
       "Create_policy text_lib mem_admin (fresh_state (world t) (MPolicy (demo_policy ''{}''))) = (Err e, u)" by blast
  let ?ec = "policyClient text_lib mem_admin"
  have "Observe ?ec (fresh_state bare_server (MPolicy (demo_policy ''{}''))) =
      (Ok NoObservation, fresh_state bare_server (MPolicy (demo_policy ''{}'')))"
    by (simp add: policyClient_def policy_observe_unclaimed [OF demo_policy_unmarked(1)])
  from twins_interleaved [OF this _ demo_policy_unmarked(2), of "Ok None" t "Err e" u untouched "\<lambda>_ _ _. False"] c
  have "call_run ?ec untouched (\<lambda>_ _ _. False) (idle (twins bare_server (MPolicy (demo_policy ''{}''))))
     (idle \<lparr>server = world u, resource = (\<lambda>_. MPolicy (demo_policy ''{}''))(True := cr t, False := cr u)\<rparr>)"
    by (simp add: policyClient_def NoObservation_def)
  moreover have "policy_claimed (cr t)"
    using c(1) policy.create_claims [of text_lib mem_admin] by (auto simp: policyClient_def)
  ultimately show ?thesis by (intro exI conjI) auto
qed


end
