(* ===== verification/Settling.thy ===== *)
theory Settling
  imports Ownership
begin

text \<open>
  How reconciles come to rest. \<open>reconcile_once\<close> is the reconcile relation as a function, so that
  one can say what the next ones do; on a server that answers its calls, a bucket and a policy
  settle with the first reconcile and stay settled. The other kinds are in theories
  \<open>Settling_Users\<close>, \<open>Settling_Accounts\<close> and \<open>Settling_Notifications\<close>.
\<close>

section \<open>Reconciles as a function\<close>

definition reconcile_once :: "'w external_client \<Rightarrow> bool \<Rightarrow> 'w cstate \<Rightarrow> verdict \<times> 'w cstate" where
  "reconcile_once ec d s =
     (case Observe ec s of
        (Ok x, t) \<Rightarrow>
          if \<not> ResourceExists x then
            (if d then (Current, t)
             else (case Create ec t of (Ok _, u) \<Rightarrow> (Created, u) | (_, u) \<Rightarrow> (CreateFailed, u)))
          else if d then (case Delete ec t of (Ok _, u) \<Rightarrow> (Deleted, u) | (_, u) \<Rightarrow> (DeleteFailed, u))
          else if ResourceUpToDate x then (Current, t)
          else (case Update ec t of (Ok _, u) \<Rightarrow> (Updated, u) | (_, u) \<Rightarrow> (UpdateFailed, u))
      | (_, t) \<Rightarrow> (ObserveFailed, t))"

lemma reconcile_once_sound: "reconcile ec d s v t \<Longrightarrow> reconcile_once ec d s = (v, t)"
  by (induction rule: reconcile.induct) (auto simp: reconcile_once_def split: outcome.splits)

lemma reconcile_once_complete: "reconcile ec d s (fst (reconcile_once ec d s)) (snd (reconcile_once ec d s))"
  by (auto simp: reconcile_once_def split: prod.splits outcome.splits intro: reconcile.intros)

lemma reconcile_iff: "reconcile ec d s v t \<longleftrightarrow> reconcile_once ec d s = (v, t)"
  using reconcile_once_sound reconcile_once_complete by (metis fst_conv snd_conv)

definition after_reconciles :: "nat \<Rightarrow> 'w external_client \<Rightarrow> 'w cstate \<Rightarrow> 'w cstate" where
  "after_reconciles k ec s = ((\<lambda>s. snd (reconcile_once ec False s)) ^^ k) s"

text \<open>The first reconcile succeeds, and every later one finds nothing to do.\<close>

definition settles :: "'w external_client \<Rightarrow> 'w cstate \<Rightarrow> bool" where
  "settles ec s \<longleftrightarrow> fst (reconcile_once ec False s) \<in> {Created, Updated, Current} \<and>
     (\<forall>k. fst (reconcile_once ec False (after_reconciles (Suc k) ec s)) = Current)"

lemma repeated:
  assumes "reconcile ec False s v t" and "Q t" and "\<And>s. Q s \<Longrightarrow> \<exists>u. reconcile ec False s w u \<and> Q u"
  shows "fst (reconcile_once ec False (after_reconciles (Suc k) ec s)) = w"
proof -
  from assms(1) have once: "reconcile_once ec False s = (v, t)" by (simp add: reconcile_iff)
  have "Q (after_reconciles (Suc k) ec s)"
  proof (induction k)
    case 0
    then show ?case using once assms(2) by (simp add: after_reconciles_def)
  next
    case (Suc k)
    with assms(3) show ?case by (fastforce simp: after_reconciles_def reconcile_iff)
  qed
  with assms(3) show ?thesis by (fastforce simp: reconcile_iff)
qed

lemma settlesI:
  assumes "reconcile ec False s v t" and "v \<in> {Created, Updated, Current}" and "Q t"
    and "\<And>s. Q s \<Longrightarrow> \<exists>u. reconcile ec False s Current u \<and> Q u"
  shows "settles ec s"
  using repeated [where Q = Q, OF assms(1,3,4)] assms(1,2) by (simp add: settles_def reconcile_iff)

text \<open>
  Whether a resource ever comes to rest, when it does so with the first reconcile or is updated
  again by every later one.
\<close>

definition rests_iff :: "'w external_client \<Rightarrow> bool \<Rightarrow> 'w cstate \<Rightarrow> bool" where
  "rests_iff ec b s \<longleftrightarrow> (settles ec s \<longleftrightarrow> b) \<and>
     (\<not> b \<longrightarrow> (\<forall>k. fst (reconcile_once ec False (after_reconciles (Suc k) ec s)) = Updated))"

lemma rests_iffI:
  assumes "reconcile ec False s v t" and "v \<in> {Created, Updated, Current}" and "Q t"
    and "\<And>s. Q s \<Longrightarrow> \<exists>u. reconcile ec False s (if b then Current else Updated) u \<and> Q u"
  shows "rests_iff ec b s"
  using repeated [where Q = Q, OF assms(1,3,4)] assms(1,2) by (auto simp: rests_iff_def settles_def reconcile_iff)

section \<open>Operations that succeed\<close>

text \<open>\<open>works P m\<close>: from a world with \<open>P\<close>, \<open>m\<close> succeeds and ends in one.\<close>

definition works :: "('w \<Rightarrow> bool) \<Rightarrow> ('w, 'a) ctl \<Rightarrow> bool" where
  "works P m \<longleftrightarrow> (\<forall>s. P (world s) \<longrightarrow> (\<exists>x t. m s = (Ok x, t) \<and> P (world t)))"

definition answers :: "('w \<Rightarrow> bool) \<Rightarrow> ('w, 'a) api \<Rightarrow> bool" where
  "answers P f \<longleftrightarrow> (\<forall>w. P w \<longrightarrow> (\<exists>x w'. f w = (Inr x, w')))"

lemma worksD: "works P m \<Longrightarrow> P (world s) \<Longrightarrow> \<exists>x t. m s = (Ok x, t)"
  unfolding works_def by blast

lemma works_ends: "works P (ret x)" "works P (emit r t)" "works P (log_line l)" "works P (put_cr m)"
  by (simp_all add: works_def go_defs)

lemma works_call: "answers P f \<Longrightarrow> spares P f \<Longrightarrow> works P (call f)"
  by (fastforce simp: works_def answers_def spares_def go_defs)

lemma works_if_err:
  assumes "works P m" and "\<And>x. works P (k x)"
  shows "works P (if_err m h k)"
  unfolding works_def
proof (intro allI impI)
  fix s :: "'a cstate" assume "P (world s)"
  with assms(1) obtain x t where m: "m s = (Ok x, t)" and t: "P (world t)" unfolding works_def by blast
  from assms(2) [of x] t show "\<exists>y u. if_err m h k s = (Ok y, u) \<and> P (world u)"
    unfolding works_def by (simp add: m if_err_def)
qed

lemma works_check: "works P m \<Longrightarrow> (\<And>x. works P (k x)) \<Longrightarrow> works P (check m k)"
  unfolding check_def by (rule works_if_err)

lemma works_seq: "works P m \<Longrightarrow> works P n \<Longrightarrow> works P (seq m n)"
  unfolding seq_def by (rule works_check)

lemma works_If: "(b \<Longrightarrow> works P m) \<Longrightarrow> (\<not> b \<Longrightarrow> works P n) \<Longrightarrow> works P (if b then m else n)"
  by simp

lemma works_option:
  "(x = None \<Longrightarrow> works P m) \<Longrightarrow> (\<And>y. x = Some y \<Longrightarrow> works P (f y)) \<Longrightarrow> works P (case x of None \<Rightarrow> m | Some y \<Rightarrow> f y)"
  by (cases x) auto

lemmas works_intros = works_ends works_call works_check works_seq works_if_err works_If works_option

section \<open>Buckets\<close>

text \<open>
  A server that answers: it makes the bucket when there is none, and when there is one, it takes
  the policy and the tags the resource asks for and tells what it has.
\<close>

definition s3_answers :: "('w, 't, 'n) s3_client \<Rightarrow> 'w server_view \<Rightarrow> string \<Rightarrow> bucket_params \<Rightarrow> bool" where
  "s3_answers mc view n p \<longleftrightarrow>
     answers (\<lambda>_. True) (BucketExists mc n) \<and>
     answers (\<lambda>w. \<not> held view n w) (MakeBucket mc n (bp_Region p)) \<and>
     answers (held view n) (GetBucketPolicy mc n) \<and>
     (\<forall>w. held view n w \<longrightarrow> (case fst (GetBucketTagging mc n w) of Inl e \<Rightarrow> err_code e = ''NoSuchTagSet'' | Inr _ \<Rightarrow> True)) \<and>
     (\<forall>pol. bp_Policy p = Some pol \<longrightarrow> answers (held view n) (SetBucketPolicy mc n pol)) \<and>
     (\<forall>tg. bp_Tags p = Some tg \<longrightarrow> (\<exists>t. NewTags mc tg False = Inr t)) \<and>
     (\<forall>t. answers (held view n) (SetBucketTagging mc n t)) \<and> answers (held view n) (RemoveBucketTagging mc n)"

lemma works_tags_latest:
  assumes "bucket_laws mc view" and "s3_answers mc view n p"
  shows "works (held view n) (bucketTagsLatest mc n tg)"
  unfolding works_def
proof (intro allI impI)
  fix s :: "'a cstate" assume h: "held view n (world s)"
  obtain r w where g: "GetBucketTagging mc n (world s) = (r, w)" by fastforce
  from spares_def [of "held view n" "GetBucketTagging mc n"] bucket_calls_spare(5) [OF assms(1), of n n] g h
  have w: "held view n w" by auto
  from assms(2) g h have "case r of Inl e \<Rightarrow> err_code e = ''NoSuchTagSet'' | Inr _ \<Rightarrow> True" by (auto simp: s3_answers_def)
  with g w show "\<exists>x t. bucketTagsLatest mc n tg s = (Ok x, t) \<and> held view n (world t)"
    by (cases r) (auto simp: bucketTagsLatest_def go_defs split: option.splits)
qed

lemma bucket_calls_work:
  assumes "bucket_laws mc view" and "s3_answers mc view n p"
  shows "works (held view n) (bucketPolicyLatest mc n pol)"
    and "works (held view n) (case bp_Policy p of None \<Rightarrow> ret () | Some pol \<Rightarrow> call (SetBucketPolicy mc n pol))"
    and "\<And>tg. bp_Tags p = Some tg \<Longrightarrow> works (held view n) (case NewTags mc tg False of Inl err \<Rightarrow> fail (ErrApi err)
            | Inr bucketTags \<Rightarrow> call (SetBucketTagging mc n bucketTags))"
    and "works (held view n) (call (RemoveBucketTagging mc n))"
proof -
  note a = assms(2) [unfolded s3_answers_def]
  show "works (held view n) (bucketPolicyLatest mc n pol)"
    unfolding bucketPolicyLatest_def using a by (intro works_intros bucket_calls_spare [OF assms(1)]) simp
  show "works (held view n) (case bp_Policy p of None \<Rightarrow> ret () | Some pol \<Rightarrow> call (SetBucketPolicy mc n pol))"
    using a by (intro works_intros bucket_calls_spare [OF assms(1)]) simp
  show "works (held view n) (case NewTags mc tg False of Inl err \<Rightarrow> fail (ErrApi err)
            | Inr bucketTags \<Rightarrow> call (SetBucketTagging mc n bucketTags))" if "bp_Tags p = Some tg" for tg
  proof -
    from a that obtain t where "NewTags mc tg False = Inr t" "answers (held view n) (SetBucketTagging mc n t)" by blast
    with works_call [OF _ bucket_calls_spare(6) [OF assms(1)]] show ?thesis by simp
  qed
  show "works (held view n) (call (RemoveBucketTagging mc n))"
    using a by (intro works_call bucket_calls_spare [OF assms(1)]) simp
qed

lemma bucket_observe_answers:
  assumes laws: "bucket_laws mc view" and ans: "s3_answers mc view (GetBucketName b) (b_params b)"
    and s: "cr s = MBucket b" and ok: "bucket_claimed (MBucket b) \<or> \<not> held view (GetBucketName b) (world s)"
  shows "\<exists>x t. Observe_bucket mc s = (Ok x, t)"
proof -
  let ?n = "GetBucketName b"
  from laws have rd: "s3_read_laws mc view" by (simp add: bucket_laws_def)
  from ans have "answers (\<lambda>_. True) (BucketExists mc ?n)" by (simp add: s3_answers_def)
  then obtain e w where e: "BucketExists mc ?n (world s) = (Inr e, w)" unfolding answers_def by blast
  from s3_readsD(1) [OF rd e] have ew: "view w = view (world s)" "e = held view ?n (world s)" by (simp_all add: held_def)
  have "works (held view ?n) (observeBucket mc b ?n True)" if "get_annotation (b_meta b) lockAnnotation \<noteq> None"
    unfolding observeBucket_def using that
    by (simp, intro works_intros bucket_calls_work [OF laws ans] works_tags_latest [OF laws ans])
  note listed = worksD [OF this, of "s\<lparr>world := w\<rparr>"]
  have "\<exists>x t. observeBucket mc b ?n e (s\<lparr>world := w\<rparr>) = (Ok x, t)"
  proof (cases e)
    case True
    with ok ew listed show ?thesis by (auto simp: bucket_claimed_def held_def)
  next
    case False
    then show ?thesis by (simp add: observeBucket_def ret_def)
  qed
  with e s show ?thesis by (simp add: Observe_bucket_def as_bucket_def Let_def go_defs)
qed

lemma bucket_create_answers:
  assumes "bucket_laws mc view" and "s3_answers mc view (GetBucketName b) (b_params b)"
    and "cr s = MBucket b" and "\<not> held view (GetBucketName b) (world s)"
  shows "\<exists>c t. Create_bucket mc s = (Ok c, t)"
proof -
  let ?n = "GetBucketName b"
  let ?rest = "seq (case bp_Policy (b_params b) of None \<Rightarrow> ret () | Some pol \<Rightarrow> call (SetBucketPolicy mc ?n pol))
     (seq (case bp_Tags (b_params b) of None \<Rightarrow> ret () | Some tg \<Rightarrow>
          (case NewTags mc tg False of Inl err \<Rightarrow> fail (ErrApi err)
           | Inr bucketTags \<Rightarrow> call (SetBucketTagging mc ?n bucketTags)))
     (seq (put_cr (MBucket (setLock_bucket b))) (seq emitCreationEvent_bucket (ret None))))"
  from assms(2) have "answers (\<lambda>w. \<not> held view ?n w) (MakeBucket mc ?n (bp_Region (b_params b)))" by (simp add: s3_answers_def)
  with assms(4) obtain w where m: "MakeBucket mc ?n (bp_Region (b_params b)) (world s) = (Inr (), w)" by (auto simp: answers_def)
  from assms(1) s3_writesD(1) [OF _ m] have w: "held view ?n w" by (simp add: bucket_laws_def held_def)
  have "works (held view ?n) ?rest"
    unfolding emitCreationEvent_bucket_def by (intro works_intros bucket_calls_work [OF assms(1,2)])
  from worksD [OF this, of "s\<lparr>world := w\<rparr>"] w m assms(3) show ?thesis
    by (simp add: Create_bucket_def as_bucket_def createS3Bucket_def Let_def go_defs)
qed

lemma bucket_update_answers:
  assumes "bucket_laws mc view" and "s3_answers mc view (GetBucketName b) (b_params b)"
    and "cr s = MBucket b" and "held view (GetBucketName b) (world s)"
  shows "\<exists>t. Update_bucket mc s = (Ok (), t)"
proof -
  let ?n = "GetBucketName b"
  have "works (held view ?n) (seq (case bp_Policy (b_params b) of None \<Rightarrow> ret () | Some pol \<Rightarrow> call (SetBucketPolicy mc ?n pol))
     (case bp_Tags (b_params b) of None \<Rightarrow> ret ()
      | Some tg \<Rightarrow>
          if tg = fmempty then call (RemoveBucketTagging mc ?n)
          else (case NewTags mc tg False of Inl err \<Rightarrow> fail (ErrApi err)
                | Inr bucketTags \<Rightarrow> call (SetBucketTagging mc ?n bucketTags))))"
    by (intro works_seq works_option works_ends works_If bucket_calls_work [OF assms(1,2)])
  from worksD [OF this, of s] assms(3,4) show ?thesis by (simp add: Update_bucket_def as_bucket_def)
qed

lemma bucket_synced_current:
  assumes laws: "bucket_laws mc view" and "bucket_synced view s" and "s3_answers mc view n p"
    and "\<And>b. cr s = MBucket b \<Longrightarrow> GetBucketName b = n \<and> b_params b = p"
  shows "\<exists>u. reconcile (bucketClient l mc) False s Current u \<and> bucket_synced view u \<and> same_desired (cr s) (cr u)"
proof -
  from assms(2) obtain b where b: "cr s = MBucket b" "bucket_claimed (MBucket b)" by (auto simp: bucket_synced_def)
  with assms(3,4) bucket_observe_answers [OF laws _ b(1)] obtain x u where ob: "Observe_bucket mc s = (Ok x, u)" by blast
  from laws have "s3_read_laws mc view" by (simp add: bucket_laws_def)
  from bucket_synced_observe [OF this assms(2) ob] have x: "ResourceExists x" "ResourceUpToDate x" "bucket_synced view u" by simp_all
  with ob have r: "reconcile (bucketClient l mc) False s Current u" by (intro reconcile.current) (simp_all add: bucketClient_def)
  from buckets.reconcile_same_desired [OF r] r x show ?thesis by blast
qed

lemma bucket_settles_lemma:
  assumes laws: "bucket_laws mc view" and ans: "s3_answers mc view (GetBucketName b) (b_params b)"
    and s: "cr s = MBucket b" and ok: "bucket_claimed (MBucket b) \<or> \<not> held view (GetBucketName b) (world s)"
  shows "settles (bucketClient l mc) s"
proof -
  let ?Q = "\<lambda>t. bucket_synced view t \<and> same_desired (cr s) (cr t)"
  from laws have rw: "s3_read_laws mc view" "s3_write_laws mc view" by (simp_all add: bucket_laws_def)
  from bucket_observe_answers [OF laws ans s ok] obtain x s' where ob: "Observe_bucket mc s = (Ok x, s')" by blast
  have "\<exists>v t. reconcile (bucketClient l mc) False s v t \<and> v \<in> {Created, Updated, Current} \<and> bucket_synced view t"
  proof (cases "ResourceExists x")
    case False
    from bucket_observed_absent [OF laws ob False] s have n: "\<not> held view (GetBucketName b) (world s)" and s': "cr s' = MBucket b" by auto
    from ob n s have "\<not> held view (GetBucketName b) (world s')"
      by (auto simp: Observe_bucket_def as_bucket_def Let_def if_err_Ok_iff call_Ok_iff observeBucket_def held_def
          split: if_split_asm dest!: s3_readsD(1) [OF rw(1)])
    from bucket_create_answers [OF laws ans s' this] obtain c t where "Create_bucket mc s' = (Ok c, t)" by blast
    with ob False have r: "reconcile (bucketClient l mc) False s Created t" by (intro reconcile.created) (simp_all add: bucketClient_def)
    with bucket_write_syncs [OF rw r] s show ?thesis by (auto simp: is_bucket_def)
  next
    case True
    with bucket_observe_unclaimed [of s mc x] ob s have c: "bucket_claimed (MBucket b)" by auto
    from bucket_observe_spec [OF rw(1) s c ob] True have h: "held view (GetBucketName b) (world s')"
      and s': "cr s' = MBucket (b\<lparr>b_status := (b_status b)\<lparr>bs_BucketName := GetBucketName b,
           bs_Conditions := bs_Conditions (b_status b) @ [XpAvailable]\<rparr>\<rparr>)" (is "_ = MBucket ?b")
      and sy: "ResourceUpToDate x \<Longrightarrow> bucket_synced view s'"
      using c by (auto simp: held_def NoObservation_def bucket_synced_def split: option.splits)
    show ?thesis
    proof (cases "ResourceUpToDate x")
      case True
      with ob \<open>ResourceExists x\<close> have "reconcile (bucketClient l mc) False s Current s'" by (intro reconcile.current) (simp_all add: bucketClient_def)
      with sy True show ?thesis by auto
    next
      case False
      from bucket_update_answers [OF laws _ s'] ans h obtain t where "Update_bucket mc s' = (Ok (), t)" by auto
      with ob False \<open>ResourceExists x\<close> have r: "reconcile (bucketClient l mc) False s Updated t"
        by (intro reconcile.updated) (simp_all add: bucketClient_def)
      with bucket_write_syncs [OF rw r] s show ?thesis by (auto simp: is_bucket_def)
    qed
  qed
  then obtain v t where r: "reconcile (bucketClient l mc) False s v t" "v \<in> {Created, Updated, Current}" "bucket_synced view t" by blast
  have "?Q t" using r(3) buckets.reconcile_same_desired [OF r(1)] by simp
  moreover have "\<exists>w. reconcile (bucketClient l mc) False u Current w \<and> ?Q w" if q: "?Q u" for u
  proof -
    have "GetBucketName c = GetBucketName b \<and> b_params c = b_params b" if "cr u = MBucket c" for c
      using q that s server_name_desired [of "cr s" "cr u"] by auto
    with bucket_synced_current [OF laws _ ans] q show ?thesis by (blast intro: same_desired_trans)
  qed
  ultimately show ?thesis using settlesI [where Q = ?Q, OF r(1,2)] by blast
qed

section \<open>Policies\<close>

text \<open>
  The library can write the policy the resource describes, and read it and whatever the server
  lists; the server takes it and lists what it has. The resource describes one policy, as the
  webhook requires, and has annotations.
\<close>

definition described :: "iam_lib \<Rightarrow> policy_params \<Rightarrow> string \<Rightarrow> bool" where
  "described lib p doc \<longleftrightarrow>
     (if pp_AllowBucket p \<noteq> [] then
        ValidatePolicy lib (allowBucketPolicy lib (pp_AllowBucket p)) = None \<and>
        MarshalPolicy lib (allowBucketPolicy lib (pp_AllowBucket p)) = Inr doc
      else doc = pp_RawPolicy p)"

definition readable :: "iam_lib \<Rightarrow> string \<Rightarrow> bool" where
  "readable lib doc \<longleftrightarrow> (case UnmarshalPolicy lib doc of Inl _ \<Rightarrow> False | Inr _ \<Rightarrow> True)"

definition policy_answers :: "iam_lib \<Rightarrow> 'w admin_client \<Rightarrow> 'w canned_view \<Rightarrow> string \<Rightarrow> policy_params \<Rightarrow> bool" where
  "policy_answers lib ma view n p \<longleftrightarrow>
     (pp_AllowBucket p \<noteq> []) \<noteq> (pp_RawPolicy p \<noteq> []) \<and>
     (\<exists>doc. described lib p doc \<and> readable lib doc \<and> answers (\<lambda>_. True) (AddCannedPolicy ma n doc)) \<and>
     answers (\<lambda>_. True) (ListCannedPolicies ma) \<and> (\<forall>w m q. view w m = Some q \<longrightarrow> readable lib q)"

lemma sameObject_answers: "readable lib a \<Longrightarrow> readable lib b \<Longrightarrow> \<exists>e. sameObject lib a b s = (Ok e, s)"
  by (auto simp: readable_def sameObject_def lib_call_def go_defs split: sum.splits)

lemma matches_answers:
  assumes "policy_answers lib ma view n (p_params p)" and "readable lib q"
  shows "\<exists>e. matchesAllowBucket lib p q s = (Ok e, s)" and "\<exists>e. matchesRawPolicy lib p q s = (Ok e, s)"
proof -
  from assms(1) obtain doc where d: "described lib (p_params p) doc" "readable lib doc"
    and one: "(pp_AllowBucket (p_params p) \<noteq> []) \<noteq> (pp_RawPolicy (p_params p) \<noteq> [])" by (auto simp: policy_answers_def)
  from d sameObject_answers [OF d(2) assms(2), of s] show "\<exists>e. matchesAllowBucket lib p q s = (Ok e, s)"
    by (auto simp: matchesAllowBucket_def described_def getAllowBucketPolicy_def lib_call_def check_def if_err_def ret_def fail_def)
  from d one sameObject_answers [OF d(2) assms(2), of s] show "\<exists>e. matchesRawPolicy lib p q s = (Ok e, s)"
    by (auto simp: matchesRawPolicy_def described_def ret_def)
qed

lemma policies_listed_answer:
  assumes "canned_laws lib ma view" and "policy_answers lib ma view n p"
  shows "\<exists>w. ListCannedPolicies ma (world s) = (Inr (view (world s)), w) \<and> view w = view (world s)"
proof -
  from assms(2) have "answers (\<lambda>_. True) (ListCannedPolicies ma)" by (simp add: policy_answers_def)
  then obtain m w where l: "ListCannedPolicies ma (world s) = (Inr m, w)" unfolding answers_def by blast
  with canned_lawsD(1) [OF assms(1) l] show ?thesis by simp
qed

lemma policy_observe_answers:
  assumes laws: "canned_laws lib ma view" and ans: "policy_answers lib ma view (policyName p) (p_params p)"
    and s: "cr s = MPolicy p"
  shows "\<exists>x t. Observe_policy lib ma s = (Ok x, t)"
proof (cases "view (world s) (policyName p)")
  case None
  with policies_listed_answer [OF laws ans, of s] s show ?thesis
    by (auto simp: Observe_policy_def as_policy_def go_defs)
next
  case (Some q)
  with ans have "readable lib q" by (auto simp: policy_answers_def)
  from matches_answers [OF ans this] obtain e1 e2 where
    "\<And>s :: 'a cstate. matchesAllowBucket lib p q s = (Ok (e1 s), s)" "\<And>s :: 'a cstate. matchesRawPolicy lib p q s = (Ok (e2 s), s)" by metis
  with Some policies_listed_answer [OF laws ans, of s] s show ?thesis
    by (auto simp: Observe_policy_def as_policy_def outdated_def go_defs)
qed

lemma policy_part_answers:
  assumes "policy_answers lib ma view (policyName p) (p_params p)" and "Annotations (p_meta p) \<noteq> None"
  shows "\<exists>t. (if pp_AllowBucket (p_params p) \<noteq> [] then createBucketPolicy lib ma p else createRawPolicy ma p) s = (Ok (), t)"
proof -
  from assms(1) obtain doc where d: "described lib (p_params p) doc" "answers (\<lambda>_. True) (AddCannedPolicy ma (policyName p) doc)"
    by (auto simp: policy_answers_def)
  then obtain w where "AddCannedPolicy ma (policyName p) doc (world s) = (Inr (), w)" unfolding answers_def by auto
  with d(1) assms(2) show ?thesis
    by (auto simp: described_def createBucketPolicy_def createRawPolicy_def getAllowBucketPolicy_def setLock_policy_def lib_call_def go_defs)
qed

lemma policy_observe_facts:
  assumes laws: "canned_laws lib ma view" and s: "cr s = MPolicy p"
    and ok: "policy_claimed (MPolicy p) \<or> \<not> held view (policyName p) (world s)"
    and ob: "Observe_policy lib ma s = (Ok x, s')"
  shows "\<exists>p'. cr s' = MPolicy p' \<and> p_params p' = p_params p \<and> p_meta p' = p_meta p \<and>
    (ResourceExists x \<longleftrightarrow> view (world s') (policyName p') \<noteq> None) \<and> (ResourceUpToDate x \<longrightarrow> policy_written lib view s')"
proof (cases "policy_claimed (MPolicy p)")
  case True
  from policy_observe_spec [OF laws s True ob] obtain p' where p': "cr s' = MPolicy p'" "p_params p' = p_params p" "p_meta p' = p_meta p"
    and v: "view (world s') = view (world s)"
    and x: "x = (case view (world s) (policyName p) of None \<Rightarrow> NoObservation
      | Some q \<Rightarrow> \<lparr>ResourceExists = True, ResourceUpToDate = policy_in_sync lib (p_params p) q\<rparr>)" by blast
  from p' True have "policyName p' = policyName p" "policy_claimed (MPolicy p')" by (simp_all add: policyName_def policy_claimed_def)
  with p' v x show ?thesis by (auto simp: policy_written_def NoObservation_def split: option.splits)
next
  case False
  with policy_observe_unclaimed [OF False s] ob ok s show ?thesis by (auto simp: NoObservation_def held_def)
qed

lemma policy_reconcile_answers:
  assumes laws: "canned_laws lib ma view" and ans: "policy_answers lib ma view (policyName p) (p_params p)"
    and s: "cr s = MPolicy p" and ann: "Annotations (p_meta p) \<noteq> None"
    and ok: "policy_claimed (MPolicy p) \<or> \<not> held view (policyName p) (world s)"
  shows "\<exists>v t. reconcile (policyClient lib ma) False s v t \<and> v \<in> {Created, Updated, Current} \<and> policy_written lib view t"
proof -
  from policy_observe_answers [OF laws ans s] obtain x s' where ob: "Observe_policy lib ma s = (Ok x, s')" by blast
  from policy_observe_facts [OF laws s ok ob] obtain p' where p': "cr s' = MPolicy p'" "p_params p' = p_params p" "p_meta p' = p_meta p"
    and ex: "ResourceExists x \<longleftrightarrow> view (world s') (policyName p') \<noteq> None" and up: "ResourceUpToDate x \<Longrightarrow> policy_written lib view s'" by blast
  have n: "policyName p' = policyName p" using p' by (simp add: policyName_def)
  from ans have one: "(pp_AllowBucket (p_params p) \<noteq> []) \<noteq> (pp_RawPolicy (p_params p) \<noteq> [])" by (simp add: policy_answers_def)
  have part: "\<exists>t. (if pp_AllowBucket (p_params p') \<noteq> [] then createBucketPolicy lib ma p' else createRawPolicy ma p') u = (Ok (), t)" for u :: "'a cstate"
    by (rule policy_part_answers) (use ans ann p' n in simp_all)
  from policies_listed_answer [OF laws ans, of s'] obtain w where
    l: "ListCannedPolicies ma (world s') = (Inr (view (world s')), w)" by blast
  have fin: "policy_written lib view t" if "reconcile (policyClient lib ma) False s v t" "v \<in> {Created, Updated}" for v t
    using policy_write_done [OF laws that s] one by blast
  show ?thesis
  proof (cases "ResourceExists x")
    case False
    with ex part [of "s'\<lparr>world := w\<rparr>"] l p' one have "\<exists>c t. Create_policy lib ma s' = (Ok c, t)"
      by (auto simp: Create_policy_def as_policy_def go_defs split: if_split_asm)
    then obtain c t where "Create_policy lib ma s' = (Ok c, t)" by blast
    with ob False have "reconcile (policyClient lib ma) False s Created t" by (intro reconcile.created) (simp_all add: policyClient_def)
    with fin show ?thesis by blast
  next
    case ex': True
    show ?thesis
    proof (cases "ResourceUpToDate x")
      case True
      with ob ex' have "reconcile (policyClient lib ma) False s Current s'" by (intro reconcile.current) (simp_all add: policyClient_def)
      with up True show ?thesis by blast
    next
      case False
      let ?e = "\<lparr>ev_Reason = ''Updated'', ev_Message = ''Policy successfully updated''\<rparr>"
      from ex ex' part [of "s'\<lparr>world := w, events := events s' @ [?e]\<rparr>"] l p' one have "\<exists>t. Update_policy lib ma s' = (Ok (), t)"
        by (auto simp: Update_policy_def as_policy_def go_defs split: if_split_asm)
      then obtain t where "Update_policy lib ma s' = (Ok (), t)" by blast
      with ob ex' False have "reconcile (policyClient lib ma) False s Updated t" by (intro reconcile.updated) (simp_all add: policyClient_def)
      with fin show ?thesis by blast
    qed
  qed
qed

lemma policy_settles_lemma:
  assumes laws: "canned_laws lib ma view" and ans: "policy_answers lib ma view (policyName p) (p_params p)"
    and s: "cr s = MPolicy p" and ann: "Annotations (p_meta p) \<noteq> None"
    and ok: "policy_claimed (MPolicy p) \<or> \<not> held view (policyName p) (world s)"
  shows "settles (policyClient lib ma) s"
proof -
  let ?Q = "\<lambda>t. policy_written lib view t \<and> same_desired (cr s) (cr t)"
  from policy_reconcile_answers [OF assms] obtain v t where
    r: "reconcile (policyClient lib ma) False s v t" "v \<in> {Created, Updated, Current}" "policy_written lib view t" by blast
  have "?Q t" using r(3) policies.reconcile_same_desired [OF r(1)] by simp
  moreover have "\<exists>w. reconcile (policyClient lib ma) False u Current w \<and> ?Q w" if q: "?Q u" for u
  proof -
    from q obtain p' where p': "cr u = MPolicy p'" by (auto simp: policy_written_def)
    with q s have "p_params p' = p_params p" "policyName p' = policyName p" by (auto simp: policyName_def same_identity_def)
    with policy_observe_answers [OF laws _ p'] ans obtain x w where ob: "Observe_policy lib ma u = (Ok x, w)" by auto
    from policy_written_observe [OF laws _ ob] q have "ResourceExists x" "ResourceUpToDate x" "policy_written lib view w" by simp_all
    moreover from this ob have r: "reconcile (policyClient lib ma) False u Current w" by (intro reconcile.current) (simp_all add: policyClient_def)
    ultimately show ?thesis using q policies.reconcile_same_desired [OF r] by (blast intro: same_desired_trans)
  qed
  ultimately show ?thesis using settlesI [where Q = ?Q, OF r(1,2)] by blast
qed

section \<open>What comes to rest\<close>




lemma mem_s3_answers: "s3_answers mem_client mem_view n p"
  by (auto simp: s3_answers_def answers_def held_def mem_defs split: option.splits)

lemma mem_policy_answers: "policy_answers text_lib mem_admin canned ''readonly'' (p_params (demo_policy ''{}''))"
  by (auto simp: policy_answers_def answers_def described_def readable_def mem_admin_def text_lib_def demo_policy_def)


end
