(* ===== verification/Settling_Users.thy ===== *)
theory Settling_Users
  imports Settling "HOL-Library.Char_ord" "HOL-Library.List_Lexorder"
begin

text \<open>
  When a user comes to rest. The controller compares the policies in order, while attaching and
  detaching only decide which ones there are, so it is the order in which the server lists them
  that settles whether an update is ever the last one.
\<close>

section \<open>Servers that answer\<close>

text \<open>A server that lists the policies of a user in an order of its own.\<close>

definition lists_in_order :: "'w account_view \<Rightarrow> (string set \<Rightarrow> string list) \<Rightarrow> bool" where
  "lists_in_order view ord \<longleftrightarrow> (\<forall>w n a. view w n = Some a \<longrightarrow> ac_Policies a = ord (set (ac_Policies a)))"

text \<open>
  A server that answers the calls for one user, whose connection secret, once the user exists, holds
  credentials the server accepts.
\<close>

definition accepted :: "api_error + unit \<Rightarrow> bool" where
  "accepted r \<longleftrightarrow> (case r of Inl err \<Rightarrow> error_text (ErrApi err) = ''Access Denied.'' | Inr _ \<Rightarrow> True)"

definition secret_accepted :: "('w, 'c) user_client \<Rightarrow> ('w \<Rightarrow> bool) \<Rightarrow> user \<Rightarrow> secret \<Rightarrow> bool" where
  "secret_accepted uc P u sec \<longleftrightarrow>
     (\<exists>name. WriteConnectionSecretToReference (u_spec u) = Some name \<and>
        (\<forall>w. P w \<longrightarrow> fst (KubeGetSecret (uc_kube uc) name (Namespace (u_meta u)) w) = Inr sec)) \<and>
     (\<exists>c. uc_NewS3 uc (url_Host (uc_url uc))
            \<lparr>opt_AccessKey = map_get sec AccessKeyName, opt_SecretKey = map_get sec SecretKeyName,
             opt_Secure = uc_tlsSettings uc, opt_Transport = None\<rparr> = Inr c \<and>
          (\<forall>w. P w \<longrightarrow> accepted (fst (uc_ListBuckets uc c w))))"

definition user_answers :: "'w password_gen \<Rightarrow> ('w, 'c) user_client \<Rightarrow> 'w account_view \<Rightarrow> user \<Rightarrow> bool" where
  "user_answers generate uc view u \<longleftrightarrow>
     GetUserName u \<noteq> [] \<and>
     answers (\<lambda>_. True) (generate 64 5 0 False True) \<and> answers (\<lambda>_. True) (ListUsers (uc_ma uc)) \<and>
     answers (held view (GetUserName u)) (GetUserInfo (uc_ma uc) (GetUserName u)) \<and>
     (\<forall>k. answers (\<lambda>w. \<not> held view (GetUserName u) w) (AddUser (uc_ma uc) (GetUserName u) k)) \<and>
     answers (held view (GetUserName u)) (AttachPolicy (uc_ma uc) (slice (up_Policies (u_params u))) (GetUserName u)) \<and>
     (\<forall>ps. answers (held view (GetUserName u)) (DetachPolicy (uc_ma uc) ps (GetUserName u))) \<and>
     (\<exists>sec. secret_accepted uc (held view (GetUserName u)) u sec \<and>
        answers (held view (GetUserName u)) (SetUser (uc_ma uc) (map_get sec AccessKeyName) (map_get sec SecretKeyName) AccountEnabled))"

lemma same_desired_userD:
  "same_desired (MUser u) (MUser v) \<Longrightarrow> GetUserName v = GetUserName u \<and> u_params v = u_params u \<and> u_spec v = u_spec u \<and>
     Namespace (u_meta v) = Namespace (u_meta u)"
  by (auto simp: same_identity_def GetUserName_def)

lemma user_answers_desired: "same_desired (MUser u) (MUser v) \<Longrightarrow> user_answers g uc view v \<longleftrightarrow> user_answers g uc view u"
  by (drule same_desired_userD) (simp add: user_answers_def secret_accepted_def)

lemma user_listed_answer:
  assumes "user_laws g uc view" and "user_answers g uc view u"
  shows "\<exists>w'. ListUsers (uc_ma uc) w = (Inr (\<lambda>n. map_option account_info (view w n)), w') \<and> view w' = view w"
proof -
  from assms(2) have "answers (\<lambda>_. True) (ListUsers (uc_ma uc))" by (simp add: user_answers_def)
  then obtain m w' where l: "ListUsers (uc_ma uc) w = (Inr m, w')" unfolding answers_def by blast
  with assms(1) user_readsD(2) [OF _ l] show ?thesis by (auto simp: user_laws_def)
qed

lemma credentials_accepted:
  assumes laws: "user_laws g uc view" and ans: "user_answers g uc view u" and h: "held view (GetUserName u) (world s)"
    and v: "u_spec v = u_spec u" "Namespace (u_meta v) = Namespace (u_meta u)"
  shows "\<exists>t. checkCredentials uc v s = (Ok \<lparr>ResourceExists = True, ResourceUpToDate = True\<rparr>, t) \<and>
    view (world t) = view (world s) \<and> cr t = cr s"
proof -
  from laws have un: "unnoticed view (KubeGetSecret (uc_kube uc) n ns)" "unnoticed view (uc_ListBuckets uc c)" for n ns c
    by (simp_all add: user_laws_def user_sparing_laws_def)
  from ans obtain sec where "secret_accepted uc (held view (GetUserName u)) u sec" by (auto simp: user_answers_def)
  then obtain name c where n: "WriteConnectionSecretToReference (u_spec u) = Some name"
    "\<And>w. held view (GetUserName u) w \<Longrightarrow> fst (KubeGetSecret (uc_kube uc) name (Namespace (u_meta u)) w) = Inr sec"
    and c: "uc_NewS3 uc (url_Host (uc_url uc))
            \<lparr>opt_AccessKey = map_get sec AccessKeyName, opt_SecretKey = map_get sec SecretKeyName,
             opt_Secure = uc_tlsSettings uc, opt_Transport = None\<rparr> = Inr c"
    and acc: "\<And>w. held view (GetUserName u) w \<Longrightarrow> accepted (fst (uc_ListBuckets uc c w))"
    unfolding secret_accepted_def by blast
  obtain w where w: "KubeGetSecret (uc_kube uc) name (Namespace (u_meta u)) (world s) = (Inr sec, w)"
    using n(2) [OF h] by (metis prod.collapse)
  with unnoticedD [OF un(1)] have vw: "view w = view (world s)" by blast
  with h have hw: "held view (GetUserName u) w" by (simp add: held_def)
  obtain r w' where b: "uc_ListBuckets uc c w = (r, w')" by fastforce
  with unnoticedD [OF un(2)] vw have vw': "view w' = view (world s)" by metis
  from acc [OF hw] b have a: "accepted r" by simp
  show ?thesis
    using a by (cases r) (simp_all add: checkCredentials_def v n(1) w c b vw' accepted_def go_defs)
qed

text \<open>Observe of a marked user answers, and tells what the server has.\<close>

lemma user_observe_answers:
  assumes laws: "user_laws g uc view" and ans: "user_answers g uc view u" and s: "cr s = MUser u"
    and c: "user_claimed (MUser u)"
  shows "\<exists>t v. Observe_user uc s =
      (Ok (case view (world s) (GetUserName u) of None \<Rightarrow> NoObservation
         | Some a \<Rightarrow> \<lparr>ResourceExists = True, ResourceUpToDate = policies_match (up_Policies (u_params u)) (ac_Policies a)\<rparr>), t) \<and>
    view (world t) = view (world s) \<and> cr t = MUser v \<and> Annotations (u_meta v) = Annotations (u_meta u) \<and>
    (held view (GetUserName u) (world s) \<longrightarrow> user_claimed (MUser v))"
proof -
  let ?u1 = "u\<lparr>u_status := (u_status u)\<lparr>us_UserName := GetUserName u\<rparr>\<rparr>"
  from ans have ne: "GetUserName u \<noteq> []" by (simp add: user_answers_def)
  from user_listed_answer [OF laws ans, of "world s"] obtain w where
    l: "ListUsers (uc_ma uc) (world s) = (Inr (\<lambda>n. map_option account_info (view (world s) n)), w)" and vw: "view w = view (world s)" by blast
  show ?thesis
  proof (cases "view (world s) (GetUserName u)")
    case None
    with l vw s c show ?thesis
      by (auto simp: Observe_user_def as_user_def user_claimed_def NoObservation_def Let_def go_defs held_def)
  next
    case (Some a)
    let ?i = "account_info a"
    from laws have "user_read_laws (uc_ma uc) view" by (simp add: user_laws_def)
    from equalPolicies_match [OF user_readsD(1) [OF this Some]]
    have eq: "equalPolicies ?i ?u1 \<longleftrightarrow> policies_match (up_Policies (u_params u)) (ac_Policies a)" by simp
    let ?s1 = "s\<lparr>cr := MUser ?u1, world := w\<rparr>"
    have cred: "\<exists>t'. checkCredentials uc v t = (Ok \<lparr>ResourceExists = True, ResourceUpToDate = True\<rparr>, t') \<and>
        view (world t') = view (world s) \<and> cr t' = cr t" if "world t = w" "u_spec v = u_spec u" "u_meta v = u_meta u" for v t
      using credentials_accepted [OF laws ans, of t v] that Some vw by (simp add: held_def)
    have "\<exists>t v. observeMinioUser uc ?u1 ?i ?s1 =
        (Ok \<lparr>ResourceExists = True, ResourceUpToDate = policies_match (up_Policies (u_params u)) (ac_Policies a)\<rparr>, t) \<and>
        view (world t) = view (world s) \<and> cr t = MUser v \<and> u_meta v = u_meta u \<and> us_UserName (u_status v) = GetUserName u"
    proof (cases "equalPolicies ?i ?u1")
      case False
      with eq vw show ?thesis by (auto simp: observeMinioUser_def SetConditions_user_def go_defs)
    next
      case True
      let ?v = "SetConditions_user (?u1\<lparr>u_status := (u_status ?u1)\<lparr>us_Status := ui_Status ?i, us_Policies := ui_PolicyName ?i\<rparr>\<rparr>)
        (if ui_Status ?i = AccountEnabled then XpAvailable else Disabled)"
      have m: "u_spec ?v = u_spec u" "u_meta ?v = u_meta u" "us_UserName (u_status ?v) = GetUserName u"
        by (simp_all add: SetConditions_user_def)
      from cred [of "?s1\<lparr>cr := MUser ?v\<rparr>" ?v] m obtain t where
        t: "checkCredentials uc ?v (?s1\<lparr>cr := MUser ?v\<rparr>) = (Ok \<lparr>ResourceExists = True, ResourceUpToDate = True\<rparr>, t)"
          "view (world t) = view (world s)" "cr t = MUser ?v" by auto
      have "observeMinioUser uc ?u1 ?i ?s1 =
        (if DeletionTimestamp (u_meta u) = None then checkCredentials uc ?v
         else ret \<lparr>ResourceExists = True, ResourceUpToDate = True\<rparr>) (?s1\<lparr>cr := MUser ?v\<rparr>)"
        using True by (simp add: observeMinioUser_def Let_def seq_def check_def if_err_def put_cr_def)
      with t m eq True vw show ?thesis
        by (cases "DeletionTimestamp (u_meta u) = None") (auto simp: ret_def)
    qed
    then obtain t v where o: "observeMinioUser uc ?u1 ?i ?s1 =
        (Ok \<lparr>ResourceExists = True, ResourceUpToDate = policies_match (up_Policies (u_params u)) (ac_Policies a)\<rparr>, t)"
      "view (world t) = view (world s)" "cr t = MUser v" "u_meta v = u_meta u" "us_UserName (u_status v) = GetUserName u" by blast
    from o(1) l Some s c have "Observe_user uc s =
        (Ok \<lparr>ResourceExists = True, ResourceUpToDate = policies_match (up_Policies (u_params u)) (ac_Policies a)\<rparr>, t)"
      by (auto simp: Observe_user_def as_user_def user_claimed_def Let_def go_defs)
    with o Some ne show ?thesis by (auto simp: user_claimed_def)
  qed
qed

text \<open>A user with its policies in the order the server lists them, or with none.\<close>

definition in_order :: "(string set \<Rightarrow> string list) \<Rightarrow> string list option \<Rightarrow> bool" where
  "in_order ord desired \<longleftrightarrow> (case desired of None \<Rightarrow> True | Some d \<Rightarrow> d \<noteq> [] \<and> d = ord (set d))"

definition user_attached :: "'w account_view \<Rightarrow> 'w cstate \<Rightarrow> bool" where
  "user_attached view s \<longleftrightarrow> (\<exists>u a. cr s = MUser u \<and> user_claimed (MUser u) \<and> view (world s) (GetUserName u) = Some a \<and>
     set (ac_Policies a) = set (slice (up_Policies (u_params u))))"

lemma attached_match:
  assumes "lists_in_order view ord" and "view w n = Some a" and "set (ac_Policies a) = set (slice d)"
  shows "policies_match d (ac_Policies a) \<longleftrightarrow> in_order ord d"
proof -
  from assms(1,2) have o: "ac_Policies a = ord (set (ac_Policies a))" by (simp add: lists_in_order_def)
  show ?thesis
  proof (cases d)
    case (Some x)
    with o assms(3) have "ac_Policies a = ord (set x)" by simp
    with Some show ?thesis by (auto simp: policies_match_def in_order_def)
  qed (use assms(3) in \<open>simp add: policies_match_def in_order_def\<close>)
qed

lemma check_deref: "check (deref (Some x)) k = k x"
  by (simp add: fun_eq_iff go_defs)

lemma user_create_answers:
  assumes laws: "user_laws g uc view" and ans: "user_answers g uc view u" and s: "cr s = MUser u"
    and n: "\<not> held view (GetUserName u) (world s)" and ann: "Annotations (u_meta u) \<noteq> None"
  shows "\<exists>c t. Create_user g uc s = (Ok c, t)"
proof -
  note l = laws [unfolded user_laws_def]
  note a = ans [unfolded user_answers_def]
  from a obtain k w1 where k: "g 64 5 0 False True (world s) = (Inr k, w1)" unfolding answers_def by blast
  with l have v1: "view w1 = view (world s)" by (auto simp: user_sparing_laws_def dest: unnoticedD)
  from user_listed_answer [OF laws ans, of w1] obtain w2 where
    li: "ListUsers (uc_ma uc) w1 = (Inr (\<lambda>n. map_option account_info (view w1 n)), w2)" and v2: "view w2 = view w1" by blast
  from n v1 v2 have "\<not> held view (GetUserName u) w2" by (simp add: held_def)
  with a obtain w3 where ad: "AddUser (uc_ma uc) (GetUserName u) k w2 = (Inr (), w3)" by (force simp: answers_def)
  from user_writesD(1) [OF _ ad] l have h: "held view (GetUserName u) w3" by (auto simp: held_def)
  have "works (held view (GetUserName u)) (setUserPolicies (uc_ma uc) (GetUserName u) (up_Policies (u_params u)))"
    unfolding setUserPolicies_def using a by (intro works_intros user_calls_spare [OF laws]) simp
  from worksD [OF this, of "s\<lparr>world := w3\<rparr>"] h obtain t where
    "setUserPolicies (uc_ma uc) (GetUserName u) (up_Policies (u_params u)) (s\<lparr>world := w3\<rparr>) = (Ok (), t)" by auto
  with s k v1 n li ad ann show ?thesis
    by (auto simp: Create_user_def userExists_def as_user_def held_def go_defs)
qed

lemma user_update_answers:
  assumes laws: "user_laws g uc view" and ans: "user_answers g uc view u" and s: "cr s = MUser u"
    and h: "held view (GetUserName u) (world s)"
  shows "\<exists>t. Update_user uc s = (Ok (), t)"
proof -
  let ?P = "held view (GetUserName u)"
  note a = ans [unfolded user_answers_def]
  from a obtain sec where sec: "secret_accepted uc ?P u sec"
    and set: "answers ?P (SetUser (uc_ma uc) (map_get sec AccessKeyName) (map_get sec SecretKeyName) AccountEnabled)" by blast
  from sec obtain name where name: "WriteConnectionSecretToReference (u_spec u) = Some name"
    and get: "\<And>w. ?P w \<Longrightarrow> fst (KubeGetSecret (uc_kube uc) name (Namespace (u_meta u)) w) = Inr sec"
    by (auto simp: secret_accepted_def)
  have push: "works ?P (check (call (KubeGetSecret (uc_kube uc) name (Namespace (u_meta u)))) (\<lambda>sec.
      call (SetUser (uc_ma uc) (map_get sec AccessKeyName) (map_get sec SecretKeyName) AccountEnabled)))"
    unfolding works_def
  proof (intro allI impI)
    fix s :: "'a cstate" assume p: "?P (world s)"
    obtain w where w: "KubeGetSecret (uc_kube uc) name (Namespace (u_meta u)) (world s) = (Inr sec, w)"
      using get [OF p] by (metis prod.collapse)
    from user_calls_spare(2) [OF laws] p w have "?P w" by (metis spares_def snd_conv)
    with works_call [OF set user_calls_spare(5) [OF laws]] w
    show "\<exists>x t. check (call (KubeGetSecret (uc_kube uc) name (Namespace (u_meta u)))) (\<lambda>sec.
      call (SetUser (uc_ma uc) (map_get sec AccessKeyName) (map_get sec SecretKeyName) AccountEnabled)) s = (Ok x, t) \<and> ?P (world t)"
      unfolding works_def by (auto simp: check_def if_err_def call_def go_defs dest!: spec [of _ "s\<lparr>world := w\<rparr>"])
  qed
  have "works ?P (check (call (GetUserInfo (uc_ma uc) (GetUserName u))) (\<lambda>userInfo.
       let split = str_split CHR '','' (ui_PolicyName userInfo);
           policies = (if hd split = [] then [] else split) in
       seq (if policies \<noteq> [] then call (DetachPolicy (uc_ma uc) policies (GetUserName u)) else ret ())
       (seq (setUserPolicies (uc_ma uc) (GetUserName u) (up_Policies (u_params u)))
       (seq (if DeletionTimestamp (u_meta u) = None then
               check (deref (WriteConnectionSecretToReference (u_spec u))) (\<lambda>name.
               check (call (KubeGetSecret (uc_kube uc) name (Namespace (u_meta u)))) (\<lambda>sec.
                 call (SetUser (uc_ma uc) (map_get sec AccessKeyName) (map_get sec SecretKeyName) AccountEnabled)))
             else ret ())
         emitUpdateEvent_user))))"
    unfolding Let_def setUserPolicies_def emitUpdateEvent_user_def name check_deref
    using a by (intro works_intros push user_calls_spare [OF laws]; simp)
  from worksD [OF this h] s show ?thesis by (simp add: Update_user_def as_user_def)
qed

lemma update_keeps_user: "keeps (\<lambda>s. cr s = c) (Update_user uc)"
  unfolding ctl_defs by (intro keeps_intros; simp)

text \<open>A reconcile of a user the server does not have creates it, one of a user it has updates it if need be.\<close>

lemma user_created_attached:
  assumes laws: "user_laws g uc view" and ans: "user_answers g uc view u" and s: "cr s = MUser u"
    and ann: "Annotations (u_meta u) \<noteq> None" and n: "\<not> held view (GetUserName u) (world s)"
  shows "\<exists>t. reconcile (userClient g uc) False s Created t \<and> user_attached view t"
proof -
  have "\<exists>s' v. Observe_user uc s = (Ok NoObservation, s') \<and> view (world s') = view (world s) \<and> cr s' = MUser v \<and>
      Annotations (u_meta v) = Annotations (u_meta u)"
    using user_observe_answers [OF laws ans s] user_observe_unclaimed [of u s uc] s n
    by (cases "user_claimed (MUser u)") (fastforce simp: held_def)+
  then obtain s' v where ob: "Observe_user uc s = (Ok NoObservation, s')" and w: "view (world s') = view (world s)"
    and v: "cr s' = MUser v" and a: "Annotations (u_meta v) = Annotations (u_meta u)" by blast
  from user.keeps_observe [of s g uc] ob s v have sd: "same_desired (MUser u) (MUser v)" by (simp add: userClient_def)
  with ans n w same_desired_userD [OF sd] have "user_answers g uc view v" "\<not> held view (GetUserName v) (world s')"
    by (simp_all add: user_answers_desired held_def)
  from user_create_answers [OF laws this(1) v this(2)] ann a obtain c t where c: "Create_user g uc s' = (Ok c, t)" by auto
  with ob have r: "reconcile (userClient g uc) False s Created t"
    by (intro reconcile.created) (simp add: userClient_def, simp_all add: userClient_def NoObservation_def)
  have "user_read_laws (uc_ma uc) view" "user_write_laws (uc_ma uc) view" "unnoticed view (g 64 5 0 False True)"
    using laws by (simp_all add: user_laws_def user_sparing_laws_def)
  from create_new [OF this v c] obtain b where "view (world t) (GetUserName v) = Some b"
    "set (ac_Policies b) = set (slice (up_Policies (u_params v)))" by blast
  moreover obtain z where z: "cr t = MUser z" "same_desired (MUser v) (MUser z)"
    using user.keeps_create [of s' g uc] c v by (cases "cr t") (auto simp: userClient_def)
  moreover have "user_claimed (cr t)" by (rule user_create_claims [OF c])
  ultimately have "user_attached view t" using same_desired_userD [OF z(2)] by (auto simp: user_attached_def)
  with r show ?thesis by blast
qed

lemma user_reconciled_attached:
  assumes laws: "user_laws g uc view" and ans: "user_answers g uc view u" and s: "cr s = MUser u"
    and c: "user_claimed (MUser u)" and h: "view (world s) (GetUserName u) = Some a"
  shows "\<exists>t. reconcile (userClient g uc) False s
      (if policies_match (up_Policies (u_params u)) (ac_Policies a) then Current else Updated) t \<and> user_attached view t"
proof -
  from user_observe_answers [OF laws ans s c] h obtain s' v where
    ob: "Observe_user uc s = (Ok \<lparr>ResourceExists = True, ResourceUpToDate = policies_match (up_Policies (u_params u)) (ac_Policies a)\<rparr>, s')"
    and w: "view (world s') = view (world s)" and v: "cr s' = MUser v" "user_claimed (MUser v)" by (auto simp: held_def)
  from user.keeps_observe [of s g uc] ob s v have sd: "same_desired (MUser u) (MUser v)" by (simp add: userClient_def)
  note same = same_desired_userD [OF sd]
  show ?thesis
  proof (cases "policies_match (up_Policies (u_params u)) (ac_Policies a)")
    case True
    with ob have "reconcile (userClient g uc) False s Current s'" by (intro reconcile.current) (simp add: userClient_def, simp_all)
    moreover from True have "set (ac_Policies a) = set (slice (up_Policies (u_params u)))"
      by (auto simp: policies_match_def split: option.splits)
    with v w h same have "user_attached view s'" by (auto simp: user_attached_def)
    ultimately show ?thesis using True by auto
  next
    case False
    from ans h w same have "user_answers g uc view v" "held view (GetUserName v) (world s')"
      by (simp_all add: user_answers_desired [OF sd] held_def)
    from user_update_answers [OF laws this(1) v(1) this(2)] obtain t where up: "Update_user uc s' = (Ok (), t)" by blast
    with ob False have r: "reconcile (userClient g uc) False s Updated t" by (intro reconcile.updated) (simp add: userClient_def, simp_all add: userClient_def)
    have "user_read_laws (uc_ma uc) view" "user_write_laws (uc_ma uc) view" "\<And>n ns. unnoticed view (KubeGetSecret (uc_kube uc) n ns)"
      using laws by (simp_all add: user_laws_def user_sparing_laws_def)
    from user_update_attaches [OF this v(1) up] keeps_result [OF up update_keeps_user] v
    have "user_attached view t" by (auto simp: user_attached_def)
    with r False show ?thesis by auto
  qed
qed

lemma user_first_reconcile:
  assumes laws: "user_laws g uc view" and ans: "user_answers g uc view u" and s: "cr s = MUser u"
    and ann: "Annotations (u_meta u) \<noteq> None" and ok: "user_claimed (MUser u) \<or> \<not> held view (GetUserName u) (world s)"
  shows "\<exists>v t. reconcile (userClient g uc) False s v t \<and> v \<in> {Created, Updated, Current} \<and> user_attached view t \<and>
    same_desired (MUser u) (cr t)"
proof -
  have "\<exists>v t. reconcile (userClient g uc) False s v t \<and> v \<in> {Created, Updated, Current} \<and> user_attached view t"
  proof (cases "view (world s) (GetUserName u)")
    case None
    with user_created_attached [OF laws ans s ann] show ?thesis by (auto simp: held_def)
  next
    case (Some a)
    with ok have "user_claimed (MUser u)" by (simp add: held_def)
    from user_reconciled_attached [OF laws ans s this Some] show ?thesis by (fastforce split: if_split_asm)
  qed
  with users.reconcile_same_desired s show ?thesis by metis
qed

lemma user_next_reconcile:
  assumes laws: "user_laws g uc view" and ans: "user_answers g uc view u" and ord: "lists_in_order view ord"
    and s: "user_attached view s" "same_desired (MUser u) (cr s)"
  shows "\<exists>t. reconcile (userClient g uc) False s (if in_order ord (up_Policies (u_params u)) then Current else Updated) t \<and>
    user_attached view t \<and> same_desired (MUser u) (cr t)"
proof -
  from s(1) obtain v a where v: "cr s = MUser v" "user_claimed (MUser v)" and a: "view (world s) (GetUserName v) = Some a"
    "set (ac_Policies a) = set (slice (up_Policies (u_params v)))" by (auto simp: user_attached_def)
  from s(2) v have sd: "same_desired (MUser u) (MUser v)" by simp
  from ans have "user_answers g uc view v" by (simp add: user_answers_desired [OF sd])
  from user_reconciled_attached [OF laws this v a(1)] attached_match [OF ord a] same_desired_userD [OF sd]
  obtain t where t: "reconcile (userClient g uc) False s (if in_order ord (up_Policies (u_params u)) then Current else Updated) t"
    "user_attached view t" by auto
  with users.reconcile_same_desired [OF t(1)] s(2) show ?thesis by (blast intro: same_desired_trans)
qed

text \<open>
  C3. Liveness of users: on a server that answers, a user that carries the mark, or does not exist
  yet, settles with one reconcile exactly if its resource names the policies in the order in which
  the server lists them, or has no list of them. Otherwise every later reconcile updates it again,
  detaching and attaching the policies that the server already has attached.
\<close>

theorem users_settle_iff_in_order:
  assumes "user_laws g uc view" and "lists_in_order view ord" and "user_answers g uc view u"
    and "cr s = MUser u" and "Annotations (u_meta u) \<noteq> None"
    and "user_claimed (MUser u) \<or> \<not> held view (GetUserName u) (world s)"
  shows "(settles (userClient g uc) s \<longleftrightarrow> in_order ord (up_Policies (u_params u))) \<and>
    (\<not> in_order ord (up_Policies (u_params u)) \<longrightarrow>
       (\<forall>k. fst (reconcile_once (userClient g uc) False (after_reconciles (Suc k) (userClient g uc) s)) = Updated))"
proof -
  from user_first_reconcile [OF assms(1,3-6)] obtain v t where
    t: "reconcile (userClient g uc) False s v t" "v \<in> {Created, Updated, Current}" "user_attached view t \<and> same_desired (MUser u) (cr t)" by blast
  have "rests_iff (userClient g uc) (in_order ord (up_Policies (u_params u))) s"
    by (rule rests_iffI [where Q = "\<lambda>t. user_attached view t \<and> same_desired (MUser u) (cr t)", OF t])
      (use user_next_reconcile [OF assms(1,3,2)] in blast)
  then show ?thesis by (simp add: rests_iff_def)
qed

text \<open>
  A server that has every policy and lists those of a user sorted by name, and a resource that
  names them in the opposite order.
\<close>

definition by_name :: "account \<Rightarrow> account" where
  "by_name a = a\<lparr>ac_Policies := sort (ac_Policies (shown a))\<rparr>"

definition by_name_view :: "mem_server \<Rightarrow> string \<Rightarrow> account option" where
  "by_name_view w n = map_option by_name (accounts w n)"

definition by_name_uc :: "(mem_server, unit) user_client" where
  "by_name_uc = demo_uc\<lparr>uc_ma := mem_admin\<lparr>
     ListUsers := (\<lambda>w. (Inr (\<lambda>n. map_option (\<lambda>a. account_info (by_name a)) (accounts w n)), w)),
     GetUserInfo := (\<lambda>n w. (case accounts w n of None \<Rightarrow> (Inl not_found, w) | Some a \<Rightarrow> (Inr (account_info (by_name a)), w))),
     AttachPolicy := (\<lambda>ps n w. if \<forall>p \<in> set ps. proper p then on_account n (attach ps) w else (Inl not_found, w))\<rparr>\<rparr>"

definition unsorted_user :: user where
  "unsorted_user = claimed_demo_user\<lparr>u_params := \<lparr>up_UserName = [], up_Policies = Some [''writeonly'', ''readonly'']\<rparr>\<rparr>"

definition unsorted_state :: "mem_server cstate" where
  "unsorted_state = \<lparr>world = ada_server [], cr = MUser unsorted_user, events = [], logs = []\<rparr>"

lemma by_name_laws:
  "user_read_laws (uc_ma by_name_uc) by_name_view" "user_write_laws (uc_ma by_name_uc) by_name_view"
  "unnoticed by_name_view (KubeGetSecret (uc_kube by_name_uc) n ns)" "lists_in_order by_name_view sorted_list_of_set"
proof -
  have names: "policy_names (ac_Policies (by_name a))" for a
    using shown_names [of a] by (simp add: by_name_def policy_names_def)
  then show "user_read_laws (uc_ma by_name_uc) by_name_view"
    by (auto simp: user_read_laws_def reads_def by_name_uc_def by_name_view_def fun_eq_iff option.map_comp comp_def split: option.splits)
  show "user_write_laws (uc_ma by_name_uc) by_name_view"
    by (auto simp: user_write_laws_def effects_def by_name_uc_def by_name_view_def mem_admin_simps by_name_def shown_def split: option.splits)
  show "unnoticed by_name_view (KubeGetSecret (uc_kube by_name_uc) n ns)"
    by (simp add: unnoticed_def by_name_uc_def demo_uc_def one_secret_def)
  show "lists_in_order by_name_view sorted_list_of_set"
    using names by (auto simp: lists_in_order_def by_name_view_def policy_names_def
        intro!: sorted_distinct_set_unique) (auto simp: by_name_def)
qed

lemma by_name_user_laws: "user_laws demo_password by_name_uc by_name_view"
  using by_name_laws
  by (auto simp: user_laws_def user_sparing_laws_def unnoticed_def spares_def held_def by_name_uc_def by_name_view_def
      demo_uc_def demo_password_def mem_admin_simps one_secret_def split: option.splits)

lemma by_name_answers:
  assumes "GetUserName u = ''ada''" and "\<forall>p \<in> set (slice (up_Policies (u_params u))). proper p"
    and "WriteConnectionSecretToReference (u_spec u) \<noteq> None"
  shows "user_answers demo_password by_name_uc by_name_view u"
  using assms
  by (auto simp: user_answers_def answers_def secret_accepted_def accepted_def held_def by_name_uc_def by_name_view_def
      demo_uc_def demo_password_def mem_admin_simps one_secret_def AccessKeyName_def intro!: exI split: option.splits)

theorem users_settle_iff_in_order_witness:
  "\<not> settles (userClient demo_password by_name_uc) unsorted_state \<and>
   (\<forall>k. fst (reconcile_once (userClient demo_password by_name_uc) False
      (after_reconciles (Suc k) (userClient demo_password by_name_uc) unsorted_state)) = Updated)"
proof -
  have u: "cr unsorted_state = MUser unsorted_user" "up_Policies (u_params unsorted_user) = Some [''writeonly'', ''readonly'']"
    "Annotations (u_meta unsorted_user) \<noteq> None" "user_claimed (MUser unsorted_user)"
    by (simp_all add: unsorted_state_def unsorted_user_def claimed_demo_user_def demo_user_def user_claimed_def)
  have ans: "user_answers demo_password by_name_uc by_name_view unsorted_user"
    by (rule by_name_answers) (simp_all add: unsorted_user_def claimed_demo_user_def demo_user_def GetUserName_def proper_def)
  have "\<not> sorted [''writeonly'', ''readonly'']" by simp
  then have d: "[''writeonly'', ''readonly''] \<noteq> sorted_list_of_set (set [''writeonly'', ''readonly''])"
    by (metis sorted_list_of_set.sorted_sorted_key_list_of_set)
  have un: "\<not> in_order sorted_list_of_set (up_Policies (u_params unsorted_user))"
    unfolding u(2) in_order_def option.case using d by blast
  note th = users_settle_iff_in_order [OF by_name_user_laws by_name_laws(4) ans u(1,3) disjI1 [OF u(4)]]
  from conjunct1 [OF th] conjunct2 [OF th, rule_format, OF un] un show ?thesis by metis
qed

end
