(* ===== verification/Settling_Accounts.thy ===== *)
theory Settling_Accounts
  imports Settling ServiceAccount_Props
begin

text \<open>
  When a service account comes to rest. The policy is compared as a text, with the text in which
  the server gives it back, and an expiration is never cleared; apart from these a service account
  settles with the reconcile that creates or updates it.
\<close>

section \<open>Servers that answer\<close>

text \<open>
  What a new account is like; the form in which policies are given back; and the external name
  that is read back as it was written.
\<close>

definition sa_add_laws :: "(string \<Rightarrow> string) \<Rightarrow> 'w admin_client \<Rightarrow> 'w sa_view \<Rightarrow> bool" where
  "sa_add_laws form ma view \<longleftrightarrow>
     (\<forall>r. effects view (AddServiceAccount ma r)
        (\<lambda>v cred v'. sac_AccessKey cred \<noteq> [] \<and>
           (\<exists>i. v' (sac_AccessKey cred) = Some i \<and> si_Expiration i = req_Expiration r \<and>
              (\<forall>p. req_Policy r = Some p \<longrightarrow> si_Policy i = form p))))"

definition sa_server_laws :: "(string \<Rightarrow> string) \<Rightarrow> 'w password_gen \<Rightarrow> 'w sa_client \<Rightarrow> 'w sa_view \<Rightarrow> bool" where
  "sa_server_laws form generate c view \<longleftrightarrow>
     sa_laws (sac_ma c) view \<and> sa_update_laws form (sac_ma c) view \<and> sa_add_laws form (sac_ma c) view \<and>
     (\<forall>w k i. view w k = Some i \<longrightarrow> form (si_Policy i) = si_Policy i) \<and>
     (\<forall>n ns. unnoticed view (KubeGetSecret (sac_kube c) n ns)) \<and> unnoticed view (generate 64 5 0 False True) \<and>
     (\<forall>an n. GetExternalName (sac_meta c) (SetExternalName (sac_meta c) an n) = n)"

definition sa_answers :: "'w password_gen \<Rightarrow> 'w admin_client \<Rightarrow> 'w sa_view \<Rightarrow> bool" where
  "sa_answers generate ma view \<longleftrightarrow>
     (\<forall>k w. case fst (InfoServiceAccount ma k w) of Inl err \<Rightarrow> is_missing (ErrApi err) | Inr _ \<Rightarrow> True) \<and>
     (\<forall>k r. answers (held view k) (UpdateServiceAccount ma k r)) \<and>
     (\<forall>r. answers (\<lambda>w. req_AccessKey r \<noteq> [] \<longrightarrow> \<not> held view (req_AccessKey r) w) (AddServiceAccount ma r)) \<and>
     answers (\<lambda>_. True) (generate 64 5 0 False True)"

lemma sa_info_answer:
  assumes "sa_laws ma view" and "sa_answers g ma view"
  shows "\<exists>r w'. InfoServiceAccount ma k w = (r, w') \<and> view w' = view w \<and>
    (case view w k of None \<Rightarrow> (\<exists>e. r = Inl e \<and> is_missing (ErrApi e)) | Some i \<Rightarrow> r = Inr i)"
proof -
  obtain r w' where i: "InfoServiceAccount ma k w = (r, w')" by fastforce
  from assms(2) have "case fst (InfoServiceAccount ma k w) of Inl err \<Rightarrow> is_missing (ErrApi err) | Inr _ \<Rightarrow> True"
    by (simp add: sa_answers_def)
  with i sa_lawsD(1) [OF assms(1) i] show ?thesis by (cases r) auto
qed

section \<open>One reconcile\<close>

lemma sa_observe_answers:
  assumes laws: "sa_server_laws form g c view" and ans: "sa_answers g (sac_ma c) view"
    and s: "cr s = MServiceAccount a"
  shows "\<exists>t b. Observe_sa c s =
      (Ok (case (if external_name c a = [] then None else view (world s) (external_name c a)) of None \<Rightarrow> NoObservation
         | Some i \<Rightarrow> \<lparr>ResourceExists = True, ResourceUpToDate = sa_in_sync (s_params a) i\<rparr>), t) \<and>
    view (world t) = view (world s) \<and> cr t = MServiceAccount b \<and> s_params b = s_params a \<and> external_name c b = external_name c a"
proof (cases "external_name c a = []")
  case True
  with s show ?thesis by (simp add: Observe_sa_def as_service_account_def ret_def)
next
  case ext: False
  from laws have "sa_laws (sac_ma c) view" by (simp add: sa_server_laws_def)
  from sa_info_answer [OF this ans, of "external_name c a" "world s"] obtain r w where
    i: "InfoServiceAccount (sac_ma c) (external_name c a) (world s) = (r, w)" "view w = view (world s)" and
    r: "case view (world s) (external_name c a) of None \<Rightarrow> (\<exists>e. r = Inl e \<and> is_missing (ErrApi e)) | Some i \<Rightarrow> r = Inr i" by blast
  from laws have "unnoticed view (KubeGetSecret (sac_kube c) n ns)" for n ns by (simp add: sa_server_laws_def)
  note un = unnoticedD [OF this]
  show ?thesis
  proof (cases "view (world s) (external_name c a)")
    case None
    with ext i r s show ?thesis
      by (auto simp: Observe_sa_def as_service_account_def NoObservation_def go_defs)
  next
    case (Some info)
    with ext i r s show ?thesis
      by (auto simp: Observe_sa_def as_service_account_def isUpToDate_in_sync Let_def go_defs dest: un
          split: option.split prod.split sum.split)
  qed
qed

definition holds_account :: "'w sa_client \<Rightarrow> 'w sa_view \<Rightarrow> service_account_params \<Rightarrow> sa_info \<Rightarrow> 'w cstate \<Rightarrow> bool" where
  "holds_account c view p i s \<longleftrightarrow> (\<exists>a. cr s = MServiceAccount a \<and> s_params a = p \<and> external_name c a \<noteq> [] \<and>
     view (world s) (external_name c a) = Some i)"

lemma sa_reconciled:
  assumes laws: "sa_server_laws form g c view" and ans: "sa_answers g (sac_ma c) view" and s: "holds_account c view p i s"
  shows "\<exists>t i'. reconcile (serviceAccountClient g c) False s (if sa_in_sync p i then Current else Updated) t \<and>
    holds_account c view p i' t \<and>
    (if sa_in_sync p i then i' = i
     else (sa_in_sync p i' \<longleftrightarrow> sa_reachable form p i) \<and> (sa_reachable form p i' \<longleftrightarrow> sa_reachable form p i))"
proof -
  from s obtain a where a: "cr s = MServiceAccount a" "s_params a = p" "external_name c a \<noteq> []"
    "view (world s) (external_name c a) = Some i" by (auto simp: holds_account_def)
  from sa_observe_answers [OF laws ans a(1)] a obtain s' b where
    ob: "Observe_sa c s = (Ok \<lparr>ResourceExists = True, ResourceUpToDate = sa_in_sync p i\<rparr>, s')" and v: "view (world s') = view (world s)"
    and b: "cr s' = MServiceAccount b" "s_params b = p" "external_name c b = external_name c a" by auto
  show ?thesis
  proof (cases "sa_in_sync p i")
    case True
    with ob have "reconcile (serviceAccountClient g c) False s Current s'"
      by (intro reconcile.current) (simp add: serviceAccountClient_def, simp_all)
    moreover from a b v have "holds_account c view p i s'" by (simp add: holds_account_def)
    ultimately show ?thesis using True by auto
  next
    case False
    let ?k = "external_name c a"
    from ans have "answers (held view ?k) (UpdateServiceAccount (sac_ma c) ?k (update_request b))" by (simp add: sa_answers_def)
    moreover have "held view ?k (world s')" using a v by (simp add: held_def)
    ultimately obtain w where "UpdateServiceAccount (sac_ma c) ?k (update_request b) (world s') = (Inr (), w)"
      unfolding answers_def by fastforce
    with a b have "\<exists>t. Update_sa c s' = (Ok (), t)" by (simp add: Update_sa_def as_service_account_def go_defs)
    then obtain t where up: "Update_sa c s' = (Ok (), t)" by blast
    with ob False have r: "reconcile (serviceAccountClient g c) False s Updated t"
      by (intro reconcile.updated) (simp add: serviceAccountClient_def, simp_all add: serviceAccountClient_def)
    from laws have "sa_update_laws form (sac_ma c) view" by (simp add: sa_server_laws_def)
    from sa_update_effect [OF this b(1) up] a b v obtain i' where i': "view (world t) ?k = Some i'"
      "si_Policy i' = (if sp_Policy p = [] then si_Policy i else form (sp_Policy p))"
      "si_Expiration i' = (case sp_Expiration p of None \<Rightarrow> si_Expiration i | Some e \<Rightarrow> Some e)" by auto
    have "sa_reachable form p i' \<longleftrightarrow> sa_reachable form p i" using i'(3) by (auto simp: sa_reachable_def)
    moreover have "holds_account c view p i' t"
      using sa_update_frame [OF up] a b i'(1) by (auto simp: holds_account_def)
    ultimately show ?thesis
      using r False sa_updated_in_sync [where form = form and p = p and i = i and i' = i', OF i'(2,3)] by auto
  qed
qed

lemma sa_in_sync_reachable:
  assumes "sa_server_laws form g c view" and "holds_account c view p i s" and "sa_in_sync p i"
  shows "sa_reachable form p i"
  using assms by (fastforce simp: sa_server_laws_def holds_account_def sa_in_sync_def sa_reachable_def)

text \<open>From an account on the server all later reconciles do the same.\<close>

definition sa_course :: "(string \<Rightarrow> string) \<Rightarrow> 'w sa_client \<Rightarrow> 'w sa_view \<Rightarrow> service_account_params \<Rightarrow> bool \<Rightarrow> 'w cstate \<Rightarrow> bool" where
  "sa_course form c view p b s \<longleftrightarrow> (\<exists>i. holds_account c view p i s \<and> (if b then sa_in_sync p i else \<not> sa_reachable form p i))"

lemma sa_course_goes_on:
  assumes laws: "sa_server_laws form g c view" and ans: "sa_answers g (sac_ma c) view" and s: "sa_course form c view p b s"
  shows "\<exists>t. reconcile (serviceAccountClient g c) False s (if b then Current else Updated) t \<and> sa_course form c view p b t"
proof -
  from s obtain i where i: "holds_account c view p i s" "if b then sa_in_sync p i else \<not> sa_reachable form p i"
    by (auto simp: sa_course_def)
  from sa_reconciled [OF laws ans i(1)] sa_in_sync_reachable [OF laws i(1)] i(2) show ?thesis
    by (cases b) (fastforce simp: sa_course_def)+
qed

section \<open>A new account\<close>

text \<open>Create asks for an access key with a secret key, and the server must not have that key.\<close>

definition sa_creatable :: "'w sa_client \<Rightarrow> 'w sa_view \<Rightarrow> 'w cstate \<Rightarrow> service_account \<Rightarrow> bool" where
  "sa_creatable c view s a \<longleftrightarrow>
     (external_name c a = [] \<or> \<not> held view (external_name c a) (world s)) \<and>
     (if sp_AccessKey (s_params a) = [] then sp_SecretKey (s_params a) = []
      else \<not> held view (sp_AccessKey (s_params a)) (world s))"

lemma sa_create_answers:
  assumes laws: "sa_server_laws form g c view" and ans: "sa_answers g (sac_ma c) view" and s: "cr s = MServiceAccount a"
    and ok: "sa_creatable c view s a"
  shows "\<exists>d t. Create_sa g c s = (Ok d, t)"
proof -
  let ?k = "sp_AccessKey (s_params a)"
  have gen: "unnoticed view (g 64 5 0 False True)" and rd: "sa_laws (sac_ma c) view"
    using laws by (simp_all add: sa_server_laws_def)
  have "\<exists>sk s1. chooseSecretKey g a s = (Ok sk, s1) \<and> view (world s1) = view (world s) \<and> cr s1 = cr s"
  proof -
    from ans have "answers (\<lambda>_. True) (g 64 5 0 False True)" by (simp add: sa_answers_def)
    then obtain k w where k: "g 64 5 0 False True (world s) = (Inr k, w)" unfolding answers_def by blast
    with unnoticedD [OF gen k] show ?thesis by (auto simp: chooseSecretKey_def go_defs)
  qed
  then obtain sk s1 where sk: "chooseSecretKey g a s = (Ok sk, s1)" "view (world s1) = view (world s)" by blast
  have "\<exists>s2. accessKeyTaken c a s1 = (Ok False, s2) \<and> view (world s2) = view (world s)"
  proof (cases "?k = []")
    case True
    with sk show ?thesis by (simp add: accessKeyTaken_def ret_def)
  next
    case False
    with ok sk have "view (world s1) ?k = None" by (simp add: sa_creatable_def held_def)
    with sa_info_answer [OF rd ans, of ?k "world s1"] obtain e w where
      "InfoServiceAccount (sac_ma c) ?k (world s1) = (Inl e, w)" "is_missing (ErrApi e)" "view w = view (world s1)" by auto
    with False sk show ?thesis by (simp add: accessKeyTaken_def serviceAccountExists_def go_defs)
  qed
  then obtain s2 where s2: "accessKeyTaken c a s1 = (Ok False, s2)" "view (world s2) = view (world s)" by blast
  let ?r = "create_request a sk"
  from ans have "answers (\<lambda>w. req_AccessKey ?r \<noteq> [] \<longrightarrow> \<not> held view (req_AccessKey ?r) w) (AddServiceAccount (sac_ma c) ?r)"
    by (simp add: sa_answers_def)
  moreover have "req_AccessKey ?r \<noteq> [] \<longrightarrow> \<not> held view (req_AccessKey ?r) (world s2)"
    using ok s2 by (auto simp: sa_creatable_def create_request_def held_def split: if_split_asm)
  ultimately obtain cred w where "AddServiceAccount (sac_ma c) ?r (world s2) = (Inr cred, w)" unfolding answers_def by blast
  moreover have "\<not> (?k = [] \<and> sp_SecretKey (s_params a) \<noteq> [])" using ok by (simp add: sa_creatable_def split: if_split_asm)
  ultimately show ?thesis using s sk s2
    by (simp add: Create_sa_def as_service_account_def check_def if_err_def fail_def call_def on_world_def api_call_def
        seq_def emit_def put_cr_def ret_def)
qed

lemma sa_created_holds:
  assumes laws: "sa_server_laws form g c view" and s: "cr s = MServiceAccount a" and cre: "Create_sa g c s = (Ok d, t)"
  shows "\<exists>i. holds_account c view (s_params a) i t \<and> si_Expiration i = sp_Expiration (s_params a) \<and>
    (sp_Policy (s_params a) \<noteq> [] \<longrightarrow> si_Policy i = form (sp_Policy (s_params a)))"
proof -
  from s cre obtain sk s2 s3 cred a' where
    add: "call (AddServiceAccount (sac_ma c) (create_request a sk)) s2 = (Ok cred, s3)" and
    t: "world t = world s3" "cr t = MServiceAccount a'" "s_params a' = s_params a"
      "Annotations (s_meta a') = SetExternalName (sac_meta c) (Annotations (s_meta a)) (sac_AccessKey cred)"
    by (auto simp: Create_sa_def as_service_account_def check_Ok_iff seq_Ok_iff split: if_split_asm)
  from laws have add_law: "sa_add_laws form (sac_ma c) view"
    and ext: "GetExternalName (sac_meta c) (SetExternalName (sac_meta c) an n) = n" for an n
    by (simp_all add: sa_server_laws_def)
  from add obtain w where w: "AddServiceAccount (sac_ma c) (create_request a sk) (world s2) = (Inr cred, w)" "world s3 = w"
    by (auto simp: call_Ok_iff)
  from effectsD [OF spec [OF add_law [unfolded sa_add_laws_def]] w(1)] obtain i where
    i: "sac_AccessKey cred \<noteq> []" "view w (sac_AccessKey cred) = Some i"
      "si_Expiration i = sp_Expiration (s_params a)" "\<forall>p. req_Policy (create_request a sk) = Some p \<longrightarrow> si_Policy i = form p"
    by (auto simp: create_request_def)
  have "external_name c a' = sac_AccessKey cred" using t ext by (simp add: external_name_def)
  with i t w have "holds_account c view (s_params a) i t" by (simp add: holds_account_def)
  with i show ?thesis by (auto simp: create_request_def)
qed

section \<open>When an account comes to rest\<close>

text \<open>What the account will be compared with: the one on the server, or the one Create makes.\<close>

definition sa_settling :: "(string \<Rightarrow> string) \<Rightarrow> 'w sa_client \<Rightarrow> 'w sa_view \<Rightarrow> 'w cstate \<Rightarrow> service_account \<Rightarrow> bool" where
  "sa_settling form c view s a \<longleftrightarrow> (sp_Policy (s_params a) = [] \<or> form (sp_Policy (s_params a)) = sp_Policy (s_params a)) \<and>
     (sp_Expiration (s_params a) = None \<longrightarrow>
        (case (if external_name c a = [] then None else view (world s) (external_name c a)) of
           None \<Rightarrow> True | Some i \<Rightarrow> si_Expiration i = None))"

lemma sa_first_reconcile:
  assumes laws: "sa_server_laws form g c view" and ans: "sa_answers g (sac_ma c) view" and s: "cr s = MServiceAccount a"
    and ok: "external_name c a \<noteq> [] \<and> held view (external_name c a) (world s) \<or> sa_creatable c view s a"
  shows "\<exists>v t. reconcile (serviceAccountClient g c) False s v t \<and> v \<in> {Created, Updated, Current} \<and>
    sa_course form c view (s_params a) (sa_settling form c view s a) t"
proof (cases "if external_name c a = [] then None else view (world s) (external_name c a)")
  case (Some i)
  with s have h: "holds_account c view (s_params a) i s" by (auto simp: holds_account_def split: if_split_asm)
  from Some have st: "sa_settling form c view s a \<longleftrightarrow> sa_reachable form (s_params a) i"
    by (auto simp: sa_settling_def sa_reachable_def split: if_split_asm)
  from sa_reconciled [OF laws ans h] sa_in_sync_reachable [OF laws h] st show ?thesis
    by (fastforce simp: sa_course_def split: if_split_asm)
next
  case None
  with ok have cr: "sa_creatable c view s a" by (auto simp: held_def)
  from sa_observe_answers [OF laws ans s] None obtain s' b where
    ob: "Observe_sa c s = (Ok NoObservation, s')" and v: "view (world s') = view (world s)"
    and b: "cr s' = MServiceAccount b" "s_params b = s_params a" "external_name c b = external_name c a" by auto
  with cr have "sa_creatable c view s' b" by (auto simp: sa_creatable_def held_def split: if_splits)
  from sa_create_answers [OF laws ans b(1) this] obtain d t where cre: "Create_sa g c s' = (Ok d, t)" by blast
  with ob have r: "reconcile (serviceAccountClient g c) False s Created t"
    by (intro reconcile.created) (simp add: serviceAccountClient_def, simp_all add: serviceAccountClient_def NoObservation_def)
  from sa_created_holds [OF laws b(1) cre] b obtain i where i: "holds_account c view (s_params a) i t"
    "si_Expiration i = sp_Expiration (s_params a)" "sp_Policy (s_params a) \<noteq> [] \<longrightarrow> si_Policy i = form (sp_Policy (s_params a))" by auto
  from None have st: "sa_settling form c view s a \<longleftrightarrow> sp_Policy (s_params a) = [] \<or> form (sp_Policy (s_params a)) = sp_Policy (s_params a)"
    by (auto simp: sa_settling_def)
  from i have "sa_course form c view (s_params a) (sa_settling form c view s a) t"
    unfolding st sa_course_def by (intro exI [of _ i]) (auto simp: sa_in_sync_def sa_reachable_def)
  with r show ?thesis by blast
qed

text \<open>
  C4. Liveness of service accounts: on a server that answers, a service account that has an
  account there, or can be given one, settles with one reconcile exactly if its policy is written
  in the form in which the server gives policies back, and it does not ask for no expiration when
  the server has one. Otherwise every later reconcile updates it again, to no effect.
\<close>

theorem service_accounts_settle_iff:
  assumes "sa_server_laws form g c view" and "sa_answers g (sac_ma c) view" and "cr s = MServiceAccount a"
    and "external_name c a \<noteq> [] \<and> held view (external_name c a) (world s) \<or> sa_creatable c view s a"
  shows "rests_iff (serviceAccountClient g c) (sa_settling form c view s a) s"
proof -
  from sa_first_reconcile [OF assms] obtain v t where
    "reconcile (serviceAccountClient g c) False s v t" "v \<in> {Created, Updated, Current}"
    "sa_course form c view (s_params a) (sa_settling form c view s a) t" by blast
  then show ?thesis
    by (rule rests_iffI) (rule sa_course_goes_on [OF assms(1,2)])
qed

text \<open>A server that drops the blanks of a policy, and chooses the access key when it is asked to.\<close>

definition tidy :: "string \<Rightarrow> string" where
  "tidy p = filter (\<lambda>x. x \<noteq> CHR '' '') p"

definition tidied :: "sa_info \<Rightarrow> sa_info" where
  "tidied i = i\<lparr>si_Policy := tidy (si_Policy i)\<rparr>"

definition tidy_view :: "mem_server \<Rightarrow> string \<Rightarrow> sa_info option" where
  "tidy_view w k = map_option tidied (service_accounts w k)"

definition tidy_sac :: "mem_server sa_client" where
  "tidy_sac = demo_sac\<lparr>sac_ma := mem_admin\<lparr>
     AddServiceAccount := (\<lambda>r. AddServiceAccount mem_admin (if req_AccessKey r = [] then r\<lparr>req_AccessKey := ''AK0''\<rparr> else r)),
     InfoServiceAccount := (\<lambda>k w. (case tidy_view w k of None \<Rightarrow> (Inl not_found, w) | Some i \<Rightarrow> (Inr i, w)))\<rparr>\<rparr>"

definition policy_sa :: "string \<Rightarrow> service_account" where
  "policy_sa p = demo_sa\<lparr>s_params := (s_params demo_sa)\<lparr>sp_Policy := p\<rparr>\<rparr>"

lemma tidy_tidy [simp]: "tidy (tidy p) = tidy p"
  by (simp add: tidy_def)

lemma tidy_laws: "sa_server_laws tidy sa_password tidy_sac tidy_view"
  by (auto simp: sa_server_laws_def sa_laws_def sa_update_laws_def sa_add_laws_def reads_def effects_def unnoticed_def tidy_sac_def
      demo_sac_def demo_meta_def tidy_view_def tidied_def mem_admin_def one_secret_def sa_password_def missing_not_found
      split: option.splits if_splits)

lemma tidy_answers: "sa_answers sa_password (sac_ma tidy_sac) tidy_view"
  by (auto simp: sa_answers_def answers_def held_def tidy_sac_def tidy_view_def mem_admin_def sa_password_def missing_not_found
      split: option.splits)

lemma policy_sa_simps [simp]:
  "external_name tidy_sac (policy_sa p) = ''AK1''" "sp_Policy (s_params (policy_sa p)) = p"
  "sp_Expiration (s_params (policy_sa p)) = None" "sp_AccessKey (s_params (policy_sa p)) = []" "sp_SecretKey (s_params (policy_sa p)) = []"
  by (simp_all add: policy_sa_def external_name_def tidy_sac_def demo_sac_def demo_meta_def demo_sa_def)

theorem service_accounts_settle_iff_witness:
  "settles (serviceAccountClient sa_password tidy_sac) (sa_state Map.empty (policy_sa ''{}'')) \<and>
   (\<forall>k. fst (reconcile_once (serviceAccountClient sa_password tidy_sac) False
      (after_reconciles (Suc k) (serviceAccountClient sa_password tidy_sac) (sa_state Map.empty (policy_sa ''{ }'')))) = Updated)"
proof -
  have "sa_creatable tidy_sac tidy_view (sa_state Map.empty (policy_sa p)) (policy_sa p)" for p
    by (simp add: sa_creatable_def held_def tidy_view_def)
  then have r: "rests_iff (serviceAccountClient sa_password tidy_sac)
      (sa_settling tidy tidy_sac tidy_view (sa_state Map.empty (policy_sa p)) (policy_sa p)) (sa_state Map.empty (policy_sa p))" for p
    by (intro service_accounts_settle_iff [OF tidy_laws tidy_answers]) simp_all
  have "sa_settling tidy tidy_sac tidy_view (sa_state Map.empty (policy_sa ''{}'')) (policy_sa ''{}'')"
    "\<not> sa_settling tidy tidy_sac tidy_view (sa_state Map.empty (policy_sa ''{ }'')) (policy_sa ''{ }'')"
    by (simp_all add: sa_settling_def tidy_view_def tidy_def)
  with r [of "''{}''"] r [of "''{ }''"] show ?thesis unfolding rests_iff_def by blast
qed

end
