(* ===== verification/Settling_Notifications.thy ===== *)
theory Settling_Notifications
  imports Settling Notification_Props
begin

text \<open>
  When a notification comes to rest. What an update writes is the controller's own entry, so it is
  up to that entry whether the next Observe is satisfied: it is not when an event is desired twice
  or when the S3 library gives the entry a filter nobody asked for.
\<close>

definition nc_answers :: "('w, 't, 'n) notif_client \<Rightarrow> string \<Rightarrow> bool" where
  "nc_answers c b \<longleftrightarrow> answers (\<lambda>_. True) (GetBucketNotification (nc_mc c) b) \<and>
     (\<forall>n. answers (\<lambda>_. True) (SetBucketNotification (nc_mc c) b n))"

text \<open>The entry of a resource among those of its bucket.\<close>

definition nc_entry :: "('w, 't, 'n) notif_client \<Rightarrow> ('w, 'n) notif_view \<Rightarrow> notification_params \<Rightarrow> 'w \<Rightarrow> lambda_config option" where
  "nc_entry c view p w = findWebhookConfiguration (nc_lib c) p (view w (np_BucketName p))"

lemma nc_answersD:
  assumes "nc_answers c b"
  shows "\<exists>x w'. GetBucketNotification (nc_mc c) b w = (Inr x, w')" and "\<exists>w'. SetBucketNotification (nc_mc c) b n w = (Inr (), w')"
  using assms by (simp_all add: nc_answers_def answers_def)

lemma nc_read_answer:
  assumes "notif_laws c view" and "nc_answers c b"
  shows "\<exists>w'. GetBucketNotification (nc_mc c) b w = (Inr (view w b), w') \<and> view w' = view w"
proof -
  from nc_answersD(1) [OF assms(2)] obtain x w' where g: "GetBucketNotification (nc_mc c) b w = (Inr x, w')" by blast
  with notif_lawsD(1) [OF assms(1) g] show ?thesis by simp
qed

lemma nc_observe_answers:
  assumes laws: "notif_laws c view" and ans: "nc_answers c (np_BucketName (n_params n))" and s: "cr s = MNotification n"
  shows "\<exists>t m. Observe_nc c s = (Ok (case nc_entry c view (n_params n) (world s) of None \<Rightarrow> NoObservation
         | Some l \<Rightarrow> \<lparr>ResourceExists = True, ResourceUpToDate = isConfigurationUpToDate (n_params n) l\<rparr>), t) \<and>
    view (world t) = view (world s) \<and> cr t = MNotification m \<and> n_params m = n_params n"
proof -
  from nc_read_answer [OF laws ans, of "world s"] obtain w where
    "GetBucketNotification (nc_mc c) (np_BucketName (n_params n)) (world s) = (Inr (view (world s) (np_BucketName (n_params n))), w)"
    "view w = view (world s)" by blast
  with s show ?thesis
    by (auto simp: Observe_nc_def as_notification_def nc_entry_def Let_def set_conditions_def NoObservation_def go_defs
        simp del: foldl_Cons split: option.split)
qed

text \<open>A write succeeds and leaves the controller's own entry as the one that is found.\<close>

lemma find_own:
  assumes "notif_laws c view" and "np_WebhookConfiguration p = Some wh" and "\<forall>l \<in> set ls. \<not> webhook_entry (nc_lib c) wh l"
    and "LambdaConfigs (view w (np_BucketName p)) = ls @ [lambdaConfig (nc_lib c) p wh]"
  shows "nc_entry c view p w = Some (lambdaConfig (nc_lib c) p wh)"
  using assms(2-4) lambdaConfig_entry(3) [OF assms(1)]
  by (simp add: nc_entry_def findWebhookConfiguration_def find_append_none)

lemma nc_update_answers:
  assumes laws: "notif_laws c view" and ans: "nc_answers c (np_BucketName (n_params n))" and s: "cr s = MNotification n"
    and wh: "np_WebhookConfiguration (n_params n) = Some wh"
  shows "\<exists>t m. Update_nc c s = (Ok (), t) \<and> cr t = MNotification m \<and> n_params m = n_params n \<and>
    nc_entry c view (n_params n) (world t) = Some (lambdaConfig (nc_lib c) (n_params n) wh)"
proof -
  let ?b = "np_BucketName (n_params n)"
  from nc_read_answer [OF laws ans, of "world s"] obtain w where
    r: "GetBucketNotification (nc_mc c) ?b (world s) = (Inr (view (world s) ?b), w)" by blast
  let ?y = "view (world s) ?b\<lparr>LambdaConfigs :=
      filter (\<lambda>l. lambda_arn (nc_lib c) l \<noteq> expectedARN (wh_ID wh)) (LambdaConfigs (view (world s) ?b)) @ [lambdaConfig (nc_lib c) (n_params n) wh]\<rparr>"
  from nc_answersD(2) [OF ans] obtain w' where "SetBucketNotification (nc_mc c) ?b ?y w = (Inr (), w')" by blast
  with r s wh have "\<exists>t. Update_nc c s = (Ok (), t)"
    by (simp add: Update_nc_def as_notification_def Let_def set_conditions_def go_defs del: foldl_Cons)
  then obtain t where t: "Update_nc c s = (Ok (), t)" by blast
  from update_effect [OF laws s wh t] have v: "LambdaConfigs (view (world t) ?b) =
      filter (\<lambda>l. lambda_arn (nc_lib c) l \<noteq> expectedARN (wh_ID wh)) (LambdaConfigs (view (world s) ?b)) @ [lambdaConfig (nc_lib c) (n_params n) wh]"
    and m: "\<exists>m. cr t = MNotification m \<and> n_params m = n_params n" by auto
  have "nc_entry c view (n_params n) (world t) = Some (lambdaConfig (nc_lib c) (n_params n) wh)"
    by (rule find_own [OF laws wh _ v]) (simp add: webhook_entry_def)
  with t m show ?thesis by blast
qed

lemma nc_create_answers:
  assumes laws: "notif_laws c view" and ans: "nc_answers c (np_BucketName (n_params n))" and s: "cr s = MNotification n"
    and wh: "np_WebhookConfiguration (n_params n) = Some wh" and none: "nc_entry c view (n_params n) (world s) = None"
  shows "\<exists>d t m. Create_nc c s = (Ok d, t) \<and> cr t = MNotification m \<and> n_params m = n_params n \<and>
    nc_entry c view (n_params n) (world t) = Some (lambdaConfig (nc_lib c) (n_params n) wh)"
proof -
  let ?b = "np_BucketName (n_params n)" and ?x = "view (world s) (np_BucketName (n_params n))"
  let ?y = "?x\<lparr>LambdaConfigs := LambdaConfigs ?x @ [lambdaConfig (nc_lib c) (n_params n) wh]\<rparr>"
  from none wh have no: "\<forall>l \<in> set (LambdaConfigs ?x). \<not> webhook_entry (nc_lib c) wh l"
    by (simp add: nc_entry_def findWebhookConfiguration_def find_None_iff)
  from nc_read_answer [OF laws ans, of "world s"] obtain w where
    r: "GetBucketNotification (nc_mc c) ?b (world s) = (Inr ?x, w)" by blast
  from nc_answersD(2) [OF ans] obtain w' where w: "SetBucketNotification (nc_mc c) ?b ?y w = (Inr (), w')" by blast
  from notif_lawsD(2) [OF laws w] have "LambdaConfigs (view w' ?b) = LambdaConfigs ?x @ [lambdaConfig (nc_lib c) (n_params n) wh]" by simp
  from find_own [OF laws wh no this] no r w s wh show ?thesis
    by (auto simp: Create_nc_def as_notification_def Let_def set_conditions_def go_defs simp del: foldl_Cons)
qed

section \<open>When a notification comes to rest\<close>

definition own_entry :: "('w, 't, 'n) notif_client \<Rightarrow> notification_params \<Rightarrow> webhook_configuration \<Rightarrow> bool" where
  "own_entry c p wh \<longleftrightarrow> distinct (np_Events p) \<and>
     (key_rules p = None \<longrightarrow> cfg_Filter (NewConfig (nc_lib c) (NewArn ''minio'' ''sqs'' [] (wh_ID wh) ''webhook'')) = None)"

definition nc_settling :: "('w, 't, 'n) notif_client \<Rightarrow> ('w, 'n) notif_view \<Rightarrow> notification_params \<Rightarrow> webhook_configuration \<Rightarrow> 'w \<Rightarrow> bool" where
  "nc_settling c view p wh w \<longleftrightarrow> own_entry c p wh \<or>
     (case nc_entry c view p w of None \<Rightarrow> False | Some l \<Rightarrow> isConfigurationUpToDate p l)"

text \<open>An entry is found that is up to date, or one that is not and that an update does not mend.\<close>

definition nc_course :: "('w, 't, 'n) notif_client \<Rightarrow> ('w, 'n) notif_view \<Rightarrow> notification_params \<Rightarrow> webhook_configuration \<Rightarrow> bool \<Rightarrow> 'w cstate \<Rightarrow> bool" where
  "nc_course c view p wh b s \<longleftrightarrow> (\<exists>n l. cr s = MNotification n \<and> n_params n = p \<and> nc_entry c view p (world s) = Some l \<and>
     isConfigurationUpToDate p l = b \<and> (own_entry c p wh \<longrightarrow> b))"

lemma nc_reconciled:
  assumes laws: "notif_laws c view" and ans: "nc_answers c (np_BucketName p)" and wh: "np_WebhookConfiguration p = Some wh"
    and s: "cr s = MNotification n" "n_params n = p" and l: "nc_entry c view p (world s) = Some l"
  shows "\<exists>t m. reconcile (notificationClient c) False s (if isConfigurationUpToDate p l then Current else Updated) t \<and>
    cr t = MNotification m \<and> n_params m = p \<and>
    nc_entry c view p (world t) = Some (if isConfigurationUpToDate p l then l else lambdaConfig (nc_lib c) p wh)"
proof -
  from nc_observe_answers [OF laws _ s(1)] ans s(2) l obtain s' m where
    ob: "Observe_nc c s = (Ok \<lparr>ResourceExists = True, ResourceUpToDate = isConfigurationUpToDate p l\<rparr>, s')"
    and v: "view (world s') = view (world s)" and m: "cr s' = MNotification m" "n_params m = p" by auto
  show ?thesis
  proof (cases "isConfigurationUpToDate p l")
    case True
    with ob have "reconcile (notificationClient c) False s Current s'"
      by (intro reconcile.current) (simp add: notificationClient_def, simp_all)
    moreover have "nc_entry c view p (world s') = Some l" using l v by (simp add: nc_entry_def)
    ultimately show ?thesis using True m by auto
  next
    case False
    from nc_update_answers [OF laws _ m(1)] ans wh m(2) obtain t k where up: "Update_nc c s' = (Ok (), t)"
      "cr t = MNotification k" "n_params k = p" "nc_entry c view p (world t) = Some (lambdaConfig (nc_lib c) p wh)" by auto
    from ob up(1) False have "reconcile (notificationClient c) False s Updated t"
      by (intro reconcile.updated) (simp add: notificationClient_def, simp_all add: notificationClient_def)
    with up False show ?thesis by auto
  qed
qed

lemma nc_course_goes_on:
  assumes laws: "notif_laws c view" and ans: "nc_answers c (np_BucketName p)" and wh: "np_WebhookConfiguration p = Some wh"
    and s: "nc_course c view p wh b s"
  shows "\<exists>t. reconcile (notificationClient c) False s (if b then Current else Updated) t \<and> nc_course c view p wh b t"
proof -
  from s obtain n l where n: "cr s = MNotification n" "n_params n = p" "nc_entry c view p (world s) = Some l"
    "isConfigurationUpToDate p l = b" "own_entry c p wh \<longrightarrow> b" by (auto simp: nc_course_def)
  from nc_reconciled [OF laws ans wh n(1-3)] own_entry_current [OF laws wh] n(4,5) show ?thesis
    by (cases b) (fastforce simp: nc_course_def own_entry_def)+
qed

lemma nc_first_reconcile:
  assumes laws: "notif_laws c view" and ans: "nc_answers c (np_BucketName (n_params n))"
    and wh: "np_WebhookConfiguration (n_params n) = Some wh" and s: "cr s = MNotification n"
  shows "\<exists>v t. reconcile (notificationClient c) False s v t \<and> v \<in> {Created, Updated, Current} \<and>
    nc_course c view (n_params n) wh (nc_settling c view (n_params n) wh (world s)) t"
proof (cases "nc_entry c view (n_params n) (world s)")
  case (Some l)
  with nc_reconciled [OF laws ans wh s refl Some] own_entry_current [OF laws wh] show ?thesis
    by (cases "isConfigurationUpToDate (n_params n) l") (fastforce simp: nc_course_def nc_settling_def own_entry_def)+
next
  case None
  from nc_observe_answers [OF laws ans s] None obtain s' m where
    ob: "Observe_nc c s = (Ok NoObservation, s')" and v: "view (world s') = view (world s)"
    and m: "cr s' = MNotification m" "n_params m = n_params n" by auto
  from v None m have "nc_entry c view (n_params m) (world s') = None" by (simp add: nc_entry_def)
  from nc_create_answers [OF laws _ m(1) _ this] ans wh m(2) obtain d t k where
    cre: "Create_nc c s' = (Ok d, t)" "cr t = MNotification k" "n_params k = n_params n"
      "nc_entry c view (n_params n) (world t) = Some (lambdaConfig (nc_lib c) (n_params n) wh)" by auto
  from ob cre(1) have r: "reconcile (notificationClient c) False s Created t"
    by (intro reconcile.created) (simp add: notificationClient_def, simp_all add: notificationClient_def NoObservation_def)
  from cre own_entry_current [OF laws wh] None have "nc_course c view (n_params n) wh (nc_settling c view (n_params n) wh (world s)) t"
    by (auto simp: nc_course_def nc_settling_def own_entry_def)
  with r show ?thesis by blast
qed


lemma store_answers: "nc_answers (store_client f) b"
  by (simp add: nc_answers_def answers_def store_client_def store_s3_def)


end
