(* ===== verification/Spec2Isabelle.thy ===== *)
theory Spec2Isabelle
  imports Bucket_Props Object_Pipeline User_Props Policy_Props ServiceAccount_Props Notification_Props Connectors
    Accessors LegacyUser Program Samples Admission Deletion Interleaving Settling_Users Settling_Accounts
    Settling_Notifications
begin

text \<open>
  A model of \<^verbatim>\<open>provider-minio\<close>, a Crossplane provider that manages buckets, users, policies,
  service accounts and bucket notifications of a MinIO server from Kubernetes resources.

  \<^bold>\<open>The program.\<close> For each of the five resource kinds there is a package under
  \<^verbatim>\<open>operator/\<close>. Its connector (\<^verbatim>\<open>connector.go\<close>) turns a resource into a client; the client
  (\<^verbatim>\<open>observe.go\<close>, \<^verbatim>\<open>create.go\<close>, \<^verbatim>\<open>update.go\<close>, \<^verbatim>\<open>delete.go\<close>) is a
  \<^verbatim>\<open>managed.ExternalClient\<close> that the Crossplane reconciler drives: observe, then create what is
  absent, update what is out of date, delete what is to go. A webhook (\<^verbatim>\<open>webhook.go\<close>) admits
  or refuses what users store. \<^verbatim>\<open>operator/minioutil\<close> builds the S3 and the admin client from a
  provider configuration; \<^verbatim>\<open>apis/\<close> holds the types.

  \<^bold>\<open>The model.\<close> A Go function is a function from a state to an outcome (a value, an error, a
  panic) and a state (theory \<open>Prelude\<close>). A controller method works on a \<open>cstate\<close>: the world
  outside the process, the resource it was handed (a pointer, which it mutates), the events it
  recorded and the lines it logged at the default verbosity; the lines at \<^verbatim>\<open>V(1)\<close> are left
  out. The libraries (\<^verbatim>\<open>minio-go\<close>, \<^verbatim>\<open>madmin-go\<close>, the Kubernetes client, the IAM policy
  package, the password generator, Crossplane's \<^verbatim>\<open>meta\<close>) are records of functions on an opaque
  world, parameters of whatever uses them. What the code relies on from them is stated as laws
  over a view of the world (\<open>user_read_laws\<close>, \<open>canned_laws\<close>, \<open>sa_laws\<close>, \<open>notif_laws\<close> and
  those of \<open>Bucket_Props\<close>), hypotheses of the theorems that need them; in-memory servers on
  which the laws hold (\<open>Mem_S3\<close>, \<open>Mem_Admin\<close>) serve the witnesses.

  \<^item> \<open>Prelude\<close>: outcomes, sequencing and its rules, Go's \<^verbatim>\<open>strings\<close> functions, slices and maps.
  \<^item> \<open>Resources\<close>: the records of \<^verbatim>\<open>apis/\<close>. \<open>Interfaces\<close>: controller states, the library
    clients, \<^verbatim>\<open>managed.ExternalClient\<close>, one reconcile as a step relation (\<open>reconcile\<close>), and
    \<^verbatim>\<open>admission.Validator\<close> with the objects that can come to be stored (\<open>stored\<close>).
  \<^item> \<open>Frames\<close>: rules for what a method leaves alone. \<open>Contracts\<close>: the locales
    \<open>managed_external\<close> (what every controller promises the reconciler), \<open>claimed_external\<close> and
    \<open>marking_external\<close> (controllers that mark what they created), \<open>admission\<close> and
    \<open>fixed_identity\<close> (what the webhooks promise). Every controller and webhook interprets the
    strongest of these that holds for it.
  \<^item> \<open>Bucket\<close>, \<open>User\<close>, \<open>Policy\<close>, \<open>ServiceAccount\<close>, \<open>Notification\<close>: one definition per Go
    function of \<^verbatim>\<open>operator/bucket\<close>, \<^verbatim>\<open>user\<close>, \<^verbatim>\<open>policy\<close>, \<^verbatim>\<open>serviceaccount\<close> and
    \<^verbatim>\<open>notificationconfiguration\<close>, under the function's name with the kind as suffix where
    the packages share it, and the interpretations. The \<open>_Props\<close> theories prove what each
    operation does: that Observe reports exactly the agreement of resource and server, that a
    write makes the next Observe find agreement (or precisely when it does not), that a Create
    takes nothing over, and the corners where the code behaves otherwise than one would expect.
  \<^item> \<open>Object_Pipeline\<close>: the goroutine, the channel and the result loop of
    \<^verbatim>\<open>deleteAllObjects\<close> as a step relation, with termination by a measure. \<open>Bucket\<close> uses its
    outcome with both orders of the two concurrent first calls.
  \<^item> \<open>MinioUtil\<close>: \<^verbatim>\<open>operator/minioutil\<close>, the two client constructors and the TLS settings.
  \<^item> \<open>Admission\<close>: what the webhooks pin over all versions of a resource.
  \<^item> \<open>Fleet\<close>: any number of resources of one kind on one server, whose reconciles follow one another
    in any order (the setup functions ask for no more than the one worker a controller has by
    default), with changes from elsewhere and edits in between; and the locale
    \<open>exclusive_external\<close>, which makes the mark of a controller worth something: who holds it
    created the object, and nobody else holds it for the same object. It follows from laws of the
    single operations, the locale \<open>sparing_external\<close>. \<open>Ownership\<close> interprets them for buckets,
    users and policies on any server that keeps its laws. \<open>Interleaving\<close>: the same when the
    reconciles interleave call by call, as those of two processes do (leader election is off by
    default); \<open>call_step\<close> takes one call at a time, whole reconciles are runs of it, and
    \<open>exclusive_calls\<close> keeps the marks exclusive for users and policies, but not for buckets.
    \<open>Deletion\<close>: the locale \<open>deleting_external\<close>, interpreted by all five controllers, for what
    follows a deletion; and the renaming and the connection secret that get around the mark.
  \<^item> \<open>Settling\<close>: a reconcile as a function (\<open>reconcile_once\<close>), equivalent to the relation, and what
    repeated ones come to: on a server that answers its calls (\<open>s3_answers\<close>, \<open>policy_answers\<close> and
    the like) buckets and policies come to rest after one. The other three kinds do exactly under a
    condition, and are updated again and again otherwise (\<open>rests_iff\<close>): \<open>Settling_Users\<close>, if the
    policies are in the order of the server's list; \<open>Settling_Accounts\<close>, if the policy is in the
    form the server gives back and no expiration is to be cleared; \<open>Settling_Notifications\<close>, if
    the entry the controller builds passes its own comparison.
  \<^item> \<open>Panics\<close>: which operations can panic, and on which resources. \<open>Connectors\<close>: the five
    \<^verbatim>\<open>connector.go\<close> files and their common contract, the locale \<open>connecting\<close>.
  \<^item> \<open>Store\<close>: a memory of typed cells with allocation, what a value reaches in it, and the locale
    \<open>deep_copier\<close> with the copiers of pointers, slices and maps. \<open>DeepCopy\<close>: the three generated
    functions of every type in the \<^verbatim>\<open>zz_generated.deepcopy.go\<close> files over that memory.
    \<open>DeepCopy_Tree\<close> reads the tree behind an address, and \<open>DeepCopy_Props\<close> shows that a deep copy
    has the same tree in new memory, so that no later write to one side is seen on the other.
  \<^item> \<open>Accessors\<close>: the other generated files (managed resources, their lists, provider
    configurations and usages), as instances of the locale \<open>lens\<close>: what a setter stores the
    getter returns, and different fields do not meet.
  \<^item> \<open>LegacyClients\<close>: \<^verbatim>\<open>internal/clients\<close>; \<open>LegacyUser\<close>: \<^verbatim>\<open>internal/controller/user\<close>, the
    older user controller, which the program does not register; it interprets
    \<open>managed_external\<close> too.
  \<^item> \<open>Scheme\<close>: \<^verbatim>\<open>apis/init.go\<close>, the group versions and what they add to the scheme.
    \<open>Setup\<close>: \<^verbatim>\<open>operator/operator.go\<close>, \<^verbatim>\<open>operator/config\<close> and the \<^verbatim>\<open>setup.go\<close> files, as the
    list of what they hand to the manager. \<open>Tracing\<close>: \<^verbatim>\<open>internal/tracing\<close>. \<open>Rbac\<close>: the roles of
    \<^verbatim>\<open>cmd/provider/main.go\<close> and how \<^verbatim>\<open>setupRBAC\<close> treats failures. \<open>Program\<close>: its
    \<^verbatim>\<open>main\<close>, from tracing to the start of the manager, with \<^verbatim>\<open>kingpin.FatalIfError\<close> as the
    outcome that ends the process. \<open>Samples\<close>: \<^verbatim>\<open>generate_sample.go\<close>, whose five objects are run
    through the webhooks, the connectors and the older clients.
  \<^item> This theory: what holds of all controllers at once.

  \<^bold>\<open>Bounds.\<close> There is no fuel: every loop of the code runs over a list, and the only
  unbounded interaction, the deletion pipeline, is a relation whose runs are bounded by a
  measure. Go integers occur only as status codes that are compared, so they are \<open>int\<close>; strings
  are byte lists; times are instants compared for equality.

  \<^bold>\<open>Not modelled.\<close> What a span records once it is exported, the lines logged at
  \<^verbatim>\<open>V(1)\<close> or by \<^verbatim>\<open>log.Debug\<close>, and the parsing of the command line, whose result is an argument of
  \<open>main\<close>. Decoding the JSON of a secret, the manager and its builders, the scheme, the
  OpenTelemetry SDK, the Kubernetes serializer and the file system are parameters. Three places
  are read as what Go's runtime promises of them: the order of \<^verbatim>\<open>range\<close> over a map is a parameter, the
  goroutine of \<^verbatim>\<open>deleteAllObjects\<close> interleaves freely with its caller, and a panic ends the
  operation. The reconciler itself is Crossplane's: \<open>reconcile\<close> states how the interface
  prescribes its calls. In a run of \<open>call_step\<close> the calls of an operation on the server follow one
  another undisturbed, and a resource is not edited while a reconcile holds a copy of it, whose
  write-back the API server would refuse.
\<close>

section \<open>All controllers\<close>

text \<open>
  C23. The desired state belongs to the user: whatever sequence of operations the reconciler
  performs, and whatever the servers answer, no controller ever changes the identity, the
  specification or the parameters of the resource it was handed; and handed a resource of
  another kind it touches neither the world nor the resource nor the events.
\<close>

theorem controllers_keep_to_their_own:
  "same_desired (cr s) (cr (perform_all (bucketClient l mc) ops s)) \<and>
   same_desired (cr s) (cr (perform_all (userClient g uc) ops s)) \<and>
   same_desired (cr s) (cr (perform_all (policyClient iam ma) ops s)) \<and>
   same_desired (cr s) (cr (perform_all (serviceAccountClient g sac) ops s)) \<and>
   same_desired (cr s) (cr (perform_all (notificationClient nc) ops s)) \<and>
   (is_bucket (cr s) \<or> only_logged s (perform_all (bucketClient l mc) ops s)) \<and>
   (is_user (cr s) \<or> only_logged s (perform_all (userClient g uc) ops s)) \<and>
   (is_policy (cr s) \<or> only_logged s (perform_all (policyClient iam ma) ops s)) \<and>
   (is_service_account (cr s) \<or> only_logged s (perform_all (serviceAccountClient g sac) ops s)) \<and>
   (is_notification (cr s) \<or> only_logged s (perform_all (notificationClient nc) ops s))"
  unfolding disj_imp
  by (intro conjI impI bucket.spec_never_written user.spec_never_written policy.spec_never_written
      sa.spec_never_written notification.spec_never_written bucket.foreign_untouched user.foreign_untouched
      policy.foreign_untouched sa.foreign_untouched notification.foreign_untouched; assumption)

text \<open>
  C7. No adoption: a bucket, a user or a policy that carries no mark of this provider, and whose
  create never succeeded, is never updated and never deleted, however often it is reconciled and
  whatever the server holds under its name, and it never comes to carry the mark.
\<close>

theorem unmarked_never_adopted:
  "(run_without_create (bucketClient l mc) s vs t \<and> \<not> bucket_claimed (cr s) \<longrightarrow>
      set vs \<subseteq> {ObserveFailed, CreateFailed, Current} \<and> \<not> bucket_claimed (cr t)) \<and>
   (run_without_create (userClient g uc) s' vs' t' \<and> \<not> user_claimed (cr s') \<longrightarrow>
      set vs' \<subseteq> {ObserveFailed, CreateFailed, Current} \<and> \<not> user_claimed (cr t')) \<and>
   (run_without_create (policyClient iam ma) s' vs' t' \<and> \<not> policy_claimed (cr s') \<longrightarrow>
      set vs' \<subseteq> {ObserveFailed, CreateFailed, Current} \<and> \<not> policy_claimed (cr t'))"
  using bucket.no_adoption [of l mc s vs t] user.no_adoption [of g uc s' vs' t'] policy.no_adoption [of iam ma s' vs' t'] by blast

text \<open>A run of one reconcile: the user exists on the server and does not carry the mark.\<close>

lemma foreign_account_refused:
  "\<exists>t. run_without_create (userClient demo_password demo_uc)
     \<lparr>world = ada_server [''readonly''], cr = MUser demo_user, events = [], logs = []\<rparr> [CreateFailed] t"
proof -
  let ?s = "\<lparr>world = ada_server [''readonly''], cr = MUser demo_user, events = [], logs = []\<rparr>"
  have o': "Observe_user demo_uc ?s = (Ok NoObservation, ?s)"
    by (rule user_observe_unclaimed) simp_all
  have "\<exists>e t. Create_user demo_password demo_uc ?s = (Err e, t)"
    by (simp add: Create_user_def userExists_def user_eval demo_user_def ada_server_def demo_password_def GetUserName_def)
  then obtain e t where c: "Create_user demo_password demo_uc ?s = (Err e, t)" by blast
  have "reconcile (userClient demo_password demo_uc) False ?s CreateFailed t"
    by (rule reconcile.create_failed [of _ _ NoObservation ?s "Err e"]) (simp_all add: userClient_def o' c NoObservation_def)
  from run_without_create.one_more [OF run_without_create.none_yet this] show ?thesis by auto
qed

theorem unmarked_never_adopted_witness:
  "\<exists>t. run_without_create (userClient demo_password demo_uc)
     \<lparr>world = ada_server [''readonly''], cr = MUser demo_user, events = [], logs = []\<rparr> [CreateFailed] t \<and>
     \<not> user_claimed (cr t)"
proof -
  let ?s = "\<lparr>world = ada_server [''readonly''], cr = MUser demo_user, events = [], logs = []\<rparr>"
  from foreign_account_refused obtain t where r: "run_without_create (userClient demo_password demo_uc) ?s [CreateFailed] t" by blast
  have "\<not> user_claimed (cr ?s)" by simp
  with unmarked_never_adopted [where g = demo_password and uc = demo_uc and s' = ?s and vs' = "[CreateFailed]" and t' = t] r
  show ?thesis by blast
qed

end
